(* ===== verification/Prelude.thy ===== *)
theory Prelude
  imports Complex_Main
begin

text \<open>
  Shared foundations of the development: the error and state monad in which every
  service method is written, the loops over it, the judgement that an action relates its
  start state to its end state, transactions, and generic lemmas on lists and tables.

  A service method of the program is an asynchronous function that reads and writes the
  database inside one transaction and may throw. Its model is an \<open>action\<close>: a
  function from the state of the database to either the thrown error or a result together
  with the new state.
\<close>

named_theorems action_simps \<open>unfolding rules of the action monad\<close>

section \<open>Actions: state, errors, results\<close>

type_synonym ('s, 'e, 'a) action = "'s \<Rightarrow> 'e + ('a \<times> 's)"

definition sreturn :: "'a \<Rightarrow> ('s, 'e, 'a) action" where
  "sreturn a s = Inr (a, s)"

definition sthrow :: "'e \<Rightarrow> ('s, 'e, 'a) action" where
  "sthrow e s = Inl e"

definition sbind :: "('s, 'e, 'a) action \<Rightarrow> ('a \<Rightarrow> ('s, 'e, 'b) action) \<Rightarrow> ('s, 'e, 'b) action" where
  "sbind m f s = (case m s of Inl e \<Rightarrow> Inl e | Inr (a, s') \<Rightarrow> f a s')"

definition sthen :: "('s, 'e, 'a) action \<Rightarrow> ('s, 'e, 'b) action \<Rightarrow> ('s, 'e, 'b) action" where
  "sthen m k = sbind m (\<lambda>_. k)"

definition sreads :: "('s \<Rightarrow> 'a) \<Rightarrow> ('s, 'e, 'a) action" where
  "sreads f s = Inr (f s, s)"

definition smodify :: "('s \<Rightarrow> 's) \<Rightarrow> ('s, 'e, unit) action" where
  "smodify f s = Inr ((), f s)"

definition sguard :: "bool \<Rightarrow> 'e \<Rightarrow> ('s, 'e, unit) action" where
  "sguard b e = (if b then sreturn () else sthrow e)"

definition swhen :: "bool \<Rightarrow> ('s, 'e, unit) action \<Rightarrow> ('s, 'e, unit) action" where
  "swhen b m = (if b then m else sreturn ())"

definition slift :: "'e + 'a \<Rightarrow> ('s, 'e, 'a) action" where
  "slift r s = (case r of Inl e \<Rightarrow> Inl e | Inr a \<Rightarrow> Inr (a, s))"

text \<open>A \<open>catch\<close> that wraps the error and throws again.\<close>

definition smap_error :: "('e \<Rightarrow> 'e) \<Rightarrow> ('s, 'e, 'a) action \<Rightarrow> ('s, 'e, 'a) action" where
  "smap_error h m s = (case m s of Inl e \<Rightarrow> Inl (h e) | Inr r \<Rightarrow> Inr r)"

text \<open>Loops: over a list for the effect, and over a list with an accumulator.\<close>

primrec sfold :: "('a \<Rightarrow> 'b \<Rightarrow> ('s, 'e, 'b) action) \<Rightarrow> 'a list \<Rightarrow> 'b \<Rightarrow> ('s, 'e, 'b) action" where
  "sfold f [] b = sreturn b"
| "sfold f (x # xs) b = sbind (f x b) (sfold f xs)"

definition sfor :: "'a list \<Rightarrow> ('a \<Rightarrow> ('s, 'e, unit) action) \<Rightarrow> ('s, 'e, unit) action" where
  "sfor xs f = sfold (\<lambda>x _. f x) xs ()"

text \<open>
  One unit of work: the error is reported and the state rolled back, or the result is
  returned and the new state committed.
\<close>

definition runInTransaction :: "('s, 'e, 'a) action \<Rightarrow> 's \<Rightarrow> ('e + 'a) \<times> 's" where
  "runInTransaction m s = (case m s of Inl e \<Rightarrow> (Inl e, s) | Inr (a, s') \<Rightarrow> (Inr a, s'))"

lemma runInTransaction_error: "fst (runInTransaction m s) = Inl e \<Longrightarrow> snd (runInTransaction m s) = s"
  by (auto simp: runInTransaction_def split: sum.splits)

lemmas action_defs [action_simps] =
  sreturn_def sthrow_def sbind_def sthen_def sreads_def smodify_def sguard_def swhen_def
  slift_def smap_error_def

lemma sbind_Inr:
  "sbind m f s = Inr (b, s2) \<longleftrightarrow> (\<exists>a s1. m s = Inr (a, s1) \<and> f a s1 = Inr (b, s2))"
  by (auto simp: sbind_def split: sum.splits)

lemma sthen_Inr:
  "sthen m k s = Inr (b, s2) \<longleftrightarrow> (\<exists>a s1. m s = Inr (a, s1) \<and> k s1 = Inr (b, s2))"
  by (auto simp: sthen_def sbind_Inr)

lemma sreturn_Inr: "sreturn a s = Inr (b, s2) \<longleftrightarrow> b = a \<and> s2 = s"
  by (auto simp: sreturn_def)

lemma sthrow_Inr: "sthrow e s = Inr r \<longleftrightarrow> False"
  by (simp add: sthrow_def)

lemma sreads_Inr: "sreads f s = Inr (b, s2) \<longleftrightarrow> b = f s \<and> s2 = s"
  by (auto simp: sreads_def)

lemma smodify_Inr: "smodify f s = Inr (u, s2) \<longleftrightarrow> s2 = f s"
  by (auto simp: smodify_def)

lemma sguard_Inr: "sguard b e s = Inr (u, s2) \<longleftrightarrow> b \<and> s2 = s"
  by (auto simp: sguard_def sreturn_def sthrow_def)

lemma swhen_Inr: "swhen b m s = Inr (u, s2) \<longleftrightarrow> (if b then m s = Inr (u, s2) else s2 = s)"
  by (auto simp: swhen_def sreturn_def)

lemma slift_Inr: "slift r s = Inr (a, s2) \<longleftrightarrow> r = Inr a \<and> s2 = s"
  by (auto simp: slift_def split: sum.splits)

lemma smap_error_Inr: "smap_error h m s = Inr r \<longleftrightarrow> m s = Inr r"
  by (auto simp: smap_error_def split: sum.splits)

lemmas action_Inr =
  sbind_Inr sthen_Inr sreturn_Inr sthrow_Inr sreads_Inr smodify_Inr sguard_Inr swhen_Inr
  slift_Inr smap_error_Inr

section \<open>Actions that relate states\<close>

text \<open>
  \<open>ensures R Q m\<close>: whenever \<open>m\<close> returns, its end state is related to its start state
  by \<open>R\<close> and its result satisfies \<open>Q\<close>. An invariant \<open>I\<close> is the relation
  \<open>\<lambda>s s'. I s \<longrightarrow> I s'\<close>; a frame condition is an equation between parts of the two states.
\<close>

definition ensures :: "('s \<Rightarrow> 's \<Rightarrow> bool) \<Rightarrow> ('a \<Rightarrow> bool) \<Rightarrow> ('s, 'e, 'a) action \<Rightarrow> bool" where
  "ensures R Q m \<longleftrightarrow> (\<forall>s a s'. m s = Inr (a, s') \<longrightarrow> R s s' \<and> Q a)"

abbreviation relates :: "('s \<Rightarrow> 's \<Rightarrow> bool) \<Rightarrow> ('s, 'e, 'a) action \<Rightarrow> bool" where
  "relates R m \<equiv> ensures R (\<lambda>_. True) m"

lemma relatesD: "ensures R Q m \<Longrightarrow> m s = Inr (a, s') \<Longrightarrow> R s s'"
  by (simp add: ensures_def)

lemma ensuresD: "ensures R Q m \<Longrightarrow> m s = Inr (a, s') \<Longrightarrow> Q a"
  by (simp add: ensures_def)

lemma ensuresI: "(\<And>s a s'. m s = Inr (a, s') \<Longrightarrow> R s s' \<and> Q a) \<Longrightarrow> ensures R Q m"
  by (simp add: ensures_def)

lemma ensures_weaken: "ensures R P m \<Longrightarrow> (\<And>a. P a \<Longrightarrow> Q a) \<Longrightarrow> ensures R Q m"
  by (auto simp: ensures_def)

lemma relates_ensures: "ensures R P m \<Longrightarrow> relates R m"
  by (auto simp: ensures_def)

lemma ensures_throw: "ensures R Q (sthrow e)"
  by (simp add: ensures_def sthrow_Inr)

lemma ensures_if:
  "(c \<Longrightarrow> ensures R Q m) \<Longrightarrow> (\<not> c \<Longrightarrow> ensures R Q k) \<Longrightarrow> ensures R Q (if c then m else k)"
  by simp

lemma ensures_option:
  "(x = None \<Longrightarrow> ensures R Q m) \<Longrightarrow> (\<And>a. x = Some a \<Longrightarrow> ensures R Q (f a)) \<Longrightarrow>
   ensures R Q (case x of None \<Rightarrow> m | Some a \<Rightarrow> f a)"
  by (cases x) simp_all

lemma ensures_list:
  "(xs = [] \<Longrightarrow> ensures R Q m) \<Longrightarrow> (\<And>y ys. xs = y # ys \<Longrightarrow> ensures R Q (f y ys)) \<Longrightarrow>
   ensures R Q (case xs of [] \<Rightarrow> m | y # ys \<Rightarrow> f y ys)"
  by (cases xs) simp_all

lemma ensures_pair:
  "(\<And>a b. x = (a, b) \<Longrightarrow> ensures R Q (f a b)) \<Longrightarrow> ensures R Q (case x of (a, b) \<Rightarrow> f a b)"
  by (cases x) simp

lemma ensures_Let: "(\<And>a. a = x \<Longrightarrow> ensures R Q (f a)) \<Longrightarrow> ensures R Q (Let x f)"
  by simp

lemmas ensures_cases = ensures_if ensures_option ensures_list ensures_pair ensures_Let

locale preorder_on_states =
  fixes R :: "'s \<Rightarrow> 's \<Rightarrow> bool"
  assumes R_refl: "R s s"
    and R_trans: "R s t \<Longrightarrow> R t u \<Longrightarrow> R s u"
begin

lemma ensures_return: "Q a \<Longrightarrow> ensures R Q (sreturn a)"
  by (simp add: ensures_def sreturn_Inr R_refl)

lemma ensures_reads: "relates R (sreads f)"
  by (simp add: ensures_def sreads_Inr R_refl)

lemma ensures_guard: "relates R (sguard b e)"
  by (simp add: ensures_def sguard_Inr R_refl)

lemma ensures_lift: "relates R (slift r)"
  by (simp add: ensures_def slift_Inr R_refl)

lemma ensures_bind:
  "ensures R P m \<Longrightarrow> (\<And>a. P a \<Longrightarrow> ensures R Q (f a)) \<Longrightarrow> ensures R Q (sbind m f)"
  unfolding ensures_def sbind_Inr by (blast intro: R_trans)

text \<open>The bind for a first step whose result does not matter.\<close>

lemma relates_bind: "relates R m \<Longrightarrow> (\<And>a. ensures R Q (f a)) \<Longrightarrow> ensures R Q (sbind m f)"
  by (rule ensures_bind)

lemma ensures_then: "relates R m \<Longrightarrow> ensures R Q k \<Longrightarrow> ensures R Q (sthen m k)"
  unfolding sthen_def by (rule relates_bind)

lemma ensures_when: "(b \<Longrightarrow> relates R m) \<Longrightarrow> relates R (swhen b m)"
  by (simp add: swhen_def ensures_return)

lemma ensures_map_error: "ensures R Q m \<Longrightarrow> ensures R Q (smap_error h m)"
  by (simp add: ensures_def smap_error_Inr)

lemma ensures_fold:
  "P b \<Longrightarrow> (\<And>x b. P b \<Longrightarrow> ensures R P (f x b)) \<Longrightarrow> ensures R P (sfold f xs b)"
  by (induction xs arbitrary: b) (auto intro: ensures_return ensures_bind)

lemma relates_fold: "(\<And>x b. relates R (f x b)) \<Longrightarrow> relates R (sfold f xs b)"
  by (rule ensures_fold) auto

lemma relates_for: "(\<And>x. relates R (f x)) \<Longrightarrow> relates R (sfor xs f)"
  unfolding sfor_def by (rule relates_fold)

lemmas step_rules = ensures_throw ensures_return ensures_reads ensures_guard ensures_lift
  ensures_then ensures_when ensures_map_error

end

section \<open>Lists, tables and stable sorting\<close>

definition find_by :: "('a \<Rightarrow> 'k) \<Rightarrow> 'k \<Rightarrow> 'a list \<Rightarrow> 'a option" where
  "find_by key k xs = List.find (\<lambda>x. key x = k) xs"

lemma find_by_SomeD: "find_by key k xs = Some x \<Longrightarrow> x \<in> set xs \<and> key x = k"
  by (auto simp: find_by_def find_Some_iff)

lemma find_by_NoneD: "find_by key k xs = None \<Longrightarrow> x \<in> set xs \<Longrightarrow> key x \<noteq> k"
  by (auto simp: find_by_def find_None_iff)

text \<open>Update every row of a table that carries a key, as \<open>UPDATE ... WHERE key = k\<close> does.\<close>

definition update_where :: "('a \<Rightarrow> bool) \<Rightarrow> ('a \<Rightarrow> 'a) \<Rightarrow> 'a list \<Rightarrow> 'a list" where
  "update_where p f = map (\<lambda>x. if p x then f x else x)"

lemma set_update_where: "set (update_where p f xs) = (\<lambda>x. if p x then f x else x) ` set xs"
  by (simp add: update_where_def)

lemma find_by_update_where:
  "(\<And>x. k (f x) = k x) \<Longrightarrow>
   find_by k i (update_where p f xs) = map_option (\<lambda>x. if p x then f x else x) (find_by k i xs)"
  by (induction xs) (auto simp: find_by_def update_where_def)

lemma find_by_distinct:
  "distinct (map key xs) \<Longrightarrow> x \<in> set xs \<Longrightarrow> find_by key (key x) xs = Some x"
  by (induction xs) (auto simp: find_by_def)

lemma length_update_where [simp]: "length (update_where p f xs) = length xs"
  by (simp add: update_where_def)

text \<open>
  \<open>Array.prototype.sort\<close> with a comparator: a stable sort. The comparator returns a
  number; a positive one puts its second argument first.
\<close>

fun insort_cmp :: "('a \<Rightarrow> 'a \<Rightarrow> int) \<Rightarrow> 'a \<Rightarrow> 'a list \<Rightarrow> 'a list" where
  "insort_cmp c x [] = [x]"
| "insort_cmp c x (y # ys) = (if c x y \<le> 0 then x # y # ys else y # insort_cmp c x ys)"

definition sort_cmp :: "('a \<Rightarrow> 'a \<Rightarrow> int) \<Rightarrow> 'a list \<Rightarrow> 'a list" where
  "sort_cmp c xs = foldr (insort_cmp c) xs []"

lemma set_insort_cmp [simp]: "set (insort_cmp c x xs) = insert x (set xs)"
  by (induction xs) auto

lemma set_sort_cmp [simp]: "set (sort_cmp c xs) = set xs"
  unfolding sort_cmp_def by (induction xs) auto

lemma length_insort_cmp [simp]: "length (insort_cmp c x xs) = Suc (length xs)"
  by (induction xs) auto

lemma length_sort_cmp [simp]: "length (sort_cmp c xs) = length xs"
  unfolding sort_cmp_def by (induction xs) auto

lemma distinct_insort_cmp: "x \<notin> set xs \<Longrightarrow> distinct xs \<Longrightarrow> distinct (insort_cmp c x xs)"
  by (induction xs) auto

lemma distinct_sort_cmp: "distinct xs \<Longrightarrow> distinct (sort_cmp c xs)"
  unfolding sort_cmp_def
  by (induction xs) (auto simp: distinct_insort_cmp set_sort_cmp [unfolded sort_cmp_def])

lemma sort_cmp_Nil [simp]: "sort_cmp c [] = []"
  by (simp add: sort_cmp_def)

text \<open>Association lists built by \<open>Map.set\<close>: insertion keeps the place of an existing key.\<close>

fun map_set :: "'k \<Rightarrow> 'v \<Rightarrow> ('k \<times> 'v) list \<Rightarrow> ('k \<times> 'v) list" where
  "map_set k v [] = [(k, v)]"
| "map_set k v ((k', v') # m) = (if k' = k then (k, v) # m else (k', v') # map_set k v m)"

lemma map_of_map_set [simp]: "map_of (map_set k v m) = (map_of m)(k \<mapsto> v)"
  by (induction k v m rule: map_set.induct) auto

lemma keys_map_set: "fst ` set (map_set k v m) = insert k (fst ` set m)"
  by (induction k v m rule: map_set.induct) auto

lemma distinct_map_set: "distinct (map fst m) \<Longrightarrow> distinct (map fst (map_set k v m))"
proof (induction k v m rule: map_set.induct)
  case (2 k v k' v' m)
  have "k' \<noteq> k \<Longrightarrow> k' \<notin> fst ` set (map_set k v m)"
    using 2(2) by (simp add: keys_map_set)
  with 2 show ?case by auto
qed simp

end
