(* ===== verification/JsValues.thy ===== *)
theory JsValues
  imports Prelude "HOL-Library.Char_ord" "HOL-Library.List_Lexorder"
begin

text \<open>
  What the program uses of its language and standard library: JSON values of the
  \<open>config\<close> and \<open>variables\<close> records, the coercions and predicates applied to them,
  string operations, decimal numerals, and calendar dates.

  A string is the list of its UTF-16 code units, limited to the Latin-1 range. Numbers are
  exact rationals (the rounding of binary floating point is not modelled), so a decimal
  literal is the number it denotes. An invalid \<open>Date\<close> or \<open>NaN\<close> is the value
  \<open>None\<close> of an option.
\<close>

section \<open>JSON values\<close>

datatype json =
    JUndefined
  | JNull
  | JBool bool
  | JNum rat
  | JStr string
  | JArr "json list"
  | JObj "(string \<times> json) list"

text \<open>Reading a property of a record: a missing one is \<open>undefined\<close>.\<close>

definition js_get :: "(string \<times> json) list \<Rightarrow> string \<Rightarrow> json" where
  "js_get obj k = (case map_of obj k of None \<Rightarrow> JUndefined | Some v \<Rightarrow> v)"

definition js_is_integer :: "rat \<Rightarrow> bool" where
  "js_is_integer r \<longleftrightarrow> snd (quotient_of r) = 1"

lemma js_is_integer_of_int [simp]: "js_is_integer (of_int i)"
  by (simp add: js_is_integer_def)

lemma js_is_integer_iff: "js_is_integer r \<longleftrightarrow> r \<in> \<int>"
proof
  assume "js_is_integer r"
  then obtain n where q: "quotient_of r = (n, 1)"
    by (cases "quotient_of r") (simp add: js_is_integer_def)
  have "r = of_int n / of_int 1" using q by (rule quotient_of_div)
  then show "r \<in> \<int>" by simp
next
  assume "r \<in> \<int>"
  then show "js_is_integer r" by (auto elim: Ints_cases)
qed

section \<open>Strings\<close>

definition js_whitespace :: "char \<Rightarrow> bool" where
  "js_whitespace c \<longleftrightarrow> (let n = of_char c :: nat in n = 32 \<or> (9 \<le> n \<and> n \<le> 13) \<or> n = 160)"

definition js_trim :: "string \<Rightarrow> string" where
  "js_trim s = rev (dropWhile js_whitespace (rev (dropWhile js_whitespace s)))"

lemma js_trim_idem: "js_trim (js_trim s) = js_trim s"
proof -
  have hd_ok: "xs \<noteq> [] \<Longrightarrow> \<not> p (hd xs) \<Longrightarrow> dropWhile p xs = xs" for p and xs :: string
    by (cases xs) auto
  have last_ok: "dropWhile p xs \<noteq> [] \<Longrightarrow> last (dropWhile p xs) = last xs" for p and xs :: string
    by (induction xs) (auto split: if_splits)
  define t where "t = dropWhile js_whitespace s"
  define u where "u = dropWhile js_whitespace (rev t)"
  show ?thesis
  proof (cases "u = []")
    case True
    then show ?thesis unfolding js_trim_def t_def [symmetric] u_def [symmetric] by simp
  next
    case False
    have t_ne: "t \<noteq> []" using False by (auto simp: u_def)
    have "last u = last (rev t)" using False unfolding u_def by (rule last_ok)
    then have "hd (rev u) = hd t" using False t_ne by (simp add: hd_rev last_rev)
    moreover have "\<not> js_whitespace (hd t)" using t_ne unfolding t_def by (rule hd_dropWhile)
    ultimately have a: "dropWhile js_whitespace (rev u) = rev u" using False by (intro hd_ok) auto
    have b: "dropWhile js_whitespace u = u"
    proof (rule hd_ok)
      show "u \<noteq> []" by fact
      show "\<not> js_whitespace (hd u)" using False unfolding u_def by (rule hd_dropWhile)
    qed
    show ?thesis unfolding js_trim_def t_def [symmetric] u_def [symmetric] by (simp add: a b)
  qed
qed

text \<open>\<open>toUpperCase\<close> on the ASCII letters, all that is compared with upper-case constants.\<close>

definition js_upper_char :: "char \<Rightarrow> char" where
  "js_upper_char c =
     (let n = of_char c :: nat in if 97 \<le> n \<and> n \<le> 122 then char_of (n - 32) else c)"

definition js_toUpperCase :: "string \<Rightarrow> string" where
  "js_toUpperCase s = map js_upper_char s"

fun js_startsWith :: "string \<Rightarrow> string \<Rightarrow> bool" where
  "js_startsWith s [] = True"
| "js_startsWith [] (p # ps) = False"
| "js_startsWith (c # s) (p # ps) = (c = p \<and> js_startsWith s ps)"

fun js_includes :: "string \<Rightarrow> string \<Rightarrow> bool" where
  "js_includes [] p = (p = [])"
| "js_includes (c # s) p = (js_startsWith (c # s) p \<or> js_includes s p)"

lemma js_startsWith_append [simp]: "js_startsWith (p @ s) p"
  by (induction p) auto

lemma js_startsWith_iff: "js_startsWith s p \<longleftrightarrow> (\<exists>t. s = p @ t)"
  by (induction s p rule: js_startsWith.induct) auto

lemma js_includes_prefix: "js_includes (p @ s) p"
proof (cases "p @ s")
  case (Cons c t)
  have "js_startsWith (p @ s) p" by simp
  then show ?thesis unfolding Cons by simp
qed simp

lemma js_includes_iff: "js_includes s p \<longleftrightarrow> (\<exists>u v. s = u @ p @ v)"
proof (induction s)
  case (Cons c s)
  show ?case
  proof
    assume "js_includes (c # s) p"
    then consider "js_startsWith (c # s) p" | "js_includes s p" by auto
    then show "\<exists>u v. c # s = u @ p @ v"
    proof cases
      case 1
      then show ?thesis unfolding js_startsWith_iff by (metis append_Nil)
    next
      case 2
      then show ?thesis unfolding Cons.IH by (metis append_Cons)
    qed
  next
    assume "\<exists>u v. c # s = u @ p @ v"
    then obtain u v where uv: "c # s = u @ p @ v" by blast
    show "js_includes (c # s) p"
    proof (cases u)
      case Nil
      then show ?thesis unfolding uv by (simp add: js_includes_prefix)
    next
      case (Cons d u')
      then have "s = u' @ p @ v" using uv by simp
      then have "js_includes s p" unfolding Cons.IH by blast
      then show ?thesis by simp
    qed
  qed
qed auto

definition is_digit :: "char \<Rightarrow> bool" where
  "is_digit c \<longleftrightarrow> (let n = of_char c :: nat in 48 \<le> n \<and> n \<le> 57)"

definition digit_value :: "char \<Rightarrow> int" where
  "digit_value c = int (of_char c) - 48"

definition digits_value :: "string \<Rightarrow> int" where
  "digits_value s = foldl (\<lambda>n c. 10 * n + digit_value c) 0 s"

definition digit_char :: "nat \<Rightarrow> char" where
  "digit_char d = char_of (48 + d)"

lemma is_digit_digit_char [simp]: "d < 10 \<Longrightarrow> is_digit (digit_char d)"
  by (simp add: is_digit_def digit_char_def Let_def)

lemma digit_value_digit_char [simp]: "d < 10 \<Longrightarrow> digit_value (digit_char d) = int d"
  by (simp add: digit_value_def digit_char_def)

text \<open>Decimal numeral of a natural number, as template strings print it.\<close>

fun nat_string :: "nat \<Rightarrow> string" where
  "nat_string n = (if n < 10 then [digit_char n] else nat_string (n div 10) @ [digit_char (n mod 10)])"

declare nat_string.simps [simp del]

definition int_string :: "int \<Rightarrow> string" where
  "int_string i = (if i < 0 then ''-'' @ nat_string (nat (- i)) else nat_string (nat i))"

lemma digits_value_snoc: "digits_value (s @ [c]) = 10 * digits_value s + digit_value c"
  by (simp add: digits_value_def)

lemma nat_string_digits: "\<forall>c \<in> set (nat_string n). is_digit c"
proof (induction n rule: nat_string.induct)
  case (1 n)
  show ?case by (subst nat_string.simps) (use 1 in auto)
qed

lemma nat_string_nonempty [simp]: "nat_string n \<noteq> []"
  by (subst nat_string.simps) simp

lemma digits_value_nat_string [simp]: "digits_value (nat_string n) = int n"
proof (induction n rule: nat_string.induct)
  case (1 n)
  show ?case
  proof (cases "n < 10")
    case True
    then show ?thesis by (subst nat_string.simps) (simp add: digits_value_def)
  next
    case False
    then have "digits_value (nat_string n) = 10 * int (n div 10) + int (n mod 10)"
      using 1 by (subst nat_string.simps) (simp add: digits_value_snoc)
    then show ?thesis by presburger
  qed
qed

section \<open>Decimal numerals of numbers\<close>

text \<open>
  \<open>String(x)\<close> for a number: its decimal expansion. Numbers of magnitude at least
  \<open>10^21\<close> or below \<open>10^-6\<close> are printed in exponent notation; the fraction is cut
  after 20 digits.
\<close>

fun fraction_digits :: "nat \<Rightarrow> rat \<Rightarrow> string" where
  "fraction_digits 0 r = []"
| "fraction_digits (Suc k) r =
     (if r = 0 then [] else
        (let d = floor (10 * r) in digit_char (nat d) # fraction_digits k (10 * r - of_int d)))"

definition js_num_string :: "rat \<Rightarrow> string" where
  "js_num_string r =
     (let a = \<bar>r\<bar>; w = floor a; fs = fraction_digits 20 (a - of_int w);
          sign = (if r < 0 then ''-'' else '''')
      in if 10 ^ 21 \<le> a \<or> (a \<noteq> 0 \<and> a < 1 / 10 ^ 6) then sign @ ''e''
         else sign @ nat_string (nat w) @ (if fs = [] then [] else CHR ''.'' # fs))"

text \<open>
  \<open>Number(v)\<close>: \<open>None\<close> is \<open>NaN\<close> (and the infinities, which every caller treats
  alike). Strings: surrounding space is ignored, the empty string is 0, and a decimal
  numeral with optional sign, fraction and exponent is its value (numerals with a radix
  prefix, such as \<open>0x10\<close>, are read as \<open>NaN\<close> here).
\<close>

definition all_digits :: "string \<Rightarrow> bool" where
  "all_digits s \<longleftrightarrow> s \<noteq> [] \<and> list_all is_digit s"

definition split_sign :: "string \<Rightarrow> bool \<times> string" where
  "split_sign s = (case s of
      [] \<Rightarrow> (False, [])
    | c # t \<Rightarrow> if c = CHR ''-'' then (True, t) else if c = CHR ''+'' then (False, t) else (False, s))"

definition decimal_value :: "string \<Rightarrow> string \<Rightarrow> rat" where
  "decimal_value w f = of_int (digits_value w) + of_int (digits_value f) / 10 ^ length f"

definition mantissa_value :: "string \<Rightarrow> rat option" where
  "mantissa_value s =
     (let w = takeWhile is_digit s; rest = dropWhile is_digit s
      in case rest of
           [] \<Rightarrow> if w = [] then None else Some (decimal_value w [])
         | c # f \<Rightarrow>
             if c = CHR ''.'' \<and> list_all is_digit f \<and> (w \<noteq> [] \<or> f \<noteq> [])
             then Some (decimal_value w f) else None)"

definition exponent_value :: "string \<Rightarrow> int option" where
  "exponent_value s =
     (let (neg, t) = split_sign s
      in if all_digits t then Some (if neg then - digits_value t else digits_value t) else None)"

definition scale10 :: "rat \<Rightarrow> int \<Rightarrow> rat" where
  "scale10 r e = (if 0 \<le> e then r * 10 ^ nat e else r / 10 ^ nat (- e))"

definition js_number_of_string :: "string \<Rightarrow> rat option" where
  "js_number_of_string s0 =
     (let s = js_trim s0 in
      if s = [] then Some 0 else
        (let (neg, t) = split_sign s;
             m = takeWhile (\<lambda>c. c \<noteq> CHR ''e'' \<and> c \<noteq> CHR ''E'') t;
             x = dropWhile (\<lambda>c. c \<noteq> CHR ''e'' \<and> c \<noteq> CHR ''E'') t
         in case mantissa_value m of
              None \<Rightarrow> None
            | Some r \<Rightarrow>
                (case (if x = [] then Some 0 else exponent_value (tl x)) of
                   None \<Rightarrow> None
                 | Some e \<Rightarrow> Some (scale10 (if neg then - r else r) e))))"

fun js_number :: "json \<Rightarrow> rat option" where
  "js_number JUndefined = None"
| "js_number JNull = Some 0"
| "js_number (JBool b) = Some (if b then 1 else 0)"
| "js_number (JNum r) = Some r"
| "js_number (JStr s) = js_number_of_string s"
| "js_number (JArr []) = Some 0"
| "js_number (JArr [JNull]) = Some 0"
| "js_number (JArr [JUndefined]) = Some 0"
| "js_number (JArr [JBool b]) = None"
| "js_number (JArr [v]) = js_number v"
| "js_number (JArr (v # w # vs)) = None"
| "js_number (JObj kvs) = None"

end
