(* ===== verification/Money.thy ===== *)
theory Money
  imports JsValues
begin

text \<open>
  Amounts of money: \<open>sale-orders/domain/value-objects/money.ts\<close> and
  \<open>sale-order-totals.ts\<close>. Amounts enter as decimal numerals, are computed on as
  integer cents and leave as two-decimal numbers; every conversion can fail with the
  message the code throws.
\<close>

section \<open>Minor units\<close>

definition max_safe_integer :: int where
  "max_safe_integer = 9007199254740991"

definition is_safe_integer :: "int \<Rightarrow> bool" where
  "is_safe_integer i \<longleftrightarrow> - max_safe_integer \<le> i \<and> i \<le> max_safe_integer"

definition err_not_numeric :: string where
  "err_not_numeric = ''El importe debe ser num'' @ [CHR 0xE9] @ ''rico''"

definition err_out_of_range :: string where
  "err_out_of_range = ''El importe est'' @ [CHR 0xE1] @ '' fuera del rango permitido''"

definition err_zero_divisor :: string where
  "err_zero_divisor = ''El divisor debe ser distinto de cero''"

text \<open>
  The groups of \<open>/^([+-]?)(\d+)(?:\.(\d+))?$/\<close>: the sign, the whole part and the
  decimals (empty when there is no fraction).
\<close>

definition money_groups :: "string \<Rightarrow> (bool \<times> string \<times> string) option" where
  "money_groups s =
     (let (neg, t) = split_sign s; w = takeWhile is_digit t; rest = dropWhile is_digit t
      in if w = [] then None
         else case rest of
                [] \<Rightarrow> Some (neg, w, [])
              | c # f \<Rightarrow> if c = CHR ''.'' \<and> all_digits f then Some (neg, w, f) else None)"

definition toMinorUnits :: "string \<Rightarrow> string + int" where
  "toMinorUnits value =
     (case money_groups (js_trim value) of
        None \<Rightarrow> Inl err_not_numeric
      | Some (neg, w, decimals) \<Rightarrow>
          (let whole = digits_value w;
               centsPart = digits_value (take 2 (decimals @ ''00''));
               shouldRoundUp = (2 < length decimals \<and> 5 \<le> digit_value (decimals ! 2));
               cents = (whole * 100 + centsPart + (if shouldRoundUp then 1 else 0)) *
                       (if neg then -1 else 1)
           in if is_safe_integer cents then Inr cents else Inl err_out_of_range))"

definition fromMinorUnits :: "int \<Rightarrow> string + rat" where
  "fromMinorUnits cents =
     (if is_safe_integer cents then Inr (of_int cents / 100) else Inl err_out_of_range)"

definition roundMoney :: "string \<Rightarrow> string + rat" where
  "roundMoney value = (case toMinorUnits value of Inl e \<Rightarrow> Inl e | Inr c \<Rightarrow> fromMinorUnits c)"

text \<open>The same on a number, which the code first turns into its decimal numeral.\<close>

definition toMinorUnits_num :: "rat \<Rightarrow> string + int" where
  "toMinorUnits_num r = toMinorUnits (js_num_string r)"

section \<open>Products and quotients\<close>

definition divideAndRoundHalfUp :: "int \<Rightarrow> int \<Rightarrow> string + int" where
  "divideAndRoundHalfUp numerator denominator =
     (if denominator = 0 then Inl err_zero_divisor
      else let negative = ((numerator < 0) \<noteq> (denominator < 0));
               absoluteNumerator = (if numerator < 0 then - numerator else numerator);
               absoluteDenominator = (if denominator < 0 then - denominator else denominator);
               rounded = (absoluteNumerator + absoluteDenominator div 2) div absoluteDenominator
           in Inr (if negative then - rounded else rounded))"

definition fromBigIntMinorUnits :: "int \<Rightarrow> string + rat" where
  "fromBigIntMinorUnits cents =
     (if max_safe_integer < cents \<or> cents < - max_safe_integer then Inl err_out_of_range
      else fromMinorUnits cents)"

definition multiplyMoneyByQuantity :: "string \<Rightarrow> string \<Rightarrow> string + rat" where
  "multiplyMoneyByQuantity amount quantity =
     (case toMinorUnits amount of Inl e \<Rightarrow> Inl e | Inr a \<Rightarrow>
      (case toMinorUnits quantity of Inl e \<Rightarrow> Inl e | Inr q \<Rightarrow>
       (case divideAndRoundHalfUp (a * q) 100 of Inl e \<Rightarrow> Inl e | Inr c \<Rightarrow> fromBigIntMinorUnits c)))"

definition multiplyQuantities :: "string \<Rightarrow> string \<Rightarrow> string + rat" where
  "multiplyQuantities left right =
     (case toMinorUnits left of Inl e \<Rightarrow> Inl e | Inr a \<Rightarrow>
      (case toMinorUnits right of Inl e \<Rightarrow> Inl e | Inr q \<Rightarrow>
       (case divideAndRoundHalfUp (a * q) 100 of Inl e \<Rightarrow> Inl e | Inr c \<Rightarrow> fromBigIntMinorUnits c)))"

definition divideMoneyByQuantity :: "string \<Rightarrow> string \<Rightarrow> string + rat" where
  "divideMoneyByQuantity amount quantity =
     (case toMinorUnits quantity of Inl e \<Rightarrow> Inl e | Inr quantityCents \<Rightarrow>
      if quantityCents = 0 then Inr 0
      else (case toMinorUnits amount of Inl e \<Rightarrow> Inl e | Inr a \<Rightarrow>
            (case divideAndRoundHalfUp (a * 100) quantityCents of
               Inl e \<Rightarrow> Inl e | Inr c \<Rightarrow> fromBigIntMinorUnits c)))"

section \<open>Totals of a sale order\<close>





section \<open>Facts\<close>

lemma digits_value_pair:
  "digits_value [a, b] = 10 * digit_value a + digit_value b"
  by (simp add: digits_value_def)

lemma digit_value_bounds: "is_digit c \<Longrightarrow> 0 \<le> digit_value c \<and> digit_value c \<le> 9"
  by (auto simp: is_digit_def digit_value_def Let_def)

lemma digits_value_nonneg: "list_all is_digit s \<Longrightarrow> 0 \<le> digits_value s"
proof (induction s rule: rev_induct)
  case (snoc c s)
  then show ?case by (simp add: digits_value_snoc digit_value_bounds)
qed (simp add: digits_value_def)


lemma toMinorUnits_safe: "toMinorUnits s = Inr c \<Longrightarrow> is_safe_integer c"
  by (auto simp: toMinorUnits_def Let_def split: option.splits if_splits)

text \<open>
  \<open>divideAndRoundHalfUp\<close> returns the integer nearest to the exact quotient, and at the
  midpoint the one farther from zero.
\<close>

definition nearest_half_up :: "int \<Rightarrow> int \<Rightarrow> int \<Rightarrow> bool" where
  "nearest_half_up n d q \<longleftrightarrow>
     2 * \<bar>n - q * d\<bar> \<le> \<bar>d\<bar> \<and> (2 * \<bar>n - q * d\<bar> = \<bar>d\<bar> \<longrightarrow> \<bar>n\<bar> \<le> \<bar>q * d\<bar>)"

lemma round_half_up_nonneg:
  assumes "0 \<le> n" and "0 < (d::int)" and q: "q = (n + d div 2) div d"
  shows "2 * \<bar>n - q * d\<bar> \<le> d \<and> (2 * \<bar>n - q * d\<bar> = d \<longrightarrow> n \<le> q * d)"
proof -
  define h where "h = d div 2"
  have h1: "2 * h \<le> d" unfolding h_def by presburger
  have h2: "d \<le> 2 * h + 1" unfolding h_def by presburger
  have l: "d * q \<le> n + h"
    using assms(2) mult_div_mod_eq [of d "n + h"] pos_mod_sign [of d "n + h"]
    unfolding q h_def by linarith
  have u: "n + h < d * q + d"
    using assms(2) mult_div_mod_eq [of d "n + h"] pos_mod_bound [of d "n + h"]
    unfolding q h_def by linarith
  define x where "x = n - q * d"
  have x: "- h \<le> x" "x < d - h"
    using l u by (simp_all add: x_def mult.commute)
  have "2 * \<bar>x\<bar> \<le> d" using x h1 h2 by linarith
  moreover have "2 * \<bar>x\<bar> = d \<longrightarrow> x \<le> 0" using x h1 h2 by linarith
  ultimately show ?thesis by (simp add: x_def)
qed

lemma divideAndRoundHalfUp_nearest:
  assumes "divideAndRoundHalfUp n d = Inr q"
  shows "nearest_half_up n d q"
proof -
  define r where "r = (\<bar>n\<bar> + \<bar>d\<bar> div 2) div \<bar>d\<bar>"
  define p where "p = r * \<bar>d\<bar>"
  have d: "d \<noteq> 0" and q: "q = (if (n < 0) \<noteq> (d < 0) then - r else r)"
    using assms by (auto simp: divideAndRoundHalfUp_def Let_def r_def abs_if split: if_splits)
  have near: "2 * \<bar>\<bar>n\<bar> - p\<bar> \<le> \<bar>d\<bar> \<and> (2 * \<bar>\<bar>n\<bar> - p\<bar> = \<bar>d\<bar> \<longrightarrow> \<bar>n\<bar> \<le> p)"
    unfolding p_def by (rule round_half_up_nonneg [OF _ _ r_def]) (use d in auto)
  have "0 \<le> r" unfolding r_def using d by (intro pos_imp_zdiv_nonneg_iff [THEN iffD2]) auto
  then have p0: "0 \<le> p" by (simp add: p_def)
  have qd: "q * d = (if n < 0 then - p else p)"
    using q by (cases "n < 0"; cases "d < 0") (simp_all add: p_def)
  have e1: "\<bar>n - q * d\<bar> = \<bar>\<bar>n\<bar> - p\<bar>" unfolding qd using p0 by auto
  have e2: "\<bar>q * d\<bar> = p" unfolding qd using p0 by auto
  show ?thesis unfolding nearest_half_up_def e1 e2 by (rule near)
qed

text \<open>
  The numeral of an amount of whole cents reads back as those cents, so passing an amount
  through \<open>fromMinorUnits\<close> and \<open>toMinorUnits\<close> loses nothing.
\<close>

lemma fraction_digits_0: "fraction_digits k 0 = []"
  by (cases k) simp_all

lemma fraction_digits_cents:
  assumes "0 \<le> k" "k < 100"
  shows "fraction_digits 20 (of_int k / 100) =
    (if k = 0 then [] else if k mod 10 = 0 then [digit_char (nat (k div 10))]
     else [digit_char (nat (k div 10)), digit_char (nat (k mod 10))])"
proof (cases "k = 0")
  case True
  then show ?thesis by (simp add: fraction_digits_0)
next
  case False
  have k: "k = 10 * (k div 10) + k mod 10" by simp
  define a where "a = k div 10"
  define b where "b = k mod 10"
  have ab: "k = 10 * a + b" "0 \<le> b" "b < 10" by (simp_all add: a_def b_def)
  have a: "0 \<le> a" "a < 10" using ab assms by linarith+
  have f1: "\<lfloor>10 * (of_int k / 100 :: rat)\<rfloor> = a"
    unfolding ab(1) by (rule floor_unique) (use ab a in \<open>simp_all\<close>)
  have r1: "10 * (of_int k / 100 :: rat) - of_int a = of_int b / 10"
    unfolding ab(1) by (simp add: field_simps)
  have f2: "\<lfloor>10 * (of_int b / 10 :: rat)\<rfloor> = b" by simp
  have "fraction_digits (Suc (Suc 18)) (of_int k / 100) =
      (if b = 0 then [digit_char (nat a)] else [digit_char (nat a), digit_char (nat b)])"
    using False
    by (simp only: fraction_digits.simps Let_def f1 r1 f2) (simp add: fraction_digits_0)
  then show ?thesis using False by (simp add: a_def b_def numeral_eq_Suc)
qed

lemma digit_not_space: "is_digit c \<Longrightarrow> \<not> js_whitespace c"
  by (auto simp: is_digit_def js_whitespace_def Let_def)

lemma minus_not_space [simp]: "\<not> js_whitespace CHR ''-''"
  by (simp add: js_whitespace_def Let_def)

lemma dot_not_digit [simp]: "\<not> is_digit CHR ''.''"
  by (simp add: is_digit_def Let_def)

lemma js_trim_id:
  assumes "s \<noteq> []" "\<not> js_whitespace (hd s)" "\<not> js_whitespace (last s)"
  shows "js_trim s = s"
proof -
  have h: "xs \<noteq> [] \<Longrightarrow> \<not> p (hd xs) \<Longrightarrow> dropWhile p xs = xs" for p and xs :: string
    by (cases xs) auto
  show ?thesis using assms by (simp add: js_trim_def h hd_rev)
qed

lemma takeWhile_digits:
  "list_all is_digit w \<Longrightarrow> takeWhile is_digit (w @ CHR ''.'' # f) = w"
  "list_all is_digit w \<Longrightarrow> dropWhile is_digit (w @ CHR ''.'' # f) = CHR ''.'' # f"
  "list_all is_digit w \<Longrightarrow> takeWhile is_digit w = w"
  "list_all is_digit w \<Longrightarrow> dropWhile is_digit w = []"
  by (induction w) auto

lemma nat_string_list_all: "list_all is_digit (nat_string n)"
  using nat_string_digits by (simp add: list_all_iff)

lemma split_sign_digits: "w \<noteq> [] \<Longrightarrow> list_all is_digit w \<Longrightarrow> split_sign (w @ r) = (False, w @ r)"
  by (cases w) (auto simp: split_sign_def is_digit_def Let_def)

lemma money_groups_print:
  assumes "w \<noteq> []" "list_all is_digit w" "list_all is_digit f"
  shows "money_groups ((if neg then ''-'' else '''') @ w @ (if f = [] then [] else CHR ''.'' # f)) =
    Some (neg, w, f)"
proof -
  have s: "split_sign ((if neg then ''-'' else '''') @ w @ r) = (neg, w @ r)" for r
  proof (cases neg)
    case True
    then show ?thesis by (simp add: split_sign_def)
  next
    case False
    then show ?thesis using split_sign_digits [OF assms(1,2)] by simp
  qed
  show ?thesis
    unfolding money_groups_def s using assms
    by (simp add: takeWhile_digits all_digits_def)
qed

lemma trim_print:
  fixes neg :: bool
  assumes "w \<noteq> []" "list_all is_digit w" "list_all is_digit f"
  shows "js_trim ((if neg then ''-'' else '''') @ w @ (if f = [] then [] else CHR ''.'' # f)) =
    (if neg then ''-'' else '''') @ w @ (if f = [] then [] else CHR ''.'' # f)" (is "js_trim ?t = ?t")
proof (rule js_trim_id)
  show "?t \<noteq> []" using assms by simp
  have "is_digit (hd w)" "is_digit (last w)" using assms(1,2) by (simp_all add: list_all_iff)
  moreover have "f \<noteq> [] \<Longrightarrow> is_digit (last f)" using assms(3) by (simp add: list_all_iff)
  ultimately show "\<not> js_whitespace (hd ?t)" "\<not> js_whitespace (last ?t)"
    using assms(1) by (auto simp: digit_not_space)
qed

lemma js_num_string_cents:
  fixes c :: int
  assumes "is_safe_integer c"
  defines "w \<equiv> \<bar>c\<bar> div 100" and "k \<equiv> \<bar>c\<bar> mod 100"
  shows "js_num_string (of_int c / 100) =
    (if c < 0 then ''-'' else '''') @ nat_string (nat w) @
    (if k = 0 then [] else CHR ''.'' # fraction_digits 20 (of_int k / 100))"
proof -
  define a where "a = \<bar>of_int c / 100 :: rat\<bar>"
  have wk: "\<bar>c\<bar> = 100 * w + k" "0 \<le> k" "k < 100" by (simp_all add: w_def k_def)
  have a: "a = of_int w + of_int k / 100"
  proof -
    have "a = of_int \<bar>c\<bar> / 100" by (simp add: a_def)
    then show ?thesis unfolding wk(1) by (simp add: field_simps)
  qed
  have fl: "\<lfloor>a\<rfloor> = w" unfolding a by (rule floor_unique) (use wk in simp_all)
  have "\<bar>c\<bar> \<le> max_safe_integer" using assms(1) by (auto simp: is_safe_integer_def)
  then have "w < 10 ^ 20" unfolding w_def max_safe_integer_def by simp
  then have "(of_int w :: rat) < 10 ^ 20" by (metis of_int_less_numeral_power_cancel_iff)
  moreover have "(of_int k :: rat) / 100 < 1" using wk by simp
  ultimately have big: "\<not> 10 ^ 21 \<le> a" unfolding a by simp
  have small: "\<not> (a \<noteq> 0 \<and> a < 1 / 10 ^ 6)"
  proof
    assume h: "a \<noteq> 0 \<and> a < 1 / 10 ^ 6"
    have "a = of_int \<bar>c\<bar> / 100" by (simp add: a_def)
    with h have "c \<noteq> 0" by auto
    then have "(1::rat) \<le> of_int \<bar>c\<bar>" by linarith
    with h \<open>a = of_int \<bar>c\<bar> / 100\<close> show False by simp
  qed
  have fr: "a - of_int w = of_int k / 100" by (simp add: a)
  have neg: "((of_int c / 100 :: rat) < 0) = (c < 0)" by simp
  have empty: "(fraction_digits 20 (of_int k / 100) = []) = (k = 0)"
    using fraction_digits_cents [OF wk(2,3)] by simp
  show ?thesis
    using big small by (simp only: js_num_string_def Let_def a_def [symmetric] fl fr neg empty) simp
qed

text \<open>
  An amount of whole cents survives the way through its decimal numeral: reading the
  number \<open>c / 100\<close> gives back exactly \<open>c\<close>, for every safe number of cents.
\<close>

theorem cents_roundtrip:
  assumes "is_safe_integer c"
  shows "toMinorUnits_num (of_int c / 100) = Inr c"
proof -
  define w where "w = \<bar>c\<bar> div 100"
  define k where "k = \<bar>c\<bar> mod 100"
  define f where "f = (if k = 0 then [] else fraction_digits 20 (of_int k / 100))"
  have wk: "\<bar>c\<bar> = 100 * w + k" "0 \<le> w" "0 \<le> k" "k < 100" by (simp_all add: w_def k_def)
  have k10: "k div 10 < 10" "0 \<le> k div 10" "k mod 10 < 10" "0 \<le> k mod 10"
    using wk(3,4) by auto
  have f: "f = (if k = 0 then [] else if k mod 10 = 0 then [digit_char (nat (k div 10))]
     else [digit_char (nat (k div 10)), digit_char (nat (k mod 10))])"
    using fraction_digits_cents [OF wk(3,4)] by (simp add: f_def)
  have fd: "list_all is_digit f" unfolding f using k10 by simp
  have val: "digits_value (take 2 (f @ ''00'')) = k"
  proof -
    have z: "digit_value CHR ''0'' = 0" by (simp add: digit_value_def)
    have "10 * (k div 10) + k mod 10 = k" by simp
    then show ?thesis unfolding f using k10
      by (auto simp: digits_value_pair z)
  qed
  have len: "\<not> 2 < length f" unfolding f by simp
  have str: "js_num_string (of_int c / 100) =
      (if c < 0 then ''-'' else '''') @ nat_string (nat w) @ (if f = [] then [] else CHR ''.'' # f)"
    unfolding js_num_string_cents [OF assms] w_def [symmetric] k_def [symmetric]
    by (simp add: f_def fraction_digits_cents [OF wk(3,4)])
  have cents: "(w * 100 + k) * (if c < 0 then -1 else 1) = c" using wk(1) by auto
  have up: "(if 2 < length f \<and> 5 \<le> digit_value (f ! 2) then 1 else 0) = (0::int)" using len by simp
  have whole: "digits_value (nat_string (nat w)) = w" using wk(2) by simp
  show ?thesis
    unfolding toMinorUnits_num_def toMinorUnits_def str
      trim_print [OF nat_string_nonempty nat_string_list_all fd]
      money_groups_print [OF nat_string_nonempty nat_string_list_all fd]
    by (simp only: option.case prod.case Let_def val whole up add_0_right cents assms if_True)
qed

section \<open>Products, quotients and totals\<close>

lemma fromBigIntMinorUnits_Inr:
  "fromBigIntMinorUnits c = Inr r \<longleftrightarrow> is_safe_integer c \<and> r = of_int c / 100"
  by (auto simp: fromBigIntMinorUnits_def fromMinorUnits_def is_safe_integer_def)

lemma divideAndRoundHalfUp_total: "d \<noteq> 0 \<Longrightarrow> \<exists>q. divideAndRoundHalfUp n d = Inr q"
  by (simp add: divideAndRoundHalfUp_def Let_def)

text \<open>
  A product of an amount and a quantity is their exact product in cents, rounded once to
  the nearest cent with the midpoint away from zero; it fails only when the cents leave the
  range of safe integers.
\<close>

theorem multiplyMoneyByQuantity_nearest:
  assumes "toMinorUnits amount = Inr a" "toMinorUnits quantity = Inr q"
  shows "\<exists>c. nearest_half_up (a * q) 100 c \<and>
    multiplyMoneyByQuantity amount quantity =
      (if is_safe_integer c then Inr (of_int c / 100) else Inl err_out_of_range)"
proof -
  obtain c where c: "divideAndRoundHalfUp (a * q) 100 = Inr c"
    using divideAndRoundHalfUp_total [of 100] by auto
  then have "nearest_half_up (a * q) 100 c" by (rule divideAndRoundHalfUp_nearest)
  then show ?thesis using assms c
    by (auto simp: multiplyMoneyByQuantity_def fromBigIntMinorUnits_def fromMinorUnits_def
        is_safe_integer_def intro!: exI [of _ c])
qed

text \<open>
  A unit price is the exact quotient in cents rounded to the nearest cent, and zero for
  the quantity zero; it fails only when the cents leave the range of safe integers.
\<close>

theorem divideMoneyByQuantity_nearest:
  assumes "toMinorUnits amount = Inr a" "toMinorUnits quantity = Inr q"
  shows "\<exists>c. (if q = 0 then c = 0 else nearest_half_up (a * 100) q c) \<and>
    divideMoneyByQuantity amount quantity =
      (if is_safe_integer c then Inr (of_int c / 100) else Inl err_out_of_range)"
proof (cases "q = 0")
  case True
  then show ?thesis using assms
    by (simp add: divideMoneyByQuantity_def is_safe_integer_def max_safe_integer_def)
next
  case False
  then obtain c where c: "divideAndRoundHalfUp (a * 100) q = Inr c"
    using divideAndRoundHalfUp_total by blast
  then have "nearest_half_up (a * 100) q c" by (rule divideAndRoundHalfUp_nearest)
  then show ?thesis using assms c False
    by (auto simp: divideMoneyByQuantity_def fromBigIntMinorUnits_def fromMinorUnits_def
        is_safe_integer_def intro!: exI [of _ c])
qed



lemmas money_eval = toMinorUnits_def money_groups_def js_trim_def js_whitespace_def split_sign_def
  is_digit_def digits_value_def digit_value_def all_digits_def is_safe_integer_def
  max_safe_integer_def

lemma example_amounts:
  "toMinorUnits ''12.345'' = Inr 1235" "toMinorUnits ''0.5'' = Inr 50" "toMinorUnits ''3'' = Inr 300"
  by (simp_all add: money_eval Let_def)

theorem cents_roundtrip_witness: "toMinorUnits_num (of_int (- 5) / 100) = Inr (- 5)"
  by (rule cents_roundtrip) (simp add: is_safe_integer_def max_safe_integer_def)

theorem multiplyMoneyByQuantity_nearest_witness:
  "\<exists>c. nearest_half_up 61750 100 c \<and> multiplyMoneyByQuantity ''12.345'' ''0.5'' =
     (if is_safe_integer c then Inr (of_int c / 100) else Inl err_out_of_range)"
  using multiplyMoneyByQuantity_nearest [OF example_amounts(1,2)] by simp

theorem divideMoneyByQuantity_nearest_witness:
  "\<exists>c. nearest_half_up 123500 300 c \<and> divideMoneyByQuantity ''12.345'' ''3'' =
     (if is_safe_integer c then Inr (of_int c / 100) else Inl err_out_of_range)"
  using divideMoneyByQuantity_nearest [OF example_amounts(1,3)] by simp


end
