(* ===== verification/Calendar.thy ===== *)
theory Calendar
  imports JsValues
begin

text \<open>
  Dates of the standard library, after the specification of ECMAScript: days and civil
  dates of the proleptic Gregorian calendar (\<open>Date.UTC\<close>, \<open>getUTCFullYear\<close>,
  \<open>getUTCMonth\<close>, \<open>getUTCDate\<close>), with the round trip between the two, the date-only
  strings \<open>YYYY-MM-DD\<close> and the printing of a day in that form. An instant is its number of
  milliseconds since the epoch; months are counted from 0, as in the code.
\<close>

section \<open>Days and civil dates\<close>

definition is_leap :: "int \<Rightarrow> bool" where
  "is_leap y \<longleftrightarrow> y mod 4 = 0 \<and> (y mod 100 \<noteq> 0 \<or> y mod 400 = 0)"

definition days_in_year :: "int \<Rightarrow> int" where
  "days_in_year y = (if is_leap y then 366 else 365)"

definition day_from_year :: "int \<Rightarrow> int" where
  "day_from_year y =
     365 * (y - 1970) + (y - 1969) div 4 - (y - 1901) div 100 + (y - 1601) div 400"

text \<open>Each of the three leap-year terms grows by one exactly at the years it counts.\<close>

lemma div_le: "0 < b \<Longrightarrow> b * (a div b) \<le> (a::int)"
  using mult_div_mod_eq [of b a] pos_mod_sign [of b a] by linarith

lemma div_gt: "0 < b \<Longrightarrow> (a::int) < b * (a div b) + b"
  using mult_div_mod_eq [of b a] pos_mod_bound [of b a] by linarith

lemma div_Suc:
  assumes "0 < k"
  shows "((x::int) + 1) div k = x div k + (if (x + 1) mod k = 0 then 1 else 0)"
proof -
  define q where "q = (x + 1) div k"
  define r where "r = (x + 1) mod k"
  have x: "x = k * q + (r - 1)"
    using mult_div_mod_eq [of k "x + 1"] unfolding q_def r_def by linarith
  have r: "0 \<le> r" "r < k" using assms by (simp_all add: r_def)
  show ?thesis
  proof (cases "r = 0")
    case True
    have "x = k * (q - 1) + (k - 1)" using x True by (simp add: right_diff_distrib)
    then have "x div k = q - 1" by (rule int_div_pos_eq) (use assms in auto)
    then show ?thesis using True by (simp add: q_def r_def)
  next
    case False
    have "x div k = q" by (rule int_div_pos_eq [OF x]) (use r False in auto)
    then show ?thesis using False by (simp add: q_def r_def)
  qed
qed

lemma leap_term:
  assumes "0 < k" and "a = k * b + 1"
  shows "((y::int) + 1 - a) div k = (y - a) div k + (if y mod k = 0 then 1 else 0)"
proof -
  have "(y - a + 1) mod k = (y + k * (- b)) mod k" using assms(2) by (simp add: algebra_simps)
  also have "\<dots> = y mod k" by (rule mod_mult_self2)
  finally have m: "(y - a + 1) mod k = y mod k" .
  have "(y + 1 - a) div k = (y - a + 1) div k" by (simp add: algebra_simps)
  also have "\<dots> = (y - a) div k + (if (y - a + 1) mod k = 0 then 1 else 0)"
    using assms(1) by (rule div_Suc)
  finally show ?thesis by (simp only: m)
qed

lemma mod_400_100: "(y::int) mod 400 = 0 \<Longrightarrow> y mod 100 = 0"
  using dvd_trans [of 100 400 y] by (simp add: mod_eq_0_iff_dvd)

lemma mod_100_4: "(y::int) mod 100 = 0 \<Longrightarrow> y mod 4 = 0"
  using dvd_trans [of 4 100 y] by (simp add: mod_eq_0_iff_dvd)

lemma leap_count:
  "(P400 \<Longrightarrow> P100) \<Longrightarrow> (P100 \<Longrightarrow> P4) \<Longrightarrow>
   (if P4 \<and> (\<not> P100 \<or> P400) then 366 else 365 :: int) =
     365 + (if P4 then 1 else 0) - (if P100 then 1 else 0) + (if P400 then 1 else 0)"
  by (cases P4; cases P100; cases P400) simp_all

lemma day_from_year_Suc: "day_from_year (y + 1) = day_from_year y + days_in_year y"
proof -
  define a where "a = (y - 1969) div 4"
  define b where "b = (y - 1901) div 100"
  define c where "c = (y - 1601) div 400"
  define da :: int where "da = (if y mod 4 = 0 then 1 else 0)"
  define db :: int where "db = (if y mod 100 = 0 then 1 else 0)"
  define dc :: int where "dc = (if y mod 400 = 0 then 1 else 0)"
  have "day_from_year (y + 1) = 365 * (y + 1 - 1970) + (a + da) - (b + db) + (c + dc)"
    unfolding day_from_year_def a_def b_def c_def da_def db_def dc_def
    by (subst leap_term [of 4 1969 492 y], simp, simp, subst leap_term [of 100 1901 19 y], simp, simp,
        subst leap_term [of 400 1601 4 y], simp, simp, rule refl)
  moreover have "day_from_year y = 365 * (y - 1970) + a - b + c"
    by (simp only: day_from_year_def a_def b_def c_def)
  moreover have "days_in_year y = 365 + da - db + dc"
    unfolding days_in_year_def is_leap_def da_def db_def dc_def
    by (rule leap_count [OF mod_400_100 mod_100_4])
  ultimately show ?thesis by simp
qed

lemma days_in_year_bounds: "365 \<le> days_in_year y" "days_in_year y \<le> 366"
  by (simp_all add: days_in_year_def)

lemma day_from_year_step: "day_from_year y < day_from_year (y + 1)"
  using days_in_year_bounds [of y] by (simp add: day_from_year_Suc)

lemma day_from_year_add: "day_from_year y + int n \<le> day_from_year (y + int n)"
proof (induction n)
  case (Suc n)
  then show ?case
    using day_from_year_step [of "y + int n"] by (simp add: algebra_simps)
qed simp

lemma day_from_year_mono: "x \<le> y \<Longrightarrow> day_from_year x \<le> day_from_year y"
  using day_from_year_add [of x "nat (y - x)"] by simp

text \<open>The year of a day: the search upwards from a year that begins no later.\<close>

function find_year :: "int \<Rightarrow> int \<Rightarrow> int" where
  "find_year y z = (if z < day_from_year (y + 1) then y else find_year (y + 1) z)"
  by pat_completeness auto
termination
  by (relation "measure (\<lambda>(y, z). nat (z - day_from_year y))")
     (use day_from_year_step in \<open>auto simp: not_less intro: less_le_trans\<close>)

declare find_year.simps [simp del]

definition year_from_day :: "int \<Rightarrow> int" where
  "year_from_day z = find_year (1969 + 400 * z div 146097) z"

lemma find_year_correct:
  "day_from_year y \<le> z \<Longrightarrow>
   day_from_year (find_year y z) \<le> z \<and> z < day_from_year (find_year y z + 1)"
proof (induction y z rule: find_year.induct)
  case (1 y z)
  then show ?case by (subst find_year.simps, subst (2) find_year.simps) auto
qed

lemma year_estimate: "day_from_year (1969 + 400 * z div 146097) \<le> z"
proof -
  define q where "q = 400 * z div 146097"
  have q: "146097 * q \<le> 400 * z" unfolding q_def by (rule div_le) simp
  have "4 * (q div 4) \<le> q" "q + 68 < 100 * ((q + 68) div 100) + 100" "400 * ((q + 368) div 400) \<le> q + 368"
    using div_le [of 4 q] div_gt [of 100 "q + 68"] div_le [of 400 "q + 368"] by simp_all
  then have "400 * day_from_year (1969 + q) \<le> 146097 * q"
    unfolding day_from_year_def by (simp add: algebra_simps)
  with q show ?thesis unfolding q_def by simp
qed

lemma year_from_day_bounds:
  "day_from_year (year_from_day z) \<le> z" "z < day_from_year (year_from_day z + 1)"
  using find_year_correct [OF year_estimate] by (simp_all add: year_from_day_def)

lemma year_from_day_unique:
  assumes "day_from_year y \<le> z" and "z < day_from_year (y + 1)"
  shows "year_from_day z = y"
proof (rule antisym)
  show "year_from_day z \<le> y"
    using day_from_year_mono [of "y + 1" "year_from_day z"] year_from_day_bounds(1) [of z] assms(2)
    by linarith
  show "y \<le> year_from_day z"
    using day_from_year_mono [of "year_from_day z + 1" y] year_from_day_bounds(2) [of z] assms(1)
    by linarith
qed

section \<open>Months\<close>

definition month_start :: "bool \<Rightarrow> int \<Rightarrow> int" where
  "month_start leap m =
     (if m \<le> 0 then 0 else if m = 1 then 31 else
        [59, 90, 120, 151, 181, 212, 243, 273, 304, 334, 365] ! nat (m - 2) + (if leap then 1 else 0))"

definition days_in_month :: "bool \<Rightarrow> int \<Rightarrow> int" where
  "days_in_month leap m = month_start leap (m + 1) - month_start leap m"

definition month_from_day :: "bool \<Rightarrow> int \<Rightarrow> int" where
  "month_from_day leap d =
     (if d < month_start leap 1 then 0 else if d < month_start leap 2 then 1
      else if d < month_start leap 3 then 2 else if d < month_start leap 4 then 3
      else if d < month_start leap 5 then 4 else if d < month_start leap 6 then 5
      else if d < month_start leap 7 then 6 else if d < month_start leap 8 then 7
      else if d < month_start leap 9 then 8 else if d < month_start leap 10 then 9
      else if d < month_start leap 11 then 10 else 11)"

lemma month_cases:
  "0 \<le> m \<Longrightarrow> m < 12 \<Longrightarrow>
   m = 0 \<or> m = 1 \<or> m = 2 \<or> m = 3 \<or> m = 4 \<or> m = 5 \<or> m = 6 \<or> m = 7 \<or> m = 8 \<or> m = 9 \<or> m = 10 \<or> m = (11::int)"
  by arith

lemma month_start_12: "month_start leap 12 = (if leap then 366 else 365)"
  by (simp add: month_start_def)

lemma days_in_month_bounds:
  "0 \<le> m \<Longrightarrow> m < 12 \<Longrightarrow> 28 \<le> days_in_month leap m \<and> days_in_month leap m \<le> 31"
  by (drule (1) month_cases) (auto simp: days_in_month_def month_start_def)

lemma month_from_day_inverse:
  assumes "0 \<le> m" "m < 12" "month_start leap m \<le> d" "d < month_start leap (m + 1)"
  shows "month_from_day leap d = m"
  using month_cases [OF assms(1,2)] assms(3,4)
  by (elim disjE; cases leap) (simp_all add: month_from_day_def month_start_def)

lemma month_start_values:
  "month_start leap 0 = 0" "month_start leap 1 = 31"
  "month_start leap 2 = 59 + (if leap then 1 else 0)" "month_start leap 3 = 90 + (if leap then 1 else 0)"
  "month_start leap 4 = 120 + (if leap then 1 else 0)" "month_start leap 5 = 151 + (if leap then 1 else 0)"
  "month_start leap 6 = 181 + (if leap then 1 else 0)" "month_start leap 7 = 212 + (if leap then 1 else 0)"
  "month_start leap 8 = 243 + (if leap then 1 else 0)" "month_start leap 9 = 273 + (if leap then 1 else 0)"
  "month_start leap 10 = 304 + (if leap then 1 else 0)" "month_start leap 11 = 334 + (if leap then 1 else 0)"
  by (simp_all add: month_start_def)

lemma month_from_day_bounds:
  assumes "0 \<le> d" "d < month_start leap 12"
  shows "0 \<le> month_from_day leap d \<and> month_from_day leap d < 12 \<and>
    month_start leap (month_from_day leap d) \<le> d \<and>
    d < month_start leap (month_from_day leap d + 1)"
  using assms unfolding month_from_day_def
  by (auto simp: month_start_values month_start_12 split: if_split)

lemma month_start_within:
  "0 \<le> m \<Longrightarrow> m < 12 \<Longrightarrow> 0 \<le> month_start leap m \<and> month_start leap (m + 1) \<le> month_start leap 12"
  by (drule (1) month_cases) (auto simp: month_start_def)

text \<open>\<open>MakeDay\<close> of the specification: months beyond the year carry over, days are linear.\<close>

definition make_day :: "int \<Rightarrow> int \<Rightarrow> int \<Rightarrow> int" where
  "make_day y m d =
     (let ym = y + m div 12 in day_from_year ym + month_start (is_leap ym) (m mod 12) + d - 1)"

definition month_of_day :: "int \<Rightarrow> int" where
  "month_of_day z =
     (let y = year_from_day z in month_from_day (is_leap y) (z - day_from_year y))"

definition date_of_day :: "int \<Rightarrow> int" where
  "date_of_day z =
     (let y = year_from_day z in
        z - day_from_year y - month_start (is_leap y) (month_of_day z) + 1)"

definition valid_date :: "int \<Rightarrow> int \<Rightarrow> int \<Rightarrow> bool" where
  "valid_date y m d \<longleftrightarrow> 0 \<le> m \<and> m < 12 \<and> 1 \<le> d \<and> d \<le> days_in_month (is_leap y) m"

lemma days_in_year_month_start: "days_in_year y = month_start (is_leap y) 12"
  by (simp add: days_in_year_def month_start_12)

lemma civil_of_make_day:
  assumes "valid_date y m d"
  shows "year_from_day (make_day y m d) = y" and "month_of_day (make_day y m d) = m"
    and "date_of_day (make_day y m d) = d"
proof -
  have m: "0 \<le> m" "m < 12" and d: "1 \<le> d" "d \<le> days_in_month (is_leap y) m"
    using assms by (simp_all add: valid_date_def)
  let ?s = "month_start (is_leap y)"
  have z: "make_day y m d = day_from_year y + ?s m + d - 1"
    using m by (simp add: make_day_def)
  have lim: "0 \<le> ?s m" "?s (m + 1) \<le> ?s 12" "d \<le> ?s (m + 1) - ?s m"
    using month_start_within [OF m, of "is_leap y"] d by (simp_all add: days_in_month_def)
  show year: "year_from_day (make_day y m d) = y"
    by (rule year_from_day_unique)
       (use lim d in \<open>simp_all add: z day_from_year_Suc days_in_year_month_start\<close>)
  show month: "month_of_day (make_day y m d) = m"
    unfolding month_of_day_def year Let_def
    by (rule month_from_day_inverse) (use m lim d in \<open>simp_all add: z\<close>)
  show "date_of_day (make_day y m d) = d"
    unfolding date_of_day_def year month Let_def by (simp add: z)
qed

lemma make_day_of_civil:
  "make_day (year_from_day z) (month_of_day z) (date_of_day z) = z"
  and valid_civil: "valid_date (year_from_day z) (month_of_day z) (date_of_day z)"
proof -
  let ?y = "year_from_day z"
  have r: "0 \<le> z - day_from_year ?y" "z - day_from_year ?y < month_start (is_leap ?y) 12"
    using year_from_day_bounds [of z]
    by (simp_all add: day_from_year_Suc days_in_year_month_start)
  note b = month_from_day_bounds [OF r]
  show "make_day (year_from_day z) (month_of_day z) (date_of_day z) = z"
    using b by (simp add: make_day_def date_of_day_def month_of_day_def Let_def)
  show "valid_date (year_from_day z) (month_of_day z) (date_of_day z)"
    using b by (simp add: valid_date_def month_of_day_def date_of_day_def days_in_month_def Let_def)
qed

lemma valid_date_unique:
  assumes "valid_date y m d" and "valid_date y' m' d'" and "make_day y m d = make_day y' m' d'"
  shows "y = y' \<and> m = m' \<and> d = d'"
  using civil_of_make_day [OF assms(1)] civil_of_make_day [OF assms(2)] assms(3) by simp

section \<open>Instants and date-only strings\<close>

definition ms_per_day :: int where
  "ms_per_day = 86400000"

definition day_of_instant :: "int \<Rightarrow> int" where
  "day_of_instant t = t div ms_per_day"

definition time_in_day :: "int \<Rightarrow> int" where
  "time_in_day t = t mod ms_per_day"

lemma time_in_day_bounds: "0 \<le> time_in_day t" "time_in_day t < ms_per_day"
  by (simp_all add: time_in_day_def ms_per_day_def)

lemma instant_split: "day_of_instant t * ms_per_day + time_in_day t = t"
  by (simp add: day_of_instant_def time_in_day_def)

lemma day_of_instant_make [simp]:
  "0 \<le> r \<Longrightarrow> r < ms_per_day \<Longrightarrow> day_of_instant (z * ms_per_day + r) = z"
  by (simp add: day_of_instant_def ms_per_day_def)

lemma time_in_day_make [simp]:
  "0 \<le> r \<Longrightarrow> r < ms_per_day \<Longrightarrow> time_in_day (z * ms_per_day + r) = r"
  by (simp add: time_in_day_def ms_per_day_def)

text \<open>
  \<open>Date.UTC(y, m, d, ...)\<close> with the time of day given in milliseconds: two-digit years
  are years of the twentieth century.
\<close>

definition utc_full_year :: "int \<Rightarrow> int" where
  "utc_full_year y = (if 0 \<le> y \<and> y \<le> 99 then 1900 + y else y)"

definition date_utc :: "int \<Rightarrow> int \<Rightarrow> int \<Rightarrow> int \<Rightarrow> int" where
  "date_utc y m d r = make_day (utc_full_year y) m d * ms_per_day + r"

text \<open>The pattern \<open>/^\d{4}-\d{2}-\d{2}$/\<close> and the three numbers it separates.\<close>

fun date_only_parts :: "string \<Rightarrow> (int \<times> int \<times> int) option" where
  "date_only_parts [a, b, c, d, h1, e, f, h2, g, h] =
     (if list_all is_digit [a, b, c, d, e, f, g, h] \<and> h1 = CHR ''-'' \<and> h2 = CHR ''-''
      then Some (digits_value [a, b, c, d], digits_value [e, f], digits_value [g, h]) else None)"
| "date_only_parts s = None"

definition pad_digits :: "nat \<Rightarrow> string \<Rightarrow> string" where
  "pad_digits n s = replicate (n - length s) (CHR ''0'') @ s"

text \<open>\<open>toISOString().slice(0, 10)\<close>: years outside 0 to 9999 carry a sign and six digits.\<close>

definition iso_year :: "int \<Rightarrow> string" where
  "iso_year y =
     (if 0 \<le> y \<and> y \<le> 9999 then pad_digits 4 (nat_string (nat y))
      else (if y < 0 then ''-'' else ''+'') @ pad_digits 6 (nat_string (nat \<bar>y\<bar>)))"

definition iso_date :: "int \<Rightarrow> string" where
  "iso_date z = take 10
     (iso_year (year_from_day z) @ ''-'' @ pad_digits 2 (nat_string (nat (month_of_day z + 1))) @
      ''-'' @ pad_digits 2 (nat_string (nat (date_of_day z))))"

section \<open>Printed dates\<close>

lemma nat_string_step: "10 \<le> n \<Longrightarrow> nat_string n = nat_string (n div 10) @ [digit_char (n mod 10)]"
  by (subst nat_string.simps) simp

lemma nat_string_digit: "n < 10 \<Longrightarrow> nat_string n = [digit_char n]"
  by (subst nat_string.simps) simp

lemma digit_char_0: "digit_char 0 = CHR ''0''"
  by (simp add: digit_char_def char_of_def bit_0)

lemma pad_two_digits:
  assumes "n < 100"
  shows "pad_digits 2 (nat_string n) = [digit_char (n div 10), digit_char (n mod 10)]"
proof (cases "n < 10")
  case True
  then have "nat_string n = [digit_char n]" "n div 10 = 0" "n mod 10 = n"
    by (simp_all add: nat_string_digit)
  then show ?thesis by (simp only: pad_digits_def) (simp add: digit_char_0)
next
  case False
  then have "n div 10 < 10" using assms by (simp add: less_mult_imp_div_less)
  with False show ?thesis by (simp add: nat_string_step nat_string_digit pad_digits_def)
qed

lemma nat_string_four_digits:
  assumes "1000 \<le> n" "n < 10000"
  shows "nat_string n = [digit_char (n div 10 div 10 div 10), digit_char (n div 10 div 10 mod 10),
    digit_char (n div 10 mod 10), digit_char (n mod 10)]"
proof -
  have a: "100 \<le> n div 10" "n div 10 < 1000" using assms by linarith+
  have b: "10 \<le> n div 10 div 10" "n div 10 div 10 < 100" using a by linarith+
  have c: "n div 10 div 10 div 10 < 10" using b by linarith
  show ?thesis using assms a b c by (simp add: nat_string_step nat_string_digit)
qed

lemma digits_value_four: "digits_value [a, b, c, d] =
    1000 * digit_value a + 100 * digit_value b + 10 * digit_value c + digit_value d"
  by (simp add: digits_value_def)

lemma digits_value_two: "digits_value [a, b] = 10 * digit_value a + digit_value b"
  by (simp add: digits_value_def)

text \<open>A printed date reads back as its year, month and day.\<close>

lemma date_only_parts_print:
  assumes "1000 \<le> y" "y < 10000" "m < 100" "d < 100"
  shows "date_only_parts (nat_string y @ ''-'' @ pad_digits 2 (nat_string m) @ ''-'' @
    pad_digits 2 (nat_string d)) = Some (int y, int m, int d)"
proof -
  have split: "int n = 10 * int (n div 10) + int (n mod 10)" for n by presburger
  have y: "1000 * int (y div 10 div 10 div 10) + 100 * int (y div 10 div 10 mod 10) +
      10 * int (y div 10 mod 10) + int (y mod 10) = int y"
    using split [of y] split [of "y div 10"] split [of "y div 10 div 10"] by linarith
  have y': "y div 10 div 10 div 10 < 10" using assms(2) by linarith
  have m: "10 * int (m div 10) + int (m mod 10) = int m" "m div 10 < 10"
    using split [of m] assms(3) by linarith+
  have d: "10 * int (d div 10) + int (d mod 10) = int d" "d div 10 < 10"
    using split [of d] assms(4) by linarith+
  show ?thesis
    unfolding nat_string_four_digits [OF assms(1,2)] pad_two_digits [OF assms(3)]
      pad_two_digits [OF assms(4)]
    using y' m(2) d(2)
    by (simp add: digits_value_four digits_value_two y m(1) d(1) del: of_nat_add of_nat_mult)
qed

lemma civil_ranges:
  "0 \<le> month_of_day z" "month_of_day z < 12" "1 \<le> date_of_day z" "date_of_day z \<le> 31"
proof -
  have v: "valid_date (year_from_day z) (month_of_day z) (date_of_day z)" by (rule valid_civil)
  then show "0 \<le> month_of_day z" "month_of_day z < 12" "1 \<le> date_of_day z"
    by (simp_all add: valid_date_def)
  with v show "date_of_day z \<le> 31"
    using days_in_month_bounds [of "month_of_day z" "is_leap (year_from_day z)"]
    by (simp add: valid_date_def)
qed

lemma date_only_parts_day:
  assumes "1000 \<le> year_from_day z" "year_from_day z \<le> 9999"
  shows "date_only_parts (nat_string (nat (year_from_day z)) @ ''-'' @
      pad_digits 2 (nat_string (nat (month_of_day z + 1))) @ ''-'' @
      pad_digits 2 (nat_string (nat (date_of_day z)))) =
    Some (year_from_day z, month_of_day z + 1, date_of_day z)"
  using date_only_parts_print [of "nat (year_from_day z)" "nat (month_of_day z + 1)"
      "nat (date_of_day z)"] assms civil_ranges [of z] by simp

end
