(* ===== verification/WorkflowModel.thy ===== *)
theory WorkflowModel
  imports Calendar
begin

text \<open>
  The data of the workflow module: the constants of
  \<open>src/modules/workflow/domain/constants\<close>, the entities of
  \<open>src/modules/workflow/domain/entities\<close> with their constructors, and the aggregate and
  transition bundle of \<open>domain/ports\<close>. A nullable field is an option; a constructor
  argument that may be left out is an option of its own.
\<close>

section \<open>Constants\<close>

datatype workflow_lifecycle = DRAFT | PUBLISHED | ARCHIVED

datatype transition_effect = MOVE_STATE | RUN_ACTIONS

datatype transition_purpose = STANDARD | CANCEL

datatype branch = THEN_BRANCH | ELSE_BRANCH

datatype action_type =
    RESERVE_STOCK
  | CONSUME_STOCK
  | REVERT_STOCK
  | RESTORE_STOCK
  | MARK_INVOICE_SENT
  | MARK_PREGUIDE
  | MARK_PREPARED
  | UNMARK_PREGUIDE
  | UNMARK_PREPARED
  | ASSIGN_WAREHOUSE_BY_PROVINCE
  | ASSIGN_WAREHOUSE_BY_WORKFLOW
  | OTHER_ACTION string

datatype condition_type =
    IS_PAID
  | IS_NOT_PAID
  | HAS_STOCK
  | NOT_CANCELLED
  | DATE_AFTER
  | DATE_BEFORE
  | INVOICE_SENT
  | SCHEDULE_DELIVERY_WINDOW
  | SALE_ORDER_FIELD_REQUIRED
  | OTHER_CONDITION string

text \<open>
  \<open>OTHER_ACTION\<close> and \<open>OTHER_CONDITION\<close> stand for a stored type name that is none
  of the constants: the factories and the registry have a branch for it.
\<close>

fun action_type_name :: "action_type \<Rightarrow> string" where
  "action_type_name RESERVE_STOCK = ''RESERVE_STOCK''"
| "action_type_name CONSUME_STOCK = ''CONSUME_STOCK''"
| "action_type_name REVERT_STOCK = ''REVERT_STOCK''"
| "action_type_name RESTORE_STOCK = ''RESTORE_STOCK''"
| "action_type_name MARK_INVOICE_SENT = ''MARK_INVOICE_SENT''"
| "action_type_name MARK_PREGUIDE = ''MARK_PREGUIDE''"
| "action_type_name MARK_PREPARED = ''MARK_PREPARED''"
| "action_type_name UNMARK_PREGUIDE = ''UNMARK_PREGUIDE''"
| "action_type_name UNMARK_PREPARED = ''UNMARK_PREPARED''"
| "action_type_name ASSIGN_WAREHOUSE_BY_PROVINCE = ''ASSIGN_WAREHOUSE_BY_PROVINCE''"
| "action_type_name ASSIGN_WAREHOUSE_BY_WORKFLOW = ''ASSIGN_WAREHOUSE_BY_WORKFLOW''"
| "action_type_name (OTHER_ACTION s) = s"

definition or_default :: "'a option \<Rightarrow> 'a \<Rightarrow> 'a" where
  "or_default v d = (case v of None \<Rightarrow> d | Some a \<Rightarrow> a)"

lemma or_default_simps [simp]: "or_default None d = d" "or_default (Some a) d = a"
  by (simp_all add: or_default_def)

text \<open>\<open>s || null\<close> on strings: the empty string counts as missing.\<close>

definition nonempty :: "string option \<Rightarrow> string option" where
  "nonempty v = (case v of None \<Rightarrow> None | Some s \<Rightarrow> if s = [] then None else Some s)"

section \<open>Entities\<close>

record workflow =
  wf_id :: string
  wf_name :: string
  wf_normalizedName :: string
  wf_description :: "string option"
  wf_isActive :: bool
  wf_createdAt :: int
  wf_updatedAt :: "int option"
  wf_familyId :: string
  wf_revision :: int
  wf_lifecycleStatus :: workflow_lifecycle
  wf_isCurrent :: bool
  wf_basedOnWorkflowId :: "string option"
  wf_publishedAt :: "int option"
  wf_publishedBy :: "string option"

record workflow_props =
  wfp_id :: string
  wfp_name :: string
  wfp_normalizedName :: string
  wfp_description :: "string option"
  wfp_isActive :: bool
  wfp_createdAt :: int
  wfp_updatedAt :: "int option"
  wfp_familyId :: "string option"
  wfp_revision :: "int option"
  wfp_lifecycleStatus :: "workflow_lifecycle option"
  wfp_isCurrent :: "bool option"
  wfp_basedOnWorkflowId :: "string option"
  wfp_publishedAt :: "int option"
  wfp_publishedBy :: "string option"

definition new_workflow :: "workflow_props \<Rightarrow> workflow" where
  "new_workflow p = \<lparr>
     wf_id = wfp_id p,
     wf_name = js_trim (wfp_name p),
     wf_normalizedName = js_trim (wfp_normalizedName p),
     wf_description = nonempty (map_option js_trim (wfp_description p)),
     wf_isActive = wfp_isActive p,
     wf_createdAt = wfp_createdAt p,
     wf_updatedAt = wfp_updatedAt p,
     wf_familyId = or_default (wfp_familyId p) (wfp_id p),
     wf_revision = or_default (wfp_revision p) 1,
     wf_lifecycleStatus = or_default (wfp_lifecycleStatus p) PUBLISHED,
     wf_isCurrent = or_default (wfp_isCurrent p) True,
     wf_basedOnWorkflowId = wfp_basedOnWorkflowId p,
     wf_publishedAt = wfp_publishedAt p,
     wf_publishedBy = wfp_publishedBy p\<rparr>"

record workflow_state =
  ws_id :: string
  ws_workflowId :: string
  ws_saleOrderStateId :: string
  ws_code :: string
  ws_name :: string
  ws_color :: string
  ws_position :: int
  ws_positionX :: "rat option"
  ws_positionY :: "rat option"
  ws_isInitial :: bool
  ws_isFinal :: bool
  ws_isActive :: bool

record workflow_state_props =
  wsp_id :: string
  wsp_workflowId :: string
  wsp_saleOrderStateId :: "string option"
  wsp_code :: string
  wsp_name :: string
  wsp_color :: string
  wsp_position :: int
  wsp_positionX :: "rat option"
  wsp_positionY :: "rat option"
  wsp_isInitial :: bool
  wsp_isFinal :: bool
  wsp_isActive :: bool

definition new_workflow_state :: "workflow_state_props \<Rightarrow> workflow_state" where
  "new_workflow_state p = \<lparr>
     ws_id = wsp_id p,
     ws_workflowId = wsp_workflowId p,
     ws_saleOrderStateId = or_default (wsp_saleOrderStateId p) (wsp_id p),
     ws_code = js_trim (wsp_code p),
     ws_name = js_trim (wsp_name p),
     ws_color = js_trim (wsp_color p),
     ws_position = wsp_position p,
     ws_positionX = wsp_positionX p,
     ws_positionY = wsp_positionY p,
     ws_isInitial = wsp_isInitial p,
     ws_isFinal = wsp_isFinal p,
     ws_isActive = wsp_isActive p\<rparr>"

record workflow_transition =
  wt_id :: string
  wt_workflowId :: string
  wt_code :: string
  wt_name :: string
  wt_effect :: transition_effect
  wt_purpose :: transition_purpose
  wt_fromStateId :: "string option"
  wt_toStateId :: "string option"
  wt_isGlobal :: bool
  wt_excludedStateIds :: "string list"
  wt_sourceHandle :: "string option"
  wt_targetHandle :: "string option"
  wt_positionX :: "rat option"
  wt_positionY :: "rat option"
  wt_isActive :: bool
  wt_autoTrigger :: bool
  wt_priority :: int
  wt_elseEffect :: "transition_effect option"
  wt_elseToStateId :: "string option"

record workflow_transition_props =
  wtp_id :: string
  wtp_workflowId :: string
  wtp_code :: string
  wtp_name :: string
  wtp_effect :: "transition_effect option"
  wtp_purpose :: "transition_purpose option"
  wtp_fromStateId :: "string option"
  wtp_toStateId :: "string option"
  wtp_isGlobal :: "bool option"
  wtp_excludedStateIds :: "string list option"
  wtp_sourceHandle :: "string option"
  wtp_targetHandle :: "string option"
  wtp_positionX :: "rat option"
  wtp_positionY :: "rat option"
  wtp_isActive :: bool
  wtp_autoTrigger :: "bool option"
  wtp_priority :: "int option"
  wtp_elseEffect :: "transition_effect option"
  wtp_elseToStateId :: "string option"

definition new_workflow_transition :: "workflow_transition_props \<Rightarrow> workflow_transition" where
  "new_workflow_transition p = \<lparr>
     wt_id = wtp_id p,
     wt_workflowId = wtp_workflowId p,
     wt_code = js_trim (wtp_code p),
     wt_name = js_trim (wtp_name p),
     wt_effect = or_default (wtp_effect p) MOVE_STATE,
     wt_purpose = or_default (wtp_purpose p) STANDARD,
     wt_fromStateId = wtp_fromStateId p,
     wt_toStateId = wtp_toStateId p,
     wt_isGlobal = or_default (wtp_isGlobal p) False,
     wt_excludedStateIds = or_default (wtp_excludedStateIds p) [],
     wt_sourceHandle = wtp_sourceHandle p,
     wt_targetHandle = wtp_targetHandle p,
     wt_positionX = wtp_positionX p,
     wt_positionY = wtp_positionY p,
     wt_isActive = wtp_isActive p,
     wt_autoTrigger = or_default (wtp_autoTrigger p) False,
     wt_priority = or_default (wtp_priority p) 0,
     wt_elseEffect = wtp_elseEffect p,
     wt_elseToStateId = wtp_elseToStateId p\<rparr>"

type_synonym config = "(string \<times> json) list"

record workflow_condition =
  wc_id :: string
  wc_transitionId :: string
  wc_type :: condition_type
  wc_config :: config
  wc_position :: int

record workflow_action =
  wa_id :: string
  wa_transitionId :: string
  wa_type :: action_type
  wa_config :: config
  wa_position :: int
  wa_branch :: branch

definition new_workflow_action ::
  "string \<Rightarrow> string \<Rightarrow> action_type \<Rightarrow> config \<Rightarrow> int \<Rightarrow> branch option \<Rightarrow> workflow_action" where
  "new_workflow_action i t ty cfg pos br = \<lparr>
     wa_id = i, wa_transitionId = t, wa_type = ty, wa_config = cfg, wa_position = pos,
     wa_branch = or_default br THEN_BRANCH\<rparr>"

section \<open>The aggregate of a workflow and the bundle of a transition\<close>

record workflow_aggregate =
  ag_workflow :: workflow
  ag_states :: "workflow_state list"
  ag_transitions :: "workflow_transition list"
  ag_conditions :: "workflow_condition list"
  ag_actions :: "workflow_action list"

record transition_bundle =
  tb_transition :: workflow_transition
  tb_conditions :: "workflow_condition list"
  tb_actions :: "workflow_action list"

lemma new_workflow_state_trimmed:
  "js_trim (ws_code (new_workflow_state p)) = ws_code (new_workflow_state p)"
  by (simp add: new_workflow_state_def js_trim_idem)

section \<open>A small workflow, for the examples\<close>

text \<open>Three states in a row, a way back from the last one, and a cancelling transition.\<close>

definition example_flow :: workflow where
  "example_flow = new_workflow \<lparr>wfp_id = ''f'', wfp_name = ''Ventas'',
     wfp_normalizedName = ''VENTAS'', wfp_description = None, wfp_isActive = True,
     wfp_createdAt = 0, wfp_updatedAt = None, wfp_familyId = None, wfp_revision = None,
     wfp_lifecycleStatus = None, wfp_isCurrent = None, wfp_basedOnWorkflowId = None,
     wfp_publishedAt = None, wfp_publishedBy = None\<rparr>"

definition example_state :: "string \<Rightarrow> int \<Rightarrow> workflow_state" where
  "example_state i pos = \<lparr>ws_id = i, ws_workflowId = ''f'', ws_saleOrderStateId = CHR ''s'' # i,
     ws_code = i, ws_name = i, ws_color = ''red'', ws_position = pos, ws_positionX = None,
     ws_positionY = None, ws_isInitial = (pos = 0), ws_isFinal = False, ws_isActive = True\<rparr>"

definition example_transition :: "string \<Rightarrow> string \<Rightarrow> string \<Rightarrow> workflow_transition" where
  "example_transition i from to = \<lparr>wt_id = i, wt_workflowId = ''f'', wt_code = i, wt_name = i,
     wt_effect = MOVE_STATE, wt_purpose = STANDARD, wt_fromStateId = Some from,
     wt_toStateId = Some to, wt_isGlobal = False, wt_excludedStateIds = [],
     wt_sourceHandle = None, wt_targetHandle = None, wt_positionX = None, wt_positionY = None,
     wt_isActive = True, wt_autoTrigger = False, wt_priority = 0, wt_elseEffect = None,
     wt_elseToStateId = None\<rparr>"

definition example_cancel :: "workflow_transition" where
  "example_cancel = (example_transition ''x'' '''' ''d'')
     \<lparr>wt_fromStateId := None, wt_isGlobal := True, wt_excludedStateIds := [''d'']\<rparr>"

definition example_aggregate :: workflow_aggregate where
  "example_aggregate = \<lparr>ag_workflow = example_flow,
     ag_states = [example_state ''a'' 0, example_state ''b'' 1, example_state ''c'' 2,
       example_state ''d'' 3, example_state ''e'' 4],
     ag_transitions = [example_transition ''ab'' ''a'' ''b'', example_transition ''bc'' ''b'' ''c'',
       example_transition ''ca'' ''c'' ''a'', example_cancel],
     ag_conditions = [], ag_actions = []\<rparr>"

lemmas example_defs = example_aggregate_def example_cancel_def example_transition_def
  example_state_def

end
