(* ===== verification/Entities.thy ===== *)
theory Entities
  imports Money WorkflowModel
begin

text \<open>
  The rows of the tables, as the entity classes under
  \<open>src/src/modules/*/adapters/out/persistence/typeorm/entities\<close> declare them: one record per
  entity, one field per column, in the order of the class. A column that may be null is an
  option; dates without a time are strings, instants are integers (milliseconds), amounts and
  quantities of a numeric column are rationals, those of an integer column integers. Left out are
  the relations that the mapper fills in from other tables, and what the database keeps by
  itself and no modelled code reads: \<open>updated_at\<close>, the creation time of documents and ledger
  rows (their order in the list stands for it) and the identifier of a ledger row.
\<close>

section \<open>Enumerations\<close>

datatype currency_type = PEN | USD

datatype payment_status = PENDING_CONFIRMATION | PAYMENT_POSTED | PAYMENT_CANCELLED | PAYMENT_REVERSED

datatype doc_type = IN_DOC | OUT_DOC | TRANSFER | ADJUSTMENT | PRODUCTION | SALE_ORDER_DOC

datatype doc_status = DOC_DRAFT | IN_TRANSIT | DOC_POSTED | DOC_CANCELLED

datatype reference_type = PURCHASE_REFERENCE | PRODUCTION_REFERENCE | SALE_ORDER_REFERENCE

datatype direction = IN_DIRECTION | OUT_DIRECTION

datatype product_type = MATERIAL | PRODUCT | SUPPLY

datatype production_status =
    PRODUCTION_DRAFT | IN_PROGRESS | PARTIAL | PRODUCTION_COMPLETED | PRODUCTION_CANCELLED

datatype evidence_status = EVIDENCE_PENDING | UPLOADED | EVIDENCE_SKIPPED

datatype client_type = NEW_CLIENT | LAGGING | REPURCHASE | UNDEFINED_CLIENT

datatype client_doc_type = DNI | CE | RUC | NO_DOCUMENT

fun client_doc_type_name :: "client_doc_type \<Rightarrow> string" where
  "client_doc_type_name DNI = ''DNI''"
| "client_doc_type_name CE = ''CE''"
| "client_doc_type_name RUC = ''RUC''"
| "client_doc_type_name NO_DOCUMENT = ''NONE''"

datatype execution_status = STARTED | COMPLETED | FAILED | EXECUTION_SKIPPED

section \<open>Sale orders\<close>

record sale_order =
  so_id :: string
  so_serie :: "string option"
  so_correlative :: "int option"
  so_scheduleDate :: "string option"
  so_deliveryDate :: "string option"
  so_subTotal :: rat
  so_deliveryCost :: rat
  so_discount :: rat
  so_total :: rat
  so_currency :: currency_type
  so_note :: "string option"
  so_advertisingCode :: "string option"
  so_observation :: "string option"
  so_sendDate :: "int option"
  so_sendPhoto :: "string option"
  so_sendCode :: "string option"
  so_sendAddress :: "string option"
  so_assignedBy :: "string option"
  so_clientId :: string
  so_agencySubsidiaryId :: "string option"
  so_agencyDetail :: "string option"
  so_sourceId :: "string option"
  so_warehouseId :: "string option"
  so_createdBy :: string
  so_companyId :: string
  so_workflowId :: "string option"
  so_currentStateId :: "string option"
  so_invoiceSend :: bool
  so_prepared :: bool
  so_preguide :: bool
  so_reserveBool :: bool
  so_stockRevertedBool :: bool
  so_lotes :: "int option"
  so_isActive :: bool
  so_createdAt :: int

record sale_order_item =
  it_id :: string
  it_saleOrderId :: string
  it_referencePackId :: "string option"
  it_packNameSnapshot :: "string option"
  it_description :: "string option"
  it_quantity :: rat
  it_unitPrice :: rat
  it_total :: rat
  it_createdAt :: int

record attribute_snapshot =
  as_code :: string
  as_name :: "string option"
  as_value :: string

record sale_order_item_component =
  co_id :: string
  co_saleOrderItemId :: string
  co_skuId :: string
  co_referencePackItemId :: "string option"
  co_skuNameSnapshot :: "string option"
  co_backendSkuSnapshot :: "string option"
  co_customSkuSnapshot :: "string option"
  co_barcodeSnapshot :: "string option"
  co_imageSnapshot :: "string option"
  co_productIdSnapshot :: "string option"
  co_attributesSnapshot :: "attribute_snapshot list"
  co_quantity :: rat
  co_unitPrice :: rat
  co_total :: rat
  co_createdAt :: int

record sale_order_supply_item =
  su_id :: string
  su_saleOrderId :: string
  su_supplySkuId :: string
  su_quantity :: rat
  su_unitId :: string
  su_referenceRecipeItemId :: "string option"
  su_supplyNameSnapshot :: string
  su_skuNameSnapshot :: string
  su_backendSkuSnapshot :: string
  su_customSkuSnapshot :: "string option"
  su_unitNameSnapshot :: string
  su_unitCodeSnapshot :: string
  su_createdAt :: int

record sale_payment =
  sp_id :: string
  sp_saleOrderId :: string
  sp_companyPaymentAccountId :: "string option"
  sp_paymentMethodId :: "string option"
  sp_currency :: currency_type
  sp_status :: payment_status
  sp_version :: int
  sp_paymentDate :: string
  sp_postedAt :: "int option"
  sp_accountingDate :: "string option"
  sp_operationCode :: "string option"
  sp_voidedAt :: "int option"
  sp_voidedByUserId :: "string option"
  sp_voidReason :: "string option"
  sp_createdByUserId :: "string option"
  sp_updatedByUserId :: "string option"
  sp_postedByUserId :: "string option"
  sp_cancelledByUserId :: "string option"
  sp_cancelledAt :: "int option"
  sp_reversedByUserId :: "string option"
  sp_reversedAt :: "int option"
  sp_correctedFromPaymentId :: "string option"
  sp_reenteredFromPaymentId :: "string option"
  sp_financialReason :: "string option"
  sp_date :: int
  sp_method :: string
  sp_operationNumber :: "string option"
  sp_amount :: rat
  sp_note :: "string option"
  sp_paymentPhoto :: "string option"
  sp_createdAt :: int

text \<open>The columns that the queries read of \<open>sale_payment_allocations\<close>.\<close>

record sale_payment_allocation =
  pa_salePaymentId :: string
  pa_saleOrderId :: string
  pa_amount :: rat

section \<open>Catalogue and production\<close>

record stock_item =
  si_id :: string
  si_skuId :: string
  si_isActive :: bool
  si_createdAt :: int

record sku =
  sk_id :: string
  sk_productId :: string
  sk_backendSku :: string
  sk_customSku :: "string option"
  sk_name :: string
  sk_barcode :: "string option"
  sk_image :: "string option"
  sk_price :: rat
  sk_cost :: rat
  sk_isSellable :: bool
  sk_isPurchasable :: bool
  sk_isManufacturable :: bool
  sk_isStockTracked :: bool
  sk_isActive :: bool
  sk_isDeleted :: bool
  sk_createdAt :: int

record product =
  pr_id :: string
  pr_name :: string
  pr_description :: "string option"
  pr_type :: product_type
  pr_brand :: "string option"
  pr_baseUnitId :: "string option"
  pr_isActive :: bool
  pr_isDeleted :: bool
  pr_createdAt :: int

record recipe =
  re_id :: string
  re_skuId :: string
  re_version :: int
  re_yieldQuantity :: rat
  re_notes :: "string option"
  re_isActive :: bool
  re_createdAt :: int

record recipe_item =
  ri_id :: string
  ri_recipeId :: string
  ri_materialSkuId :: string
  ri_quantity :: rat
  ri_unitId :: string

record production_order =
  po_id :: string
  po_fromWarehouseId :: string
  po_toWarehouseId :: string
  po_docType :: doc_type
  po_serieId :: string
  po_correlative :: int
  po_status :: production_status
  po_reference :: "string option"
  po_manufactureDate :: int
  po_createdBy :: string
  po_updatedBy :: "string option"
  po_createdAt :: int
  po_imageProdution :: "string list"
  po_evidenceStatus :: evidence_status

record production_order_item =
  pi_id :: string
  pi_productionId :: string
  pi_finishedItemId :: string
  pi_fromLocationId :: "string option"
  pi_toLocationId :: "string option"
  pi_quantity :: int
  pi_wasteQty :: rat
  pi_unitCost :: rat

section \<open>Clients and warehouses\<close>

record client =
  cl_id :: string
  cl_type :: client_type
  cl_fullName :: string
  cl_docType :: client_doc_type
  cl_docNumber :: "string option"
  cl_reference :: "string option"
  cl_address :: "string option"
  cl_departmentId :: string
  cl_provinceId :: string
  cl_districtId :: string
  cl_isActive :: bool
  cl_createdAt :: int

record warehouse =
  wh_id :: string
  wh_name :: string
  wh_department :: string
  wh_province :: string
  wh_district :: string
  wh_address :: "string option"
  wh_isActive :: bool
  wh_isProductionDefault :: bool
  wh_createdAt :: int

section \<open>Inventory\<close>

record document_serie =
  ds_id :: string
  ds_code :: string
  ds_name :: string
  ds_docType :: doc_type
  ds_warehouseId :: string
  ds_nextNumber :: int
  ds_padding :: int
  ds_separator :: string
  ds_isActive :: bool
  ds_createdAt :: int

record inventory_document =
  id_id :: string
  id_docType :: doc_type
  id_productType :: "product_type option"
  id_status :: doc_status
  id_serieId :: "string option"
  id_correlative :: "int option"
  id_fromWarehouseId :: "string option"
  id_toWarehouseId :: "string option"
  id_referenceId :: "string option"
  id_referenceType :: "reference_type option"
  id_note :: "string option"
  id_createdBy :: "string option"
  id_postedBy :: "string option"
  id_postedAt :: "int option"
  id_effectiveDate :: "string option"
  id_scheduledDepartureDate :: "string option"
  id_expectedArrivalDate :: "string option"
  id_dispatchedBy :: "string option"
  id_dispatchedAt :: "int option"
  id_receivedBy :: "string option"
  id_receivedAt :: "int option"

record inventory_document_item =
  di_id :: string
  di_docId :: string
  di_stockItemId :: string
  di_fromLocationId :: "string option"
  di_toLocationId :: "string option"
  di_quantity :: int
  di_wasteQty :: rat
  di_unitCost :: "rat option"

record inventory_row =
  in_warehouseId :: string
  in_stockItemId :: string
  in_locationId :: "string option"
  in_onHand :: int
  in_reserved :: int
  in_available :: "int option"

record ledger_entry =
  le_docId :: string
  le_docItemId :: "string option"
  le_warehouseId :: string
  le_locationId :: "string option"
  le_stockItemId :: string
  le_direction :: direction
  le_quantity :: int
  le_wasteQty :: "rat option"
  le_unitCost :: "rat option"

section \<open>Workflow history and executions\<close>

record state_history =
  sh_id :: string
  sh_saleOrderId :: string
  sh_workflowId :: string
  sh_transitionId :: "string option"
  sh_fromStateId :: "string option"
  sh_toStateId :: string
  sh_executedBy :: "string option"
  sh_executedAt :: int
  sh_metadata :: "(string \<times> json) list option"

record action_execution =
  ae_id :: string
  ae_saleOrderId :: string
  ae_transitionId :: "string option"
  ae_actionId :: "string option"
  ae_actionType :: string
  ae_idempotencyKey :: string
  ae_status :: execution_status
  ae_attempts :: int
  ae_evidence :: "(string \<times> json) list option"
  ae_error :: "(string \<times> json) list option"
  ae_startedAt :: int
  ae_completedAt :: "int option"
  ae_createdAt :: int
  ae_updatedAt :: int

end
