(* ===== verification/WorkflowConditions.thy ===== *)
theory WorkflowConditions
  imports WorkflowModel
begin

text \<open>
  The conditions of a transition (\<open>src/modules/workflow/domain/conditions\<close>), the
  factory that builds them from their stored configuration
  (\<open>domain/factories/condition.factory.ts\<close>) and the engine that decides whether a
  transition is allowed (\<open>domain/services/workflow-engine.ts\<close>).

  A condition object is a value of the datatype \<open>condition\<close>, one constructor per class;
  \<open>evaluate\<close> is its method. \<open>new Date(raw)\<close> on an arbitrary string is left to the
  implementation by the language, so it is the argument \<open>parse_date\<close>.
\<close>

section \<open>Conditions\<close>

record workflow_context =
  cx_orderId :: string
  cx_isPaid :: bool
  cx_hasStock :: bool
  cx_isCancelled :: bool
  cx_invoiceSent :: bool
  cx_currentDate :: "int option"
  cx_variables :: config

datatype delivery_date_window_rule =
    Before rat
  | After rat
  | Legacy rat rat

datatype condition =
    IsPaidCondition
  | IsNotPaidCondition
  | HasStockCondition
  | NotCancelledCondition
  | DateAfterCondition int
  | DateBeforeCondition int
  | InvoiceSentCondition
  | ScheduleDeliveryWindowCondition delivery_date_window_rule
  | SaleOrderFieldRequiredCondition string

record condition_evaluation =
  ev_passed :: bool
  ev_type :: string
  ev_reason :: "string option"
  ev_details :: "(string \<times> json) list"

definition passed_evaluation :: "string \<Rightarrow> condition_evaluation" where
  "passed_evaluation ty = \<lparr>ev_passed = True, ev_type = ty, ev_reason = None, ev_details = []\<rparr>"

definition failed_evaluation :: "string \<Rightarrow> string \<Rightarrow> condition_evaluation" where
  "failed_evaluation ty reason =
     \<lparr>ev_passed = False, ev_type = ty, ev_reason = Some reason, ev_details = []\<rparr>"

definition evaluation :: "bool \<Rightarrow> string \<Rightarrow> string \<Rightarrow> condition_evaluation" where
  "evaluation ok ty reason = (if ok then passed_evaluation ty else failed_evaluation ty reason)"

text \<open>The fields of a sale order that a condition can require: value, label, reason.\<close>

definition SALE_ORDER_FIELD_OPTIONS :: "(string \<times> string \<times> string) list" where
  "SALE_ORDER_FIELD_OPTIONS =
     [(''client.docNumber'', ''Cliente tiene DNI'', ''DNI requerido''),
      (''client.address'', ''Cliente tiene direccion'',
       ''Direcci'' @ [CHR 0xF3] @ ''n de cliente requerida''),
      (''client.departmentId'', ''Cliente tiene departamento'', ''Departamento requerido''),
      (''client.provinceId'', ''Cliente tiene provincia'', ''Provincia requerido''),
      (''client.districtId'', ''Cliente tiene distrito'', ''Distrito requerido''),
      (''client.reference'', ''Cliente tiene referencia'', ''Referencia requerida''),
      (''deliveryDate'', ''Pedido tiene fecha de entrega'', ''Fecha de entrega requerida''),
      (''scheduleDate'', ''Pedido tiene fecha de agenda'', ''Fecha de agenda requerida''),
      (''warehouseId'', ''Pedido tiene almacen'', ''Almacen requerido''),
      (''sourceId'', ''Pedido tiene enganche'', ''Enganche requerido''),
      (''agencyDetail'', ''Pedido tiene agencia'', ''Agencia requerida''),
      (''note'', ''Pedido tiene nota'', ''Nota requerida'')]"

fun isSaleOrderFieldValue :: "json \<Rightarrow> bool" where
  "isSaleOrderFieldValue (JStr s) = (s \<in> set (map fst SALE_ORDER_FIELD_OPTIONS))"
| "isSaleOrderFieldValue _ = False"

fun isPresentSaleOrderFieldValue :: "json \<Rightarrow> bool" where
  "isPresentSaleOrderFieldValue JNull = False"
| "isPresentSaleOrderFieldValue JUndefined = False"
| "isPresentSaleOrderFieldValue (JStr s) = (0 < length (js_trim s))"
| "isPresentSaleOrderFieldValue _ = True"

definition getSaleOrderFieldOption :: "string \<Rightarrow> (string \<times> string) option" where
  "getSaleOrderFieldOption value = map_of SALE_ORDER_FIELD_OPTIONS value"

definition field_required_evaluation :: "string \<Rightarrow> workflow_context \<Rightarrow> condition_evaluation" where
  "field_required_evaluation field cx =
     (let currentValue = js_get (cx_variables cx) field;
          option = getSaleOrderFieldOption field
      in if isPresentSaleOrderFieldValue currentValue
         then passed_evaluation ''SALE_ORDER_FIELD_REQUIRED''
         else \<lparr>ev_passed = False, ev_type = ''SALE_ORDER_FIELD_REQUIRED'',
               ev_reason = Some (case option of
                 Some (label, reason) \<Rightarrow> reason
               | None \<Rightarrow> ''El campo requerido del pedido no esta completo''),
               ev_details =
                 [(''field'', JStr field),
                  (''label'', JStr (case option of Some (label, reason) \<Rightarrow> label | None \<Rightarrow> field)),
                  (''missing'', JBool True), (''currentValue'', currentValue)]\<rparr>)"

subsection \<open>The delivery window\<close>

text \<open>
  \<open>parseDateOnly\<close>: a date-only string is the instant of its midnight. The parser of the
  runtime takes any day from 1 to 31 of a month and carries a day beyond the month over.
\<close>

fun parseDateOnly :: "json \<Rightarrow> int option" where
  "parseDateOnly (JStr s) =
     (case date_only_parts s of
        None \<Rightarrow> None
      | Some (y, m, d) \<Rightarrow>
          if 1 \<le> m \<and> m \<le> 12 \<and> 1 \<le> d \<and> d \<le> 31 then Some (make_day y (m - 1) d * ms_per_day)
          else None)"
| "parseDateOnly _ = None"

text \<open>
  \<open>currentDateOnly\<close>: the calendar day of an instant in America/Lima, five hours behind UTC
  (the zone has had no daylight saving time since 1994), formatted with a year of its natural
  width (counted backwards before the year 1) and parsed again, so a year of fewer or more
  than four digits is rejected.
\<close>

definition currentDateOnly :: "int option \<Rightarrow> int option" where
  "currentDateOnly date =
     (case date of
        None \<Rightarrow> None
      | Some t \<Rightarrow>
          (let z = day_of_instant (t - 5 * 3600000); y = year_from_day z
           in parseDateOnly (JStr (nat_string (nat (if y \<le> 0 then 1 - y else y)) @ ''-'' @
                pad_digits 2 (nat_string (nat (month_of_day z + 1))) @ ''-'' @
                pad_digits 2 (nat_string (nat (date_of_day z)))))))"

fun evaluateRule :: "delivery_date_window_rule \<Rightarrow> rat \<Rightarrow> bool" where
  "evaluateRule (Before days) daysAfterDelivery = (daysAfterDelivery \<ge> - days)"
| "evaluateRule (After days) daysAfterDelivery = (daysAfterDelivery \<ge> days)"
| "evaluateRule (Legacy minDaysBefore maxDaysBefore) daysAfterDelivery =
     (let daysBeforeDelivery = - daysAfterDelivery
      in daysBeforeDelivery < 0 \<or>
         (daysBeforeDelivery \<ge> minDaysBefore \<and> daysBeforeDelivery \<le> maxDaysBefore))"

definition delivery_window_evaluation ::
  "delivery_date_window_rule \<Rightarrow> workflow_context \<Rightarrow> condition_evaluation" where
  "delivery_window_evaluation rule cx =
     (case (currentDateOnly (cx_currentDate cx), parseDateOnly (js_get (cx_variables cx) ''deliveryDate'')) of
        (Some scheduleDate, Some deliveryDate) \<Rightarrow>
          evaluation (evaluateRule rule (of_int (scheduleDate - deliveryDate) / of_int ms_per_day))
            ''SCHEDULE_DELIVERY_WINDOW'' ''La fecha de agenda esta fuera del rango de entrega''
      | _ \<Rightarrow> failed_evaluation ''SCHEDULE_DELIVERY_WINDOW''
               ''La fecha de agenda o entrega es invalida'')"

subsection \<open>The conditions on a context\<close>

definition is_paid_evaluation :: "workflow_context \<Rightarrow> condition_evaluation" where
  "is_paid_evaluation cx =
     evaluation (cx_isPaid cx) ''IS_PAID'' ''El pedido no esta pagado''"

definition is_not_paid_evaluation :: "workflow_context \<Rightarrow> condition_evaluation" where
  "is_not_paid_evaluation cx =
     evaluation (\<not> cx_isPaid cx) ''IS_NOT_PAID'' ''El pedido ya esta pagado''"

definition has_stock_evaluation :: "workflow_context \<Rightarrow> condition_evaluation" where
  "has_stock_evaluation cx =
     evaluation (cx_hasStock cx) ''HAS_STOCK'' ''El pedido no tiene stock suficiente''"

definition not_cancelled_evaluation :: "workflow_context \<Rightarrow> condition_evaluation" where
  "not_cancelled_evaluation cx =
     evaluation (\<not> cx_isCancelled cx) ''NOT_CANCELLED'' ''El pedido ya fue cancelado''"

definition invoice_sent_evaluation :: "workflow_context \<Rightarrow> condition_evaluation" where
  "invoice_sent_evaluation cx =
     evaluation (cx_invoiceSent cx) ''INVOICE_SENT'' ''El comprobante no ha sido enviado''"

text \<open>A comparison with an invalid date is false.\<close>

definition date_after_evaluation :: "int \<Rightarrow> workflow_context \<Rightarrow> condition_evaluation" where
  "date_after_evaluation threshold cx =
     evaluation (case cx_currentDate cx of None \<Rightarrow> False | Some t \<Rightarrow> t \<ge> threshold)
       ''DATE_AFTER'' ''La fecha actual aun no supera el umbral''"

definition date_before_evaluation :: "int \<Rightarrow> workflow_context \<Rightarrow> condition_evaluation" where
  "date_before_evaluation threshold cx =
     evaluation (case cx_currentDate cx of None \<Rightarrow> False | Some t \<Rightarrow> t \<le> threshold)
       ''DATE_BEFORE'' ''La fecha actual ya supero el umbral''"

fun evaluate :: "condition \<Rightarrow> workflow_context \<Rightarrow> condition_evaluation" where
  "evaluate IsPaidCondition cx = is_paid_evaluation cx"
| "evaluate IsNotPaidCondition cx = is_not_paid_evaluation cx"
| "evaluate HasStockCondition cx = has_stock_evaluation cx"
| "evaluate NotCancelledCondition cx = not_cancelled_evaluation cx"
| "evaluate (DateAfterCondition threshold) cx = date_after_evaluation threshold cx"
| "evaluate (DateBeforeCondition threshold) cx = date_before_evaluation threshold cx"
| "evaluate InvoiceSentCondition cx = invoice_sent_evaluation cx"
| "evaluate (ScheduleDeliveryWindowCondition rule) cx = delivery_window_evaluation rule cx"
| "evaluate (SaleOrderFieldRequiredCondition field) cx = field_required_evaluation field cx"

section \<open>The factory\<close>

fun parseDateConfig :: "(string \<Rightarrow> int option) \<Rightarrow> config \<Rightarrow> string + int" where
  "parseDateConfig parse_date cfg =
     (case js_get cfg ''date'' of
        JStr raw \<Rightarrow>
          (if raw = [] then Inl ''Config de fecha invalida''
           else case parse_date raw of
                  None \<Rightarrow> Inl ''Config de fecha invalida''
                | Some t \<Rightarrow> Inr t)
      | _ \<Rightarrow> Inl ''Config de fecha invalida'')"

fun parseNonNegativeInteger :: "json \<Rightarrow> string \<Rightarrow> string + rat" where
  "parseNonNegativeInteger (JNum r) field =
     (if \<not> js_is_integer r \<or> r < 0 then Inl (''Config '' @ field @ '' invalida'') else Inr r)"
| "parseNonNegativeInteger _ field = Inl (''Config '' @ field @ '' invalida'')"

definition parseDeliveryDateWindowRule :: "config \<Rightarrow> string + delivery_date_window_rule" where
  "parseDeliveryDateWindowRule cfg =
     (if js_get cfg ''mode'' = JStr ''BEFORE'' then
        (case parseNonNegativeInteger (js_get cfg ''days'') ''days'' of
           Inl e \<Rightarrow> Inl e | Inr d \<Rightarrow> Inr (Before d))
      else if js_get cfg ''mode'' = JStr ''AFTER'' then
        (case parseNonNegativeInteger (js_get cfg ''days'') ''days'' of
           Inl e \<Rightarrow> Inl e | Inr d \<Rightarrow> Inr (After d))
      else
        (case parseNonNegativeInteger (js_get cfg ''minDaysBefore'') ''minDaysBefore'' of
           Inl e \<Rightarrow> Inl e
         | Inr lo \<Rightarrow>
             (case parseNonNegativeInteger (js_get cfg ''maxDaysBefore'') ''maxDaysBefore'' of
                Inl e \<Rightarrow> Inl e | Inr hi \<Rightarrow> Inr (Legacy lo hi))))"

fun parseSaleOrderField :: "json \<Rightarrow> string + string" where
  "parseSaleOrderField (JStr s) =
     (if isSaleOrderFieldValue (JStr s) then Inr s else Inl ''Config field invalida'')"
| "parseSaleOrderField _ = Inl ''Config field invalida''"

fun condition_create ::
  "(string \<Rightarrow> int option) \<Rightarrow> condition_type \<Rightarrow> config \<Rightarrow> string + condition" where
  "condition_create pd IS_PAID cfg = Inr IsPaidCondition"
| "condition_create pd IS_NOT_PAID cfg = Inr IsNotPaidCondition"
| "condition_create pd HAS_STOCK cfg = Inr HasStockCondition"
| "condition_create pd NOT_CANCELLED cfg = Inr NotCancelledCondition"
| "condition_create pd DATE_AFTER cfg =
     (case parseDateConfig pd cfg of Inl e \<Rightarrow> Inl e | Inr t \<Rightarrow> Inr (DateAfterCondition t))"
| "condition_create pd DATE_BEFORE cfg =
     (case parseDateConfig pd cfg of Inl e \<Rightarrow> Inl e | Inr t \<Rightarrow> Inr (DateBeforeCondition t))"
| "condition_create pd INVOICE_SENT cfg = Inr InvoiceSentCondition"
| "condition_create pd SCHEDULE_DELIVERY_WINDOW cfg =
     (case parseDeliveryDateWindowRule cfg of
        Inl e \<Rightarrow> Inl e | Inr r \<Rightarrow> Inr (ScheduleDeliveryWindowCondition r))"
| "condition_create pd SALE_ORDER_FIELD_REQUIRED cfg =
     (case parseSaleOrderField (js_get cfg ''field'') of
        Inl e \<Rightarrow> Inl e | Inr f \<Rightarrow> Inr (SaleOrderFieldRequiredCondition f))"
| "condition_create pd (OTHER_CONDITION s) cfg = Inl ''Condicion de workflow no soportada''"

fun create_conditions ::
  "(string \<Rightarrow> int option) \<Rightarrow> workflow_condition list \<Rightarrow> string + condition list" where
  "create_conditions pd [] = Inr []"
| "create_conditions pd (c # cs) =
     (case condition_create pd (wc_type c) (wc_config c) of
        Inl e \<Rightarrow> Inl e
      | Inr k \<Rightarrow> (case create_conditions pd cs of Inl e \<Rightarrow> Inl e | Inr ks \<Rightarrow> Inr (k # ks)))"

section \<open>The engine\<close>

record transition_decision =
  td_allowed :: bool
  td_failures :: "condition_evaluation list"

definition denied :: "string \<Rightarrow> string \<Rightarrow> transition_decision" where
  "denied ty reason = \<lparr>td_allowed = False, td_failures = [failed_evaluation ty reason]\<rparr>"

definition evaluateConditions ::
  "condition list \<Rightarrow> workflow_context \<Rightarrow> condition_evaluation list" where
  "evaluateConditions conditions cx = map (\<lambda>c. evaluate c cx) conditions"

definition canTransition ::
  "workflow \<Rightarrow> workflow_state \<Rightarrow> workflow_transition \<Rightarrow> condition list \<Rightarrow> workflow_context \<Rightarrow>
   workflow_state option \<Rightarrow> transition_decision" where
  "canTransition flow currentState transition conditions cx toState =
     (if \<not> wf_isActive flow then denied ''WORKFLOW_INACTIVE'' ''Workflow inactivo''
      else if \<not> ws_isActive currentState
        then denied ''CURRENT_STATE_INACTIVE'' ''Estado actual inactivo''
      else if \<not> wt_isActive transition then denied ''TRANSITION_INACTIVE'' ''Transicion inactiva''
      else if ws_workflowId currentState \<noteq> wf_id flow \<or> wt_workflowId transition \<noteq> wf_id flow
        then denied ''WORKFLOW_MISMATCH'' ''La transicion no pertenece al workflow''
      else if wt_isGlobal transition \<and> ws_id currentState \<in> set (wt_excludedStateIds transition)
        then denied ''STATE_EXCLUDED'' ''Transicion no disponible desde el estado actual''
      else if \<not> wt_isGlobal transition \<and> wt_fromStateId transition \<noteq> Some (ws_id currentState)
        then denied ''STATE_MISMATCH'' ''La transicion no sale del estado actual''
      else if (case toState of None \<Rightarrow> False | Some t \<Rightarrow> \<not> ws_isActive t)
        then denied ''TARGET_STATE_INACTIVE'' ''El estado destino esta inactivo''
      else let failures = filter (\<lambda>e. \<not> ev_passed e) (evaluateConditions conditions cx)
           in \<lparr>td_allowed = (failures = []), td_failures = failures\<rparr>)"

definition getAvailableTransitions ::
  "workflow_transition list \<Rightarrow> (string \<rightharpoonup> transition_decision) \<Rightarrow> workflow_transition list" where
  "getAvailableTransitions transitions evaluations =
     filter (\<lambda>t. case evaluations (wt_id t) of None \<Rightarrow> False | Some d \<Rightarrow> td_allowed d) transitions"

section \<open>Facts\<close>

lemma ev_passed_simps [simp]:
  "ev_passed (passed_evaluation ty)" "\<not> ev_passed (failed_evaluation ty reason)"
  "ev_passed (evaluation ok ty reason) = ok"
  by (simp_all add: passed_evaluation_def failed_evaluation_def evaluation_def)

lemma denied_not_allowed [simp]: "\<not> td_allowed (denied ty reason)"
  by (simp add: denied_def)

lemma denied_failures [simp]: "td_failures (denied ty reason) \<noteq> []"
  by (simp add: denied_def)

text \<open>The reach of a transition: which states it leaves from.\<close>

definition leaves_from :: "workflow_transition \<Rightarrow> string \<Rightarrow> bool" where
  "leaves_from t s \<longleftrightarrow>
     (if wt_isGlobal t then s \<notin> set (wt_excludedStateIds t) else wt_fromStateId t = Some s)"

lemma leaves_from_simps:
  "wt_isGlobal t \<Longrightarrow> leaves_from t s \<longleftrightarrow> s \<notin> set (wt_excludedStateIds t)"
  "\<not> wt_isGlobal t \<Longrightarrow> leaves_from t s \<longleftrightarrow> wt_fromStateId t = Some s"
  by (simp_all add: leaves_from_def)

lemma canTransition_allowed:
  "td_allowed (canTransition flow cur t cs cx toState) \<longleftrightarrow>
     wf_isActive flow \<and> ws_isActive cur \<and> wt_isActive t \<and>
     ws_workflowId cur = wf_id flow \<and> wt_workflowId t = wf_id flow \<and>
     leaves_from t (ws_id cur) \<and>
     pred_option ws_isActive toState \<and> list_all (\<lambda>c. ev_passed (evaluate c cx)) cs"
  by (auto simp: list_all_iff canTransition_def leaves_from_def evaluateConditions_def filter_empty_conv Let_def
      split: option.splits)

text \<open>
  C18. The engine allows a transition exactly when the workflow, the current state and the
  transition are active and belong together, the transition leaves from the current state,
  its target is active, and every condition holds.
\<close>

theorem canTransition_allowed_iff:
  "td_allowed (canTransition flow cur t cs cx toState) \<longleftrightarrow>
     wf_isActive flow \<and> ws_isActive cur \<and> wt_isActive t \<and>
     ws_workflowId cur = wf_id flow \<and> wt_workflowId t = wf_id flow \<and>
     leaves_from t (ws_id cur) \<and>
     pred_option ws_isActive toState \<and> list_all (\<lambda>c. ev_passed (evaluate c cx)) cs"
  by (rule canTransition_allowed)

text \<open>
  A refusal always carries at least one reason, and every reason it carries is a failed
  evaluation.
\<close>

theorem canTransition_denied_reason:
  "\<not> td_allowed (canTransition flow cur t cs cx toState) \<Longrightarrow>
   td_failures (canTransition flow cur t cs cx toState) \<noteq> [] \<and>
   (\<forall>e \<in> set (td_failures (canTransition flow cur t cs cx toState)). \<not> ev_passed e)"
  by (auto simp: canTransition_def Let_def denied_def split: option.splits if_splits)

theorem canTransition_denied_reason_witness:
  "td_failures (canTransition example_flow (example_state ''b'' 1)
     (example_transition ''ab'' ''a'' ''b'') [] undefined None) \<noteq> []"
proof -
  have "\<not> td_allowed (canTransition example_flow (example_state ''b'' 1)
      (example_transition ''ab'' ''a'' ''b'') [] undefined None)"
    by (simp add: canTransition_def example_flow_def new_workflow_def example_state_def
        example_transition_def js_trim_def)
  from canTransition_denied_reason [OF this] show ?thesis by blast
qed

lemma currentDateOnly_day:
  assumes "1000 \<le> year_from_day z" "year_from_day z \<le> 9999"
    and "z = day_of_instant (t - 5 * 3600000)"
  shows "currentDateOnly (Some t) = Some (z * ms_per_day)"
proof -
  have m: "1 \<le> month_of_day z + 1" "month_of_day z + 1 \<le> 12" "1 \<le> date_of_day z" "date_of_day z \<le> 31"
    using civil_ranges [of z] by linarith+
  have y: "(if year_from_day z \<le> 0 then 1 - year_from_day z else year_from_day z) = year_from_day z"
    using assms(1) by simp
  show ?thesis
    unfolding currentDateOnly_def option.case Let_def assms(3) [symmetric] y parseDateOnly.simps
      date_only_parts_day [OF assms(1,2)]
    using m make_day_of_civil [of z] by simp
qed

lemma parseDateOnly_valid:
  assumes "date_only_parts s = Some (y, m + 1, d)" "valid_date y m d"
  shows "parseDateOnly (JStr s) = Some (make_day y m d * ms_per_day)"
proof -
  have "1 \<le> m + 1" "m + 1 \<le> 12" "1 \<le> d" "d \<le> 31"
    using assms(2) days_in_month_bounds [of m "is_leap y"] by (auto simp: valid_date_def)
  then show ?thesis using assms(1) by simp
qed

text \<open>
  The delivery window compares calendar days of Lima: with the delivery date a real
  calendar date, \<open>BEFORE n\<close> passes from \<open>n\<close> days before the delivery on, \<open>AFTER n\<close> from
  \<open>n\<close> days after it on, and the legacy rule between the two numbers of days before it, or
  at any time after it.
\<close>

theorem delivery_window_in_days:
  assumes "cx_currentDate cx = Some t" "today = day_of_instant (t - 5 * 3600000)"
    and "1000 \<le> year_from_day today" "year_from_day today \<le> 9999"
    and "js_get (cx_variables cx) ''deliveryDate'' = JStr s"
    and "date_only_parts s = Some (y, m + 1, d)" "valid_date y m d"
    and "delivery = make_day y m d"
  shows "ev_passed (evaluate (ScheduleDeliveryWindowCondition rule) cx) \<longleftrightarrow>
    (case rule of
       Before n \<Rightarrow> of_int (delivery - today) \<le> n
     | After n \<Rightarrow> n \<le> of_int (today - delivery)
     | Legacy lo hi \<Rightarrow> delivery < today \<or>
         (lo \<le> of_int (delivery - today) \<and> of_int (delivery - today) \<le> hi))"
proof -
  have days: "(of_int (today * ms_per_day - delivery * ms_per_day) :: rat) / of_int ms_per_day =
      of_int (today - delivery)"
    by (simp add: ms_per_day_def)
  have "parseDateOnly (JStr s) = Some (delivery * ms_per_day)"
    unfolding assms(8) by (rule parseDateOnly_valid [OF assms(6,7)])
  then have "ev_passed (evaluate (ScheduleDeliveryWindowCondition rule) cx) =
      evaluateRule rule (of_int (today - delivery))"
    using currentDateOnly_day [OF assms(3,4,2)] days
    by (simp add: delivery_window_evaluation_def assms(1,5) del: of_int_diff)
  then show ?thesis by (cases rule) (auto simp: Let_def)
qed

theorem delivery_window_in_days_witness:
  "\<exists>cx. cx_currentDate cx = Some 1709182800000 \<and>
     js_get (cx_variables cx) ''deliveryDate'' = JStr ''2024-03-01'' \<and>
     ev_passed (evaluate (ScheduleDeliveryWindowCondition (Before 1)) cx)"
proof -
  define cx where "cx = \<lparr>cx_orderId = ''o'', cx_isPaid = False, cx_hasStock = False,
    cx_isCancelled = False, cx_invoiceSent = False, cx_currentDate = Some 1709182800000,
    cx_variables = [(''deliveryDate'', JStr ''2024-03-01'')]\<rparr>"
  have today: "19782 = day_of_instant (1709182800000 - 5 * 3600000)"
    by (simp add: day_of_instant_def ms_per_day_def)
  have date: "date_only_parts ''2024-03-01'' = Some (2024, 2 + 1, 1)"
    by (simp add: is_digit_def digits_value_def digit_value_def)
  have valid: "valid_date 2024 2 1"
    by (simp add: valid_date_def days_in_month_def month_start_def is_leap_def)
  have delivery: "19783 = make_day 2024 2 1"
    by (simp add: make_day_def day_from_year_def month_start_def is_leap_def)
  have "19782 = make_day 2024 1 29" "valid_date 2024 1 29"
    by (simp_all add: make_day_def day_from_year_def month_start_def is_leap_def valid_date_def
        days_in_month_def)
  then have year: "year_from_day 19782 = 2024" using civil_of_make_day(1) by metis
  have "ev_passed (evaluate (ScheduleDeliveryWindowCondition (Before 1)) cx)"
    using delivery_window_in_days [of cx 1709182800000 19782 "''2024-03-01''" 2024 2 1 19783 "Before 1"]
      today date valid delivery year by (simp add: cx_def js_get_def)
  then show ?thesis by (intro exI [of _ cx]) (simp add: cx_def js_get_def)
qed

end
