(* ===== verification/Store.thy ===== *)
theory Store
  imports Entities WorkflowConditions
begin

text \<open>
  The state the services work on: the tables of the database as lists of rows in the order of
  their creation, and the repositories of
  \<open>src/modules/*/adapters/out/persistence/typeorm/repositories\<close> that the workflow
  services call, one definition per method. The tables a transition only reads form the record
  \<open>catalog\<close>; the tables it writes are the fields of \<open>world\<close>. The rows are the
  records of \<open>Entities\<close>. Row locks and advisory locks have no
  effect on the state; the model is one transaction at a time.

  Quantities are exact rationals; the columns that are integers in the database are integers
  here, and a save that the database rejects is the error \<open>QueryFailed\<close>. Generated
  identifiers are drawn from the supply \<open>c_uuid\<close>.
\<close>

section \<open>Errors\<close>

datatype action_failure =
    ConditionFailed string "condition_evaluation list"
  | ActionFailed string "action_type list"

datatype app_error =
    BadRequestException string
  | NotFoundException string
  | ConflictException string
  | UnprocessableEntityException string action_failure
  | PlainError string
  | QueryFailed

section \<open>The state\<close>

record inventory_balance =
  ba_warehouseId :: string
  ba_stockItemId :: string
  ba_locationId :: "string option"
  ba_onHand :: rat
  ba_reserved :: rat
  ba_available :: rat

record catalog =
  c_items :: "sale_order_item list"
  c_components :: "sale_order_item_component list"
  c_supplies :: "sale_order_supply_item list"
  c_stockItems :: "stock_item list"
  c_skus :: "sku list"
  c_products :: "product list"
  c_productions :: "production_order list"
  c_productionItems :: "production_order_item list"
  c_recipes :: "recipe list"
  c_recipeItems :: "recipe_item list"
  c_clients :: "client list"
  c_warehouses :: "warehouse list"
  c_payments :: "sale_payment list"
  c_allocations :: "sale_payment_allocation list"
  c_workflows :: "workflow list"
  c_states :: "workflow_state list"
  c_transitions :: "workflow_transition list"
  c_conditions :: "workflow_condition list"
  c_actions :: "workflow_action list"
  c_uuid :: "nat \<Rightarrow> string"
  c_now :: int

record world =
  w_catalog :: catalog
  w_orders :: "sale_order list"
  w_inventory :: "inventory_row list"
  w_documents :: "inventory_document list"
  w_documentItems :: "inventory_document_item list"
  w_series :: "document_serie list"
  w_ledger :: "ledger_entry list"
  w_history :: "state_history list"
  w_executions :: "action_execution list"
  w_next :: nat

type_synonym 'a service = "(world, app_error, 'a) action"

definition fresh_id :: "string service" where
  "fresh_id s = Inr (c_uuid (w_catalog s) (w_next s), s\<lparr>w_next := Suc (w_next s)\<rparr>)"

definition now :: "int service" where
  "now = sreads (\<lambda>s. c_now (w_catalog s))"

definition option_json :: "string option \<Rightarrow> json" where
  "option_json v = (case v of None \<Rightarrow> JNull | Some t \<Rightarrow> JStr t)"

section \<open>Sale orders\<close>

definition findByIdForUpdate :: "string \<Rightarrow> sale_order option service" where
  "findByIdForUpdate i = sreads (\<lambda>s. find_by so_id i (w_orders s))"

definition update_order :: "string \<Rightarrow> (sale_order \<Rightarrow> sale_order) \<Rightarrow> unit service" where
  "update_order i f = smodify (\<lambda>s. s\<lparr>w_orders := update_where (\<lambda>o'. so_id o' = i) f (w_orders s)\<rparr>)"

definition assignWarehouseIfEmpty :: "string \<Rightarrow> string \<Rightarrow> sale_order option service" where
  "assignWarehouseIfEmpty i warehouseId =
     sbind (sreads (\<lambda>s. \<exists>o' \<in> set (w_orders s). so_id o' = i \<and> so_warehouseId o' = None))
       (\<lambda>affected.
         sthen (update_order i (\<lambda>o'. if so_warehouseId o' = None
                                     then o'\<lparr>so_warehouseId := Some warehouseId\<rparr> else o'))
           (if affected then findByIdForUpdate i else sreturn None))"

definition markInvoiceSent :: "string \<Rightarrow> unit service" where
  "markInvoiceSent i = update_order i (\<lambda>o'. o'\<lparr>so_invoiceSend := True\<rparr>)"

definition markPreguide :: "string \<Rightarrow> unit service" where
  "markPreguide i = update_order i (\<lambda>o'. o'\<lparr>so_preguide := True\<rparr>)"

definition markPrepared :: "string \<Rightarrow> unit service" where
  "markPrepared i = update_order i (\<lambda>o'. o'\<lparr>so_prepared := True\<rparr>)"

definition unmarkPreguide :: "string \<Rightarrow> unit service" where
  "unmarkPreguide i = update_order i (\<lambda>o'. o'\<lparr>so_preguide := False\<rparr>)"

definition unmarkPrepared :: "string \<Rightarrow> unit service" where
  "unmarkPrepared i = update_order i (\<lambda>o'. o'\<lparr>so_prepared := False\<rparr>)"

definition setReserveBool :: "string \<Rightarrow> bool \<Rightarrow> unit service" where
  "setReserveBool i b = update_order i (\<lambda>o'. o'\<lparr>so_reserveBool := b\<rparr>)"

definition markStockReverted :: "string \<Rightarrow> unit service" where
  "markStockReverted i = update_order i (\<lambda>o'. o'\<lparr>so_stockRevertedBool := True\<rparr>)"

text \<open>The workflow of the order is left alone; the state may be set to null.\<close>

definition updateWorkflowState :: "string \<Rightarrow> string option \<Rightarrow> sale_order service" where
  "updateWorkflowState i currentStateId =
     sbind (sreads (\<lambda>s. find_by so_id i (w_orders s))) (\<lambda>row.
       case row of
         None \<Rightarrow> sthrow (PlainError ''Pedido no encontrado'')
       | Some o' \<Rightarrow>
           sthen (update_order i (\<lambda>o'. o'\<lparr>so_currentStateId := currentStateId\<rparr>))
             (sreturn (o'\<lparr>so_currentStateId := currentStateId\<rparr>)))"

section \<open>Inventory\<close>

definition int32 :: "int \<Rightarrow> bool" where
  "int32 i \<longleftrightarrow> - (2 ^ 31) \<le> i \<and> i < 2 ^ 31"

text \<open>A number stored in an integer column: the database rejects fractions and overflow.\<close>

definition int_column :: "rat \<Rightarrow> app_error + int" where
  "int_column r = (if js_is_integer r \<and> int32 \<lfloor>r\<rfloor> then Inr \<lfloor>r\<rfloor> else Inl QueryFailed)"

definition inventory_key :: "string \<Rightarrow> string \<Rightarrow> inventory_row \<Rightarrow> bool" where
  "inventory_key w i row \<longleftrightarrow> in_warehouseId row = w \<and> in_stockItemId row = i"

definition inventory_row_of :: "string \<Rightarrow> string \<Rightarrow> inventory_row list \<Rightarrow> inventory_row option" where
  "inventory_row_of w i rows = List.find (inventory_key w i) rows"

definition toBalance :: "inventory_row \<Rightarrow> inventory_balance" where
  "toBalance row = \<lparr>ba_warehouseId = in_warehouseId row, ba_stockItemId = in_stockItemId row,
     ba_locationId = in_locationId row, ba_onHand = of_int (in_onHand row),
     ba_reserved = of_int (in_reserved row),
     ba_available = of_int (or_default (in_available row) (in_onHand row - in_reserved row))\<rparr>"

text \<open>The outer option of the location is an argument left out.\<close>

definition getSnapshot ::
  "string \<Rightarrow> string \<Rightarrow> string option option \<Rightarrow> inventory_balance option service" where
  "getSnapshot w i loc = sreads (\<lambda>s.
     case inventory_row_of w i (w_inventory s) of
       None \<Rightarrow> None
     | Some row \<Rightarrow>
         if (case loc of None \<Rightarrow> False | Some l \<Rightarrow> in_locationId row \<noteq> l) then None
         else Some (toBalance row))"

definition validateInventoryBalance :: "rat \<Rightarrow> rat \<Rightarrow> unit service" where
  "validateInventoryBalance onHand reserved =
     sguard (\<not> (onHand < 0 \<or> reserved < 0 \<or> onHand < reserved))
       (BadRequestException ''Balance de inventario invalido'')"

fun save_row :: "inventory_row \<Rightarrow> inventory_row list \<Rightarrow> inventory_row list" where
  "save_row r [] = [r]"
| "save_row r (row # rows) =
     (if inventory_key (in_warehouseId r) (in_stockItemId r) row then r # rows
      else row # save_row r rows)"

definition upsert :: "inventory_balance \<Rightarrow> inventory_balance service" where
  "upsert b =
     sbind (slift (int_column (ba_onHand b))) (\<lambda>onHand.
     sbind (slift (int_column (ba_reserved b))) (\<lambda>reserved.
     sbind (slift (int_column (ba_available b))) (\<lambda>available.
       (let row = \<lparr>in_warehouseId = ba_warehouseId b, in_stockItemId = ba_stockItemId b,
                   in_locationId = ba_locationId b, in_onHand = onHand, in_reserved = reserved,
                   in_available = Some available\<rparr>
        in sthen (smodify (\<lambda>s. s\<lparr>w_inventory := save_row row (w_inventory s)\<rparr>))
             (sreturn (toBalance row))))))"

definition empty_balance :: "string \<Rightarrow> string \<Rightarrow> string option \<Rightarrow> inventory_balance" where
  "empty_balance w i loc = \<lparr>ba_warehouseId = w, ba_stockItemId = i, ba_locationId = loc,
     ba_onHand = 0, ba_reserved = 0, ba_available = 0\<rparr>"

definition incrementReserved ::
  "string \<Rightarrow> string \<Rightarrow> string option \<Rightarrow> rat \<Rightarrow> inventory_balance service" where
  "incrementReserved w i loc delta =
     sbind (getSnapshot w i (Some loc)) (\<lambda>snapshot.
       (let current = or_default snapshot (empty_balance w i loc);
            reserved = ba_reserved current + delta; onHand = ba_onHand current
        in sthen (validateInventoryBalance onHand reserved)
             (upsert \<lparr>ba_warehouseId = w, ba_stockItemId = i, ba_locationId = loc,
                      ba_onHand = onHand, ba_reserved = reserved,
                      ba_available = onHand - reserved\<rparr>)))"

definition incrementOnHand ::
  "string \<Rightarrow> string \<Rightarrow> string option \<Rightarrow> rat \<Rightarrow> inventory_balance service" where
  "incrementOnHand w i loc delta =
     sbind (getSnapshot w i (Some loc)) (\<lambda>snapshot.
       (let current = or_default snapshot (empty_balance w i loc);
            onHand = ba_onHand current + delta
        in sthen (validateInventoryBalance onHand (ba_reserved current))
             (upsert \<lparr>ba_warehouseId = w, ba_stockItemId = i, ba_locationId = loc,
                      ba_onHand = onHand, ba_reserved = ba_reserved current,
                      ba_available = onHand - ba_reserved current\<rparr>)))"

end
