(* ===== verification/Repositories.thy ===== *)
theory Repositories
  imports Store
begin

text \<open>
  The other repositories of the workflow services: inventory documents, document series, the
  inventory ledger, the reading of orders' items, clients, payments and workflows, the
  history of an order and the log of executed actions, and the query that adds up what the
  active orders and productions have reserved.
\<close>

section \<open>Inventory documents, series, ledger\<close>

definition createDocument :: "inventory_document \<Rightarrow> inventory_document service" where
  "createDocument document =
     sbind fresh_id (\<lambda>i.
       (let saved = document\<lparr>id_id := i\<rparr>
        in sthen (smodify (\<lambda>s. s\<lparr>w_documents := w_documents s @ [saved]\<rparr>)) (sreturn saved)))"

text \<open>Newest first.\<close>

definition findByReference ::
  "reference_type \<Rightarrow> string \<Rightarrow> doc_type option \<Rightarrow> inventory_document list service" where
  "findByReference referenceType referenceId docType = sreads (\<lambda>s.
     rev (filter (\<lambda>d. id_referenceId d = Some referenceId \<and> id_referenceType d = Some referenceType \<and>
                      (docType = None \<or> docType = Some (id_docType d))) (w_documents s)))"

definition listItems :: "string \<Rightarrow> inventory_document_item list service" where
  "listItems docId = sreads (\<lambda>s. filter (\<lambda>i. di_docId i = docId) (w_documentItems s))"

definition addItem ::
  "string \<Rightarrow> string \<Rightarrow> rat \<Rightarrow> rat \<Rightarrow> string option \<Rightarrow> string option \<Rightarrow> rat option \<Rightarrow>
   inventory_document_item service" where
  "addItem docId stockItemId quantity wasteQty fromLocationId toLocationId unitCost =
     sbind (slift (int_column quantity)) (\<lambda>q.
     sbind fresh_id (\<lambda>i.
       (let saved = \<lparr>di_id = i, di_docId = docId, di_stockItemId = stockItemId,
                     di_fromLocationId = fromLocationId, di_toLocationId = toLocationId,
                     di_quantity = q, di_wasteQty = wasteQty, di_unitCost = unitCost\<rparr>
        in sthen (smodify (\<lambda>s. s\<lparr>w_documentItems := w_documentItems s @ [saved]\<rparr>))
             (sreturn saved))))"

definition markPosted :: "string \<Rightarrow> string option \<Rightarrow> int \<Rightarrow> unit service" where
  "markPosted docId postedBy postedAt =
     smodify (\<lambda>s. s\<lparr>w_documents := update_where (\<lambda>d. id_id d = docId)
       (\<lambda>d. d\<lparr>id_status := DOC_POSTED, id_postedBy := postedBy, id_postedAt := Some postedAt\<rparr>)
       (w_documents s)\<rparr>)"

definition findActiveFor :: "doc_type option \<Rightarrow> string \<Rightarrow> bool option \<Rightarrow> document_serie list service" where
  "findActiveFor docType warehouseId isActive = sreads (\<lambda>s.
     rev (filter (\<lambda>d. (docType = None \<or> docType = Some (ds_docType d)) \<and>
                      (warehouseId = [] \<or> ds_warehouseId d = warehouseId) \<and>
                      (isActive = None \<or> isActive = Some (ds_isActive d))) (w_series s)))"

definition reserveNextNumber :: "string \<Rightarrow> int service" where
  "reserveNextNumber serieId =
     sbind (sreads (\<lambda>s. find_by ds_id serieId (w_series s))) (\<lambda>row.
       case row of
         None \<Rightarrow> sthrow (PlainError ''Serie no encontrada o inactiva'')
       | Some d \<Rightarrow>
           if \<not> ds_isActive d then sthrow (PlainError ''Serie no encontrada o inactiva'')
           else sbind (slift (int_column (of_int (ds_nextNumber d + 1)))) (\<lambda>next_number.
             sthen (smodify (\<lambda>s. s\<lparr>w_series := update_where (\<lambda>d. ds_id d = serieId)
                      (\<lambda>d. d\<lparr>ds_nextNumber := next_number\<rparr>) (w_series s)\<rparr>))
               (sreturn (ds_nextNumber d))))"

record new_ledger_entry =
  ne_docId :: string
  ne_docItemId :: "string option"
  ne_warehouseId :: string
  ne_stockItemId :: string
  ne_direction :: direction
  ne_quantity :: rat
  ne_locationId :: "string option"
  ne_wasteQty :: "rat option"
  ne_unitCost :: "rat option"

definition ledger_row :: "new_ledger_entry \<Rightarrow> app_error + ledger_entry" where
  "ledger_row e = (case int_column (ne_quantity e) of
       Inl err \<Rightarrow> Inl err
     | Inr q \<Rightarrow> Inr \<lparr>le_docId = ne_docId e, le_docItemId = ne_docItemId e,
         le_warehouseId = ne_warehouseId e, le_locationId = ne_locationId e,
         le_stockItemId = ne_stockItemId e, le_direction = ne_direction e, le_quantity = q,
         le_wasteQty = Some (or_default (ne_wasteQty e) 0), le_unitCost = ne_unitCost e\<rparr>)"

primrec ledger_rows :: "new_ledger_entry list \<Rightarrow> app_error + ledger_entry list" where
  "ledger_rows [] = Inr []"
| "ledger_rows (e # es) = (case ledger_row e of Inl err \<Rightarrow> Inl err
     | Inr r \<Rightarrow> (case ledger_rows es of Inl err \<Rightarrow> Inl err | Inr rs \<Rightarrow> Inr (r # rs)))"

definition appendLedger :: "new_ledger_entry list \<Rightarrow> unit service" where
  "appendLedger entries =
     sbind (slift (ledger_rows entries))
       (\<lambda>rows. smodify (\<lambda>s. s\<lparr>w_ledger := w_ledger s @ rows\<rparr>))"

section \<open>Items, supplies, stock items, clients, warehouses, payments\<close>

definition listItemsBySaleOrderId :: "string \<Rightarrow> sale_order_item list service" where
  "listItemsBySaleOrderId i = sreads (\<lambda>s.
     filter (\<lambda>x. it_saleOrderId x = i) (c_items (w_catalog s)))"

definition listComponentsByItemIds :: "string list \<Rightarrow> sale_order_item_component list service" where
  "listComponentsByItemIds ids = sreads (\<lambda>s.
     if ids = [] then []
     else sort_key co_saleOrderItemId
       (filter (\<lambda>x. co_saleOrderItemId x \<in> set ids) (c_components (w_catalog s))))"

definition listSuppliesBySaleOrderId :: "string \<Rightarrow> sale_order_supply_item list service" where
  "listSuppliesBySaleOrderId i = sreads (\<lambda>s.
     filter (\<lambda>x. su_saleOrderId x = i) (c_supplies (w_catalog s)))"

definition findBySkuId :: "string \<Rightarrow> stock_item option service" where
  "findBySkuId skuId = sreads (\<lambda>s. find_by si_skuId skuId (c_stockItems (w_catalog s)))"

definition findClientById :: "string \<Rightarrow> client option service" where
  "findClientById i = sreads (\<lambda>s. find_by cl_id i (c_clients (w_catalog s)))"

definition findWarehouseById :: "string \<Rightarrow> warehouse option service" where
  "findWarehouseById i = sreads (\<lambda>s. find_by wh_id i (c_warehouses (w_catalog s)))"

definition listPaymentsBySaleOrderId :: "string \<Rightarrow> sale_payment list service" where
  "listPaymentsBySaleOrderId i = sreads (\<lambda>s.
     filter (\<lambda>p. sp_saleOrderId p = i) (c_payments (w_catalog s)))"

text \<open>
  What counts as paid for an order: the pending payments, and of the posted ones what is
  allocated to it, or all of them when nothing was ever allocated.
\<close>

definition operationalAppliedTotal :: "string \<Rightarrow> catalog \<Rightarrow> rat" where
  "operationalAppliedTotal i c =
     sum_list [sp_amount p. p \<leftarrow> c_payments c, sp_saleOrderId p = i, sp_status p = PENDING_CONFIRMATION] +
     (if \<exists>a \<in> set (c_allocations c). pa_saleOrderId a = i
      then sum_list [pa_amount a. a \<leftarrow> c_allocations c, pa_saleOrderId a = i,
             p \<leftarrow> c_payments c, sp_id p = pa_salePaymentId a, sp_status p = PAYMENT_POSTED]
      else sum_list [sp_amount p. p \<leftarrow> c_payments c, sp_saleOrderId p = i, sp_status p = PAYMENT_POSTED])"

definition getOperationalAppliedTotal :: "string \<Rightarrow> rat service" where
  "getOperationalAppliedTotal i = sreads (\<lambda>s. operationalAppliedTotal i (w_catalog s))"

section \<open>Workflows\<close>

definition sort_position :: "('a \<Rightarrow> int) \<Rightarrow> 'a list \<Rightarrow> 'a list" where
  "sort_position pos = sort_cmp (\<lambda>a b. pos a - pos b)"

definition findWorkflowDetailed :: "string \<Rightarrow> workflow_aggregate option service" where
  "findWorkflowDetailed i = sreads (\<lambda>s.
     let c = w_catalog s; transitions = filter (\<lambda>t. wt_workflowId t = i) (c_transitions c);
         ids = map wt_id transitions
     in map_option (\<lambda>flow. \<lparr>ag_workflow = flow,
          ag_states = sort_position ws_position (filter (\<lambda>x. ws_workflowId x = i) (c_states c)),
          ag_transitions = transitions,
          ag_conditions = sort_position wc_position
            (filter (\<lambda>x. wc_transitionId x \<in> set ids) (c_conditions c)),
          ag_actions = sort_position wa_position
            (filter (\<lambda>x. wa_transitionId x \<in> set ids) (c_actions c))\<rparr>)
        (find_by wf_id i (c_workflows c)))"

definition bundle_of :: "catalog \<Rightarrow> workflow_transition \<Rightarrow> transition_bundle" where
  "bundle_of c t = \<lparr>tb_transition = t,
     tb_conditions = sort_position wc_position (filter (\<lambda>x. wc_transitionId x = wt_id t) (c_conditions c)),
     tb_actions = sort_position wa_position (filter (\<lambda>x. wa_transitionId x = wt_id t) (c_actions c))\<rparr>"

definition findTransitionDetailed :: "string \<Rightarrow> transition_bundle option service" where
  "findTransitionDetailed i = sreads (\<lambda>s.
     map_option (bundle_of (w_catalog s)) (find_by wt_id i (c_transitions (w_catalog s))))"

definition listFromState :: "string \<Rightarrow> string \<Rightarrow> transition_bundle list service" where
  "listFromState workflowId fromStateId = sreads (\<lambda>s.
     map (bundle_of (w_catalog s)) (sort_key wt_code
       (filter (\<lambda>t. wt_workflowId t = workflowId \<and> wt_isActive t \<and>
           (wt_fromStateId t = Some fromStateId \<or>
            (wt_isGlobal t \<and> fromStateId \<notin> set (wt_excludedStateIds t))))
         (c_transitions (w_catalog s)))))"

section \<open>History and executions\<close>

definition appendHistory :: "state_history \<Rightarrow> unit service" where
  "appendHistory h = smodify (\<lambda>s. s\<lparr>w_history := w_history s @ [h]\<rparr>)"

definition listHistory :: "string \<Rightarrow> state_history list service" where
  "listHistory i = sreads (\<lambda>s.
     sort_position sh_executedAt (filter (\<lambda>h. sh_saleOrderId h = i) (w_history s)))"

definition findByIdempotencyKey :: "string \<Rightarrow> action_execution option service" where
  "findByIdempotencyKey key = sreads (\<lambda>s. find_by ae_idempotencyKey key (w_executions s))"

text \<open>
  \<open>save\<close>: an update of the row with the identifier, or an insertion; the key is unique, so
  a second row with it is rejected.
\<close>

definition saveExecution :: "action_execution \<Rightarrow> unit service" where
  "saveExecution e =
     sbind (sreads w_executions) (\<lambda>rows.
       if \<exists>r \<in> set rows. ae_idempotencyKey r = ae_idempotencyKey e \<and> ae_id r \<noteq> ae_id e
       then sthrow QueryFailed
       else smodify (\<lambda>s. s\<lparr>w_executions :=
         (if \<exists>r \<in> set rows. ae_id r = ae_id e
          then update_where (\<lambda>r. ae_id r = ae_id e) (\<lambda>_. e) rows else rows @ [e])\<rparr>))"

section \<open>What is reserved for active orders and productions\<close>

record expected_reservation =
  er_stockItemId :: string
  er_skuCode :: string
  er_productName :: string
  er_expectedReserved :: rat

definition active_reservations :: "world \<Rightarrow> string \<Rightarrow> sale_order list" where
  "active_reservations s w =
     filter (\<lambda>o'. so_reserveBool o' \<and> so_isActive o' \<and> so_warehouseId o' = Some w) (w_orders s)"

definition order_stock :: "catalog \<Rightarrow> string \<Rightarrow> string \<Rightarrow> rat" where
  "order_stock c i stockItemId =
     sum_list [co_quantity k. it \<leftarrow> c_items c, it_saleOrderId it = i,
       k \<leftarrow> c_components c, co_saleOrderItemId k = it_id it,
       x \<leftarrow> c_stockItems c, si_skuId x = co_skuId k, si_id x = stockItemId] +
     sum_list [su_quantity k. k \<leftarrow> c_supplies c, su_saleOrderId k = i,
       x \<leftarrow> c_stockItems c, si_skuId x = su_supplySkuId k, si_id x = stockItemId]"

definition production_stock :: "catalog \<Rightarrow> string \<Rightarrow> string \<Rightarrow> rat" where
  "production_stock c w stockItemId =
     sum_list [ri_quantity ri * of_int (pi_quantity q).
       p \<leftarrow> c_productions c, po_status p \<in> {IN_PROGRESS, PARTIAL}, po_fromWarehouseId p = w,
       q \<leftarrow> c_productionItems c, pi_productionId q = po_id p,
       x \<leftarrow> c_stockItems c, si_id x = pi_finishedItemId q,
       r \<leftarrow> c_recipes c, re_skuId r = si_skuId x, re_isActive r,
       ri \<leftarrow> c_recipeItems c, ri_recipeId ri = re_id r,
       y \<leftarrow> c_stockItems c, si_skuId y = ri_materialSkuId ri, si_id y = stockItemId]"

definition expected_reserved :: "world \<Rightarrow> string \<Rightarrow> string \<Rightarrow> rat" where
  "expected_reserved s w stockItemId =
     sum_list (map (\<lambda>o'. order_stock (w_catalog s) (so_id o') stockItemId) (active_reservations s w)) +
     production_stock (w_catalog s) w stockItemId"

text \<open>\<open>TRIM\<close> of the database removes spaces only.\<close>

definition sql_trim :: "string \<Rightarrow> string" where
  "sql_trim t = rev (dropWhile (\<lambda>c. c = CHR 0x20) (rev (dropWhile (\<lambda>c. c = CHR 0x20) t)))"

text \<open>One row for every requested stock item that exists and has a SKU.\<close>

definition listExpected :: "string \<Rightarrow> string list \<Rightarrow> expected_reservation list service" where
  "listExpected w ids = sreads (\<lambda>s.
     [\<lparr>er_stockItemId = si_id x,
       er_skuCode = or_default (nonempty (map_option sql_trim (sk_customSku k))) (sk_backendSku k),
       er_productName = sk_name k,
       er_expectedReserved = expected_reserved s w (si_id x)\<rparr>.
      x \<leftarrow> c_stockItems (w_catalog s), si_id x \<in> set ids,
      k \<leftarrow> c_skus (w_catalog s), sk_id k = si_skuId x])"

end
