(* ===== verification/StockServices.thy ===== *)
theory StockServices
  imports Repositories
begin

text \<open>
  The stock services of \<open>src/modules/workflow/application/services\<close>: what an order needs
  (\<open>SaleOrderStockRequirementsService\<close>), the reservation health check and its reconciliation
  (\<open>SaleOrderReservationReconciliationService\<close> of the sale orders module), the consumption of
  stock and its reversal, with the documents, items and ledger entries they write.
\<close>

type_synonym requirement = "string \<times> rat"

section \<open>Requirements of an order\<close>

definition add_quantity :: "string \<Rightarrow> rat \<Rightarrow> requirement list \<Rightarrow> requirement list" where
  "add_quantity i q required = map_set i (or_default (map_of required i) 0 + q) required"

definition require_component ::
  "sale_order_item_component \<Rightarrow> requirement list \<Rightarrow> requirement list service" where
  "require_component c required =
     sbind (findBySkuId (co_skuId c)) (\<lambda>x. case x of
       None \<Rightarrow> sthrow (BadRequestException ''Stock item no encontrado para el SKU'')
     | Some i \<Rightarrow> sreturn (add_quantity (si_id i) (co_quantity c) required))"

definition require_supply ::
  "sale_order_supply_item \<Rightarrow> requirement list \<Rightarrow> requirement list service" where
  "require_supply u required =
     sbind (findBySkuId (su_supplySkuId u)) (\<lambda>x. case x of
       None \<Rightarrow> sthrow (BadRequestException ''Stock item no encontrado para el insumo'')
     | Some i \<Rightarrow> sreturn (add_quantity (si_id i) (su_quantity u) required))"

definition resolve_requirements :: "string \<Rightarrow> requirement list service" where
  "resolve_requirements orderId =
     sbind (listItemsBySaleOrderId orderId) (\<lambda>items.
     sbind (listComponentsByItemIds (map it_id items)) (\<lambda>components.
     sbind (listSuppliesBySaleOrderId orderId) (\<lambda>supplies.
     sbind (sfold require_component components []) (sfold require_supply supplies))))"

section \<open>Reservations: health and reconciliation\<close>

datatype health_status = COMPLETE | NO_RESERVATION | INCONSISTENT | INSUFFICIENT_STOCK

record health_item =
  hi_stockItemId :: string
  hi_skuCode :: string
  hi_productName :: string
  hi_orderQuantity :: rat
  hi_onHand :: rat
  hi_actualReserved :: rat
  hi_expectedReserved :: rat
  hi_difference :: rat
  hi_status :: health_status

record health_result =
  hr_checked :: bool
  hr_status :: health_status
  hr_warehouseId :: "string option"
  hr_items :: "health_item list"

fun order_quantities :: "requirement list \<Rightarrow> string \<Rightarrow> requirement list \<Rightarrow> app_error + requirement list" where
  "order_quantities [] msg acc = Inr acc"
| "order_quantities ((i, q) # rs) msg acc =
     (if q \<le> 0 then Inl (BadRequestException msg)
      else order_quantities rs msg (add_quantity i q acc))"

definition expected_of :: "expected_reservation list \<Rightarrow> string \<Rightarrow> expected_reservation option" where
  "expected_of rows i = find_by er_stockItemId i (rev rows)"

definition inspect_item ::
  "string \<Rightarrow> requirement list \<Rightarrow> expected_reservation list \<Rightarrow> string \<Rightarrow> health_item list \<Rightarrow>
   health_item list service" where
  "inspect_item warehouseId quantities rows stockItemId items =
     sbind (getSnapshot warehouseId stockItemId (Some None)) (\<lambda>snapshot.
       (let expected = expected_of rows stockItemId;
            onHand = (case snapshot of None \<Rightarrow> 0 | Some b \<Rightarrow> ba_onHand b);
            actualReserved = (case snapshot of None \<Rightarrow> 0 | Some b \<Rightarrow> ba_reserved b);
            expectedReserved = (case expected of None \<Rightarrow> 0 | Some e \<Rightarrow> er_expectedReserved e);
            orderQuantity = or_default (map_of quantities stockItemId) 0;
            status = (if snapshot = None \<or> onHand < expectedReserved then INSUFFICIENT_STOCK
                      else if expected = None \<or> expectedReserved < orderQuantity \<or>
                              1 / 1000000 < \<bar>actualReserved - expectedReserved\<bar>
                           then INCONSISTENT else COMPLETE)
        in sreturn (items @ [\<lparr>hi_stockItemId = stockItemId,
             hi_skuCode = (case expected of None \<Rightarrow> stockItemId | Some e \<Rightarrow> er_skuCode e),
             hi_productName =
               (case expected of None \<Rightarrow> ''Producto de stock'' | Some e \<Rightarrow> er_productName e),
             hi_orderQuantity = orderQuantity, hi_onHand = onHand,
             hi_actualReserved = actualReserved, hi_expectedReserved = expectedReserved,
             hi_difference = expectedReserved - actualReserved, hi_status = status\<rparr>])))"

definition err_invalid_requirements :: string where
  "err_invalid_requirements = ''El pedido no tiene requisitos de stock validos y positivos''"

definition inspect_reservation :: "sale_order \<Rightarrow> requirement list \<Rightarrow> health_result service" where
  "inspect_reservation order requirements =
     (if \<not> so_reserveBool order then
        sreturn \<lparr>hr_checked = True, hr_status = NO_RESERVATION,
                 hr_warehouseId = so_warehouseId order, hr_items = []\<rparr>
      else case so_warehouseId order of
        None \<Rightarrow> sreturn \<lparr>hr_checked = False, hr_status = INCONSISTENT, hr_warehouseId = None, hr_items = []\<rparr>
      | Some warehouseId \<Rightarrow>
          if requirements = [] then
            sreturn \<lparr>hr_checked = False, hr_status = INCONSISTENT,
                     hr_warehouseId = Some warehouseId, hr_items = []\<rparr>
          else
            sbind (slift (order_quantities requirements err_invalid_requirements [])) (\<lambda>quantities.
              (let stockItemIds = sort (map fst quantities)
               in sbind (listExpected warehouseId stockItemIds) (\<lambda>rows.
                  sbind (sfold (inspect_item warehouseId quantities rows) stockItemIds []) (\<lambda>items.
                    sreturn \<lparr>hr_checked = True,
                      hr_status =
                        (if \<exists>i \<in> set items. hi_status i = INSUFFICIENT_STOCK then INSUFFICIENT_STOCK
                         else if \<exists>i \<in> set items. hi_status i = INCONSISTENT then INCONSISTENT
                         else COMPLETE),
                      hr_warehouseId = Some warehouseId, hr_items = items\<rparr>)))))"

datatype reconciliation_status = UNCHANGED | COMPLETED_RESERVATION | RELEASED_EXCESS

record reconciliation_item =
  rc_stockItemId :: string
  rc_skuCode :: string
  rc_productName :: string
  rc_orderQuantity :: rat
  rc_onHand :: rat
  rc_previousReserved :: rat
  rc_expectedReserved :: rat
  rc_adjustment :: rat
  rc_availableAfter :: rat
  rc_status :: reconciliation_status

record reconciliation_result =
  rr_checked :: bool
  rr_adjusted :: bool
  rr_warehouseId :: "string option"
  rr_items :: "reconciliation_item list"

definition reconcile_item ::
  "string \<Rightarrow> requirement list \<Rightarrow> expected_reservation list \<Rightarrow> string \<Rightarrow> reconciliation_item list \<Rightarrow>
   reconciliation_item list service" where
  "reconcile_item warehouseId quantities rows stockItemId items =
     (case expected_of rows stockItemId of
        None \<Rightarrow> sthrow (BadRequestException (''No se encontr'' @ [CHR 0xF3] @
                  '' el producto de stock '' @ stockItemId))
      | Some expected \<Rightarrow>
          sbind (getSnapshot warehouseId stockItemId (Some None)) (\<lambda>snapshot.
            case snapshot of
              None \<Rightarrow> sthrow (BadRequestException (''No existe stock para '' @ er_productName expected @
                        '' ('' @ er_skuCode expected @ '') en el almac'' @ [CHR 0xE9] @ ''n seleccionado''))
            | Some b \<Rightarrow>
                (let onHand = ba_onHand b; previousReserved = ba_reserved b;
                     expectedReserved = er_expectedReserved expected;
                     adjustment = expectedReserved - previousReserved
                 in if onHand < expectedReserved then
                      sthrow (BadRequestException (''Stock insuficiente para completar la reserva de '' @
                        er_productName expected @ '' ('' @ er_skuCode expected @ ''): f'' @ [CHR 0xED] @
                        ''sico '' @ js_num_string onHand @ '', requerido '' @ js_num_string expectedReserved))
                    else
                      sthen (swhen (adjustment \<noteq> 0)
                               (sbind (incrementReserved warehouseId stockItemId None adjustment)
                                  (\<lambda>_. sreturn ())))
                        (sreturn (items @ [\<lparr>rc_stockItemId = stockItemId, rc_skuCode = er_skuCode expected,
                           rc_productName = er_productName expected,
                           rc_orderQuantity = or_default (map_of quantities stockItemId) 0,
                           rc_onHand = onHand, rc_previousReserved = previousReserved,
                           rc_expectedReserved = expectedReserved, rc_adjustment = adjustment,
                           rc_availableAfter = onHand - expectedReserved,
                           rc_status = (if 0 < adjustment then COMPLETED_RESERVATION
                                        else if adjustment < 0 then RELEASED_EXCESS
                                        else UNCHANGED)\<rparr>])))))"

definition err_invalid_requirements_accented :: string where
  "err_invalid_requirements_accented =
     ''El pedido no tiene requisitos de stock v'' @ [CHR 0xE1] @ ''lidos y positivos''"

definition reconcile :: "sale_order \<Rightarrow> requirement list \<Rightarrow> reconciliation_result service" where
  "reconcile order requirements =
     (case so_warehouseId order of
        None \<Rightarrow> sreturn \<lparr>rr_checked = False, rr_adjusted = False, rr_warehouseId = None, rr_items = []\<rparr>
      | Some warehouseId \<Rightarrow>
          if requirements = [] then
            sreturn \<lparr>rr_checked = False, rr_adjusted = False,
                     rr_warehouseId = Some warehouseId, rr_items = []\<rparr>
          else
            sbind (slift (order_quantities requirements err_invalid_requirements_accented [])) (\<lambda>quantities.
              (let stockItemIds = sort (map fst quantities)
               in sbind (listExpected warehouseId stockItemIds) (\<lambda>rows.
                  sbind (sfold (reconcile_item warehouseId quantities rows) stockItemIds []) (\<lambda>items.
                    sreturn \<lparr>rr_checked = True,
                      rr_adjusted = (\<exists>i \<in> set items. rc_adjustment i \<noteq> 0),
                      rr_warehouseId = Some warehouseId, rr_items = items\<rparr>)))))"

section \<open>Consumption\<close>

definition reversalMarker :: "string \<Rightarrow> string" where
  "reversalMarker consumedDocumentId =
     ''Reversi'' @ [CHR 0xF3] @ ''n del consumo '' @ consumedDocumentId"

definition is_reversed_by :: "inventory_document list \<Rightarrow> inventory_document \<Rightarrow> bool" where
  "is_reversed_by reversals document \<longleftrightarrow>
     (\<exists>r \<in> set reversals. id_status r = DOC_POSTED \<and>
        (case id_note r of None \<Rightarrow> False
         | Some note \<Rightarrow> js_includes note (reversalMarker (id_id document))))"

definition order_number :: "sale_order \<Rightarrow> string" where
  "order_number order = or_default (so_serie order) ''PE'' @ ''-'' @
     (case so_correlative order of None \<Rightarrow> so_id order | Some n \<Rightarrow> int_string n)"

definition new_document ::
  "doc_type \<Rightarrow> document_serie \<Rightarrow> int \<Rightarrow> string option \<Rightarrow> string option \<Rightarrow> string \<Rightarrow> string \<Rightarrow>
   string \<Rightarrow> string option \<Rightarrow> inventory_document" where
  "new_document ty serie correlative fromWarehouse toWarehouse orderId note createdBy effectiveDate =
     \<lparr>id_id = [], id_docType = ty, id_productType = None, id_status = DOC_DRAFT,
      id_serieId = Some (ds_id serie),
      id_correlative = Some correlative, id_fromWarehouseId = fromWarehouse,
      id_toWarehouseId = toWarehouse, id_referenceId = Some orderId,
      id_referenceType = Some SALE_ORDER_REFERENCE, id_note = Some note,
      id_createdBy = Some createdBy, id_postedBy = None, id_postedAt = None,
      id_effectiveDate = effectiveDate, id_scheduledDepartureDate = None,
      id_expectedArrivalDate = None, id_dispatchedBy = None, id_dispatchedAt = None,
      id_receivedBy = None, id_receivedAt = None\<rparr>"

definition consume_item ::
  "string \<Rightarrow> string \<Rightarrow> requirement \<Rightarrow> new_ledger_entry list \<Rightarrow> new_ledger_entry list service" where
  "consume_item docId warehouseId requirement entries =
     (case requirement of (stockItemId, quantity) \<Rightarrow>
        sbind (addItem docId stockItemId quantity 0 None None None) (\<lambda>item.
        sbind (incrementReserved warehouseId stockItemId None (- quantity)) (\<lambda>_.
        sbind (incrementOnHand warehouseId stockItemId None (- quantity)) (\<lambda>_.
          sreturn (entries @ [\<lparr>ne_docId = docId, ne_docItemId = Some (di_id item),
            ne_warehouseId = warehouseId, ne_stockItemId = stockItemId,
            ne_direction = OUT_DIRECTION, ne_quantity = quantity, ne_locationId = None,
            ne_wasteQty = Some 0, ne_unitCost = None\<rparr>])))))"

definition has_unreversed_consumption :: "string \<Rightarrow> bool service" where
  "has_unreversed_consumption orderId =
     sbind (findByReference SALE_ORDER_REFERENCE orderId (Some OUT_DOC)) (\<lambda>existing.
       (let posted = filter (\<lambda>d. id_status d = DOC_POSTED \<and> id_id d \<noteq> []) existing
        in sbind (if posted \<noteq> [] then findByReference SALE_ORDER_REFERENCE orderId (Some IN_DOC)
                  else sreturn []) (\<lambda>reversals.
             sreturn (\<exists>d \<in> set posted. \<not> is_reversed_by reversals d))))"

definition consume :: "sale_order \<Rightarrow> requirement list \<Rightarrow> string option \<Rightarrow> unit service" where
  "consume order requirements effectiveDate =
     (case so_warehouseId order of
        None \<Rightarrow> sreturn ()
      | Some warehouseId \<Rightarrow>
          if requirements = [] then sreturn ()
          else
            sbind (has_unreversed_consumption (so_id order)) (\<lambda>consumed.
            if consumed then sreturn ()
            else
              sbind (findActiveFor (Some OUT_DOC) warehouseId (Some True)) (\<lambda>series.
              case series of
                [] \<Rightarrow> sthrow (BadRequestException
                        ''No hay serie OUT activa para el almacen del pedido'')
              | serie # _ \<Rightarrow>
                  sbind (reserveNextNumber (ds_id serie)) (\<lambda>correlative.
                  sbind (createDocument (new_document OUT_DOC serie correlative (Some warehouseId) None
                           (so_id order) (''Consumo de stock del pedido '' @ order_number order)
                           (so_createdBy order) effectiveDate)) (\<lambda>document.
                  sbind (sfold (consume_item (id_id document) warehouseId) requirements []) (\<lambda>entries.
                  sthen (appendLedger entries)
                    (sbind now (\<lambda>t.
                      markPosted (id_id document) (Some (so_createdBy order)) t))))))))"

section \<open>Reversal of a consumption\<close>

datatype consumption_status =
    CONSUMPTION_NONE | CONSUMPTION_CONSUMED | CONSUMPTION_RESTORED | CONSUMPTION_INCONSISTENT

record consumption_state =
  cs_status :: consumption_status
  cs_activeDocumentIds :: "string list"
  cs_postedDocumentIds :: "string list"

definition loadConsumptionDocuments ::
  "string \<Rightarrow> (inventory_document list \<times> inventory_document list) service" where
  "loadConsumptionDocuments orderId =
     sbind (findByReference SALE_ORDER_REFERENCE orderId (Some OUT_DOC)) (\<lambda>outs.
     sbind (findByReference SALE_ORDER_REFERENCE orderId (Some IN_DOC)) (\<lambda>reversals.
       (let posted = filter (\<lambda>d. id_status d = DOC_POSTED \<and> id_id d \<noteq> []) outs
        in sreturn (posted, filter (\<lambda>d. \<not> is_reversed_by reversals d) posted))))"

definition inspectConsumption :: "string \<Rightarrow> consumption_state service" where
  "inspectConsumption orderId =
     sbind (loadConsumptionDocuments orderId) (\<lambda>(posted, active).
       sreturn \<lparr>cs_status =
           (if 1 < length active then CONSUMPTION_INCONSISTENT
            else if length active = 1 then CONSUMPTION_CONSUMED
            else if 0 < length posted then CONSUMPTION_RESTORED
            else CONSUMPTION_NONE),
         cs_activeDocumentIds = map id_id active, cs_postedDocumentIds = map id_id posted\<rparr>)"

definition err_multiple_consumptions :: string where
  "err_multiple_consumptions =
     ''El pedido tiene multiples consumos de stock vigentes y requiere conciliacion''"

definition findUnreversedConsumption :: "string \<Rightarrow> inventory_document option service" where
  "findUnreversedConsumption orderId =
     sbind (loadConsumptionDocuments orderId) (\<lambda>(posted, active).
       if 1 < length active then sthrow (BadRequestException err_multiple_consumptions)
       else sreturn (case active of [] \<Rightarrow> None | d # _ \<Rightarrow> Some d))"

definition restore_item ::
  "string \<Rightarrow> string \<Rightarrow> bool \<Rightarrow> inventory_document_item \<Rightarrow> new_ledger_entry list \<Rightarrow>
   new_ledger_entry list service" where
  "restore_item docId warehouseId keepReserved consumedItem entries =
     (let stockItemId = di_stockItemId consumedItem; quantity = of_int (di_quantity consumedItem)
      in sbind (addItem docId stockItemId quantity 0 None None (di_unitCost consumedItem)) (\<lambda>item.
         sbind (incrementOnHand warehouseId stockItemId None quantity) (\<lambda>_.
         sthen (swhen keepReserved (sbind (incrementReserved warehouseId stockItemId None quantity)
                  (\<lambda>_. sreturn ())))
           (sreturn (entries @ [\<lparr>ne_docId = docId, ne_docItemId = Some (di_id item),
              ne_warehouseId = warehouseId, ne_stockItemId = stockItemId,
              ne_direction = IN_DIRECTION, ne_quantity = quantity, ne_locationId = None,
              ne_wasteQty = Some 0, ne_unitCost = di_unitCost consumedItem\<rparr>])))))"

definition restore_document ::
  "sale_order \<Rightarrow> string \<Rightarrow> string \<Rightarrow> bool \<Rightarrow> inventory_document \<Rightarrow> inventory_document_item list \<Rightarrow>
   document_serie \<Rightarrow> unit service" where
  "restore_document order executedBy warehouseId keepReserved consumedDocument consumedItems serie =
     sbind (reserveNextNumber (ds_id serie)) (\<lambda>correlative.
     sbind now (\<lambda>t.
     sbind (createDocument (new_document IN_DOC serie correlative None (Some warehouseId) (so_id order)
              (reversalMarker (id_id consumedDocument) @ '' por reconciliaci'' @ [CHR 0xF3] @
               ''n del pedido '' @ order_number order)
              executedBy (id_effectiveDate consumedDocument))) (\<lambda>reversal.
     sbind (sfold (restore_item (id_id reversal) warehouseId keepReserved) consumedItems []) (\<lambda>entries.
     sthen (appendLedger entries)
       (sthen (markPosted (id_id reversal) (Some executedBy) t)
         (sthen (markStockReverted (so_id order))
           (setReserveBool (so_id order) keepReserved)))))))"

definition restoreConsumption :: "sale_order \<Rightarrow> string \<Rightarrow> bool \<Rightarrow> bool service" where
  "restoreConsumption order executedBy keepReserved =
     (case so_warehouseId order of
        None \<Rightarrow> sthrow (BadRequestException (''El pedido no tiene almac'' @ [CHR 0xE9] @
                 ''n para revertir el consumo de stock''))
      | Some warehouseId \<Rightarrow>
          sbind (findUnreversedConsumption (so_id order)) (\<lambda>consumed.
          case consumed of
            None \<Rightarrow> sreturn False
          | Some consumedDocument \<Rightarrow>
              sbind (listItems (id_id consumedDocument)) (\<lambda>consumedItems.
              if consumedItems = [] then sreturn False
              else
                sbind (findActiveFor (Some IN_DOC) warehouseId (Some True)) (\<lambda>series.
                case series of
                  [] \<Rightarrow> sthrow (BadRequestException
                          ''No hay serie IN activa para restaurar el stock del pedido'')
                | serie # _ \<Rightarrow>
                    sthen (restore_document order executedBy warehouseId keepReserved
                             consumedDocument consumedItems serie)
                      (sreturn True)))))"

definition restoreAndReserve :: "sale_order \<Rightarrow> string \<Rightarrow> bool service" where
  "restoreAndReserve order executedBy = restoreConsumption order executedBy True"

definition restoreAndRelease :: "sale_order \<Rightarrow> string \<Rightarrow> bool service" where
  "restoreAndRelease order executedBy = restoreConsumption order executedBy False"

definition hasUnreversedConsumption :: "string \<Rightarrow> bool service" where
  "hasUnreversedConsumption orderId =
     sbind (inspectConsumption orderId) (\<lambda>c. sreturn (cs_status c = CONSUMPTION_CONSUMED))"

end
