(* ===== verification/WorkflowActions.thy ===== *)
theory WorkflowActions
  imports StockServices
begin

text \<open>
  The actions of a transition: the checks of \<open>domain/factories/action.factory.ts\<close> on their
  configuration and order, the assignment of a warehouse
  (\<open>SaleOrderWarehouseAssignmentService\<close>), and the idempotent handlers with their registry
  (\<open>application/services/action-handlers\<close>). A handler is a value of \<open>handler\<close>; \<open>inspect\<close>
  and \<open>execute\<close> are its methods.
\<close>

section \<open>Validation of actions\<close>

text \<open>\<open>String(v)\<close>.\<close>

function js_to_string :: "json \<Rightarrow> string" where
  "js_to_string JUndefined = ''undefined''"
| "js_to_string JNull = ''null''"
| "js_to_string (JBool b) = (if b then ''true'' else ''false'')"
| "js_to_string (JNum r) = js_num_string r"
| "js_to_string (JStr s) = s"
| "js_to_string (JArr []) = []"
| "js_to_string (JArr [v]) = (if v = JUndefined \<or> v = JNull then [] else js_to_string v)"
| "js_to_string (JArr (v # w # vs)) =
     (if v = JUndefined \<or> v = JNull then [] else js_to_string v) @ '','' @ js_to_string (JArr (w # vs))"
| "js_to_string (JObj obj) = ''[object Object]''"
  by pat_completeness auto
termination by (relation "measure size") auto

definition is_hex :: "char \<Rightarrow> bool" where
  "is_hex c \<longleftrightarrow> is_digit c \<or> c \<in> set ''abcdefABCDEF''"

definition uuid_segments_ok :: "string list \<Rightarrow> bool" where
  "uuid_segments_ok segments =
     (case segments of
        [a, b, c, d, e] \<Rightarrow>
          map length segments = [8, 4, 4, 4, 12] \<and> list_all (list_all is_hex) segments \<and>
          hd c \<in> set ''12345678'' \<and> hd d \<in> set ''89abAB''
      | _ \<Rightarrow> False)"

fun split_on :: "char \<Rightarrow> string \<Rightarrow> string list" where
  "split_on c [] = [[]]"
| "split_on c (x # xs) =
     (if x = c then [] # split_on c xs
      else case split_on c xs of [] \<Rightarrow> [[x]] | s # ss \<Rightarrow> (x # s) # ss)"

text \<open>The UUID pattern: five groups of hexadecimal digits, with a version and a variant digit.\<close>

fun validateWarehouseId :: "json \<Rightarrow> bool" where
  "validateWarehouseId (JStr s) = uuid_segments_ok (split_on CHR ''-'' s)"
| "validateWarehouseId _ = False"

fun is_province_id :: "json \<Rightarrow> bool" where
  "is_province_id (JStr s) = (length s = 4 \<and> list_all is_digit s)"
| "is_province_id _ = False"

definition err_invalid_assignment :: string where
  "err_invalid_assignment = ''Configuracion de asignacion de almacen invalida''"

definition validateWarehouseAssignmentConfig :: "config \<Rightarrow> app_error + unit" where
  "validateWarehouseAssignmentConfig cfg =
     (let validProvinceIds =
            (case js_get cfg ''provinceIds'' of
               JArr ids \<Rightarrow> 0 < length ids \<and> list_all is_province_id ids \<and> distinct ids
             | _ \<Rightarrow> False)
      in if js_to_string (js_get cfg ''mode'') \<notin> {''INCLUDE'', ''EXCLUDE''} \<or> \<not> validProvinceIds \<or>
            \<not> validateWarehouseId (js_get cfg ''warehouseId'')
         then Inl (PlainError err_invalid_assignment) else Inr ())"

definition validateWorkflowWarehouseAssignmentConfig :: "config \<Rightarrow> app_error + unit" where
  "validateWorkflowWarehouseAssignmentConfig cfg =
     (if \<not> validateWarehouseId (js_get cfg ''workflowId'') \<or> \<not> validateWarehouseId (js_get cfg ''warehouseId'')
      then Inl (PlainError err_invalid_assignment) else Inr ())"

fun action_validate :: "action_type \<Rightarrow> config \<Rightarrow> app_error + unit" where
  "action_validate ASSIGN_WAREHOUSE_BY_PROVINCE cfg = validateWarehouseAssignmentConfig cfg"
| "action_validate ASSIGN_WAREHOUSE_BY_WORKFLOW cfg = validateWorkflowWarehouseAssignmentConfig cfg"
| "action_validate (OTHER_ACTION s) cfg = Inl (PlainError ''Accion de workflow no soportada'')"
| "action_validate ty cfg = Inr ()"

definition is_stock_action :: "action_type \<Rightarrow> bool" where
  "is_stock_action ty \<longleftrightarrow> ty \<in> {RESERVE_STOCK, CONSUME_STOCK, REVERT_STOCK, RESTORE_STOCK}"

definition is_warehouse_action :: "action_type \<Rightarrow> bool" where
  "is_warehouse_action ty \<longleftrightarrow> ty \<in> {ASSIGN_WAREHOUSE_BY_PROVINCE, ASSIGN_WAREHOUSE_BY_WORKFLOW}"

definition is_marker_action :: "action_type \<Rightarrow> bool" where
  "is_marker_action ty \<longleftrightarrow>
     ty \<in> {MARK_INVOICE_SENT, MARK_PREGUIDE, MARK_PREPARED, UNMARK_PREGUIDE, UNMARK_PREPARED}"

definition validateOrder :: "(action_type \<times> int) list \<Rightarrow> app_error + unit" where
  "validateOrder actions =
     (let stockPositions = map snd (filter (\<lambda>a. is_stock_action (fst a)) actions)
      in if stockPositions = [] then Inr ()
         else let firstStockPosition = Min (set stockPositions);
                  assignmentAfterStock =
                    (\<exists>a \<in> set actions. is_warehouse_action (fst a) \<and> firstStockPosition \<le> snd a)
              in if assignmentAfterStock then
                   Inl (PlainError ''La asignacion de almacen debe ejecutarse antes de las acciones de stock'')
                 else let restoreActions = filter (\<lambda>a. fst a = RESTORE_STOCK) actions;
                          otherStockActions =
                            filter (\<lambda>a. fst a \<in> {RESERVE_STOCK, CONSUME_STOCK, REVERT_STOCK}) actions
                      in if 1 < length restoreActions \<or> (restoreActions \<noteq> [] \<and> otherStockActions \<noteq> [])
                         then Inl (PlainError
                                ''Reponer stock consumido no puede combinarse con otras acciones de stock'')
                         else Inr ())"

text \<open>
  What the check asks of the positions: every warehouse assignment stands before every stock
  action.
\<close>

definition assignments_first :: "(action_type \<times> int) list \<Rightarrow> bool" where
  "assignments_first actions \<longleftrightarrow>
     (\<forall>a \<in> set actions. \<forall>b \<in> set actions.
        is_warehouse_action (fst a) \<longrightarrow> is_stock_action (fst b) \<longrightarrow> snd a < snd b)"

section \<open>Outcomes\<close>

datatype outcome_status = APPLIED | SKIPPED

record action_outcome =
  oc_actionType :: action_type
  oc_status :: outcome_status
  oc_message :: "string option"

definition applied :: "action_type \<Rightarrow> action_outcome" where
  "applied ty = \<lparr>oc_actionType = ty, oc_status = APPLIED, oc_message = None\<rparr>"

definition skipped :: "action_type \<Rightarrow> string option \<Rightarrow> action_outcome" where
  "skipped ty message = \<lparr>oc_actionType = ty, oc_status = SKIPPED, oc_message = message\<rparr>"

section \<open>Warehouse assignment\<close>

definition err_existing_warehouse :: string where
  "err_existing_warehouse = ''Ya hay un almac'' @ [CHR 0xE9] @ ''n seleccionado''"

text \<open>\<open>new WarehouseId(v)\<close>: trimmed, and rejected when empty.\<close>

definition new_WarehouseId :: "string \<Rightarrow> app_error + string" where
  "new_WarehouseId v = (if js_trim v = [] then Inl (PlainError ''Id invalido'') else Inr (js_trim v))"

text \<open>The warehouse of a configuration that passed the validation is a string.\<close>

fun json_string :: "json \<Rightarrow> string" where
  "json_string (JStr s) = s"
| "json_string _ = []"

definition assign_configured ::
  "sale_order \<Rightarrow> action_type \<Rightarrow> string \<Rightarrow> (sale_order \<times> action_outcome) service" where
  "assign_configured order ty warehouseId =
     sbind (slift (new_WarehouseId warehouseId)) (\<lambda>i.
     sbind (findWarehouseById i) (\<lambda>warehouse.
       if \<not> (case warehouse of None \<Rightarrow> False | Some w \<Rightarrow> wh_isActive w) then
         sthrow (BadRequestException ''El almacen configurado no existe o esta inactivo'')
       else
         sbind (assignWarehouseIfEmpty (so_id order) warehouseId) (\<lambda>assigned.
         case assigned of
           None \<Rightarrow> sreturn (order, skipped ty (Some err_existing_warehouse))
         | Some o' \<Rightarrow> sreturn (o', applied ty))))"

definition assign_by_province :: "sale_order \<Rightarrow> config \<Rightarrow> (sale_order \<times> action_outcome) service" where
  "assign_by_province order cfg =
     (if so_warehouseId order \<noteq> None then
        sreturn (order, skipped ASSIGN_WAREHOUSE_BY_PROVINCE (Some err_existing_warehouse))
      else
        sbind (findClientById (so_clientId order)) (\<lambda>client.
        case nonempty (map_option cl_provinceId client) of
          None \<Rightarrow> sreturn (order, skipped ASSIGN_WAREHOUSE_BY_PROVINCE None)
        | Some provinceId \<Rightarrow>
            (let isListed = (case js_get cfg ''provinceIds'' of
                   JArr ids \<Rightarrow> JStr provinceId \<in> set ids | _ \<Rightarrow> False);
                 matches = (if js_get cfg ''mode'' = JStr ''INCLUDE'' then isListed else \<not> isListed)
             in if \<not> matches then sreturn (order, skipped ASSIGN_WAREHOUSE_BY_PROVINCE None)
                else assign_configured order ASSIGN_WAREHOUSE_BY_PROVINCE
                       (json_string (js_get cfg ''warehouseId'')))))"

definition assign_by_workflow :: "sale_order \<Rightarrow> config \<Rightarrow> (sale_order \<times> action_outcome) service" where
  "assign_by_workflow order cfg =
     (if so_warehouseId order \<noteq> None then
        sreturn (order, skipped ASSIGN_WAREHOUSE_BY_WORKFLOW (Some err_existing_warehouse))
      else if (case so_workflowId order of None \<Rightarrow> True | Some f \<Rightarrow> JStr f \<noteq> js_get cfg ''workflowId'') then
        sreturn (order, skipped ASSIGN_WAREHOUSE_BY_WORKFLOW None)
      else assign_configured order ASSIGN_WAREHOUSE_BY_WORKFLOW
             (json_string (js_get cfg ''warehouseId'')))"

section \<open>Handlers\<close>

datatype action_decision =
    PENDING
  | ALREADY_SATISFIED "(string \<times> json) list"
  | CONFLICT string

record marker_state =
  ms_invoiceSent :: bool
  ms_preguide :: bool
  ms_prepared :: bool

datatype marker = InvoiceSent | Preguide | Prepared

fun marker_name :: "marker \<Rightarrow> string" where
  "marker_name InvoiceSent = ''invoiceSent''"
| "marker_name Preguide = ''preguide''"
| "marker_name Prepared = ''prepared''"

fun marker_value :: "marker \<Rightarrow> marker_state \<Rightarrow> bool" where
  "marker_value InvoiceSent m = ms_invoiceSent m"
| "marker_value Preguide m = ms_preguide m"
| "marker_value Prepared m = ms_prepared m"

fun set_marker :: "marker \<Rightarrow> bool \<Rightarrow> marker_state \<Rightarrow> marker_state" where
  "set_marker InvoiceSent b m = m\<lparr>ms_invoiceSent := b\<rparr>"
| "set_marker Preguide b m = m\<lparr>ms_preguide := b\<rparr>"
| "set_marker Prepared b m = m\<lparr>ms_prepared := b\<rparr>"

fun markerFor :: "action_type \<Rightarrow> marker option" where
  "markerFor MARK_INVOICE_SENT = Some InvoiceSent"
| "markerFor MARK_PREGUIDE = Some Preguide"
| "markerFor UNMARK_PREGUIDE = Some Preguide"
| "markerFor MARK_PREPARED = Some Prepared"
| "markerFor UNMARK_PREPARED = Some Prepared"
| "markerFor _ = None"

definition expectedValue :: "action_type \<Rightarrow> bool" where
  "expectedValue ty \<longleftrightarrow> ty \<noteq> UNMARK_PREGUIDE \<and> ty \<noteq> UNMARK_PREPARED"

definition err_unsupported_marker :: string where
  "err_unsupported_marker = ''La acci'' @ [CHR 0xF3] @ ''n de marca no est'' @ [CHR 0xE1] @ '' soportada''"

definition marker_inspect :: "action_type \<Rightarrow> marker_state \<Rightarrow> action_decision" where
  "marker_inspect ty m =
     (case markerFor ty of
        None \<Rightarrow> CONFLICT err_unsupported_marker
      | Some k \<Rightarrow>
          if marker_value k m = expectedValue ty
          then ALREADY_SATISFIED [(''field'', JStr (marker_name k)), (''value'', JBool (marker_value k m))]
          else PENDING)"

fun write_marker :: "action_type \<Rightarrow> string \<Rightarrow> unit service" where
  "write_marker MARK_INVOICE_SENT i = markInvoiceSent i"
| "write_marker MARK_PREGUIDE i = markPreguide i"
| "write_marker MARK_PREPARED i = markPrepared i"
| "write_marker UNMARK_PREGUIDE i = unmarkPreguide i"
| "write_marker UNMARK_PREPARED i = unmarkPrepared i"
| "write_marker _ i = sreturn ()"

definition marker_execute ::
  "sale_order \<Rightarrow> action_type \<Rightarrow> marker_state \<Rightarrow> (marker_state \<times> action_outcome) service" where
  "marker_execute order ty m =
     (case markerFor ty of
        None \<Rightarrow> sthrow (PlainError err_unsupported_marker)
      | Some k \<Rightarrow> sthen (write_marker ty (so_id order)) (sreturn (set_marker k (expectedValue ty) m, applied ty)))"

definition warehouse_inspect :: "sale_order \<Rightarrow> action_decision" where
  "warehouse_inspect order =
     (case so_warehouseId order of
        Some w \<Rightarrow> ALREADY_SATISFIED [(''field'', JStr ''warehouseId''), (''value'', JStr w)]
      | None \<Rightarrow> PENDING)"

definition warehouse_execute ::
  "sale_order \<Rightarrow> workflow_action \<Rightarrow> (sale_order \<times> action_outcome) service" where
  "warehouse_execute order a =
     (if wa_type a = ASSIGN_WAREHOUSE_BY_PROVINCE then assign_by_province order (wa_config a)
      else assign_by_workflow order (wa_config a))"

fun consumption_status_name :: "consumption_status \<Rightarrow> string" where
  "consumption_status_name CONSUMPTION_NONE = ''NONE''"
| "consumption_status_name CONSUMPTION_CONSUMED = ''CONSUMED''"
| "consumption_status_name CONSUMPTION_RESTORED = ''RESTORED''"
| "consumption_status_name CONSUMPTION_INCONSISTENT = ''INCONSISTENT''"

definition consumption_evidence :: "consumption_state \<Rightarrow> string list \<Rightarrow> (string \<times> json) list" where
  "consumption_evidence c ids =
     [(''status'', JStr (consumption_status_name (cs_status c))), (''documentIds'', JArr (map JStr ids))]"

definition stock_inspect :: "sale_order \<Rightarrow> action_type \<Rightarrow> action_decision service" where
  "stock_inspect order ty =
     sbind (inspectConsumption (so_id order)) (\<lambda>c. sreturn
       (if cs_status c = CONSUMPTION_INCONSISTENT then CONFLICT err_multiple_consumptions
        else if ty = CONSUME_STOCK \<and> cs_status c = CONSUMPTION_CONSUMED then
          ALREADY_SATISFIED (consumption_evidence c (cs_activeDocumentIds c))
        else if ty = RESTORE_STOCK \<and> cs_status c = CONSUMPTION_RESTORED then
          ALREADY_SATISFIED (consumption_evidence c (cs_postedDocumentIds c))
        else if ty = RESTORE_STOCK \<and> cs_status c = CONSUMPTION_NONE then
          CONFLICT ''El pedido no tiene consumo de stock pendiente de reponer''
        else if ty = RESERVE_STOCK \<and> so_reserveBool order then
          ALREADY_SATISFIED [(''field'', JStr ''reserveBool''), (''value'', JBool True)]
        else if ty = REVERT_STOCK \<and> \<not> so_reserveBool order then
          ALREADY_SATISFIED [(''field'', JStr ''reserveBool''), (''value'', JBool False)]
        else PENDING))"

datatype handler = MarkerHandler | WarehouseHandler | StockHandler

fun handler_supports :: "handler \<Rightarrow> action_type \<Rightarrow> bool" where
  "handler_supports MarkerHandler ty = is_marker_action ty"
| "handler_supports WarehouseHandler ty = is_warehouse_action ty"
| "handler_supports StockHandler ty = is_stock_action ty"

definition registry_get :: "action_type \<Rightarrow> handler option" where
  "registry_get ty = List.find (\<lambda>h. handler_supports h ty) [MarkerHandler, WarehouseHandler, StockHandler]"

end
