(* ===== verification/ActionRunner.thy ===== *)
theory ActionRunner
  imports WorkflowActions
begin

text \<open>
  \<open>SaleOrderWorkflowActionRunnerService\<close>: the run of the actions of a transition on an order.
  The local variables that the method updates form the record \<open>run_state\<close>; the method is cut
  into the phases its code has, in their order: assignment of the warehouse, inspection of the
  stock actions, the consumption found, a reservation already held, the restoring action, the
  run without stock actions, the release of a reservation, the plan of quantities, and the
  execution of the plan. A phase that can end the run early returns \<open>Inl\<close> the final result.
\<close>

section \<open>The state of a run\<close>

datatype stock_status = STOCK_RESERVED | STOCK_REVERTED | STOCK_CONSUMED

record run_state =
  rs_order :: sale_order
  rs_outcomes :: "action_outcome list"
  rs_stockStatus :: "stock_status option"
  rs_markers :: marker_state
  rs_requirements :: "requirement list option"
  rs_consumption :: "consumption_state option"
  rs_stockActions :: "workflow_action list"
  rs_skippedConsume :: "string list"
  rs_skippedReserve :: "string list"
  rs_completedRevert :: "string list"
  rs_restoreAction :: "workflow_action option"
  rs_restoreOutcome :: "action_outcome option"

record run_result =
  ru_order :: sale_order
  ru_outcomes :: "action_outcome list"
  ru_stockStatus :: "stock_status option"

definition run_result_of :: "run_state \<Rightarrow> run_result" where
  "run_result_of r = \<lparr>ru_order = rs_order r, ru_outcomes = rs_outcomes r,
     ru_stockStatus = rs_stockStatus r\<rparr>"

definition push_outcome :: "action_outcome \<Rightarrow> run_state \<Rightarrow> run_state" where
  "push_outcome oc r = r\<lparr>rs_outcomes := rs_outcomes r @ [oc]\<rparr>"

definition err_unsupported_action :: "action_type \<Rightarrow> app_error" where
  "err_unsupported_action ty =
     BadRequestException (''La acci'' @ [CHR 0xF3] @ ''n '' @ action_type_name ty @ '' no est'' @
       [CHR 0xE1] @ '' soportada'')"

section \<open>History of reservations and effective dates\<close>

text \<open>The last reserving or releasing action of the history decides.\<close>

fun reservation_after :: "workflow_action list \<Rightarrow> bool \<Rightarrow> bool" where
  "reservation_after [] active = active"
| "reservation_after (a # as) active =
     reservation_after as
       (if wa_type a = RESERVE_STOCK then True
        else if wa_type a \<in> {CONSUME_STOCK, REVERT_STOCK, RESTORE_STOCK} then False
        else active)"

definition entry_branch :: "state_history \<Rightarrow> branch" where
  "entry_branch h =
     (case sh_metadata h of
        None \<Rightarrow> THEN_BRANCH
      | Some m \<Rightarrow> if js_get m ''branch'' = JStr ''ELSE'' then ELSE_BRANCH else THEN_BRANCH)"

definition replay_entry :: "state_history \<Rightarrow> bool \<Rightarrow> bool service" where
  "replay_entry h active =
     (case nonempty (sh_transitionId h) of
        None \<Rightarrow> sreturn active
      | Some t \<Rightarrow>
          sbind (findTransitionDetailed t) (\<lambda>transition.
            (let actions = sort_position wa_position
                   (filter (\<lambda>a. wa_branch a = entry_branch h)
                     (case transition of None \<Rightarrow> [] | Some b \<Rightarrow> tb_actions b))
             in sreturn (reservation_after actions active))))"

definition hasActiveReservation :: "string \<Rightarrow> bool service" where
  "hasActiveReservation saleOrderId =
     sbind (listHistory saleOrderId) (\<lambda>history. sfold replay_entry history False)"

definition resolveDaysBefore :: "workflow_condition list \<Rightarrow> int option" where
  "resolveDaysBefore conditions =
     (case List.find (\<lambda>c. wc_type c = SCHEDULE_DELIVERY_WINDOW) conditions of
        None \<Rightarrow> None
      | Some c \<Rightarrow>
          (let v = js_get (wc_config c) ''maxDaysBefore''
           in case (if v = JUndefined \<or> v = JNull then Some 0 else js_number v) of
                None \<Rightarrow> None
              | Some d \<Rightarrow> if js_is_integer d \<and> 0 \<le> d then Some \<lfloor>d\<rfloor> else None))"

text \<open>Back through the history to a transition into the current state that has a window.\<close>

fun days_before_in_history :: "sale_order \<Rightarrow> state_history list \<Rightarrow> int option service" where
  "days_before_in_history order [] = sreturn None"
| "days_before_in_history order (h # hs) =
     (case nonempty (sh_transitionId h) of
        None \<Rightarrow> days_before_in_history order hs
      | Some t \<Rightarrow>
          if (case so_currentStateId order of None \<Rightarrow> False | Some c \<Rightarrow> sh_toStateId h \<noteq> c)
          then days_before_in_history order hs
          else sbind (findTransitionDetailed t) (\<lambda>transition.
            case resolveDaysBefore (case transition of None \<Rightarrow> [] | Some b \<Rightarrow> tb_conditions b) of
              None \<Rightarrow> days_before_in_history order hs
            | Some d \<Rightarrow> sreturn (Some d)))"

definition resolveConsumptionEffectiveDate ::
  "sale_order \<Rightarrow> workflow_condition list \<Rightarrow> string option service" where
  "resolveConsumptionEffectiveDate order currentConditions =
     (case Option.bind (so_deliveryDate order) date_only_parts of
        None \<Rightarrow> sreturn None
      | Some (y, m, d) \<Rightarrow>
          sbind (case resolveDaysBefore currentConditions of
                   Some n \<Rightarrow> sreturn (Some n)
                 | None \<Rightarrow> sbind (listHistory (so_id order))
                             (\<lambda>history. days_before_in_history order (rev history)))
            (\<lambda>daysBefore.
              (let z = make_day (utc_full_year y) (m - 1) d
               in sreturn
                    (if year_from_day z \<noteq> y \<or> month_of_day z \<noteq> m - 1 \<or> date_of_day z \<noteq> d then None
                     else Some (iso_date (z - or_default daysBefore 0))))))"

section \<open>Marker and warehouse actions\<close>

definition handler_inspect ::
  "handler \<Rightarrow> sale_order \<Rightarrow> workflow_action \<Rightarrow> marker_state \<Rightarrow> action_decision service" where
  "handler_inspect h order a m =
     (case h of
        MarkerHandler \<Rightarrow> sreturn (marker_inspect (wa_type a) m)
      | WarehouseHandler \<Rightarrow> sreturn (warehouse_inspect order)
      | StockHandler \<Rightarrow> stock_inspect order (wa_type a))"

definition handler_execute :: "handler \<Rightarrow> workflow_action \<Rightarrow> run_state \<Rightarrow> run_state service" where
  "handler_execute h a r =
     (case h of
        MarkerHandler \<Rightarrow> sbind (marker_execute (rs_order r) (wa_type a) (rs_markers r))
          (\<lambda>(m, oc). sreturn (push_outcome oc (r\<lparr>rs_markers := m\<rparr>)))
      | WarehouseHandler \<Rightarrow> sbind (warehouse_execute (rs_order r) a)
          (\<lambda>(o', oc). sreturn (push_outcome oc (r\<lparr>rs_order := o'\<rparr>)))
      | StockHandler \<Rightarrow> sthrow (PlainError
          ''Las acciones de stock deben ejecutarse mediante el plan transaccional del runner''))"

definition runMarkerAction :: "workflow_action \<Rightarrow> run_state \<Rightarrow> (bool \<times> run_state) service" where
  "runMarkerAction a r =
     (if is_stock_action (wa_type a) then sreturn (False, r)
      else case registry_get (wa_type a) of
        None \<Rightarrow> sthrow (err_unsupported_action (wa_type a))
      | Some h \<Rightarrow>
          sbind (handler_inspect h (rs_order r) a (rs_markers r)) (\<lambda>decision.
          case decision of
            CONFLICT reason \<Rightarrow> sthrow (BadRequestException reason)
          | ALREADY_SATISFIED evidence \<Rightarrow>
              sreturn (True, push_outcome (skipped (wa_type a) (Some ''La accion ya estaba satisfecha'')) r)
          | PENDING \<Rightarrow> sbind (handler_execute h a r) (\<lambda>r'. sreturn (True, r'))))"

definition assign_phase :: "workflow_action \<Rightarrow> run_state \<Rightarrow> run_state service" where
  "assign_phase a r =
     (if \<not> is_warehouse_action (wa_type a) then sreturn r
      else sthen (slift (action_validate (wa_type a) (wa_config a)))
             (sbind (runMarkerAction a r) (\<lambda>(_, r'). sreturn r')))"

section \<open>Inspection of the stock actions\<close>

definition plan_stock_actions :: "workflow_action list \<Rightarrow> workflow_action list" where
  "plan_stock_actions = filter (\<lambda>a. wa_type a \<in> {RESERVE_STOCK, CONSUME_STOCK, REVERT_STOCK})"

definition has_type :: "action_type \<Rightarrow> workflow_action list \<Rightarrow> bool" where
  "has_type ty as \<longleftrightarrow> (\<exists>a \<in> set as. wa_type a = ty)"

definition inspect_stock_action :: "run_state \<Rightarrow> workflow_action \<Rightarrow> unit service" where
  "inspect_stock_action r a =
     (case registry_get (wa_type a) of
        None \<Rightarrow> sreturn ()
      | Some h \<Rightarrow>
          sbind (handler_inspect h (rs_order r) a (rs_markers r)) (\<lambda>decision.
          case decision of CONFLICT reason \<Rightarrow> sthrow (BadRequestException reason) | _ \<Rightarrow> sreturn ()))"

definition resolve_cached :: "run_state \<Rightarrow> (requirement list \<times> run_state) service" where
  "resolve_cached r =
     (case rs_requirements r of
        Some q \<Rightarrow> sreturn (q, r)
      | None \<Rightarrow> sbind (resolve_requirements (so_id (rs_order r)))
                 (\<lambda>q. sreturn (q, r\<lparr>rs_requirements := Some q\<rparr>)))"

definition inspectActiveReservation :: "run_state \<Rightarrow> run_state service" where
  "inspectActiveReservation r =
     sbind (resolve_cached r) (\<lambda>(requirements, r').
     sbind (inspect_reservation (rs_order r') requirements) (\<lambda>health.
       if hr_status health \<noteq> COMPLETE then
         sthrow (BadRequestException
           (if hr_status health = INSUFFICIENT_STOCK
            then ''La reserva activa del pedido no tiene stock suficiente''
            else ''La reserva activa del pedido no coincide con las existencias reservadas''))
       else sreturn r'))"

definition consumption_phase :: "run_state \<Rightarrow> run_state service" where
  "consumption_phase r =
     (if \<not> (has_type CONSUME_STOCK (rs_stockActions r) \<or> has_type RESERVE_STOCK (rs_stockActions r))
      then sreturn r
      else
        sbind (inspectConsumption (so_id (rs_order r))) (\<lambda>c.
        if cs_status c = CONSUMPTION_INCONSISTENT then
          sthrow (BadRequestException err_multiple_consumptions)
        else if cs_status c = CONSUMPTION_CONSUMED then
          (if has_type RESERVE_STOCK (rs_stockActions r) then
             sthrow (BadRequestException
               ''El stock del pedido ya fue consumido y no puede reservarse nuevamente'')
           else
             sreturn (r\<lparr>rs_consumption := Some c,
               rs_skippedConsume := map wa_id (filter (\<lambda>a. wa_type a = CONSUME_STOCK) (rs_stockActions r)),
               rs_stockActions := filter (\<lambda>a. wa_type a \<noteq> CONSUME_STOCK) (rs_stockActions r),
               rs_stockStatus := Some STOCK_CONSUMED\<rparr>))
        else sreturn (r\<lparr>rs_consumption := Some c\<rparr>)))"

definition reserved_phase :: "run_state \<Rightarrow> run_state service" where
  "reserved_phase r =
     (if \<not> so_reserveBool (rs_order r) then sreturn r
      else
        sbind (if has_type RESERVE_STOCK (rs_stockActions r) then inspectActiveReservation r
               else sreturn r) (\<lambda>r'.
          (let skipped_ids = map wa_id (filter (\<lambda>a. wa_type a = RESERVE_STOCK) (rs_stockActions r'))
           in sreturn (r'\<lparr>rs_skippedReserve := skipped_ids,
                rs_stockActions := filter (\<lambda>a. wa_type a \<noteq> RESERVE_STOCK) (rs_stockActions r'),
                rs_stockStatus :=
                  (if skipped_ids \<noteq> [] then Some STOCK_RESERVED else rs_stockStatus r')\<rparr>))))"

section \<open>The restoring action\<close>

definition restore_phase ::
  "workflow_action list \<Rightarrow> string option \<Rightarrow> run_state \<Rightarrow> run_state service" where
  "restore_phase ordered executedBy r =
     (case List.find (\<lambda>a. wa_type a = RESTORE_STOCK) ordered of
        None \<Rightarrow> sreturn r
      | Some a \<Rightarrow>
          sbind (case rs_consumption r of Some c \<Rightarrow> sreturn c
                 | None \<Rightarrow> inspectConsumption (so_id (rs_order r))) (\<lambda>c.
            (let r' = r\<lparr>rs_consumption := Some c, rs_restoreAction := Some a\<rparr>
             in if cs_status c = CONSUMPTION_INCONSISTENT then
                  sthrow (BadRequestException err_multiple_consumptions)
                else if cs_status c = CONSUMPTION_NONE then
                  sthrow (BadRequestException ''El pedido no tiene consumo de stock pendiente de reponer'')
                else if cs_status c = CONSUMPTION_RESTORED then
                  sreturn (r'\<lparr>rs_restoreOutcome := Some (skipped (wa_type a)
                             (Some ''El consumo de stock ya estaba restaurado'')),
                             rs_stockStatus := Some STOCK_REVERTED\<rparr>)
                else
                  sbind (restoreAndRelease (rs_order r') (or_default executedBy (so_createdBy (rs_order r'))))
                    (\<lambda>restored.
                      if \<not> restored then
                        sthrow (BadRequestException ''No se pudo restaurar el consumo vigente del pedido'')
                      else sreturn (r'\<lparr>rs_restoreOutcome := Some (applied (wa_type a)),
                                      rs_stockStatus := Some STOCK_REVERTED\<rparr>)))))"

definition is_restore_action :: "run_state \<Rightarrow> workflow_action \<Rightarrow> bool" where
  "is_restore_action r a \<longleftrightarrow>
     (case rs_restoreAction r of None \<Rightarrow> False | Some x \<Rightarrow> wa_id a = wa_id x) \<and>
     rs_restoreOutcome r \<noteq> None"

section \<open>Without stock actions\<close>

definition skip_consume :: "workflow_action \<Rightarrow> run_state \<Rightarrow> run_state service" where
  "skip_consume a r =
     sthen (setReserveBool (so_id (rs_order r)) False)
       (sreturn (push_outcome (skipped (wa_type a)
         (Some ''El stock del pedido ya estaba consumido'')) r))"

definition skip_reserve :: "workflow_action \<Rightarrow> run_state \<Rightarrow> run_state" where
  "skip_reserve a r = push_outcome (skipped (wa_type a) (Some ''El stock del pedido ya estaba reservado'')) r"

definition no_stock_step :: "workflow_action \<Rightarrow> run_state \<Rightarrow> run_state service" where
  "no_stock_step a r =
     (if wa_id a \<in> set (rs_skippedConsume r) then skip_consume a r
      else if wa_id a \<in> set (rs_skippedReserve r) then sreturn (skip_reserve a r)
      else if is_restore_action r a then sreturn (push_outcome (the (rs_restoreOutcome r)) r)
      else sbind (runMarkerAction a r) (\<lambda>(_, r'). sreturn r'))"

section \<open>Releasing a reservation\<close>

definition only_reverts :: "run_state \<Rightarrow> bool" where
  "only_reverts r \<longleftrightarrow> (\<forall>a \<in> set (rs_stockActions r). wa_type a = REVERT_STOCK)"

definition complete_reverts :: "run_state \<Rightarrow> run_state service" where
  "complete_reverts r =
     sthen (setReserveBool (so_id (rs_order r)) False)
       (sreturn (r\<lparr>rs_completedRevert := rs_completedRevert r @ map wa_id (rs_stockActions r),
          rs_stockActions := [], rs_stockStatus := Some STOCK_REVERTED\<rparr>))"

definition revert_phase :: "string option \<Rightarrow> run_state \<Rightarrow> (bool \<times> run_state) service" where
  "revert_phase executedBy r0 =
     (if \<not> only_reverts r0 then sreturn (False, r0)
      else
        sbind (if so_reserveBool (rs_order r0) then inspectActiveReservation r0 else sreturn r0) (\<lambda>r1.
        sbind (if so_warehouseId (rs_order r1) \<noteq> None
               then restoreAndRelease (rs_order r1) (or_default executedBy (so_createdBy (rs_order r1)))
               else sreturn False) (\<lambda>restored.
        sbind (if so_reserveBool (rs_order r0) then sreturn True
               else hasActiveReservation (so_id (rs_order r1))) (\<lambda>active.
        sbind (if \<not> active then complete_reverts r1 else sreturn r1) (\<lambda>r2.
        sbind (if rs_stockActions r2 \<noteq> [] \<and> so_warehouseId (rs_order r2) = None
               then complete_reverts r2 else sreturn r2) (\<lambda>r3.
          sreturn (restored, r3)))))))"

definition reverted_step :: "bool \<Rightarrow> workflow_action \<Rightarrow> run_state \<Rightarrow> run_state service" where
  "reverted_step restored a r =
     (if wa_id a \<in> set (rs_completedRevert r) then
        sreturn (push_outcome \<lparr>oc_actionType = wa_type a,
          oc_status = (if restored then APPLIED else SKIPPED),
          oc_message = Some (if restored then ''Se restauro el consumo vigente del pedido''
                             else ''El pedido no tenia una reserva activa'')\<rparr> r)
      else sbind (runMarkerAction a r) (\<lambda>(_, r'). sreturn r'))"

section \<open>The plan of quantities\<close>

record stock_snapshot =
  sn_onHand :: rat
  sn_reserved :: rat
  sn_available :: rat

type_synonym snapshots = "(string \<times> stock_snapshot) list"

definition load_snapshot ::
  "bool \<Rightarrow> string \<Rightarrow> requirement \<Rightarrow> snapshots \<Rightarrow> snapshots service" where
  "load_snapshot onlyReverts warehouseId requirement snapshots =
     sbind (getSnapshot warehouseId (fst requirement) (Some None)) (\<lambda>snapshot.
     case snapshot of
       None \<Rightarrow> if onlyReverts then sreturn snapshots
               else sthrow (BadRequestException ''Stock no encontrado'')
     | Some b \<Rightarrow> sreturn (map_set (fst requirement)
         \<lparr>sn_onHand = ba_onHand b, sn_reserved = ba_reserved b, sn_available = ba_available b\<rparr> snapshots))"

text \<open>The quantity one action applies to one requirement, and the snapshot after it.\<close>

definition plan_quantity ::
  "action_type \<Rightarrow> rat \<Rightarrow> stock_snapshot \<Rightarrow> app_error + (rat \<times> stock_snapshot)" where
  "plan_quantity ty quantity n =
     (if ty = RESERVE_STOCK \<and> sn_available n < quantity then
        Inl (BadRequestException ''Stock disponible insuficiente'')
      else if ty = CONSUME_STOCK \<and> sn_reserved n < quantity then
        Inl (BadRequestException ''Stock reservado insuficiente'')
      else if ty = CONSUME_STOCK \<and> sn_onHand n < quantity then
        Inl (BadRequestException ''Stock fisico insuficiente'')
      else
        (let q = (if ty = REVERT_STOCK then min (sn_reserved n) quantity else quantity)
         in Inr (q,
              if ty = RESERVE_STOCK then
                n\<lparr>sn_reserved := sn_reserved n + q, sn_available := sn_available n - q\<rparr>
              else if ty = CONSUME_STOCK then
                n\<lparr>sn_reserved := sn_reserved n - q, sn_onHand := sn_onHand n - q\<rparr>
              else n\<lparr>sn_reserved := sn_reserved n - q, sn_available := sn_available n + q\<rparr>)))"

fun plan_action ::
  "action_type \<Rightarrow> requirement list \<Rightarrow> snapshots \<Rightarrow> requirement list \<Rightarrow>
   app_error + (requirement list \<times> snapshots)" where
  "plan_action ty [] snapshots quantities = Inr (quantities, snapshots)"
| "plan_action ty ((i, quantity) # rs) snapshots quantities =
     (case map_of snapshots i of
        None \<Rightarrow> plan_action ty rs snapshots (map_set i 0 quantities)
      | Some n \<Rightarrow>
          (case plan_quantity ty quantity n of
             Inl e \<Rightarrow> Inl e
           | Inr (q, n') \<Rightarrow> plan_action ty rs (map_set i n' snapshots) (map_set i q quantities)))"

fun plan_actions ::
  "workflow_action list \<Rightarrow> requirement list \<Rightarrow> snapshots \<Rightarrow>
   (workflow_action \<times> requirement list) list \<Rightarrow>
   app_error + (workflow_action \<times> requirement list) list" where
  "plan_actions [] requirements snapshots plan = Inr plan"
| "plan_actions (a # as) requirements snapshots plan =
     (case plan_action (wa_type a) requirements snapshots [] of
        Inl e \<Rightarrow> Inl e
      | Inr (quantities, snapshots') \<Rightarrow>
          plan_actions as requirements snapshots' (map_set a quantities plan))"

definition valid_requirements :: "requirement list \<Rightarrow> bool" where
  "valid_requirements requirements \<longleftrightarrow>
     requirements \<noteq> [] \<and> list_all (\<lambda>(i, q). 0 < q) requirements"

section \<open>Execution of the plan\<close>

definition apply_quantity ::
  "workflow_action \<Rightarrow> string \<Rightarrow> (workflow_action \<times> requirement list) list \<Rightarrow> requirement \<Rightarrow>
   bool \<Rightarrow> bool service" where
  "apply_quantity a warehouseId plan requirement released =
     (case requirement of (stockItemId, quantity) \<Rightarrow>
       (let q = or_default (Option.bind (map_of plan a) (\<lambda>m. map_of m stockItemId)) quantity
        in if q = 0 then sreturn released
           else sbind (incrementReserved warehouseId stockItemId None
                         (if wa_type a = RESERVE_STOCK then q else - q))
                  (\<lambda>_. sreturn (released \<or> (wa_type a = REVERT_STOCK \<and> 0 < q)))))"

definition execute_reservation ::
  "string \<Rightarrow> requirement list \<Rightarrow> (workflow_action \<times> requirement list) list \<Rightarrow> workflow_action \<Rightarrow>
   bool \<times> run_state \<Rightarrow> (bool \<times> run_state) service" where
  "execute_reservation warehouseId requirements plan a st =
     (case st of (released, r) \<Rightarrow>
        sbind (sfold (apply_quantity a warehouseId plan) requirements released) (\<lambda>released'.
          if wa_type a = RESERVE_STOCK \<or> wa_type a = REVERT_STOCK then
            sthen (setReserveBool (so_id (rs_order r)) (wa_type a = RESERVE_STOCK))
              (sreturn (released', push_outcome (applied (wa_type a))
                 (r\<lparr>rs_stockStatus := Some (if wa_type a = RESERVE_STOCK then STOCK_RESERVED
                                            else STOCK_REVERTED)\<rparr>)))
          else sreturn (released', r)))"

definition execute_consumption ::
  "requirement list \<Rightarrow> workflow_condition list \<Rightarrow> workflow_action \<Rightarrow> run_state \<Rightarrow> run_state service" where
  "execute_consumption requirements currentConditions a r =
     sbind (resolveConsumptionEffectiveDate (rs_order r) currentConditions) (\<lambda>effectiveDate.
     sthen (consume (rs_order r) requirements effectiveDate)
       (sthen (setReserveBool (so_id (rs_order r)) False)
         (sreturn (push_outcome (applied (wa_type a)) (r\<lparr>rs_stockStatus := Some STOCK_CONSUMED\<rparr>)))))"

definition execute_step ::
  "string \<Rightarrow> requirement list \<Rightarrow> (workflow_action \<times> requirement list) list \<Rightarrow>
   workflow_condition list \<Rightarrow> workflow_action \<Rightarrow> bool \<times> run_state \<Rightarrow> (bool \<times> run_state) service" where
  "execute_step warehouseId requirements plan currentConditions a st =
     (if is_warehouse_action (wa_type a) then sreturn st
      else
        sbind (runMarkerAction a (snd st)) (\<lambda>(done, r).
        if done then sreturn (fst st, r)
        else if wa_id a \<in> set (rs_skippedConsume r) then
          sbind (skip_consume a r) (\<lambda>r'. sreturn (fst st, r'))
        else if wa_id a \<in> set (rs_skippedReserve r) then sreturn (fst st, skip_reserve a r)
        else if is_restore_action r a then
          sreturn (fst st, push_outcome (the (rs_restoreOutcome r)) r)
        else if wa_type a = CONSUME_STOCK then
          sbind (execute_consumption requirements currentConditions a r) (\<lambda>r'. sreturn (fst st, r'))
        else execute_reservation warehouseId requirements plan a (fst st, r)))"

definition stock_execution ::
  "workflow_action list \<Rightarrow> string \<Rightarrow> requirement list \<Rightarrow> (workflow_action \<times> requirement list) list \<Rightarrow>
   workflow_condition list \<Rightarrow> run_state \<Rightarrow> run_result service" where
  "stock_execution ordered warehouseId requirements plan currentConditions r =
     sbind (sfold (execute_step warehouseId requirements plan currentConditions) ordered (False, r))
       (\<lambda>(released, r').
          sthen (swhen released (markStockReverted (so_id (rs_order r'))))
            (sreturn (run_result_of r')))"

definition stock_phase ::
  "workflow_action list \<Rightarrow> workflow_condition list \<Rightarrow> run_state \<Rightarrow> run_result service" where
  "stock_phase ordered currentConditions r0 =
     (case so_warehouseId (rs_order r0) of
        None \<Rightarrow> sthrow (BadRequestException ''El pedido no tiene almacen para ejecutar acciones de stock'')
      | Some warehouseId \<Rightarrow>
          sbind (resolve_cached r0) (\<lambda>(requirements, r).
          sthen (sguard (\<not> (has_type RESERVE_STOCK (rs_stockActions r) \<or>
                            has_type CONSUME_STOCK (rs_stockActions r)) \<or>
                         valid_requirements requirements)
                   (BadRequestException err_invalid_requirements))
            (sthen (sbind (reconcile (rs_order r) requirements) (\<lambda>_. sreturn ()))
              (sbind (sfold (load_snapshot (only_reverts r) warehouseId) requirements []) (\<lambda>snapshots.
               sbind (slift (plan_actions (rs_stockActions r) requirements snapshots [])) (\<lambda>plan.
                 stock_execution ordered warehouseId requirements plan currentConditions r))))))"

section \<open>The run\<close>

definition initial_markers :: "sale_order \<Rightarrow> marker_state" where
  "initial_markers order = \<lparr>ms_invoiceSent = so_invoiceSend order, ms_preguide = so_preguide order,
     ms_prepared = so_prepared order\<rparr>"

definition initial_run :: "sale_order \<Rightarrow> run_state" where
  "initial_run order = \<lparr>rs_order = order, rs_outcomes = [], rs_stockStatus = None,
     rs_markers = initial_markers order, rs_requirements = None, rs_consumption = None,
     rs_stockActions = [], rs_skippedConsume = [], rs_skippedReserve = [],
     rs_completedRevert = [], rs_restoreAction = None, rs_restoreOutcome = None\<rparr>"

definition prepare_run :: "workflow_action list \<Rightarrow> string option \<Rightarrow> run_state \<Rightarrow> run_state service" where
  "prepare_run ordered executedBy r0 =
     sbind (sfold assign_phase ordered r0) (\<lambda>r1.
       (let r2 = r1\<lparr>rs_stockActions := plan_stock_actions ordered\<rparr>
        in sthen (sfor (rs_stockActions r2) (inspect_stock_action r2))
             (sbind (consumption_phase r2) (\<lambda>r3.
              sbind (reserved_phase r3) (\<lambda>r4. restore_phase ordered executedBy r4)))))"

definition finish_run ::
  "workflow_action list \<Rightarrow> string option \<Rightarrow> workflow_condition list \<Rightarrow> run_state \<Rightarrow> run_result service" where
  "finish_run ordered executedBy currentConditions r =
     (if rs_stockActions r = [] then
        sbind (sfold no_stock_step ordered r) (\<lambda>r'. sreturn (run_result_of r'))
      else
        sbind (revert_phase executedBy r) (\<lambda>(restored, r').
        if rs_stockActions r' = [] then
          sbind (sfold (reverted_step restored) ordered r') (\<lambda>r''. sreturn (run_result_of r''))
        else stock_phase ordered currentConditions r'))"

definition run ::
  "sale_order \<Rightarrow> workflow_action list \<Rightarrow> string option \<Rightarrow> workflow_condition list \<Rightarrow> run_result service" where
  "run order actions executedBy currentConditions =
     (if \<not> so_isActive order then
        sthrow (ConflictException ''Los pedidos eliminados son de solo lectura'')
      else if actions = [] then
        sreturn \<lparr>ru_order = order, ru_outcomes = [], ru_stockStatus = None\<rparr>
      else
        (let ordered = sort_position wa_position actions
         in sthen (sfor ordered (\<lambda>a. sguard (registry_get (wa_type a) \<noteq> None) (err_unsupported_action (wa_type a))))
              (sbind (prepare_run ordered executedBy (initial_run order))
                (finish_run ordered executedBy currentConditions))))"

end
