(* ===== verification/TransitionService.thy ===== *)
theory TransitionService
  imports ActionRunner
begin

text \<open>
  \<open>SaleOrderWorkflowTransitionService\<close>, with the context it evaluates conditions in
  (\<open>SaleOrderWorkflowContextService\<close>) and the log of executed actions
  (\<open>WorkflowActionExecutionRecorderService\<close>): the step of an order through its workflow, by
  hand (\<open>advance\<close>) and automatic (\<open>advanceAutomatic\<close>). \<open>lc\<close> is \<open>localeCompare\<close> and
  \<open>pd\<close> parses dates; both are left to the runtime. The optional collaborators of the
  constructor are the ones the module provides.
\<close>

section \<open>The context of an order\<close>

definition lift_string :: "string + 'a \<Rightarrow> app_error + 'a" where
  "lift_string r = (case r of Inl e \<Rightarrow> Inl (PlainError e) | Inr a \<Rightarrow> Inr a)"

fun has_stock_for :: "string \<Rightarrow> requirement list \<Rightarrow> bool service" where
  "has_stock_for warehouseId [] = sreturn True"
| "has_stock_for warehouseId ((stockItemId, quantity) # rs) =
     sbind (getSnapshot warehouseId stockItemId (Some None)) (\<lambda>snapshot.
       if (case snapshot of None \<Rightarrow> True | Some b \<Rightarrow> ba_onHand b - ba_reserved b < quantity)
       then sreturn False else has_stock_for warehouseId rs)"

definition hasAvailableStock :: "sale_order \<Rightarrow> bool service" where
  "hasAvailableStock order =
     (case so_warehouseId order of
        None \<Rightarrow> sreturn False
      | Some warehouseId \<Rightarrow>
          sbind (resolve_requirements (so_id order)) (\<lambda>requirements.
            if requirements = [] then sreturn False else has_stock_for warehouseId requirements))"

definition client_json :: "client option \<Rightarrow> (client \<Rightarrow> string option) \<Rightarrow> json" where
  "client_json client field = option_json (Option.bind client field)"

definition context_variables ::
  "sale_order \<Rightarrow> client option \<Rightarrow> rat \<Rightarrow> rat \<Rightarrow> (string \<times> json) list" where
  "context_variables order client tot paid =
     [(''workflowId'', option_json (so_workflowId order)),
      (''currentStateId'', option_json (so_currentStateId order)),
      (''warehouseId'', option_json (so_warehouseId order)),
      (''total'', JNum tot), (''totalPaid'', JNum paid),
      (''deliveryDate'', option_json (so_deliveryDate order)),
      (''scheduleDate'', option_json (so_scheduleDate order)),
      (''sourceId'', option_json (so_sourceId order)),
      (''agencyDetail'', option_json (so_agencyDetail order)),
      (''note'', option_json (so_note order)),
      (''client.docNumber'', client_json client cl_docNumber),
      (''client.address'', client_json client cl_address),
      (''client.reference'', client_json client cl_reference),
      (''client.docType'', client_json client (\<lambda>c. Some (client_doc_type_name (cl_docType c)))),
      (''client.departmentId'', client_json client (\<lambda>c. Some (cl_departmentId c))),
      (''client.provinceId'', client_json client (\<lambda>c. Some (cl_provinceId c))),
      (''client.districtId'', client_json client (\<lambda>c. Some (cl_districtId c)))]"

definition build_context :: "sale_order \<Rightarrow> workflow_state \<Rightarrow> workflow_context service" where
  "build_context order currentState =
     sbind (getOperationalAppliedTotal (so_id order)) (\<lambda>operationalTotal.
     sbind (slift (lift_string (toMinorUnits_num operationalTotal))) (\<lambda>totalPaidCents.
     sbind (slift (lift_string (fromMinorUnits totalPaidCents))) (\<lambda>totalPaid.
     sbind (findClientById (so_clientId order)) (\<lambda>client.
     sbind (slift (lift_string (toMinorUnits_num (so_total order)))) (\<lambda>totalCents.
     sbind (slift (lift_string (fromMinorUnits totalCents))) (\<lambda>tot.
     sbind (hasAvailableStock order) (\<lambda>hasStock.
     sbind now (\<lambda>t.
       sreturn \<lparr>cx_orderId = so_id order,
         cx_isPaid = (0 < totalCents \<and> totalCents \<le> totalPaidCents),
         cx_hasStock = hasStock,
         cx_isCancelled = (js_toUpperCase (ws_code currentState) = ''CANCELLED''),
         cx_invoiceSent = so_invoiceSend order, cx_currentDate = Some t,
         cx_variables = context_variables order client tot totalPaid\<rparr>))))))))"

section \<open>The log of executed actions\<close>

record new_execution =
  nx_saleOrderId :: string
  nx_transitionId :: "string option"
  nx_actionId :: "string option"
  nx_actionType :: string
  nx_idempotencyKey :: string

definition execution_of ::
  "new_execution \<Rightarrow> string \<Rightarrow> execution_status \<Rightarrow> (string \<times> json) list option \<Rightarrow>
   (string \<times> json) list option \<Rightarrow> int \<Rightarrow> int option \<Rightarrow> action_execution" where
  "execution_of n i status evidence err startedAt completedAt =
     \<lparr>ae_id = i, ae_saleOrderId = nx_saleOrderId n, ae_transitionId = nx_transitionId n,
      ae_actionId = nx_actionId n, ae_actionType = nx_actionType n,
      ae_idempotencyKey = nx_idempotencyKey n, ae_status = status, ae_attempts = 1,
      ae_evidence = evidence, ae_error = err, ae_startedAt = startedAt,
      ae_completedAt = completedAt, ae_createdAt = startedAt, ae_updatedAt = startedAt\<rparr>"

definition execution_start :: "new_execution \<Rightarrow> int \<Rightarrow> action_execution service" where
  "execution_start n t =
     sbind (findByIdempotencyKey (nx_idempotencyKey n)) (\<lambda>existing.
     case existing of
       Some e \<Rightarrow> sreturn e
     | None \<Rightarrow>
         sbind fresh_id (\<lambda>i.
           (let e = execution_of n i STARTED None None t None
            in sthen (saveExecution e) (sreturn e))))"

definition execution_finish ::
  "string \<Rightarrow> execution_status \<Rightarrow> (string \<times> json) list option \<Rightarrow> (string \<times> json) list option \<Rightarrow>
   int \<Rightarrow> action_execution option service" where
  "execution_finish key status evidence err t =
     sbind (findByIdempotencyKey key) (\<lambda>existing.
     case existing of
       None \<Rightarrow> sreturn None
     | Some e \<Rightarrow>
         (let e' = e\<lparr>ae_status := status, ae_attempts := ae_attempts e + 1,
                     ae_evidence := (if evidence = None then ae_evidence e else evidence),
                     ae_error := (if err = None then ae_error e else err),
                     ae_completedAt := Some t, ae_updatedAt := t\<rparr>
          in sthen (saveExecution e') (sreturn (Some e'))))"

definition execution_record ::
  "new_execution \<Rightarrow> execution_status \<Rightarrow> (string \<times> json) list option \<Rightarrow>
   (string \<times> json) list option \<Rightarrow> int \<Rightarrow> action_execution service" where
  "execution_record n status evidence err t =
     sbind (findByIdempotencyKey (nx_idempotencyKey n)) (\<lambda>existing.
     case existing of
       Some e \<Rightarrow> sreturn e
     | None \<Rightarrow>
         sbind fresh_id (\<lambda>i.
           (let e = execution_of n i status evidence err t (Some t)
            in sthen (saveExecution e) (sreturn e))))"

text \<open>
  The first action of the type of the outcome that no earlier outcome took, and the rest.
\<close>

fun take_action :: "action_type \<Rightarrow> workflow_action list \<Rightarrow> workflow_action option \<times> workflow_action list" where
  "take_action ty [] = (None, [])"
| "take_action ty (a # as) =
     (if wa_type a = ty then (Some a, as)
      else (case take_action ty as of (found, rest) \<Rightarrow> (found, a # rest)))"

fun record_outcomes ::
  "string \<Rightarrow> string \<Rightarrow> string option \<Rightarrow> int \<Rightarrow> nat \<Rightarrow> workflow_action list \<Rightarrow> action_outcome list \<Rightarrow>
   unit service" where
  "record_outcomes saleOrderId transitionId idempotencyKey t index pending [] = sreturn ()"
| "record_outcomes saleOrderId transitionId idempotencyKey t index pending (oc # ocs) =
     (case take_action (oc_actionType oc) pending of
        (matching, rest) \<Rightarrow>
          sbind (case nonempty idempotencyKey of
                   Some key \<Rightarrow> sreturn (key @ '':'' @
                     (case matching of Some a \<Rightarrow> wa_id a | None \<Rightarrow> action_type_name (oc_actionType oc)) @
                     '':'' @ nat_string index)
                 | None \<Rightarrow> fresh_id) (\<lambda>key.
          sbind (execution_record
                   \<lparr>nx_saleOrderId = saleOrderId, nx_transitionId = Some transitionId,
                    nx_actionId = map_option wa_id matching,
                    nx_actionType = action_type_name (oc_actionType oc), nx_idempotencyKey = key\<rparr>
                   (if oc_status oc = APPLIED then COMPLETED else EXECUTION_SKIPPED)
                   (map_option (\<lambda>m. [(''message'', JStr m)]) (nonempty (oc_message oc))) None t) (\<lambda>_.
            record_outcomes saleOrderId transitionId idempotencyKey t (Suc index) rest ocs)))"

definition recordActionOutcomes ::
  "string \<Rightarrow> string \<Rightarrow> string option \<Rightarrow> workflow_action list \<Rightarrow> action_outcome list \<Rightarrow> int \<Rightarrow> unit service" where
  "recordActionOutcomes saleOrderId transitionId idempotencyKey actions outcomes t =
     record_outcomes saleOrderId transitionId idempotencyKey t 0 actions outcomes"

section \<open>A step by hand\<close>

record advance_input =
  ai_saleOrderId :: string
  ai_executedBy :: string
  ai_transitionId :: "string option"
  ai_transitionCode :: "string option"
  ai_transitionPurpose :: "transition_purpose option"
  ai_metadata :: "(string \<times> json) list option"
  ai_idempotencyKey :: "string option"
  ai_financialCancellationResolved :: bool

record advance_result =
  ar_order :: sale_order
  ar_actionOutcomes :: "action_outcome list"
  ar_warnings :: "string list"

definition stock_status_name :: "stock_status \<Rightarrow> string" where
  "stock_status_name s = (case s of STOCK_RESERVED \<Rightarrow> ''RESERVED'' | STOCK_REVERTED \<Rightarrow> ''REVERTED''
     | STOCK_CONSUMED \<Rightarrow> ''CONSUMED'')"

definition outcome_json :: "action_outcome \<Rightarrow> json" where
  "outcome_json oc = JObj
     ([(''actionType'', JStr (action_type_name (oc_actionType oc))),
       (''status'', JStr (case oc_status oc of APPLIED \<Rightarrow> ''APPLIED'' | SKIPPED \<Rightarrow> ''SKIPPED''))] @
      (case oc_message oc of None \<Rightarrow> [] | Some m \<Rightarrow> [(''message'', JStr m)]))"

definition branch_name :: "branch \<Rightarrow> string" where
  "branch_name b = (case b of THEN_BRANCH \<Rightarrow> ''THEN'' | ELSE_BRANCH \<Rightarrow> ''ELSE'')"

definition step_metadata ::
  "(string \<times> json) list \<Rightarrow> branch \<Rightarrow> run_result \<Rightarrow> (string \<times> json) list" where
  "step_metadata base b result =
     (let m = map_set ''actionOutcomes'' (JArr (map outcome_json (ru_outcomes result)))
                (map_set ''branch'' (JStr (branch_name b)) base)
      in case ru_stockStatus result of
           None \<Rightarrow> m
         | Some st \<Rightarrow> map_set ''stockStatus'' (JStr (stock_status_name st)) m)"

definition error_message :: "app_error \<Rightarrow> string" where
  "error_message e = (case e of
       BadRequestException m \<Rightarrow> m
     | NotFoundException m \<Rightarrow> m
     | ConflictException m \<Rightarrow> m
     | UnprocessableEntityException m d \<Rightarrow> m
     | PlainError m \<Rightarrow> m
     | QueryFailed \<Rightarrow> ''QueryFailedError'')"

definition state_in :: "workflow_aggregate \<Rightarrow> string \<Rightarrow> workflow_state option" where
  "state_in ag i = find_by ws_id i (ag_states ag)"

definition find_bundle :: "advance_input \<Rightarrow> string \<Rightarrow> string \<Rightarrow> transition_bundle option service" where
  "find_bundle input workflowId currentStateId =
     (case nonempty (ai_transitionId input) of
        Some t \<Rightarrow> findTransitionDetailed t
      | None \<Rightarrow>
          sbind (listFromState workflowId currentStateId) (\<lambda>bundles.
            sreturn (List.find (\<lambda>b.
              (ai_transitionPurpose input \<noteq> None \<and>
               Some (wt_purpose (tb_transition b)) = ai_transitionPurpose input) \<or>
              (nonempty (ai_transitionCode input) \<noteq> None \<and>
               Some (wt_code (tb_transition b)) = ai_transitionCode input)) bundles)))"

definition check_cancellation :: "advance_input \<Rightarrow> sale_order \<Rightarrow> transition_bundle \<Rightarrow> unit service" where
  "check_cancellation input order bundle =
     (if wt_purpose (tb_transition bundle) = CANCEL \<and> \<not> ai_financialCancellationResolved input then
        sbind (listPaymentsBySaleOrderId (so_id order)) (\<lambda>payments.
          sguard (filter (\<lambda>p. sp_status p = PENDING_CONFIRMATION \<or> sp_status p = PAYMENT_POSTED) payments = [])
            (ConflictException
              ''Resuelve los ingresos pendientes y contabilizados antes de cancelar el pedido.''))
      else sreturn ())"

definition actions_of_branch :: "branch \<Rightarrow> transition_bundle \<Rightarrow> workflow_action list" where
  "actions_of_branch b bundle = filter (\<lambda>a. wa_branch a = b) (tb_actions bundle)"

definition run_step ::
  "sale_order \<Rightarrow> transition_bundle \<Rightarrow> workflow_action list \<Rightarrow> string \<Rightarrow> run_result service" where
  "run_step order bundle actions executedBy =
     smap_error (\<lambda>e. UnprocessableEntityException (error_message e)
                       (ActionFailed (wt_id (tb_transition bundle)) (map wa_type actions)))
       (run order actions (Some executedBy) (tb_conditions bundle))"

definition step_history ::
  "sale_order \<Rightarrow> string \<Rightarrow> string \<Rightarrow> transition_bundle \<Rightarrow> string option \<Rightarrow> string option \<Rightarrow>
   (string \<times> json) list \<Rightarrow> unit service" where
  "step_history order workflowId currentStateId bundle toStateId executedBy metadata =
     sbind fresh_id (\<lambda>i.
     sbind now (\<lambda>t.
       appendHistory \<lparr>sh_id = i, sh_saleOrderId = so_id order, sh_workflowId = workflowId,
         sh_transitionId = Some (wt_id (tb_transition bundle)),
         sh_fromStateId = Some currentStateId,
         sh_toStateId = or_default toStateId currentStateId,
         sh_executedBy = executedBy, sh_executedAt = t, sh_metadata = Some metadata\<rparr>))"

definition input_idempotency_key :: "advance_input \<Rightarrow> string option" where
  "input_idempotency_key input =
     (case ai_idempotencyKey input of
        Some k \<Rightarrow> Some k
      | None \<Rightarrow> (case js_get (or_default (ai_metadata input) []) ''idempotencyKey'' of
                   JStr k \<Rightarrow> Some k | _ \<Rightarrow> None))"

text \<open>\<open>Array.from(new Set(xs))\<close>: the first of equal elements stays.\<close>

definition distinct_first :: "'a list \<Rightarrow> 'a list" where
  "distinct_first xs = rev (remdups (rev xs))"

record step_plan =
  pl_order :: sale_order
  pl_workflowId :: string
  pl_currentStateId :: string
  pl_bundle :: transition_bundle

definition check_transition ::
  "(string \<Rightarrow> int option) \<Rightarrow> sale_order \<Rightarrow> workflow_aggregate \<Rightarrow> workflow_state \<Rightarrow>
   transition_bundle \<Rightarrow> unit service" where
  "check_transition pd order ag currentState bundle =
     (let t = tb_transition bundle;
          toState = Option.bind (nonempty (wt_toStateId t)) (state_in ag)
      in sthen (sguard (wt_effect t = RUN_ACTIONS \<or> toState \<noteq> None)
                 (BadRequestException ''Estado destino invalido''))
           (sbind (slift (lift_string (create_conditions pd (tb_conditions bundle)))) (\<lambda>conditions.
            sbind (build_context order currentState) (\<lambda>cx.
              (let decision = canTransition (ag_workflow ag) currentState t conditions cx toState
               in sguard (td_allowed decision)
                    (UnprocessableEntityException ''La transicion no cumple sus condiciones''
                      (ConditionFailed (wt_id t) (td_failures decision))))))))"

definition plan_step :: "(string \<Rightarrow> int option) \<Rightarrow> advance_input \<Rightarrow> step_plan service" where
  "plan_step pd input =
     sbind (findByIdForUpdate (ai_saleOrderId input)) (\<lambda>found.
     case found of
       None \<Rightarrow> sthrow (BadRequestException ''Pedido no encontrado'')
     | Some order \<Rightarrow>
        (case (so_workflowId order, so_currentStateId order) of
           (Some workflowId, Some currentStateId) \<Rightarrow>
             sbind (findWorkflowDetailed workflowId) (\<lambda>aggregate.
             case aggregate of
               None \<Rightarrow> sthrow (BadRequestException ''Flujo no encontrado'')
             | Some ag \<Rightarrow>
                (case state_in ag currentStateId of
                   None \<Rightarrow> sthrow (BadRequestException ''Estado actual invalido'')
                 | Some currentState \<Rightarrow>
                     sbind (find_bundle input workflowId currentStateId) (\<lambda>found_bundle.
                     case found_bundle of
                       None \<Rightarrow> sthrow (BadRequestException ''Transicion no disponible'')
                     | Some bundle \<Rightarrow>
                         sthen (check_cancellation input order bundle)
                           (sthen (check_transition pd order ag currentState bundle)
                             (sreturn \<lparr>pl_order = order, pl_workflowId = workflowId,
                                pl_currentStateId = currentStateId, pl_bundle = bundle\<rparr>)))))
         | _ \<Rightarrow> sthrow (BadRequestException ''El pedido no tiene flujo asignado'')))"

definition execute_plan :: "advance_input \<Rightarrow> step_plan \<Rightarrow> advance_result service" where
  "execute_plan input p =
     (let bundle = pl_bundle p; t = tb_transition bundle; order = pl_order p;
          actions = actions_of_branch THEN_BRANCH bundle
      in sbind (run_step order bundle actions (ai_executedBy input)) (\<lambda>result.
         sbind (if wt_effect t = RUN_ACTIONS then sreturn (ru_order result)
                else updateWorkflowState (so_id (ru_order result)) (wt_toStateId t)) (\<lambda>updated.
         sthen (step_history order (pl_workflowId p) (pl_currentStateId p) bundle (wt_toStateId t)
                  (Some (ai_executedBy input))
                  (step_metadata (or_default (ai_metadata input) []) THEN_BRANCH result))
           (sbind now (\<lambda>time.
            sthen (recordActionOutcomes (so_id order) (wt_id t) (input_idempotency_key input)
                     actions (ru_outcomes result) time)
              (sreturn \<lparr>ar_order = updated, ar_actionOutcomes = ru_outcomes result,
                 ar_warnings = distinct_first (List.map_filter (\<lambda>oc. nonempty (oc_message oc))
                                          (ru_outcomes result))\<rparr>))))))"

definition advance :: "(string \<Rightarrow> int option) \<Rightarrow> advance_input \<Rightarrow> advance_result service" where
  "advance pd input = sbind (plan_step pd input) (execute_plan input)"

section \<open>An automatic step\<close>

definition automatic_bundles ::
  "(string \<Rightarrow> string \<Rightarrow> int) \<Rightarrow> transition_bundle list \<Rightarrow> transition_bundle list" where
  "automatic_bundles lc bundles =
     sort_cmp (\<lambda>a b. let c = wt_priority (tb_transition a) - wt_priority (tb_transition b)
                     in if c \<noteq> 0 then c else lc (wt_id (tb_transition a)) (wt_id (tb_transition b)))
       (filter (\<lambda>b. wt_autoTrigger (tb_transition b) \<and> wt_isActive (tb_transition b)) bundles)"

definition execute_automatic ::
  "sale_order \<Rightarrow> string \<Rightarrow> string \<Rightarrow> string option \<Rightarrow> transition_bundle \<Rightarrow> branch \<Rightarrow>
   transition_effect \<Rightarrow> string option \<Rightarrow> workflow_action list \<Rightarrow> sale_order service" where
  "execute_automatic order workflowId currentStateId executedBy bundle b effect toStateId actions =
     sbind (run order actions (Some (or_default executedBy (so_createdBy order))) (tb_conditions bundle)) (\<lambda>result.
     sbind (if effect = RUN_ACTIONS then sreturn (ru_order result)
            else updateWorkflowState (so_id (ru_order result)) toStateId) (\<lambda>updated.
     sthen (step_history order workflowId currentStateId bundle toStateId executedBy
              (step_metadata [(''source'', JStr ''automatic-workflow'')] b result))
       (sbind now (\<lambda>time.
        sthen (recordActionOutcomes (so_id order) (wt_id (tb_transition bundle)) None actions
                 (ru_outcomes result) time)
          (sreturn updated)))))"

fun try_bundles ::
  "(string \<Rightarrow> int option) \<Rightarrow> sale_order \<Rightarrow> string \<Rightarrow> string \<Rightarrow> string option \<Rightarrow> workflow_context \<Rightarrow>
   transition_bundle list \<Rightarrow> sale_order option service" where
  "try_bundles pd order workflowId currentStateId executedBy cx [] = sreturn None"
| "try_bundles pd order workflowId currentStateId executedBy cx (bundle # bundles) =
     sbind (slift (lift_string (create_conditions pd (tb_conditions bundle)))) (\<lambda>conditions.
       (let t = tb_transition bundle;
            passed = list_all ev_passed (evaluateConditions conditions cx);
            effect = (if passed then Some (wt_effect t) else wt_elseEffect t);
            toStateId = (if passed then wt_toStateId t else wt_elseToStateId t);
            b = (if passed then THEN_BRANCH else ELSE_BRANCH);
            actions = actions_of_branch b bundle
        in case effect of
             None \<Rightarrow> try_bundles pd order workflowId currentStateId executedBy cx bundles
           | Some e \<Rightarrow>
               if e = MOVE_STATE \<and> nonempty toStateId = None then
                 sthrow (BadRequestException ''Estado destino automatico invalido'')
               else if e = RUN_ACTIONS \<and> actions = [] then
                 sthrow (BadRequestException ''Rama automatica de acciones sin acciones'')
               else sbind (execute_automatic order workflowId currentStateId executedBy bundle b e
                             toStateId actions) (\<lambda>updated. sreturn (Some updated))))"

definition advanceAutomatic ::
  "(string \<Rightarrow> string \<Rightarrow> int) \<Rightarrow> (string \<Rightarrow> int option) \<Rightarrow> string \<Rightarrow> string option \<Rightarrow>
   sale_order option service" where
  "advanceAutomatic lc pd saleOrderId executedBy =
     sbind (findByIdForUpdate saleOrderId) (\<lambda>found.
     case found of
       None \<Rightarrow> sreturn None
     | Some order \<Rightarrow>
        (case (so_workflowId order, so_currentStateId order) of
           (Some workflowId, Some currentStateId) \<Rightarrow>
             sbind (findWorkflowDetailed workflowId) (\<lambda>aggregate.
             case Option.bind aggregate (\<lambda>ag. state_in ag currentStateId) of
               None \<Rightarrow> sreturn None
             | Some currentState \<Rightarrow>
                 sbind (build_context order currentState) (\<lambda>cx.
                 sbind (listFromState workflowId currentStateId) (\<lambda>bundles.
                   try_bundles pd order workflowId currentStateId executedBy cx
                     (automatic_bundles lc bundles))))
         | _ \<Rightarrow> sreturn None))"

end
