(* ===== verification/Relations.thy ===== *)
theory Relations
  imports TransitionService
begin

text \<open>
  What the services keep: locales that state, for a relation between the states before and
  after, what the repositories promise about it, and conclude it for the stock services, the run
  of the actions and the step of an order. A relation is an invariant, a frame condition or a
  conservation law; \<open>writes\<close> says which orders the caller allows to be written.

  The chain of the locales follows the calls of the program: \<open>repository_relation\<close> gives
  \<open>stock_relation\<close> (the consumption and its reversal keep what the repositories keep), which
  gives the run of the actions; \<open>step_relation\<close> adds the writes of a step.
\<close>

section \<open>Writes of an order\<close>

text \<open>
  What a step never touches of an order is all but its state, its warehouse and its marks. The
  warehouse is assigned once, and two of the marks are never taken back.
\<close>

definition order_core :: "sale_order \<Rightarrow> sale_order" where
  "order_core x = x\<lparr>so_warehouseId := None, so_currentStateId := None, so_invoiceSend := False,
     so_prepared := False, so_preguide := False, so_reserveBool := False,
     so_stockRevertedBool := False\<rparr>"

definition order_evolves :: "sale_order \<Rightarrow> sale_order \<Rightarrow> bool" where
  "order_evolves x y \<longleftrightarrow> order_core y = order_core x \<and>
     (so_warehouseId x = None \<or> so_warehouseId y = so_warehouseId x) \<and>
     (so_invoiceSend x \<longrightarrow> so_invoiceSend y) \<and> (so_stockRevertedBool x \<longrightarrow> so_stockRevertedBool y)"

text \<open>The updates of the actions: they leave the identity, the workflow and the state alone.\<close>

definition harmless :: "(sale_order \<Rightarrow> sale_order) \<Rightarrow> bool" where
  "harmless f \<longleftrightarrow> (\<forall>x. so_id (f x) = so_id x \<and> so_workflowId (f x) = so_workflowId x \<and>
     so_currentStateId (f x) = so_currentStateId x \<and> so_isActive (f x) = so_isActive x \<and>
     order_evolves x (f x))"

lemma harmless_writes:
  "harmless (\<lambda>x. x\<lparr>so_invoiceSend := True\<rparr>)" "harmless (\<lambda>x. x\<lparr>so_preguide := b\<rparr>)"
  "harmless (\<lambda>x. x\<lparr>so_prepared := b\<rparr>)" "harmless (\<lambda>x. x\<lparr>so_reserveBool := b\<rparr>)"
  "harmless (\<lambda>x. x\<lparr>so_stockRevertedBool := True\<rparr>)"
  "harmless (\<lambda>x. if so_warehouseId x = None then x\<lparr>so_warehouseId := w\<rparr> else x)"
  by (simp_all add: harmless_def order_evolves_def order_core_def)

definition order_is :: "string \<Rightarrow> run_state \<Rightarrow> bool" where
  "order_is i r \<longleftrightarrow> so_id (rs_order r) = i"

lemma order_is_update [simp]:
  "order_is i (push_outcome oc r) = order_is i r"
  "order_is i (r\<lparr>rs_outcomes := a\<rparr>) = order_is i r"
  "order_is i (r\<lparr>rs_markers := m\<rparr>) = order_is i r"
  "order_is i (r\<lparr>rs_requirements := q\<rparr>) = order_is i r"
  "order_is i (r\<lparr>rs_consumption := c\<rparr>) = order_is i r"
  "order_is i (r\<lparr>rs_stockActions := as\<rparr>) = order_is i r"
  "order_is i (r\<lparr>rs_skippedConsume := x\<rparr>) = order_is i r"
  "order_is i (r\<lparr>rs_skippedReserve := x\<rparr>) = order_is i r"
  "order_is i (r\<lparr>rs_completedRevert := x\<rparr>) = order_is i r"
  "order_is i (r\<lparr>rs_restoreAction := y\<rparr>) = order_is i r"
  "order_is i (r\<lparr>rs_restoreOutcome := z\<rparr>) = order_is i r"
  "order_is i (r\<lparr>rs_stockStatus := st\<rparr>) = order_is i r"
  "order_is i (r\<lparr>rs_order := ord\<rparr>) = (so_id ord = i)"
  "order_is i (skip_reserve act r) = order_is i r"
  by (simp_all add: order_is_def push_outcome_def skip_reserve_def)

locale order_writes = preorder_on_states R
  for R :: "world \<Rightarrow> world \<Rightarrow> bool" +
  fixes writes :: "string \<Rightarrow> bool"
  assumes order_write: "writes i \<Longrightarrow> harmless f \<Longrightarrow> relates R (update_order i f)"
begin

lemma marks:
  assumes "writes i"
  shows "relates R (markInvoiceSent i)" "relates R (markPreguide i)" "relates R (markPrepared i)"
    "relates R (unmarkPreguide i)" "relates R (unmarkPrepared i)" "relates R (setReserveBool i b)"
    "relates R (markStockReverted i)"
  unfolding markInvoiceSent_def markPreguide_def markPrepared_def unmarkPreguide_def
    unmarkPrepared_def setReserveBool_def markStockReverted_def
  by (rule order_write [OF assms], rule harmless_writes)+

lemma reads_order: "ensures R (\<lambda>x. \<forall>y. x = Some y \<longrightarrow> so_id y = i) (findByIdForUpdate i)"
  unfolding findByIdForUpdate_def
  by (auto simp: ensures_def sreads_Inr R_refl dest: find_by_SomeD)

lemma reads_any:
  "relates R (findByIdForUpdate i)" "relates R now" "relates R (getSnapshot w j loc)"
  "relates R (findByReference rt k dt)" "relates R (listItems d)" "relates R (findActiveFor dt' w b)"
  "relates R (listItemsBySaleOrderId i)" "relates R (listComponentsByItemIds ids)"
  "relates R (listSuppliesBySaleOrderId i)" "relates R (findBySkuId sk)"
  "relates R (findClientById c)" "relates R (findWarehouseById w)"
  "relates R (listPaymentsBySaleOrderId i)" "relates R (getOperationalAppliedTotal i)"
  "relates R (findWorkflowDetailed f)" "relates R (findTransitionDetailed t)"
  "relates R (listFromState f st)" "relates R (listHistory i)"
  "relates R (findByIdempotencyKey key)" "relates R (listExpected w ids)"
  unfolding findByIdForUpdate_def now_def getSnapshot_def findByReference_def listItems_def
    findActiveFor_def listItemsBySaleOrderId_def listComponentsByItemIds_def
    listSuppliesBySaleOrderId_def findBySkuId_def findClientById_def findWarehouseById_def
    listPaymentsBySaleOrderId_def getOperationalAppliedTotal_def findWorkflowDetailed_def
    findTransitionDetailed_def listFromState_def listHistory_def findByIdempotencyKey_def
    listExpected_def
  by (rule ensures_reads)+

lemma validates: "relates R (validateInventoryBalance a b)"
  unfolding validateInventoryBalance_def by (rule ensures_guard)

lemma assign_warehouse:
  assumes "writes i"
  shows "ensures R (\<lambda>x. \<forall>y. x = Some y \<longrightarrow> so_id y = i) (assignWarehouseIfEmpty i w)"
  unfolding assignWarehouseIfEmpty_def
  by (intro relates_bind ensures_reads ensures_then order_write [OF assms] harmless_writes
      ensures_if reads_order ensures_return) simp

text \<open>The services that only read.\<close>

lemma requirements: "relates R (resolve_requirements i)"
  unfolding resolve_requirements_def require_component_def require_supply_def
  by (intro relates_bind relates_fold reads_any ensures_cases step_rules TrueI)

lemma inspects_reservation: "relates R (inspect_reservation order q)"
  unfolding inspect_reservation_def inspect_item_def
  by (intro relates_bind relates_fold reads_any ensures_cases step_rules TrueI)

lemma loads_documents: "relates R (loadConsumptionDocuments i)"
  unfolding loadConsumptionDocuments_def
  by (intro relates_bind reads_any ensures_cases step_rules TrueI)

lemma inspects_consumption: "relates R (inspectConsumption i)"
  unfolding inspectConsumption_def
  by (intro relates_bind loads_documents ensures_cases step_rules TrueI)

lemma finds_consumption: "relates R (findUnreversedConsumption i)"
  unfolding findUnreversedConsumption_def
  by (intro relates_bind loads_documents ensures_cases step_rules TrueI)

lemma has_consumption: "relates R (has_unreversed_consumption i)"
  unfolding has_unreversed_consumption_def
  by (intro relates_bind reads_any ensures_cases step_rules TrueI)

lemma active_reservation: "relates R (hasActiveReservation i)"
  unfolding hasActiveReservation_def replay_entry_def
  by (intro relates_bind relates_fold reads_any ensures_cases step_rules TrueI)

lemma days_before: "relates R (days_before_in_history order hs)"
  by (induction order hs rule: days_before_in_history.induct)
     (auto intro!: relates_bind reads_any ensures_cases step_rules split: option.splits)

lemma effective_date: "relates R (resolveConsumptionEffectiveDate order cs)"
  unfolding resolveConsumptionEffectiveDate_def
  by (intro relates_bind days_before reads_any ensures_cases step_rules TrueI)

lemma inspects_stock: "relates R (stock_inspect order ty)"
  unfolding stock_inspect_def
  by (intro relates_bind inspects_consumption ensures_cases step_rules TrueI)

lemma stock_available: "relates R (has_stock_for w q)"
  by (induction w q rule: has_stock_for.induct)
     (auto intro!: relates_bind reads_any ensures_cases step_rules)

lemma builds_context: "relates R (build_context order st)"
  unfolding build_context_def hasAvailableStock_def
  by (intro relates_bind requirements stock_available reads_any ensures_cases step_rules TrueI)

text \<open>The assignment of a warehouse hands on the same order.\<close>

lemma assigns_configured:
  assumes "writes (so_id order)"
  shows "ensures R (\<lambda>(x, oc). so_id x = so_id order) (assign_configured order ty w)"
  unfolding assign_configured_def
  by (intro relates_bind [OF ensures_lift] relates_bind [OF reads_any(12)] ensures_if step_rules
      ensures_bind [OF assign_warehouse [OF assms]] ensures_option) simp_all

lemma executes_warehouse:
  assumes "writes (so_id order)"
  shows "ensures R (\<lambda>(x, oc). so_id x = so_id order) (warehouse_execute order a)"
  unfolding warehouse_execute_def assign_by_province_def assign_by_workflow_def
  by (auto intro!: relates_bind reads_any ensures_cases step_rules assigns_configured [OF assms])

lemma executes_marker:
  assumes "writes (so_id order)"
  shows "relates R (marker_execute order ty m)"
proof -
  have "relates R (write_marker ty (so_id order))"
    by (cases ty) (auto intro: marks [OF assms] ensures_return)
  then show ?thesis unfolding marker_execute_def
    by (intro ensures_cases step_rules TrueI)
qed

lemma executes_handler:
  assumes "writes i" "order_is i r"
  shows "ensures R (order_is i) (handler_execute h a r)"
proof -
  have i: "writes (so_id (rs_order r))" "so_id (rs_order r) = i" using assms by (simp_all add: order_is_def)
  show ?thesis
  proof (cases h)
    case MarkerHandler
    then show ?thesis unfolding handler_execute_def
      by (auto intro!: relates_bind executes_marker i(1) ensures_return ensures_pair simp: assms(2))
  next
    case WarehouseHandler
    then show ?thesis unfolding handler_execute_def
      by (auto intro!: ensures_bind [OF executes_warehouse [OF i(1)]] ensures_return ensures_pair simp: i(2))
  next
    case StockHandler
    then show ?thesis unfolding handler_execute_def by (simp add: ensures_throw)
  qed
qed

lemma inspects_handler: "relates R (handler_inspect h order a m)"
  unfolding handler_inspect_def
  by (cases h) (auto intro: ensures_return inspects_stock)

lemma marker_action:
  assumes "writes i" "order_is i r"
  shows "ensures R (\<lambda>(done, r'). order_is i r') (runMarkerAction a r)"
proof -
  have "ensures R (\<lambda>(done, r'). order_is i r')
      (case d of CONFLICT reason \<Rightarrow> sthrow (BadRequestException reason)
       | ALREADY_SATISFIED evidence \<Rightarrow>
           sreturn (True, push_outcome (skipped (wa_type a) (Some ''La accion ya estaba satisfecha'')) r)
       | PENDING \<Rightarrow> sbind (handler_execute h a r) (\<lambda>r'. sreturn (True, r')))" for d h
    by (cases d) (auto intro!: ensures_bind [OF executes_handler [OF assms]] step_rules simp: assms(2))
  then show ?thesis unfolding runMarkerAction_def
    by (auto intro!: relates_bind inspects_handler ensures_if ensures_option step_rules simp: assms(2))
qed

lemma marker_action_then:
  assumes "writes i" "order_is i r"
  shows "ensures R (order_is i) (sbind (runMarkerAction a r) (\<lambda>(_, r'). sreturn r'))"
  by (auto intro!: ensures_bind [OF marker_action [OF assms]] ensures_return ensures_pair)

lemma assigns_phase:
  "writes i \<Longrightarrow> order_is i r \<Longrightarrow> ensures R (order_is i) (assign_phase a r)"
  unfolding assign_phase_def
  by (auto intro!: ensures_if ensures_then ensures_lift marker_action_then ensures_return)

lemma caches: "order_is i r \<Longrightarrow> ensures R (\<lambda>(q, r'). order_is i r') (resolve_cached r)"
  unfolding resolve_cached_def
  by (auto intro!: relates_bind requirements ensures_option ensures_return)

lemma checks_reservation:
  assumes "order_is i r"
  shows "ensures R (order_is i) (inspectActiveReservation r)"
  unfolding inspectActiveReservation_def
  by (rule ensures_bind [OF caches [OF assms]])
     (auto intro!: relates_bind [OF inspects_reservation] ensures_pair ensures_if step_rules)

lemma consumption_phases: "order_is i r \<Longrightarrow> ensures R (order_is i) (consumption_phase r)"
  unfolding consumption_phase_def
  by (auto intro!: relates_bind inspects_consumption ensures_if step_rules)

lemma reserved_phases:
  assumes "order_is i r"
  shows "ensures R (order_is i) (reserved_phase r)"
proof -
  have "ensures R (order_is i)
      (if has_type RESERVE_STOCK (rs_stockActions r) then inspectActiveReservation r else sreturn r)"
    using assms by (intro ensures_if checks_reservation ensures_return)
  then show ?thesis unfolding reserved_phase_def Let_def using assms
    by (auto intro!: ensures_if ensures_return ensures_bind [where P = "order_is i"])
qed

lemma inspects_action: "relates R (inspect_stock_action r a)"
proof -
  have "relates R (case d of CONFLICT reason \<Rightarrow> sthrow (BadRequestException reason) | _ \<Rightarrow> sreturn ())" for d
    by (cases d) (auto intro: step_rules)
  then show ?thesis unfolding inspect_stock_action_def
    by (intro ensures_option relates_bind inspects_handler step_rules TrueI)
qed

lemma loads_snapshot: "relates R (load_snapshot b w q sn)"
  unfolding load_snapshot_def
  by (intro relates_bind reads_any ensures_cases step_rules TrueI)

end

end
