(* ===== verification/RoutePlanner.thy ===== *)
theory RoutePlanner
  imports WorkflowConditions
begin

text \<open>
  \<open>WorkflowRoutePlanner.resolve\<close> of \<open>src/modules/workflow/domain/services\<close>: the
  breadth-first search for the route of transitions that takes an order from its current
  state to a target state. The loop of the code is \<open>route_search\<close>; it is written as a
  partial function, whose value \<open>None\<close> would mean that the loop does not end, and the
  theorems show that it always ends. \<open>walk\<close> is the specification: the routes of the
  graph. \<open>localeCompare\<close> is the argument \<open>lc\<close>.
\<close>

section \<open>The planner\<close>

datatype route_failure_code =
    CURRENT_STATE_INVALID
  | CURRENT_STATE_INACTIVE
  | TARGET_STATE_NOT_IN_WORKFLOW
  | TARGET_STATE_INACTIVE
  | ROUTE_NOT_FOUND
  | AMBIGUOUS_ROUTE

datatype route_resolution =
    Ready workflow_state workflow_state "workflow_transition list"
  | AlreadyAtTarget workflow_state workflow_state
  | RouteFailed route_failure_code string "workflow_state option" "workflow_state option"

text \<open>\<open>new Map(states.map(...))\<close>: among states with one id the last one counts.\<close>

definition state_by_id :: "workflow_state list \<Rightarrow> string \<Rightarrow> workflow_state option" where
  "state_by_id states i = find_by ws_id i (rev states)"

definition target_state_of :: "workflow_state list \<Rightarrow> string \<Rightarrow> workflow_state option" where
  "target_state_of states target = find_by ws_saleOrderStateId target states"

definition compare_transitions ::
  "(string \<Rightarrow> string \<Rightarrow> int) \<Rightarrow> workflow_transition \<Rightarrow> workflow_transition \<Rightarrow> int" where
  "compare_transitions lc left right =
     (let c = lc (wt_code left) (wt_code right)
      in if c \<noteq> 0 then c else lc (wt_id left) (wt_id right))"

definition is_route_transition :: "workflow_transition \<Rightarrow> bool" where
  "is_route_transition t \<longleftrightarrow>
     wt_isActive t \<and> wt_effect t = MOVE_STATE \<and> nonempty (wt_toStateId t) \<noteq> None"

definition route_transitions ::
  "(string \<Rightarrow> string \<Rightarrow> int) \<Rightarrow> workflow_aggregate \<Rightarrow> workflow_transition list" where
  "route_transitions lc ag =
     sort_cmp (compare_transitions lc) (filter is_route_transition (ag_transitions ag))"

definition outgoing :: "workflow_transition list \<Rightarrow> string \<Rightarrow> workflow_transition list" where
  "outgoing transitions stateId =
     filter (\<lambda>t. if wt_isGlobal t then stateId \<notin> set (wt_excludedStateIds t)
                 else wt_fromStateId t = Some stateId) transitions"

text \<open>The state a transition leads to, when it exists and is active.\<close>

definition next_state :: "workflow_aggregate \<Rightarrow> workflow_transition \<Rightarrow> string option" where
  "next_state ag t =
     (case wt_toStateId t of
        None \<Rightarrow> None
      | Some nextStateId \<Rightarrow>
          (case state_by_id (ag_states ag) nextStateId of
             None \<Rightarrow> None
           | Some s \<Rightarrow> if ws_isActive s then Some nextStateId else None))"

text \<open>
  The inner loop: every outgoing transition whose target is new, or was first reached at the
  same distance, is queued with the route extended by it.
\<close>

fun push_edges ::
  "('t \<Rightarrow> 's option) \<Rightarrow> 't list \<Rightarrow> 't list \<Rightarrow> ('s \<times> 't list) list \<Rightarrow> ('s \<rightharpoonup> nat) \<Rightarrow>
   ('s \<times> 't list) list \<times> ('s \<rightharpoonup> nat)" where
  "push_edges nxt path [] queue best = (queue, best)"
| "push_edges nxt path (t # ts) queue best =
     (case nxt t of
        None \<Rightarrow> push_edges nxt path ts queue best
      | Some nextStateId \<Rightarrow>
          (let nextDistance = Suc (length path) in
           if (case best nextStateId of None \<Rightarrow> False | Some known \<Rightarrow> nextDistance > known)
           then push_edges nxt path ts queue best
           else push_edges nxt path ts (queue @ [(nextStateId, path @ [t])])
                  (best(nextStateId \<mapsto> nextDistance))))"

datatype 't search_result = NoRoute | UniqueRoute "'t list" | AmbiguousRoute

definition search_end :: "'t list list \<Rightarrow> 't search_result" where
  "search_end candidates = (case candidates of [] \<Rightarrow> NoRoute | p # _ \<Rightarrow> UniqueRoute p)"

partial_function (option) route_search ::
  "('s \<Rightarrow> 't list) \<Rightarrow> ('t \<Rightarrow> 's option) \<Rightarrow> 's \<Rightarrow> ('s \<times> 't list) list \<Rightarrow> ('s \<rightharpoonup> nat) \<Rightarrow>
   't list list \<Rightarrow> nat option \<Rightarrow> 't search_result option" where
  "route_search out nxt target queue best candidates shortestDistance =
     (case queue of
        [] \<Rightarrow> Some (search_end candidates)
      | item # rest \<Rightarrow>
          if (case shortestDistance of None \<Rightarrow> False | Some k \<Rightarrow> length (snd item) > k)
          then Some (search_end candidates)
          else if fst item = target then
            (if length (candidates @ [snd item]) > 1 then Some AmbiguousRoute
             else route_search out nxt target rest best (candidates @ [snd item])
                    (Some (length (snd item))))
          else
            route_search out nxt target
              (fst (push_edges nxt (snd item) (out (fst item)) rest best))
              (snd (push_edges nxt (snd item) (out (fst item)) rest best))
              candidates shortestDistance)"

definition search_from ::
  "(string \<Rightarrow> string \<Rightarrow> int) \<Rightarrow> workflow_aggregate \<Rightarrow> string \<Rightarrow> string \<Rightarrow>
   workflow_transition search_result option" where
  "search_from lc ag start target =
     route_search (outgoing (route_transitions lc ag)) (next_state ag) target
       [(start, [])] [start \<mapsto> 0] [] None"

definition resolve ::
  "(string \<Rightarrow> string \<Rightarrow> int) \<Rightarrow> workflow_aggregate \<Rightarrow> string \<Rightarrow> string \<Rightarrow> route_resolution option" where
  "resolve lc ag currentStateId targetSaleOrderStateId =
     (case state_by_id (ag_states ag) currentStateId of
        None \<Rightarrow> Some (RouteFailed CURRENT_STATE_INVALID
                  ''El estado actual no pertenece al flujo del pedido'' None None)
      | Some currentState \<Rightarrow>
          if \<not> ws_isActive currentState then
            Some (RouteFailed CURRENT_STATE_INACTIVE
              ''El estado actual del pedido esta inactivo'' (Some currentState) None)
          else
            (case target_state_of (ag_states ag) targetSaleOrderStateId of
               None \<Rightarrow> Some (RouteFailed TARGET_STATE_NOT_IN_WORKFLOW
                         ''El estado destino no existe en el flujo del pedido'' (Some currentState) None)
             | Some targetState \<Rightarrow>
                 if \<not> ws_isActive targetState then
                   Some (RouteFailed TARGET_STATE_INACTIVE
                     ''El estado destino esta inactivo en el flujo del pedido''
                     (Some currentState) (Some targetState))
                 else if ws_id currentState = ws_id targetState then
                   Some (AlreadyAtTarget currentState targetState)
                 else
                   (case search_from lc ag (ws_id currentState) (ws_id targetState) of
                      None \<Rightarrow> None
                    | Some AmbiguousRoute \<Rightarrow> Some (RouteFailed AMBIGUOUS_ROUTE
                        ''Existe mas de una ruta equivalente al estado destino''
                        (Some currentState) (Some targetState))
                    | Some NoRoute \<Rightarrow> Some (RouteFailed ROUTE_NOT_FOUND
                        ''No existe una ruta al estado destino en el flujo del pedido''
                        (Some currentState) (Some targetState))
                    | Some (UniqueRoute p) \<Rightarrow> Some (Ready currentState targetState p))))"

section \<open>Routes of a graph\<close>

text \<open>\<open>walk out nxt s p s'\<close>: the transitions \<open>p\<close> lead from \<open>s\<close> to \<open>s'\<close>.\<close>

fun walk :: "('s \<Rightarrow> 't list) \<Rightarrow> ('t \<Rightarrow> 's option) \<Rightarrow> 's \<Rightarrow> 't list \<Rightarrow> 's \<Rightarrow> bool" where
  "walk out nxt s [] s' = (s = s')"
| "walk out nxt s (t # ts) s' =
     (t \<in> set (out s) \<and> (case nxt t of None \<Rightarrow> False | Some u \<Rightarrow> walk out nxt u ts s'))"

definition shortest_walk ::
  "('s \<Rightarrow> 't list) \<Rightarrow> ('t \<Rightarrow> 's option) \<Rightarrow> 's \<Rightarrow> 't list \<Rightarrow> 's \<Rightarrow> bool" where
  "shortest_walk out nxt s p s' \<longleftrightarrow>
     walk out nxt s p s' \<and> (\<forall>p'. walk out nxt s p' s' \<longrightarrow> length p \<le> length p')"

text \<open>What the search must answer.\<close>

definition search_correct ::
  "('s \<Rightarrow> 't list) \<Rightarrow> ('t \<Rightarrow> 's option) \<Rightarrow> 's \<Rightarrow> 's \<Rightarrow> 't search_result \<Rightarrow> bool" where
  "search_correct out nxt s s' r \<longleftrightarrow>
     (case r of
        NoRoute \<Rightarrow> \<forall>p. \<not> walk out nxt s p s'
      | UniqueRoute p \<Rightarrow>
          shortest_walk out nxt s p s' \<and> (\<forall>p'. shortest_walk out nxt s p' s' \<longrightarrow> p' = p)
      | AmbiguousRoute \<Rightarrow>
          \<exists>p p'. p \<noteq> p' \<and> shortest_walk out nxt s p s' \<and> shortest_walk out nxt s p' s')"

lemma walk_snoc:
  "walk out nxt s (p @ [t]) s' \<longleftrightarrow>
     (\<exists>u. walk out nxt s p u \<and> t \<in> set (out u) \<and> nxt t = Some s')"
  by (induction p arbitrary: s) (auto split: option.splits)

lemma walk_end_unique: "walk out nxt s p u \<Longrightarrow> walk out nxt s p v \<Longrightarrow> u = v"
  by (induction p arbitrary: s) (auto split: option.splits)

text \<open>The level-by-level reading of the search: the new routes and the states seen so far.\<close>

definition expand ::
  "('s \<Rightarrow> 't list) \<Rightarrow> ('t \<Rightarrow> 's option) \<Rightarrow> 's set \<Rightarrow> 's \<times> 't list \<Rightarrow> ('s \<times> 't list) list" where
  "expand out nxt V item =
     List.map_filter (\<lambda>t. case nxt t of
         None \<Rightarrow> None
       | Some s' \<Rightarrow> if s' \<in> V then None else Some (s', snd item @ [t])) (out (fst item))"

fun levels ::
  "('s \<Rightarrow> 't list) \<Rightarrow> ('t \<Rightarrow> 's option) \<Rightarrow> 's \<Rightarrow> nat \<Rightarrow> ('s \<times> 't list) list \<times> 's set" where
  "levels out nxt s 0 = ([(s, [])], {s})"
| "levels out nxt s (Suc k) =
     (let (L, V) = levels out nxt s k; L' = concat (map (expand out nxt V) L)
      in (L', V \<union> fst ` set L'))"

lemma set_expand:
  "(v, p') \<in> set (expand out nxt V (u, p)) \<longleftrightarrow>
     (\<exists>t \<in> set (out u). nxt t = Some v \<and> v \<notin> V \<and> p' = p @ [t])"
  by (force simp: expand_def List.map_filter_def split: option.splits if_splits)

lemma expand_disjoint: "v \<in> V \<Longrightarrow> v \<notin> fst ` set (expand out nxt V item)"
  by (cases item) (auto simp: set_expand)

lemma distinct_expand: "distinct (out u) \<Longrightarrow> distinct (map snd (expand out nxt V (u, p)))"
  unfolding expand_def fst_conv snd_conv
proof (induction "out u" arbitrary: out)
  case (Cons t ts)
  from Cons(1) [of "\<lambda>_. ts"] Cons(2,3)
  show ?case
    by (auto simp: List.map_filter_def Cons(2) [symmetric] split: option.splits)
qed (simp add: List.map_filter_def)

section \<open>The search proceeds by levels\<close>

text \<open>
  What the table of distances says while the routes of length \<open>k\<close> are expanded: the
  states of \<open>V\<close> were reached before, those of \<open>W\<close> are reached now.
\<close>

definition best_ok :: "'s set \<Rightarrow> nat \<Rightarrow> 's set \<Rightarrow> ('s \<rightharpoonup> nat) \<Rightarrow> bool" where
  "best_ok V k W best \<longleftrightarrow>
     (\<forall>v \<in> V. \<exists>n \<le> k. best v = Some n) \<and>
     (\<forall>v. v \<notin> V \<longrightarrow> best v = (if v \<in> W then Some (Suc k) else None))"

lemma expand_Nil: "expand (\<lambda>_. []) nxt V i = []"
  by (simp add: expand_def List.map_filter_def)

lemma expand_Cons:
  "expand (\<lambda>_. t # ts) nxt V (u, p) =
     (case nxt t of
        None \<Rightarrow> expand (\<lambda>_. ts) nxt V (u, p)
      | Some v \<Rightarrow> (if v \<in> V then [] else [(v, p @ [t])]) @ expand (\<lambda>_. ts) nxt V (u, p))"
  by (simp add: expand_def List.map_filter_def split: option.splits)

lemma best_ok_step:
  assumes "best_ok V k W best"
  shows "best_ok (V \<union> W) (Suc k) {} best"
proof -
  have "\<exists>n \<le> Suc k. best v = Some n" if "v \<in> V \<union> W" for v
  proof (cases "v \<in> V")
    case True
    then obtain n where "n \<le> k" "best v = Some n" using assms unfolding best_ok_def by blast
    then show ?thesis by (intro exI [of _ n]) simp
  next
    case False
    with that assms show ?thesis unfolding best_ok_def by simp
  qed
  with assms show ?thesis unfolding best_ok_def by simp
qed

lemma push_edges_expand:
  assumes "best_ok V (length p) W best"
  shows "\<exists>best'. push_edges nxt p ts queue best = (queue @ expand (\<lambda>_. ts) nxt V (u, p), best')
    \<and> best_ok V (length p) (W \<union> fst ` set (expand (\<lambda>_. ts) nxt V (u, p))) best'"
  using assms
proof (induction ts arbitrary: queue best W)
  case Nil
  then show ?case by (simp add: expand_Nil)
next
  case (Cons t ts)
  show ?case
  proof (cases "nxt t")
    case None
    then show ?thesis using Cons.IH [OF Cons.prems, of queue]
      by (simp add: expand_Cons)
  next
    case (Some v)
    show ?thesis
    proof (cases "v \<in> V")
      case True
      then obtain n where "best v = Some n" "n \<le> length p"
        using Cons.prems unfolding best_ok_def by blast
      then show ?thesis using Cons.IH [OF Cons.prems, of queue] Some True
        by (simp add: expand_Cons)
    next
      case False
      have old: "best v = None \<or> best v = Some (Suc (length p))"
        using Cons.prems False unfolding best_ok_def by metis
      have "best_ok V (length p) (insert v W) (best(v \<mapsto> Suc (length p)))"
        using Cons.prems False unfolding best_ok_def by auto
      from Cons.IH [OF this, of "queue @ [(v, p @ [t])]"] obtain best' where
        "push_edges nxt p ts (queue @ [(v, p @ [t])]) (best(v \<mapsto> Suc (length p))) =
           (queue @ expand (\<lambda>_. t # ts) nxt V (u, p), best')"
        "best_ok V (length p) (W \<union> fst ` set (expand (\<lambda>_. t # ts) nxt V (u, p))) best'"
        using Some False by (auto simp: expand_Cons simp del: fun_upd_apply)
      moreover have "push_edges nxt p (t # ts) queue best =
          push_edges nxt p ts (queue @ [(v, p @ [t])]) (best(v \<mapsto> Suc (length p)))"
        using Some old by (auto simp del: fun_upd_apply)
      ultimately show ?thesis by metis
    qed
  qed
qed

lemma push_edges_append:
  "\<exists>E best'. push_edges nxt p ts queue best = (queue @ E, best') \<and>
     (\<forall>e \<in> set E. length (snd e) = Suc (length p))"
proof (induction ts arbitrary: queue best)
  case (Cons t ts)
  show ?case
  proof (cases "\<exists>v. nxt t = Some v \<and>
      \<not> (case best v of None \<Rightarrow> False | Some known \<Rightarrow> Suc (length p) > known)")
    case True
    then obtain v where v: "nxt t = Some v"
      "\<not> (case best v of None \<Rightarrow> False | Some known \<Rightarrow> Suc (length p) > known)" by blast
    from Cons [of "queue @ [(v, p @ [t])]" "best(v \<mapsto> Suc (length p))"]
    obtain E best' where
      "push_edges nxt p ts (queue @ [(v, p @ [t])]) (best(v \<mapsto> Suc (length p))) =
         (queue @ ((v, p @ [t]) # E), best')"
      "\<forall>e \<in> set E. length (snd e) = Suc (length p)" by (auto simp del: fun_upd_apply)
    moreover have "push_edges nxt p (t # ts) queue best =
        push_edges nxt p ts (queue @ [(v, p @ [t])]) (best(v \<mapsto> Suc (length p)))"
      using v by (cases "best v") (simp_all del: fun_upd_apply)
    ultimately have "push_edges nxt p (t # ts) queue best = (queue @ ((v, p @ [t]) # E), best')"
      "\<forall>e \<in> set ((v, p @ [t]) # E). length (snd e) = Suc (length p)" by simp_all
    then show ?thesis by blast
  next
    case False
    then have "push_edges nxt p (t # ts) queue best = push_edges nxt p ts queue best"
      by (cases "nxt t") (simp_all add: Let_def)
    with Cons show ?thesis by simp
  qed
qed simp

text \<open>A level that does not hold the target is replaced by the next one.\<close>

lemma search_level:
  assumes "best_ok V k W best" "\<forall>i \<in> set L. length (snd i) = k \<and> fst i \<noteq> target"
  shows "\<exists>best'. best_ok V k (W \<union> fst ` set (concat (map (expand out nxt V) L))) best' \<and>
    route_search out nxt target (L @ Q) best [] None =
    route_search out nxt target (Q @ concat (map (expand out nxt V) L)) best' [] None"
  using assms
proof (induction L arbitrary: Q best W)
  case (Cons item L)
  obtain u p where item: "item = (u, p)" by force
  have p: "length p = k" "u \<noteq> target" using Cons.prems(2) item by auto
  have "expand (\<lambda>_. out u) nxt V (u, p) = expand out nxt V item"
    by (simp add: expand_def item)
  with push_edges_expand [of V p W best nxt "out u" "L @ Q" u] Cons.prems(1) p
  obtain best1 where
    1: "push_edges nxt p (out u) (L @ Q) best = (L @ (Q @ expand out nxt V item), best1)"
    "best_ok V k (W \<union> fst ` set (expand out nxt V item)) best1"
    by auto
  have step: "route_search out nxt target (item # L @ Q) best [] None =
      route_search out nxt target (L @ (Q @ expand out nxt V item)) best1 [] None"
    by (subst route_search.simps) (simp add: item p 1 [unfolded item])
  from Cons.IH [OF 1(2), of "Q @ expand out nxt V item"] Cons.prems(2) step
  show ?case by (simp add: Un_assoc image_Un)
qed auto

text \<open>Once a route to the target is known, only another one at the same distance counts.\<close>

lemma search_second:
  assumes "\<forall>i \<in> set L. length (snd i) = k" "\<forall>i \<in> set Q. length (snd i) = Suc k"
  shows "route_search out nxt target (L @ Q) best [p] (Some k) =
    Some (if target \<in> fst ` set L then AmbiguousRoute else UniqueRoute p)"
  using assms
proof (induction L arbitrary: Q best)
  case Nil
  then show ?case
    by (subst route_search.simps) (auto simp: search_end_def split: list.splits)
next
  case (Cons item L)
  show ?case
  proof (cases "fst item = target")
    case True
    then show ?thesis using Cons.prems
      by (subst route_search.simps) simp
  next
    case False
    obtain E best' where E: "push_edges nxt (snd item) (out (fst item)) (L @ Q) best = (L @ (Q @ E), best')"
      "\<forall>e \<in> set E. length (snd e) = Suc k"
      using push_edges_append [of nxt "snd item" "out (fst item)" "L @ Q" best] Cons.prems by auto
    have "\<forall>i \<in> set (Q @ E). length (snd i) = Suc k" using E Cons.prems by auto
    from Cons.IH [OF _ this, of best'] Cons.prems E False show ?thesis
      by (subst route_search.simps) auto
  qed
qed

lemma search_target_level:
  assumes "\<forall>i \<in> set L. length (snd i) = k" "\<forall>i \<in> set Q. length (snd i) = Suc k"
    and "target \<in> fst ` set L"
  shows "route_search out nxt target (L @ Q) best [] None =
    Some (case filter (\<lambda>i. fst i = target) L of [i] \<Rightarrow> UniqueRoute (snd i) | _ \<Rightarrow> AmbiguousRoute)"
  using assms
proof (induction L arbitrary: Q best)
  case (Cons item L)
  show ?case
  proof (cases "fst item = target")
    case True
    have "route_search out nxt target (item # L @ Q) best [] None =
        route_search out nxt target (L @ Q) best [snd item] (Some k)"
      using True Cons.prems by (subst route_search.simps) simp
    also have "\<dots> = Some (if target \<in> fst ` set L then AmbiguousRoute else UniqueRoute (snd item))"
      using Cons.prems by (intro search_second) auto
    also have "target \<in> fst ` set L \<longleftrightarrow> filter (\<lambda>i. fst i = target) L \<noteq> []"
      by (auto simp: filter_empty_conv image_iff)
    finally show ?thesis using True by (simp split: list.splits)
  next
    case False
    obtain E best' where E: "push_edges nxt (snd item) (out (fst item)) (L @ Q) best = (L @ (Q @ E), best')"
      "\<forall>e \<in> set E. length (snd e) = Suc k"
      using push_edges_append [of nxt "snd item" "out (fst item)" "L @ Q" best] Cons.prems by auto
    have "\<forall>i \<in> set (Q @ E). length (snd i) = Suc k" using E Cons.prems by auto
    from Cons.IH [OF _ this, of best'] Cons.prems E False show ?thesis
      by (subst route_search.simps) auto
  qed
qed simp

section \<open>Levels are the shortest routes\<close>

lemma shortest_walk_prefix:
  assumes "shortest_walk out nxt s (p @ q) v"
  shows "\<exists>u. shortest_walk out nxt s p u \<and> walk out nxt u q v"
proof -
  have split: "walk out nxt s (p @ q) v \<longleftrightarrow> (\<exists>u. walk out nxt s p u \<and> walk out nxt u q v)" for p
    by (induction p arbitrary: s) (auto split: option.splits)
  with assms obtain u where u: "walk out nxt s p u" "walk out nxt u q v"
    unfolding shortest_walk_def by blast
  have "length p \<le> length p'" if "walk out nxt s p' u" for p'
  proof -
    have "walk out nxt s (p' @ q) v" using split that u(2) by blast
    then have "length (p @ q) \<le> length (p' @ q)" using assms unfolding shortest_walk_def by blast
    then show ?thesis by simp
  qed
  with u show ?thesis unfolding shortest_walk_def by blast
qed

lemma walk_shortest_exists:
  assumes "walk out nxt s p v"
  shows "\<exists>q. shortest_walk out nxt s q v \<and> length q \<le> length p"
proof -
  obtain q where "walk out nxt s q v" "\<forall>y. walk out nxt s y v \<longrightarrow> length q \<le> length y"
    using assms ex_has_least_nat [of "\<lambda>p. walk out nxt s p v" p length] by blast
  with assms show ?thesis unfolding shortest_walk_def by blast
qed

abbreviation level where "level out nxt s k \<equiv> fst (levels out nxt s k)"
abbreviation reached where "reached out nxt s k \<equiv> snd (levels out nxt s k)"

lemma levels_Suc:
  "level out nxt s (Suc k) = concat (map (expand out nxt (reached out nxt s k)) (level out nxt s k))"
  "reached out nxt s (Suc k) = reached out nxt s k \<union> fst ` set (level out nxt s (Suc k))"
  by (simp_all add: Let_def split_beta)

lemma level_step:
  assumes level: "set (level out nxt s k) = {(v, p). length p = k \<and> shortest_walk out nxt s p v}"
    and reached: "reached out nxt s k = {v. \<exists>p. walk out nxt s p v \<and> length p \<le> k}"
  shows "(v, q) \<in> set (level out nxt s (Suc k)) \<longleftrightarrow>
    length q = Suc k \<and> shortest_walk out nxt s q v"
proof
  assume "(v, q) \<in> set (level out nxt s (Suc k))"
  then obtain u p where up: "(u, p) \<in> set (level out nxt s k)"
    "(v, q) \<in> set (expand out nxt (reached out nxt s k) (u, p))"
    unfolding levels_Suc by auto
  from up(2) [unfolded set_expand] obtain t where "t \<in> set (out u)"
    "nxt t = Some v" "v \<notin> reached out nxt s k" "q = p @ [t]" by blast
  moreover from up(1) have "length p = k" "shortest_walk out nxt s p u"
    by (simp_all add: level)
  ultimately have t: "length p = k" "shortest_walk out nxt s p u" "t \<in> set (out u)"
    "nxt t = Some v" "v \<notin> reached out nxt s k" "q = p @ [t]" by blast+
  have "walk out nxt s q v"
    using t unfolding shortest_walk_def by (simp only: walk_snoc) blast
  moreover have "length q \<le> length p'" if "walk out nxt s p' v" for p'
  proof -
    have "\<not> length p' \<le> k" using t(5) that unfolding reached by blast
    then show ?thesis using t(1,6) by simp
  qed
  ultimately show "length q = Suc k \<and> shortest_walk out nxt s q v"
    using t(1,6) unfolding shortest_walk_def by simp
next
  assume q: "length q = Suc k \<and> shortest_walk out nxt s q v"
  then obtain p t where p: "q = p @ [t]" by (cases q rule: rev_cases) auto
  obtain u where u: "shortest_walk out nxt s p u" "walk out nxt u [t] v"
    using q shortest_walk_prefix [of out nxt s p "[t]" v] unfolding p by blast
  have "v \<notin> reached out nxt s k"
    using q unfolding reached shortest_walk_def by fastforce
  then have "(v, q) \<in> set (expand out nxt (reached out nxt s k) (u, p))"
    using u p by (auto simp: set_expand split: option.splits)
  moreover have "(u, p) \<in> set (level out nxt s k)" using level u p q by auto
  ultimately show "(v, q) \<in> set (level out nxt s (Suc k))" unfolding levels_Suc by auto
qed

lemma levels_shortest:
  "set (level out nxt s k) = {(v, p). length p = k \<and> shortest_walk out nxt s p v} \<and>
   reached out nxt s k = {v. \<exists>p. walk out nxt s p v \<and> length p \<le> k}"
proof (induction k)
  case 0
  then show ?case by (auto simp: shortest_walk_def)
next
  case (Suc k)
  then have level: "set (level out nxt s k) = {(v, p). length p = k \<and> shortest_walk out nxt s p v}"
    and reached: "reached out nxt s k = {v. \<exists>p. walk out nxt s p v \<and> length p \<le> k}" by blast+
  have next_level: "set (level out nxt s (Suc k)) =
      {(v, p). length p = Suc k \<and> shortest_walk out nxt s p v}"
    using level_step [OF level reached] by auto
  have "v \<in> reached out nxt s (Suc k) \<longleftrightarrow> (\<exists>p. walk out nxt s p v \<and> length p \<le> Suc k)" for v
  proof
    assume "v \<in> reached out nxt s (Suc k)"
    then show "\<exists>p. walk out nxt s p v \<and> length p \<le> Suc k"
      unfolding levels_Suc(2) next_level reached shortest_walk_def by (auto intro: le_SucI)
  next
    assume "\<exists>p. walk out nxt s p v \<and> length p \<le> Suc k"
    then obtain q where q: "shortest_walk out nxt s q v" "length q \<le> Suc k"
      using walk_shortest_exists order_trans by metis
    show "v \<in> reached out nxt s (Suc k)"
    proof (cases "length q = Suc k")
      case True
      with q have "(v, q) \<in> set (level out nxt s (Suc k))" unfolding next_level by simp
      then show ?thesis unfolding levels_Suc(2) by force
    next
      case False
      with q have "v \<in> reached out nxt s k" unfolding reached shortest_walk_def by force
      then show ?thesis unfolding levels_Suc(2) by blast
    qed
  qed
  with next_level show ?case by blast
qed

lemmas set_level = levels_shortest [THEN conjunct1]
lemmas set_reached = levels_shortest [THEN conjunct2]

lemma level_disjoint: "v \<in> reached out nxt s k \<Longrightarrow> v \<notin> fst ` set (level out nxt s (Suc k))"
  unfolding levels_Suc(1) set_concat set_map image_UN by (auto dest: expand_disjoint)

lemma distinct_concat_expand:
  assumes "\<And>u. distinct (out u)"
  shows "distinct (map snd L) \<Longrightarrow> distinct (map snd (concat (map (expand out nxt V) L)))"
proof (induction L)
  case (Cons i L)
  obtain u p where i: "i = (u, p)" by force
  have "q \<notin> snd ` set (expand out nxt V j)"
    if j: "j \<in> set L" and q: "q \<in> snd ` set (expand out nxt V i)" for j q
  proof -
    obtain u' p' where j': "j = (u', p')" by force
    have "p' \<noteq> p" using Cons.prems j i j' by force
    then show ?thesis using q unfolding i j' by (auto simp: set_expand)
  qed
  moreover have "distinct (map snd (expand out nxt V i))"
    unfolding i by (rule distinct_expand) (rule assms)
  moreover have "distinct (map snd (concat (map (expand out nxt V) L)))"
    using Cons by simp
  ultimately show ?case by auto
qed simp

lemma distinct_level:
  assumes "\<And>u. distinct (out u)"
  shows "distinct (map snd (level out nxt s k))"
proof (induction k)
  case (Suc k)
  then show ?case unfolding levels_Suc by (rule distinct_concat_expand [of out, OF assms])
qed simp

section \<open>The search is correct and ends\<close>

text \<open>
  A graph in which only finitely many states can be reached, which is all the search needs
  to end.
\<close>

locale route_graph =
  fixes out :: "'s \<Rightarrow> 't list" and nxt :: "'t \<Rightarrow> 's option" and states :: "'s set"
  assumes finite_states: "finite states"
    and next_in_states: "nxt t = Some v \<Longrightarrow> v \<in> states"
begin

lemma reached_subset: "reached out nxt s k \<subseteq> insert s states"
proof
  fix v
  assume "v \<in> reached out nxt s k"
  then obtain p where p: "walk out nxt s p v" unfolding set_reached by blast
  show "v \<in> insert s states"
  proof (cases p rule: rev_cases)
    case (snoc q t)
    then show ?thesis using p next_in_states by (auto simp: walk_snoc)
  qed (use p in simp)
qed

lemma level_lengths: "\<forall>i \<in> set (level out nxt s k). length (snd i) = k"
  unfolding set_level by auto

lemma search_at_target_level:
  assumes dist: "\<And>u. distinct (out u)" and hit: "target \<in> fst ` set (level out nxt s k)"
  shows "\<exists>r. route_search out nxt target (level out nxt s k) best [] None = Some r \<and>
    search_correct out nxt s target r"
proof -
  let ?F = "filter (\<lambda>i. fst i = target) (level out nxt s k)"
  have r: "route_search out nxt target (level out nxt s k) best [] None =
      Some (case ?F of [i] \<Rightarrow> UniqueRoute (snd i) | _ \<Rightarrow> AmbiguousRoute)"
    using search_target_level [of "level out nxt s k" k "[]" target out nxt best]
      level_lengths hit by simp
  have mem: "(target, q) \<in> set ?F \<longleftrightarrow> length q = k \<and> shortest_walk out nxt s q target" for q
    using set_level [of out nxt s k] by auto
  have same_length: "length q = k" if "shortest_walk out nxt s q target" for q
  proof -
    obtain q' where "length q' = k" "shortest_walk out nxt s q' target"
      using hit set_level [of out nxt s k] by auto
    then have "length q \<le> k" "k \<le> length q" using that unfolding shortest_walk_def by blast+
    then show ?thesis by simp
  qed
  have fst_F: "fst i = target" if "i \<in> set ?F" for i using that by simp
  have dist_F: "distinct (map snd ?F)"
    using distinct_level [of out nxt s k, OF dist] by (simp add: distinct_map_filter)
  show ?thesis
  proof (cases ?F)
    case Nil
    then show ?thesis using hit by (auto simp: filter_empty_conv)
  next
    case (Cons i rest)
    obtain q where i: "i = (target, q)" using fst_F [of i] Cons by (cases i) simp
    have "(target, q) \<in> set ?F" unfolding Cons i by simp
    then have q: "shortest_walk out nxt s q target" unfolding mem by blast
    show ?thesis
    proof (cases rest)
      case Nil
      have "q' = q" if "shortest_walk out nxt s q' target" for q'
      proof -
        have "(target, q') \<in> set ?F" unfolding mem using that same_length [OF that] by blast
        then show ?thesis unfolding Cons Nil i by simp
      qed
      then have "search_correct out nxt s target (UniqueRoute q)"
        using q unfolding search_correct_def search_result.case by blast
      moreover have "route_search out nxt target (level out nxt s k) best [] None =
          Some (UniqueRoute q)"
        unfolding r Cons Nil i by simp
      ultimately show ?thesis by blast
    next
      case (Cons j rest')
      obtain q' where j: "j = (target, q')"
        using fst_F [of j] \<open>?F = i # rest\<close> Cons by (cases j) simp
      have "(target, q') \<in> set ?F" unfolding \<open>?F = i # rest\<close> Cons j by simp
      then have "shortest_walk out nxt s q' target" unfolding mem by blast
      moreover have "q \<noteq> q'" using dist_F unfolding \<open>?F = i # rest\<close> Cons i j by simp
      moreover have "route_search out nxt target (level out nxt s k) best [] None = Some AmbiguousRoute"
        unfolding r \<open>?F = i # rest\<close> Cons by simp
      ultimately show ?thesis using q unfolding search_correct_def by force
    qed
  qed
qed

lemma no_walk_when_level_empty:
  assumes "level out nxt s k = []" "\<forall>p. walk out nxt s p v \<longrightarrow> k \<le> length p"
  shows "\<not> walk out nxt s p v"
proof
  assume "walk out nxt s p v"
  then obtain q where q: "shortest_walk out nxt s q v"
    using walk_shortest_exists [of out nxt s p v] by blast
  then have "k \<le> length q" using assms(2) unfolding shortest_walk_def by blast
  then have "length (take k q) = k" by simp
  moreover obtain u where "shortest_walk out nxt s (take k q) u"
    using q shortest_walk_prefix [of out nxt s "take k q" "drop k q" v] by auto
  ultimately have "(u, take k q) \<in> set (level out nxt s k)" unfolding set_level by simp
  then show False using assms(1) by simp
qed

lemma best_ok_next:
  assumes "best_ok (reached out nxt s k) k (fst ` set (level out nxt s (Suc k))) best"
  shows "best_ok (reached out nxt s (Suc k)) (Suc k) {} best"
  using best_ok_step [OF assms] unfolding levels_Suc(2) by simp

text \<open>
  The measure of the search: the states that are still to be found, and one more while the
  level is not empty.
\<close>

definition remaining :: "'s \<Rightarrow> nat \<Rightarrow> nat" where
  "remaining s k =
     2 * card (insert s states - reached out nxt s k) + (if level out nxt s k = [] then 0 else 1)"

lemma remaining_Suc:
  assumes "level out nxt s k \<noteq> []"
  shows "remaining s (Suc k) < remaining s k"
proof (cases "level out nxt s (Suc k)")
  case Nil
  then have "reached out nxt s (Suc k) = reached out nxt s k" unfolding levels_Suc(2) by simp
  with assms Nil show ?thesis unfolding remaining_def by (simp del: levels.simps)
next
  case (Cons i L)
  then have i: "fst i \<in> reached out nxt s (Suc k)" "fst i \<notin> reached out nxt s k"
    unfolding levels_Suc(2) using level_disjoint [of "fst i" out nxt s k]
    by (auto simp del: levels.simps)
  have "insert s states - reached out nxt s (Suc k) \<subset> insert s states - reached out nxt s k"
    using i reached_subset [of s "Suc k"] unfolding levels_Suc(2) by blast
  then have "card (insert s states - reached out nxt s (Suc k)) <
      card (insert s states - reached out nxt s k)"
    by (rule psubset_card_mono [rotated]) (simp add: finite_states)
  then show ?thesis unfolding remaining_def using assms by (simp del: levels.simps)
qed

lemma search_at_target_level_total:
  assumes "target \<in> fst ` set (level out nxt s k)"
  shows "\<exists>r. route_search out nxt target (level out nxt s k) best [] None = Some r \<and>
    ((\<forall>u. distinct (out u)) \<longrightarrow> search_correct out nxt s target r)"
proof -
  have "\<exists>r. route_search out nxt target (level out nxt s k) best [] None = Some r"
    using search_target_level [of "level out nxt s k" k "[]" target out nxt best]
      level_lengths assms by simp
  then show ?thesis using search_at_target_level [OF _ assms, of best] by fastforce
qed

lemma search_from_level:
  "best_ok (reached out nxt s k) k {} best \<Longrightarrow>
    \<forall>p. walk out nxt s p target \<longrightarrow> k \<le> length p \<Longrightarrow>
    \<exists>r. route_search out nxt target (level out nxt s k) best [] None = Some r \<and>
      ((\<forall>u. distinct (out u)) \<longrightarrow> search_correct out nxt s target r)"
proof (induction "remaining s k" arbitrary: k best rule: less_induct)
  case less
  show ?case
  proof (cases "target \<in> fst ` set (level out nxt s k)")
    case True
    then show ?thesis by (rule search_at_target_level_total)
  next
    case no_hit: False
    show ?thesis
    proof (cases "level out nxt s k = []")
      case True
      then have "route_search out nxt target (level out nxt s k) best [] None = Some NoRoute"
        by (subst route_search.simps) (simp add: search_end_def)
      then show ?thesis using no_walk_when_level_empty [OF True less.prems(2)]
        by (simp add: search_correct_def)
    next
      case False
      have "\<forall>i \<in> set (level out nxt s k). length (snd i) = k \<and> fst i \<noteq> target"
        using level_lengths no_hit by force
      from search_level [OF less.prems(1) this, of out nxt "[]"] obtain best' where
        best': "best_ok (reached out nxt s k) k (fst ` set (level out nxt s (Suc k))) best'"
        and step: "route_search out nxt target (level out nxt s k) best [] None =
          route_search out nxt target (level out nxt s (Suc k)) best' [] None"
        unfolding levels_Suc(1) by auto
      have "Suc k \<le> length p" if "walk out nxt s p target" for p
      proof -
        have "length p \<noteq> k"
        proof
          assume "length p = k"
          with that less.prems(2) have "(target, p) \<in> set (level out nxt s k)"
            unfolding set_level shortest_walk_def by simp
          with no_hit show False by force
        qed
        with that less.prems(2) show ?thesis by fastforce
      qed
      with less.hyps [OF remaining_Suc [OF False] best_ok_next [OF best']] step
      show ?thesis by simp
    qed
  qed
qed

theorem search_total_correct:
  "\<exists>r. route_search out nxt target [(s, [])] [s \<mapsto> 0] [] None = Some r \<and>
    ((\<forall>u. distinct (out u)) \<longrightarrow> search_correct out nxt s target r)"
  using search_from_level [of s 0 "[s \<mapsto> 0]" target] by (simp add: best_ok_def)

end

lemma state_by_id_SomeD: "state_by_id states i = Some s \<Longrightarrow> s \<in> set states \<and> ws_id s = i"
  by (auto simp: state_by_id_def dest: find_by_SomeD)

interpretation workflow_graph:
  route_graph "outgoing (route_transitions lc ag)" "next_state ag" "ws_id ` set (ag_states ag)"
  for lc ag
proof
  fix t v
  assume "next_state ag t = Some v"
  then show "v \<in> ws_id ` set (ag_states ag)"
    by (auto simp: next_state_def dest!: state_by_id_SomeD split: option.splits if_splits)
qed simp

lemma distinct_outgoing:
  assumes "distinct (ag_transitions ag)"
  shows "distinct (outgoing (route_transitions lc ag) u)"
  using assms by (simp add: outgoing_def route_transitions_def distinct_sort_cmp)

text \<open>The routes of a workflow: what \<open>walk\<close> means for the planner's graph.\<close>

definition workflow_route ::
  "workflow_aggregate \<Rightarrow> string \<Rightarrow> workflow_transition list \<Rightarrow> string \<Rightarrow> bool" where
  "workflow_route ag = walk (outgoing (filter is_route_transition (ag_transitions ag))) (next_state ag)"

lemma walk_cong_set:
  assumes "\<And>u. set (out u) = set (out' u)"
  shows "walk out nxt s p v = walk out' nxt s p v"
  using assms by (induction p arbitrary: s) (auto split: option.splits)

lemma workflow_route_walk:
  "walk (outgoing (route_transitions lc ag)) (next_state ag) = workflow_route ag"
  unfolding workflow_route_def
  by (intro ext walk_cong_set) (auto simp: outgoing_def route_transitions_def)

lemma search_from_total: "\<exists>r. search_from lc ag s target = Some r"
  unfolding search_from_def
  using workflow_graph.search_total_correct [of lc ag target s] by blast

lemma search_from_correct:
  assumes "distinct (ag_transitions ag)" "search_from lc ag s target = Some r"
  shows "search_correct (outgoing (route_transitions lc ag)) (next_state ag) s target r"
  using assms workflow_graph.search_total_correct [of lc ag target s] distinct_outgoing
  unfolding search_from_def by fastforce

text \<open>A route that every other route of the workflow is longer than.\<close>

definition unique_shortest_route ::
  "workflow_aggregate \<Rightarrow> string \<Rightarrow> workflow_transition list \<Rightarrow> string \<Rightarrow> bool" where
  "unique_shortest_route ag s p v \<longleftrightarrow>
     workflow_route ag s p v \<and>
     (\<forall>p'. workflow_route ag s p' v \<longrightarrow> p' = p \<or> length p < length p')"

lemma unique_shortest_route_eq:
  assumes "unique_shortest_route ag s p v" "unique_shortest_route ag s q v"
  shows "p = q"
  using assms unfolding unique_shortest_route_def by (metis less_asym)

lemma search_from_unique_iff:
  assumes "distinct (ag_transitions ag)"
  shows "search_from lc ag s target = Some (UniqueRoute p) \<longleftrightarrow> unique_shortest_route ag s p target"
proof -
  obtain r where r: "search_from lc ag s target = Some r" using search_from_total by blast
  note correct = search_from_correct [OF assms r, unfolded search_correct_def shortest_walk_def
      workflow_route_walk]
  show ?thesis
  proof (cases r)
    case NoRoute
    with correct r show ?thesis unfolding unique_shortest_route_def by simp
  next
    case (UniqueRoute q)
    have "unique_shortest_route ag s q target"
      using correct UniqueRoute unfolding unique_shortest_route_def
      by (simp add: order_le_less) (metis)
    then show ?thesis using r UniqueRoute unique_shortest_route_eq by auto
  next
    case AmbiguousRoute
    then obtain q q' where "q \<noteq> q'" "workflow_route ag s q target" "workflow_route ag s q' target"
      "\<forall>p'. workflow_route ag s p' target \<longrightarrow> length q \<le> length p'"
      "\<forall>p'. workflow_route ag s p' target \<longrightarrow> length q' \<le> length p'"
      using correct by auto
    moreover from this have "length q = length q'" by (simp add: le_antisym)
    ultimately have "\<not> unique_shortest_route ag s p target"
      unfolding unique_shortest_route_def by (metis not_le)
    then show ?thesis using r AmbiguousRoute by simp
  qed
qed

lemma search_from_none_iff:
  assumes "distinct (ag_transitions ag)"
  shows "search_from lc ag s target = Some NoRoute \<longleftrightarrow> (\<forall>p. \<not> workflow_route ag s p target)"
proof -
  obtain r where r: "search_from lc ag s target = Some r" using search_from_total by blast
  with search_from_correct [OF assms r, unfolded search_correct_def shortest_walk_def
      workflow_route_walk]
  show ?thesis by (cases r) auto
qed

section \<open>The planner resolves routes\<close>

lemma target_state_of_SomeD:
  "target_state_of states i = Some s \<Longrightarrow> s \<in> set states \<and> ws_saleOrderStateId s = i"
  by (auto simp: target_state_of_def dest: find_by_SomeD)

text \<open>When the search is reached: both ends exist, are active and differ.\<close>

definition search_needed ::
  "workflow_aggregate \<Rightarrow> string \<Rightarrow> string \<Rightarrow> workflow_state \<Rightarrow> workflow_state \<Rightarrow> bool" where
  "search_needed ag cur tgt c t \<longleftrightarrow>
     state_by_id (ag_states ag) cur = Some c \<and> ws_isActive c \<and>
     target_state_of (ag_states ag) tgt = Some t \<and> ws_isActive t \<and> ws_id c \<noteq> ws_id t"

lemma resolve_search:
  assumes "search_needed ag cur tgt c t"
  shows "resolve lc ag cur tgt =
    (case search_from lc ag (ws_id c) (ws_id t) of
       None \<Rightarrow> None
     | Some AmbiguousRoute \<Rightarrow> Some (RouteFailed AMBIGUOUS_ROUTE
         ''Existe mas de una ruta equivalente al estado destino'' (Some c) (Some t))
     | Some NoRoute \<Rightarrow> Some (RouteFailed ROUTE_NOT_FOUND
         ''No existe una ruta al estado destino en el flujo del pedido'' (Some c) (Some t))
     | Some (UniqueRoute p) \<Rightarrow> Some (Ready c t p))"
  using assms by (simp add: resolve_def search_needed_def)

lemma resolve_no_search:
  assumes "\<not> (\<exists>c t. search_needed ag cur tgt c t)"
  shows "\<exists>r. resolve lc ag cur tgt = Some r \<and> (\<forall>c t p. r \<noteq> Ready c t p) \<and>
    (\<forall>m c t. r \<noteq> RouteFailed ROUTE_NOT_FOUND m c t) \<and> (\<forall>m c t. r \<noteq> RouteFailed AMBIGUOUS_ROUTE m c t)"
proof (cases "state_by_id (ag_states ag) cur")
  case None
  then show ?thesis by (simp add: resolve_def)
next
  case c: (Some c)
  show ?thesis
  proof (cases "target_state_of (ag_states ag) tgt")
    case None
    with c show ?thesis by (simp add: resolve_def)
  next
    case (Some t)
    with c assms have "\<not> ws_isActive c \<or> \<not> ws_isActive t \<or> ws_id c = ws_id t"
      unfolding search_needed_def by auto
    with c Some show ?thesis by (auto simp: resolve_def)
  qed
qed

lemma resolve_Ready_iff:
  "resolve lc ag cur tgt = Some (Ready c t p) \<longleftrightarrow>
     search_needed ag cur tgt c t \<and> search_from lc ag (ws_id c) (ws_id t) = Some (UniqueRoute p)"
proof (cases "\<exists>c t. search_needed ag cur tgt c t")
  case True
  then obtain c' t' where s: "search_needed ag cur tgt c' t'" by blast
  then have "search_needed ag cur tgt c t \<longleftrightarrow> c = c' \<and> t = t'"
    unfolding search_needed_def by auto
  then show ?thesis unfolding resolve_search [OF s]
    by (auto split: option.splits search_result.splits)
next
  case False
  with resolve_no_search [OF False, of lc] show ?thesis by auto
qed

text \<open>
  C27. The planner always answers, whatever the workflow (its loop ends on every graph of
  states and transitions, cyclic ones included).
\<close>

theorem resolve_terminates: "\<exists>r. resolve lc ag currentStateId targetSaleOrderStateId = Some r"
proof (cases "\<exists>c t. search_needed ag currentStateId targetSaleOrderStateId c t")
  case True
  then obtain c t where "search_needed ag currentStateId targetSaleOrderStateId c t" by blast
  from resolve_search [OF this, of lc] search_from_total [of lc ag "ws_id c" "ws_id t"]
  show ?thesis by (auto split: search_result.splits)
next
  case False
  from resolve_no_search [OF this, of lc] show ?thesis by blast
qed

text \<open>
  C12. The planner plans a route exactly when both states exist and are active and differ and
  one route of the workflow is shorter than every other; that route is the one it returns,
  whatever the order in which \<open>localeCompare\<close> puts the transitions.
\<close>

theorem resolve_ready_iff:
  assumes "distinct (ag_transitions ag)"
  shows "resolve lc ag cur tgt = Some (Ready c t p) \<longleftrightarrow>
    state_by_id (ag_states ag) cur = Some c \<and> ws_isActive c \<and>
    target_state_of (ag_states ag) tgt = Some t \<and> ws_isActive t \<and> ws_id c \<noteq> ws_id t \<and>
    unique_shortest_route ag (ws_id c) p (ws_id t)"
  unfolding resolve_Ready_iff search_from_unique_iff [OF assms] search_needed_def by blast

text \<open>
  The planner reports that there is no route exactly when both states exist and are active
  and differ and no sequence of active state-moving transitions leads from one to the other.
\<close>

theorem resolve_not_found_iff:
  assumes "distinct (ag_transitions ag)"
  shows "(\<exists>m. resolve lc ag cur tgt = Some (RouteFailed ROUTE_NOT_FOUND m (Some c) (Some t))) \<longleftrightarrow>
    state_by_id (ag_states ag) cur = Some c \<and> ws_isActive c \<and>
    target_state_of (ag_states ag) tgt = Some t \<and> ws_isActive t \<and> ws_id c \<noteq> ws_id t \<and>
    (\<forall>p. \<not> workflow_route ag (ws_id c) p (ws_id t))"
proof (cases "\<exists>c t. search_needed ag cur tgt c t")
  case True
  then obtain c' t' where s: "search_needed ag cur tgt c' t'" by blast
  then have "search_needed ag cur tgt c t \<longleftrightarrow> c = c' \<and> t = t'"
    unfolding search_needed_def by auto
  then have "(\<exists>m. resolve lc ag cur tgt = Some (RouteFailed ROUTE_NOT_FOUND m (Some c) (Some t))) \<longleftrightarrow>
      search_needed ag cur tgt c t \<and> search_from lc ag (ws_id c) (ws_id t) = Some NoRoute"
    unfolding resolve_search [OF s] by (auto split: option.splits search_result.splits)
  then show ?thesis unfolding search_from_none_iff [OF assms] search_needed_def by blast
next
  case False
  with resolve_no_search [OF False, of lc] show ?thesis unfolding search_needed_def by auto
qed

lemma route_search_Nil:
  "route_search out nxt target [] best candidates shortest = Some (search_end candidates)"
  by (subst route_search.simps) simp

lemma route_search_Cons:
  "route_search out nxt target ((s, p) # rest) best candidates shortest =
     (if (case shortest of None \<Rightarrow> False | Some k \<Rightarrow> length p > k) then Some (search_end candidates)
      else if s = target then
        (if candidates \<noteq> [] then Some AmbiguousRoute
         else route_search out nxt target rest best [p] (Some (length p)))
      else (case push_edges nxt p (out s) rest best of
              (q, b) \<Rightarrow> route_search out nxt target q b candidates shortest))"
  by (subst route_search.simps) (cases shortest; simp add: split_beta)

lemmas planner_eval = example_defs resolve_def state_by_id_def target_state_of_def find_by_def
  search_from_def route_transitions_def is_route_transition_def nonempty_def sort_cmp_def
  compare_transitions_def outgoing_def next_state_def route_search_Nil route_search_Cons search_end_def

theorem resolve_ready_iff_witness:
  "unique_shortest_route example_aggregate ''a''
     [example_transition ''ab'' ''a'' ''b'', example_transition ''bc'' ''b'' ''c''] ''c''"
proof -
  have "resolve (\<lambda>_ _. 0) example_aggregate ''a'' ''sc'' = Some (Ready (example_state ''a'' 0)
      (example_state ''c'' 2)
      [example_transition ''ab'' ''a'' ''b'', example_transition ''bc'' ''b'' ''c''])"
    by (simp add: planner_eval)
  moreover have "distinct (ag_transitions example_aggregate)"
    by (simp add: example_defs)
  ultimately show ?thesis using resolve_ready_iff [of example_aggregate "\<lambda>_ _. 0" "''a''" "''sc''"]
    by (simp add: example_state_def)
qed

theorem resolve_not_found_iff_witness: "\<forall>p. \<not> workflow_route example_aggregate ''a'' p ''e''"
proof -
  have dist: "distinct (ag_transitions example_aggregate)"
    by (simp add: example_defs)
  have "\<exists>m. resolve (\<lambda>_ _. 0) example_aggregate ''a'' ''se'' = Some (RouteFailed ROUTE_NOT_FOUND m
      (Some (example_state ''a'' 0)) (Some (example_state ''e'' 4)))"
    by (simp add: planner_eval)
  from iffD1 [OF resolve_not_found_iff [OF dist] this] show ?thesis
    by (simp add: example_state_def)
qed

end
