(* ===== verification/UseCases.thy ===== *)
theory UseCases
  imports TransitionService RoutePlanner
begin

text \<open>
  The use cases that move orders: one step in one transaction
  (\<open>AdvanceSaleOrderStateUseCase\<close>), a whole planned route, each step in a transaction of its
  own (\<open>AdvanceSaleOrderToTargetStateUseCase\<close>), the transitions open to an order
  (\<open>GetAvailableTransitionsUseCase\<close>) and the job that takes automatic steps until an order is
  idle (\<open>RunAutomaticWorkflowTransitionsJob\<close>). A use case is a function on the committed
  state of the database.
\<close>

section \<open>One step\<close>

definition advance_order_state ::
  "(string \<Rightarrow> int option) \<Rightarrow> advance_input \<Rightarrow> world \<Rightarrow> (app_error + advance_result) \<times> world" where
  "advance_order_state pd input s = runInTransaction (advance pd input) s"

section \<open>A route to a target state\<close>

record state_reference =
  sr_workflowStateId :: string
  sr_saleOrderStateId :: string
  sr_code :: string
  sr_name :: string

record completed_transition =
  ct_transitionId :: string
  ct_code :: string
  ct_name :: string
  ct_fromState :: state_reference
  ct_toState :: state_reference
  ct_warnings :: "string list"
  ct_actionOutcomes :: "action_outcome list"

datatype route_error =
    SALE_ORDER_NOT_FOUND
  | WORKFLOW_NOT_ASSIGNED
  | WORKFLOW_NOT_FOUND
  | WORKFLOW_INACTIVE
  | PLANNER_FAILURE route_failure_code
  | CONDITION_FAILED
  | ACTION_FAILED
  | ROUTE_INVALIDATED
  | UNEXPECTED_ERROR

record route_failure =
  rf_code :: route_error
  rf_message :: string
  rf_details :: "action_failure option"

record route_result =
  rt_saleOrderId :: string
  rt_targetStateId :: string
  rt_initialState :: "state_reference option"
  rt_finalState :: "state_reference option"
  rt_completedTransitions :: "completed_transition list"
  rt_warnings :: "string list"
  rt_failure :: "route_failure option"

datatype plan_result =
    Planned workflow_aggregate state_reference state_reference "workflow_transition list"
  | Done route_result

definition toStateReference :: "workflow_state \<Rightarrow> state_reference" where
  "toStateReference st = \<lparr>sr_workflowStateId = ws_id st, sr_saleOrderStateId = ws_saleOrderStateId st,
     sr_code = ws_code st, sr_name = ws_name st\<rparr>"

fun route_failure_message :: "route_failure_code \<Rightarrow> string" where
  "route_failure_message CURRENT_STATE_INVALID = ''El estado actual no pertenece al flujo del pedido''"
| "route_failure_message CURRENT_STATE_INACTIVE = ''El estado actual del pedido esta inactivo''"
| "route_failure_message TARGET_STATE_NOT_IN_WORKFLOW =
     ''El estado destino no existe en el flujo del pedido''"
| "route_failure_message TARGET_STATE_INACTIVE =
     ''El estado destino esta inactivo en el flujo del pedido''"
| "route_failure_message ROUTE_NOT_FOUND =
     ''No existe una ruta al estado destino en el flujo del pedido''"
| "route_failure_message AMBIGUOUS_ROUTE = ''Existe mas de una ruta equivalente al estado destino''"

definition failed_route ::
  "string \<Rightarrow> string \<Rightarrow> state_reference option \<Rightarrow> state_reference option \<Rightarrow> completed_transition list \<Rightarrow>
   string list \<Rightarrow> route_error \<Rightarrow> string \<Rightarrow> action_failure option \<Rightarrow> route_result" where
  "failed_route orderId target initial final completed warnings code message details =
     \<lparr>rt_saleOrderId = orderId, rt_targetStateId = target, rt_initialState = initial,
      rt_finalState = final, rt_completedTransitions = completed, rt_warnings = warnings,
      rt_failure = Some \<lparr>rf_code = code, rf_message = message, rf_details = details\<rparr>\<rparr>"

definition succeeded_route ::
  "string \<Rightarrow> string \<Rightarrow> state_reference \<Rightarrow> state_reference \<Rightarrow> completed_transition list \<Rightarrow>
   string list \<Rightarrow> route_result" where
  "succeeded_route orderId target initial final completed warnings =
     \<lparr>rt_saleOrderId = orderId, rt_targetStateId = target, rt_initialState = Some initial,
      rt_finalState = Some final, rt_completedTransitions = completed, rt_warnings = warnings,
      rt_failure = None\<rparr>"

text \<open>The planner always answers, so the missing answer has no branch of its own.\<close>

definition plan_route ::
  "(string \<Rightarrow> string \<Rightarrow> int) \<Rightarrow> string \<Rightarrow> string \<Rightarrow> plan_result service" where
  "plan_route lc orderId target =
     sbind (findByIdForUpdate orderId) (\<lambda>found.
     case found of
       None \<Rightarrow> sreturn (Done (failed_route orderId target None None [] [] SALE_ORDER_NOT_FOUND
                         ''Pedido no encontrado'' None))
     | Some order \<Rightarrow>
        (case (so_workflowId order, so_currentStateId order) of
           (Some workflowId, Some currentStateId) \<Rightarrow>
             sbind (findWorkflowDetailed workflowId) (\<lambda>aggregate.
             case aggregate of
               None \<Rightarrow> sreturn (Done (failed_route orderId target None None [] [] WORKFLOW_NOT_FOUND
                                 ''Flujo no encontrado'' None))
             | Some ag \<Rightarrow>
                (let initial = map_option toStateReference (state_in ag currentStateId)
                 in if \<not> wf_isActive (ag_workflow ag) then
                      sreturn (Done (failed_route orderId target initial initial [] [] WORKFLOW_INACTIVE
                        ''El flujo del pedido esta inactivo'' None))
                    else sreturn
                      (case the (resolve lc ag currentStateId target) of
                         RouteFailed code m cur tgt \<Rightarrow>
                           (let i = map_option toStateReference cur
                            in Done (failed_route orderId target i i [] [] (PLANNER_FAILURE code)
                                 (route_failure_message code) None))
                       | AlreadyAtTarget cur tgt \<Rightarrow>
                           Done (succeeded_route orderId target (toStateReference cur)
                             (toStateReference tgt) [] [])
                       | Ready cur tgt transitions \<Rightarrow>
                           Planned ag (toStateReference cur) (toStateReference tgt) transitions)))
         | _ \<Rightarrow> sreturn (Done (failed_route orderId target None None [] [] WORKFLOW_NOT_ASSIGNED
                           ''El pedido no tiene flujo asignado'' None))))"

text \<open>The exceptions of the framework keep their message; any other error is unexpected.\<close>

fun mapStepError :: "app_error \<Rightarrow> route_error \<times> string \<times> action_failure option" where
  "mapStepError (UnprocessableEntityException m (ConditionFailed t f)) =
     (CONDITION_FAILED, m, Some (ConditionFailed t f))"
| "mapStepError (UnprocessableEntityException m (ActionFailed t f)) =
     (ACTION_FAILED, m, Some (ActionFailed t f))"
| "mapStepError (BadRequestException m) = (ROUTE_INVALIDATED, m, None)"
| "mapStepError (NotFoundException m) = (ROUTE_INVALIDATED, m, None)"
| "mapStepError (ConflictException m) = (ROUTE_INVALIDATED, m, None)"
| "mapStepError (PlainError m) = (UNEXPECTED_ERROR, ''No se pudo completar el cambio de estado'', None)"
| "mapStepError QueryFailed = (UNEXPECTED_ERROR, ''No se pudo completar el cambio de estado'', None)"

definition route_step_input ::
  "string \<Rightarrow> string \<Rightarrow> string \<Rightarrow> nat \<Rightarrow> nat \<Rightarrow> workflow_transition \<Rightarrow> advance_input" where
  "route_step_input orderId target executedBy index len t =
     \<lparr>ai_saleOrderId = orderId, ai_executedBy = executedBy, ai_transitionId = Some (wt_id t),
      ai_transitionCode = None, ai_transitionPurpose = None,
      ai_metadata = Some [(''source'', JStr ''sale-orders-bulk-target-state''),
        (''targetStateId'', JStr target), (''routeStep'', JNum (of_nat (index + 1))),
        (''routeLength'', JNum (of_nat len))],
      ai_idempotencyKey = None, ai_financialCancellationResolved = False\<rparr>"

definition err_route_invalidated :: string where
  "err_route_invalidated = ''La ruta planificada ya no coincide con el estado actual del pedido''"

fun route_steps ::
  "(string \<Rightarrow> int option) \<Rightarrow> string \<Rightarrow> string \<Rightarrow> string \<Rightarrow> workflow_aggregate \<Rightarrow> state_reference \<Rightarrow>
   nat \<Rightarrow> nat \<Rightarrow> workflow_transition list \<Rightarrow> state_reference \<Rightarrow> completed_transition list \<Rightarrow>
   string list \<Rightarrow> world \<Rightarrow> route_result \<times> world" where
  "route_steps pd orderId target executedBy ag initial len index [] final completed warnings s =
     (succeeded_route orderId target initial final completed warnings, s)"
| "route_steps pd orderId target executedBy ag initial len index (t # ts) final completed warnings s =
     (case advance_order_state pd (route_step_input orderId target executedBy index len t) s of
        (Inl e, s') \<Rightarrow>
          (case mapStepError e of (code, m, details) \<Rightarrow>
             (failed_route orderId target (Some initial) (Some final) completed warnings code m details, s'))
      | (Inr result, s') \<Rightarrow>
          (case (Option.bind (wt_fromStateId t) (state_by_id (ag_states ag)),
                 Option.bind (wt_toStateId t) (state_by_id (ag_states ag))) of
             (Some fromState, Some toState) \<Rightarrow>
               if so_currentStateId (ar_order result) \<noteq> wt_toStateId t then
                 (failed_route orderId target (Some initial) (Some final) completed warnings
                    ROUTE_INVALIDATED err_route_invalidated None, s')
               else
                 (let final' = toStateReference toState;
                      done = \<lparr>ct_transitionId = wt_id t, ct_code = wt_code t, ct_name = wt_name t,
                        ct_fromState = toStateReference fromState, ct_toState = final',
                        ct_warnings = ar_warnings result,
                        ct_actionOutcomes = ar_actionOutcomes result\<rparr>
                  in route_steps pd orderId target executedBy ag initial len (Suc index) ts final'
                       (completed @ [done]) (distinct_first (warnings @ ar_warnings result)) s')
           | _ \<Rightarrow>
               (failed_route orderId target (Some initial) (Some final) completed warnings
                  ROUTE_INVALIDATED err_route_invalidated None, s')))"

definition advance_to_target ::
  "(string \<Rightarrow> string \<Rightarrow> int) \<Rightarrow> (string \<Rightarrow> int option) \<Rightarrow> string \<Rightarrow> string \<Rightarrow> string \<Rightarrow> world \<Rightarrow>
   (app_error + route_result) \<times> world" where
  "advance_to_target lc pd orderId target executedBy s =
     (case runInTransaction (plan_route lc orderId target) s of
        (Inl e, s') \<Rightarrow> (Inl e, s')
      | (Inr (Done r), s') \<Rightarrow> (Inr r, s')
      | (Inr (Planned ag initial final transitions), s') \<Rightarrow>
          (case route_steps pd orderId target executedBy ag initial (length transitions) 0 transitions
                  initial [] [] s' of (r, s'') \<Rightarrow> (Inr r, s'')))"

section \<open>The transitions open to an order\<close>

record available_transition =
  av_id :: string
  av_code :: string
  av_name :: string
  av_fromState :: workflow_state
  av_toState :: "workflow_state option"
  av_available :: bool
  av_failures :: "condition_evaluation list"
  av_conditions :: "workflow_condition list"

fun already_completed :: "sale_order \<Rightarrow> action_type \<Rightarrow> bool" where
  "already_completed order MARK_INVOICE_SENT = so_invoiceSend order"
| "already_completed order MARK_PREGUIDE = so_preguide order"
| "already_completed order MARK_PREPARED = so_prepared order"
| "already_completed order UNMARK_PREGUIDE = (\<not> so_preguide order)"
| "already_completed order UNMARK_PREPARED = (\<not> so_prepared order)"
| "already_completed order _ = False"

definition available_of ::
  "(string \<Rightarrow> int option) \<Rightarrow> workflow_aggregate \<Rightarrow> workflow_state \<Rightarrow> workflow_context \<Rightarrow>
   transition_bundle \<Rightarrow> app_error + available_transition" where
  "available_of pd ag currentState cx bundle =
     (let t = tb_transition bundle; target = Option.bind (wt_toStateId t) (state_in ag)
      in case lift_string (create_conditions pd (tb_conditions bundle)) of
           Inl e \<Rightarrow> Inl e
         | Inr conditions \<Rightarrow>
             (let decision = canTransition (ag_workflow ag) currentState t conditions cx target
              in Inr \<lparr>av_id = wt_id t, av_code = wt_code t, av_name = wt_name t,
                   av_fromState = currentState, av_toState = target,
                   av_available = td_allowed decision, av_failures = td_failures decision,
                   av_conditions = tb_conditions bundle\<rparr>))"

definition available_transitions ::
  "(string \<Rightarrow> int option) \<Rightarrow> string \<Rightarrow> available_transition list service" where
  "available_transitions pd orderId =
     sbind (findByIdForUpdate orderId) (\<lambda>found.
     case found of
       None \<Rightarrow> sthrow (BadRequestException ''Pedido no encontrado'')
     | Some order \<Rightarrow>
        (case (so_workflowId order, so_currentStateId order) of
           (Some workflowId, Some currentStateId) \<Rightarrow>
             sbind (findWorkflowDetailed workflowId) (\<lambda>aggregate.
             case aggregate of
               None \<Rightarrow> sthrow (BadRequestException ''Workflow no encontrado'')
             | Some ag \<Rightarrow>
                (case state_in ag currentStateId of
                   None \<Rightarrow> sthrow (BadRequestException ''Estado actual invalido'')
                 | Some currentState \<Rightarrow>
                     sbind (build_context order currentState) (\<lambda>cx.
                     sbind (listFromState workflowId currentStateId) (\<lambda>bundles.
                       sfold (\<lambda>b acc. sbind (slift (available_of pd ag currentState cx b))
                                         (\<lambda>a. sreturn (acc @ [a])))
                         (filter (\<lambda>b. \<not> (\<exists>a \<in> set (tb_actions b). already_completed order (wa_type a)))
                            bundles) []))))
         | _ \<Rightarrow> sreturn []))"

section \<open>The automatic job\<close>

definition MAX_AUTOMATIC_STEPS_PER_ORDER :: nat where
  "MAX_AUTOMATIC_STEPS_PER_ORDER = 20"

text \<open>\<open>fuel\<close> counts the steps left; when it runs out the loop of the code throws.\<close>

fun advance_until_idle ::
  "(string \<Rightarrow> string \<Rightarrow> int) \<Rightarrow> (string \<Rightarrow> int option) \<Rightarrow> string \<Rightarrow> nat \<Rightarrow> bool \<Rightarrow> world \<Rightarrow>
   (app_error + bool) \<times> world" where
  "advance_until_idle lc pd orderId 0 updated s =
     (Inl (PlainError (''automatic workflow exceeded '' @ nat_string MAX_AUTOMATIC_STEPS_PER_ORDER @
        '' steps'')), s)"
| "advance_until_idle lc pd orderId (Suc fuel) updated s =
     (case runInTransaction (advanceAutomatic lc pd orderId None) s of
        (Inl e, s') \<Rightarrow> (Inl e, s')
      | (Inr None, s') \<Rightarrow> (Inr updated, s')
      | (Inr (Some r), s') \<Rightarrow> advance_until_idle lc pd orderId fuel True s')"

definition automatic_candidate :: "catalog \<Rightarrow> sale_order \<Rightarrow> bool" where
  "automatic_candidate c order \<longleftrightarrow>
     (case (so_workflowId order, so_currentStateId order) of
        (Some f, Some cur) \<Rightarrow>
          so_isActive order \<and>
          (\<exists>st \<in> set (c_states c). ws_id st = cur \<and> \<not> ws_isFinal st \<and>
             js_toUpperCase (ws_code st) \<noteq> ''CANCELLED'') \<and>
          (\<exists>t \<in> set (c_transitions c). wt_workflowId t = f \<and>
             (wt_isGlobal t \<or> wt_fromStateId t = Some cur) \<and> wt_autoTrigger t \<and> wt_isActive t)
      | _ \<Rightarrow> False)"

text \<open>Orders stand in the order of their creation; the cursor is the last order of the page before.\<close>

definition listIdsForAutomaticWorkflow :: "nat \<Rightarrow> string option \<Rightarrow> world \<Rightarrow> string list" where
  "listIdsForAutomaticWorkflow limit cursor s =
     take limit (map so_id (filter (automatic_candidate (w_catalog s))
       (case cursor of None \<Rightarrow> w_orders s
        | Some c \<Rightarrow> tl (dropWhile (\<lambda>o'. so_id o' \<noteq> c) (w_orders s)))))"

record job_result =
  jr_found :: nat
  jr_updated :: nat
  jr_failed :: nat
  jr_saleOrderIds :: "string list"

fun run_orders ::
  "(string \<Rightarrow> string \<Rightarrow> int) \<Rightarrow> (string \<Rightarrow> int option) \<Rightarrow> string list \<Rightarrow> job_result \<Rightarrow> world \<Rightarrow>
   job_result \<times> world" where
  "run_orders lc pd [] r s = (r, s)"
| "run_orders lc pd (i # is) r s =
     (case advance_until_idle lc pd i MAX_AUTOMATIC_STEPS_PER_ORDER False s of
        (Inl e, s') \<Rightarrow> run_orders lc pd is (r\<lparr>jr_failed := jr_failed r + 1\<rparr>) s'
      | (Inr True, s') \<Rightarrow> run_orders lc pd is
            (r\<lparr>jr_updated := jr_updated r + 1, jr_saleOrderIds := jr_saleOrderIds r @ [i]\<rparr>) s'
      | (Inr False, s') \<Rightarrow> run_orders lc pd is r s')"

definition automatic_job ::
  "(string \<Rightarrow> string \<Rightarrow> int) \<Rightarrow> (string \<Rightarrow> int option) \<Rightarrow> nat \<Rightarrow> string option \<Rightarrow> world \<Rightarrow>
   job_result \<times> string option \<times> world" where
  "automatic_job lc pd limit cursor s =
     (let ids0 = listIdsForAutomaticWorkflow limit cursor s;
          ids = (if ids0 = [] \<and> cursor \<noteq> None then listIdsForAutomaticWorkflow limit None s else ids0);
          cursor' = (if length ids = limit \<and> ids \<noteq> [] then Some (last ids) else None)
      in case run_orders lc pd ids
                \<lparr>jr_found = length ids, jr_updated = 0, jr_failed = 0, jr_saleOrderIds = []\<rparr> s of
           (r, s') \<Rightarrow> (r, cursor', s'))"

text \<open>The orders updated and failed, and the identifier of an updated order.\<close>

definition runForSaleOrder ::
  "(string \<Rightarrow> string \<Rightarrow> int) \<Rightarrow> (string \<Rightarrow> int option) \<Rightarrow> string \<Rightarrow> world \<Rightarrow>
   (nat \<times> nat \<times> string list) \<times> world" where
  "runForSaleOrder lc pd i s =
     (case advance_until_idle lc pd i MAX_AUTOMATIC_STEPS_PER_ORDER False s of
        (Inl e, s') \<Rightarrow> ((0, 1, []), s')
      | (Inr True, s') \<Rightarrow> ((1, 0, [i]), s')
      | (Inr False, s') \<Rightarrow> ((0, 0, []), s'))"

end
