(* ===== verification/RunRelations.thy ===== *)
theory RunRelations
  imports Relations UseCases
begin

text \<open>
  What the run of the actions and the step of an order keep, from what the inventory and the
  documents keep: \<open>stock_relation\<close> for the run, \<open>repository_relation\<close>, which gives it
  from the single writes of the repositories, and \<open>step_relation\<close> for the step.
\<close>

section \<open>The run of the actions\<close>

locale stock_relation = order_writes R writes
  for R :: "world \<Rightarrow> world \<Rightarrow> bool" and writes :: "string \<Rightarrow> bool" +
  assumes reserved: "relates R (incrementReserved w j None d)"
    and consumption: "writes (so_id order) \<Longrightarrow> relates R (consume order q eff)"
    and reversal: "writes (so_id order) \<Longrightarrow>
      relates R (restore_document order e w k document items serie)"
begin

lemma reconciles_item: "relates R (reconcile_item w q rows j items)"
  unfolding reconcile_item_def
  by (intro relates_bind reads_any reserved ensures_cases step_rules TrueI)

lemma reconciles: "relates R (reconcile order q)"
  unfolding reconcile_def
  by (intro relates_bind relates_fold reads_any reconciles_item ensures_cases step_rules TrueI)

lemma restores:
  assumes "writes (so_id order)"
  shows "relates R (restoreConsumption order e k)"
  unfolding restoreConsumption_def
  by (intro relates_bind finds_consumption reads_any reversal [OF assms] ensures_cases step_rules TrueI)

lemma releases: "writes (so_id order) \<Longrightarrow> relates R (restoreAndRelease order e)"
  unfolding restoreAndRelease_def by (rule restores)

lemma writes_order: "writes i \<Longrightarrow> order_is i r \<Longrightarrow> writes (so_id (rs_order r))"
  by (simp add: order_is_def)

lemma restoring_phase:
  assumes "writes i" "order_is i r"
  shows "ensures R (order_is i) (restore_phase ordered e r)"
proof -
  have consumed: "relates R (case rs_consumption r of Some c \<Rightarrow> sreturn c
      | None \<Rightarrow> inspectConsumption (so_id (rs_order r)))"
    by (auto intro: ensures_option inspects_consumption ensures_return)
  have w: "writes (so_id (rs_order r))" by (rule writes_order [OF assms])
  show ?thesis unfolding restore_phase_def Let_def
    by (intro ensures_option relates_bind [OF consumed] ensures_if relates_bind [OF releases] step_rules)
       (simp_all add: w assms(2))
qed

lemma skips_consume:
  assumes "writes i" "order_is i r"
  shows "ensures R (order_is i) (skip_consume a r)"
  unfolding skip_consume_def
  by (intro ensures_then marks(6) writes_order [OF assms] ensures_return) (simp add: assms(2))

lemma no_stock_steps:
  assumes "writes i" "order_is i r"
  shows "ensures R (order_is i) (no_stock_step a r)"
  unfolding no_stock_step_def
  by (intro ensures_if skips_consume [OF assms] marker_action_then [OF assms] ensures_return)
     (simp_all add: assms(2))

lemma completing_reverts:
  assumes "writes i" "order_is i r"
  shows "ensures R (order_is i) (complete_reverts r)"
  unfolding complete_reverts_def
  by (intro ensures_then marks(6) writes_order [OF assms] ensures_return) (simp add: assms(2))

lemma reverting_phase:
  assumes "writes i" "order_is i r"
  shows "ensures R (\<lambda>(restored, r'). order_is i r') (revert_phase e r)"
  unfolding revert_phase_def
  by (intro ensures_if ensures_bind [where P = "order_is i"] relates_bind [OF active_reservation]
      relates_bind releases checks_reservation completing_reverts assms writes_order [OF assms(1)]
      ensures_return) (auto intro!: ensures_if ensures_return assms releases active_reservation
      checks_reservation completing_reverts writes_order [OF assms(1)])

lemma reverted_steps:
  assumes "writes i" "order_is i r"
  shows "ensures R (order_is i) (reverted_step b a r)"
  unfolding reverted_step_def
  by (intro ensures_if marker_action_then [OF assms] ensures_return) (simp add: assms(2))

text \<open>The plan of quantities is executed action by action.\<close>

lemma applies_quantity: "relates R (apply_quantity a w plan req released)"
  unfolding apply_quantity_def
  by (intro ensures_cases relates_bind [OF reserved] step_rules TrueI)

lemma reserving:
  assumes "writes i" "order_is i r"
  shows "ensures R (\<lambda>(released, r'). order_is i r') (execute_reservation w q plan a (b, r))"
  unfolding execute_reservation_def prod.case
  by (intro relates_bind relates_fold applies_quantity ensures_if ensures_then marks(6)
      writes_order [OF assms] ensures_return) (simp_all add: assms(2))

lemma consuming:
  assumes "writes i" "order_is i r"
  shows "ensures R (order_is i) (execute_consumption q cs a r)"
  unfolding execute_consumption_def
  by (intro relates_bind [OF effective_date] ensures_then consumption marks(6)
      writes_order [OF assms] ensures_return) (simp add: assms(2))

lemma executes_step:
  assumes i: "writes i" and st: "case st of (b, r) \<Rightarrow> order_is i r"
  shows "ensures R (\<lambda>(b, r). order_is i r) (execute_step w q plan cs a st)"
proof -
  have o: "order_is i (snd st)" using st by (simp add: case_prod_unfold)
  show ?thesis unfolding execute_step_def
    by (intro ensures_if ensures_bind [OF marker_action [OF i o]] ensures_pair)
       (use st in \<open>auto simp: o intro!: ensures_if ensures_return ensures_bind [OF skips_consume [OF i]]
          ensures_bind [OF consuming [OF i]] reserving [OF i]\<close>)
qed

lemma executes_plan:
  assumes "writes i" "order_is i r"
  shows "ensures R (\<lambda>(b, r). order_is i r) (sfold (execute_step w q plan cs) as (False, r))"
  by (rule ensures_fold) (simp_all add: assms executes_step)

lemma stock_executes:
  assumes i: "writes i" and o: "order_is i r"
  shows "ensures R (\<lambda>x. so_id (ru_order x) = i) (stock_execution ordered w q plan cs r)"
proof -
  have "ensures R (\<lambda>x. so_id (ru_order x) = i)
      (sthen (swhen b (markStockReverted (so_id (rs_order r')))) (sreturn (run_result_of r')))"
    if "order_is i r'" for b r'
    by (intro ensures_then ensures_when marks(7) ensures_return writes_order [OF i that])
       (use that in \<open>simp add: run_result_of_def order_is_def\<close>)
  then show ?thesis unfolding stock_execution_def
    by (intro ensures_bind [OF executes_plan [OF i o]]) auto
qed

lemma stock_phases:
  assumes i: "writes i" and o: "order_is i r"
  shows "ensures R (\<lambda>x. so_id (ru_order x) = i) (stock_phase ordered cs r)"
  unfolding stock_phase_def
  by (intro ensures_option ensures_throw ensures_bind [OF caches [OF o]] ensures_pair ensures_then
      ensures_guard relates_bind relates_fold loads_snapshot ensures_lift reconciles ensures_return
      stock_executes i TrueI) simp

lemma prepares:
  assumes i: "writes i" and o: "order_is i r"
  shows "ensures R (order_is i) (prepare_run ordered e r)"
proof -
  have "ensures R (order_is i) (sbind (consumption_phase r') (\<lambda>r3.
      sbind (reserved_phase r3) (\<lambda>r4. restore_phase ordered e r4)))" if "order_is i r'" for r'
    by (intro ensures_bind [OF consumption_phases [OF that]] ensures_bind [OF reserved_phases]
        restoring_phase i)
  then show ?thesis unfolding prepare_run_def Let_def
    by (intro ensures_bind [OF ensures_fold [where P = "order_is i"]] ensures_then relates_for
        inspects_action assigns_phase i o) (auto simp: o)
qed

lemma finishes:
  assumes i: "writes i" and o: "order_is i r"
  shows "ensures R (\<lambda>x. so_id (ru_order x) = i) (finish_run ordered e cs r)"
proof -
  have result: "ensures R (\<lambda>x. so_id (ru_order x) = i) (sbind m (\<lambda>r. sreturn (run_result_of r)))"
    if "ensures R (order_is i) m" for m
    by (rule ensures_bind [OF that], rule ensures_return) (simp add: run_result_of_def order_is_def)
  show ?thesis unfolding finish_run_def
    by (intro ensures_if result ensures_fold ensures_bind [OF reverting_phase [OF i o]] o)
       (auto intro!: ensures_if result ensures_fold no_stock_steps reverted_steps stock_phases i)
qed

theorem runs:
  assumes "writes (so_id order)"
  shows "ensures R (\<lambda>x. so_id (ru_order x) = so_id order) (run order actions e cs)"
  unfolding run_def Let_def
  by (intro ensures_if ensures_throw ensures_return ensures_then relates_for ensures_guard
      ensures_bind [OF prepares [OF assms]] finishes assms) (simp_all add: order_is_def initial_run_def)

end

section \<open>From the writes of the repositories\<close>

locale repository_relation = order_writes R writes
  for R :: "world \<Rightarrow> world \<Rightarrow> bool" and writes :: "string \<Rightarrow> bool" +
  assumes reserved_write: "relates R (incrementReserved w j None d)"
    and on_hand_write: "relates R (incrementOnHand w j None d)"
    and document_write: "relates R (createDocument document)"
    and item_write: "relates R (addItem di j n waste l l' cost)"
    and posting: "relates R (markPosted di by t)"
    and numbering: "relates R (reserveNextNumber serie)"
    and ledger_write: "relates R (appendLedger entries)"
begin

lemma consumes_item: "relates R (consume_item di w req entries)"
  unfolding consume_item_def
  by (intro relates_bind item_write reserved_write on_hand_write ensures_cases step_rules TrueI)

lemma consumes: "relates R (consume order q eff)"
  unfolding consume_def
  by (intro relates_bind relates_fold has_consumption reads_any numbering document_write consumes_item
      ledger_write posting ensures_cases step_rules TrueI)

lemma restores_item: "relates R (restore_item di w k item entries)"
  unfolding restore_item_def Let_def
  by (intro relates_bind item_write reserved_write on_hand_write ensures_cases step_rules TrueI)

lemma restores_document:
  "writes (so_id order) \<Longrightarrow> relates R (restore_document order e w k document items serie)"
  unfolding restore_document_def
  by (intro relates_bind relates_fold numbering reads_any document_write restores_item ledger_write
      posting marks ensures_then)

end

sublocale repository_relation \<subseteq> stock_relation
  by unfold_locales (simp_all add: reserved_write consumes restores_document)

section \<open>The step of an order\<close>

text \<open>A step and a route are planned without writing.\<close>

context order_writes
begin

lemma finds_bundle: "relates R (find_bundle input f st)"
  unfolding find_bundle_def by (intro ensures_option reads_any relates_bind ensures_return TrueI)

lemma checks_cancellation: "relates R (check_cancellation input order b)"
  unfolding check_cancellation_def
  by (intro ensures_if relates_bind reads_any ensures_guard ensures_return TrueI)

lemma checks_transition: "relates R (check_transition pd order ag st b)"
  unfolding check_transition_def Let_def
  by (intro ensures_then relates_bind ensures_guard ensures_lift builds_context)

lemma plans_step: "ensures R (\<lambda>p. so_id (pl_order p) = ai_saleOrderId input) (plan_step pd input)"
  unfolding plan_step_def
  by (intro ensures_bind [OF reads_order] ensures_option ensures_throw ensures_pair relates_bind
      reads_any finds_bundle ensures_then checks_cancellation checks_transition ensures_return) simp

lemma plans_route: "relates R (plan_route lc i target)"
  unfolding plan_route_def Let_def
  by (intro relates_bind reads_any ensures_option ensures_pair ensures_if ensures_return TrueI)

end

text \<open>The log of executed actions needs only its own table and identifiers.\<close>

locale log_relation = order_writes R writes
  for R :: "world \<Rightarrow> world \<Rightarrow> bool" and writes :: "string \<Rightarrow> bool" +
  assumes execution_write: "writes (ae_saleOrderId ae) \<Longrightarrow> relates R (saveExecution ae)"
    and fresh: "relates R fresh_id"
begin

lemma records_execution:
  "writes (nx_saleOrderId n) \<Longrightarrow> relates R (execution_record n st ev er t)"
  unfolding execution_record_def Let_def
  by (intro relates_bind reads_any fresh ensures_option ensures_return ensures_then
      execution_write TrueI) (simp add: execution_of_def)

lemma records_outcomes:
  "writes i \<Longrightarrow> relates R (record_outcomes i tr k t n pending ocs)"
proof (induction i tr k t n pending ocs rule: record_outcomes.induct)
  case 1
  then show ?case by (simp add: ensures_return)
next
  case (2 i tr k t n pending oc ocs)
  then show ?case
    by (auto intro!: relates_bind fresh records_execution ensures_option ensures_return
        split: prod.splits)
qed

lemma records_all: "writes i \<Longrightarrow> relates R (recordActionOutcomes i tr k as ocs t)"
  unfolding recordActionOutcomes_def by (rule records_outcomes)

end

locale step_relation = stock_relation R writes + log_relation R writes
  for R :: "world \<Rightarrow> world \<Rightarrow> bool" and writes :: "string \<Rightarrow> bool" +
  assumes moves: "writes i \<Longrightarrow> relates R (updateWorkflowState i st)"
    and history_write: "writes (sh_saleOrderId h) \<Longrightarrow> relates R (appendHistory h)"
begin

lemma records_history:
  "writes (so_id order) \<Longrightarrow> relates R (step_history order f st b to by m)"
  unfolding step_history_def
  by (intro relates_bind fresh reads_any history_write) simp

lemma runs_step:
  assumes "writes (so_id order)"
  shows "ensures R (\<lambda>x. so_id (ru_order x) = so_id order) (run_step order b as by)"
  unfolding run_step_def by (intro ensures_map_error runs assms)

lemma moves_order:
  assumes "writes i"
  shows "ensures R (\<lambda>x. so_id x = i) (updateWorkflowState i st)"
proof (rule ensuresI)
  fix s a s' assume m: "updateWorkflowState i st s = Inr (a, s')"
  have "so_id a = i"
    using m by (auto simp: updateWorkflowState_def action_Inr dest: find_by_SomeD split: option.splits)
  with relatesD [OF moves [OF assms] m] show "R s s' \<and> so_id a = i" by simp
qed

lemma executes_step_plan:
  assumes w: "writes (so_id (pl_order p))"
  shows "ensures R (\<lambda>x. so_id (ar_order x) = so_id (pl_order p)) (execute_plan input p)"
proof -
  let ?i = "so_id (pl_order p)"
  have "ensures R (\<lambda>x. so_id x = ?i)
      (if b then sreturn x else updateWorkflowState (so_id x) st)" if "so_id x = ?i" for b x st
    using that w by (auto intro!: ensures_return moves_order)
  then show ?thesis unfolding execute_plan_def Let_def
    by (intro ensures_bind [OF runs_step [OF w]] ensures_bind [where P = "\<lambda>x. so_id x = ?i"]
        ensures_then records_history relates_bind reads_any records_all w ensures_return) simp_all
qed

theorem advances:
  assumes "writes (ai_saleOrderId input)"
  shows "ensures R (\<lambda>x. so_id (ar_order x) = ai_saleOrderId input) (advance pd input)"
  unfolding advance_def
  by (rule ensures_bind [OF plans_step]) (rule ensures_weaken [OF executes_step_plan]; simp add: assms)

lemma executes_automatic:
  assumes w: "writes (so_id order)"
  shows "relates R (execute_automatic order f st e b br eff to as)"
proof -
  have "relates R (if c then sreturn x else updateWorkflowState (so_id x) st)"
    if "so_id x = so_id order" for c x st
    using that w by (auto intro!: ensures_return moves)
  then show ?thesis unfolding execute_automatic_def
    by (intro ensures_bind [OF runs [OF w]] relates_bind ensures_then records_history reads_any
        records_all w ensures_return TrueI) simp
qed

lemma tries_bundles:
  "writes (so_id order) \<Longrightarrow> relates R (try_bundles pd order f st e cx bs)"
proof (induction bs)
  case (Cons b bs)
  then show ?case
    unfolding try_bundles.simps(2) Let_def
    by (intro relates_bind ensures_lift ensures_option ensures_if ensures_throw executes_automatic
        ensures_return TrueI)
qed (simp add: ensures_return)

theorem advances_automatic: "writes i \<Longrightarrow> relates R (advanceAutomatic lc pd i e)"
  unfolding advanceAutomatic_def
  by (intro ensures_bind [OF reads_order] ensures_option ensures_pair relates_bind reads_any
      builds_context tries_bundles ensures_return TrueI) simp

end

section \<open>The use cases\<close>

context preorder_on_states
begin

lemma in_transaction: "relates R m \<Longrightarrow> R s (snd (runInTransaction m s))"
  by (auto simp: runInTransaction_def R_refl dest: relatesD split: sum.splits)

end

locale use_case_relation = order_writes R writes
  for R :: "world \<Rightarrow> world \<Rightarrow> bool" and writes :: "string \<Rightarrow> bool" +
  assumes by_hand: "writes (ai_saleOrderId input) \<Longrightarrow> relates R (advance pd input)"
    and automatic: "writes i \<Longrightarrow> relates R (advanceAutomatic lc pd i e)"
begin

theorem order_step: "writes (ai_saleOrderId input) \<Longrightarrow> R s (snd (advance_order_state pd input s))"
  unfolding advance_order_state_def by (rule in_transaction, erule by_hand)

lemma route_step_order [simp]: "ai_saleOrderId (route_step_input i target e n len t) = i"
  by (simp add: route_step_input_def)

lemma walks_route:
  assumes "writes i"
  shows "R s (snd (route_steps pd i target e ag initial len n ts final done warnings s))"
proof (induction ts arbitrary: n final "done" warnings s)
  case (Cons t ts)
  let ?x = "advance_order_state pd (route_step_input i target e n len t) s"
  have "R s (snd ?x)" using order_step assms by simp
  moreover obtain x s' where x: "?x = (x, s')" by fastforce
  ultimately have s': "R s s'" by simp
  show ?case
    by (auto simp: x s' Let_def intro: R_trans [OF s' Cons.IH] split: sum.splits option.splits prod.splits)
qed (simp add: R_refl)

theorem order_route: "writes i \<Longrightarrow> R s (snd (advance_to_target lc pd i target e s))"
proof -
  assume w: "writes i"
  obtain x s1 where x: "runInTransaction (plan_route lc i target) s = (x, s1)" by fastforce
  have "R s s1" using in_transaction [OF plans_route, of s lc i target] by (simp add: x)
  then show ?thesis unfolding advance_to_target_def
    using walks_route [OF w]
    by (auto simp: x split: sum.splits plan_result.splits prod.splits intro: R_trans)
      (metis R_trans snd_conv)
qed

lemma idles: "writes i \<Longrightarrow> R s (snd (advance_until_idle lc pd i fuel u s))"
proof (induction fuel arbitrary: u s)
  case (Suc fuel)
  let ?x = "runInTransaction (advanceAutomatic lc pd i None) s"
  have "R s (snd ?x)" by (rule in_transaction, rule automatic, rule Suc.prems)
  moreover obtain x s' where x: "?x = (x, s')" by fastforce
  ultimately have s': "R s s'" by simp
  show ?case
    by (auto simp: x s' intro: R_trans [OF s' Suc.IH] Suc.prems split: sum.splits option.splits)
qed (simp add: R_refl)

lemma runs_orders:
  "list_all writes is \<Longrightarrow> R s (snd (run_orders lc pd is r s))"
proof (induction "is" arbitrary: r s)
  case (Cons i "is")
  let ?x = "advance_until_idle lc pd i MAX_AUTOMATIC_STEPS_PER_ORDER False s"
  have "R s (snd ?x)" using idles Cons.prems by simp
  moreover obtain x s' where x: "?x = (x, s')" by fastforce
  ultimately have s': "R s s'" by simp
  show ?case
    using Cons.prems by (auto simp: x s' intro: R_trans [OF s' Cons.IH] split: sum.splits bool.splits)
qed (simp add: R_refl)

theorem job: "(\<And>i. writes i) \<Longrightarrow> R s (snd (snd (automatic_job lc pd limit cursor s)))"
  unfolding automatic_job_def Let_def case_prod_unfold snd_conv
  by (rule runs_orders) (simp add: list_all_iff)

theorem single_order: "writes i \<Longrightarrow> R s (snd (runForSaleOrder lc pd i s))"
  using idles [of i s lc pd MAX_AUTOMATIC_STEPS_PER_ORDER False]
  by (auto simp: runForSaleOrder_def split: prod.splits sum.splits bool.splits)

end

sublocale step_relation \<subseteq> use_case_relation
  by unfold_locales (auto intro: relates_ensures advances advances_automatic)

end
