(* ===== verification/Invariants.thy ===== *)
theory Invariants
  imports RunRelations "HOL-Library.Sublist"
begin

text \<open>
  The interfaces of \<open>Relations\<close> and \<open>RunRelations\<close> on the model's own repositories: the
  balances stay valid, the ledger and the history only grow, the orders that a step is not about
  stay as they are, and the run of the actions leaves the workflow of every order alone. The
  properties are the conclusions for the use cases.
\<close>

section \<open>Writes of the inventory\<close>

definition balance_ok :: "inventory_row \<Rightarrow> bool" where
  "balance_ok row \<longleftrightarrow> 0 \<le> in_reserved row \<and> in_reserved row \<le> in_onHand row \<and>
     in_available row = Some (in_onHand row - in_reserved row)"

definition inventory_ok :: "world \<Rightarrow> bool" where
  "inventory_ok s \<longleftrightarrow> list_all balance_ok (w_inventory s) \<and>
     distinct (map (\<lambda>r. (in_warehouseId r, in_stockItemId r)) (w_inventory s))"

definition current_balance :: "world \<Rightarrow> string \<Rightarrow> string \<Rightarrow> string option \<Rightarrow> inventory_balance" where
  "current_balance s w j loc =
     or_default (case inventory_row_of w j (w_inventory s) of None \<Rightarrow> None
       | Some row \<Rightarrow> if in_locationId row \<noteq> loc then None else Some (toBalance row))
       (empty_balance w j loc)"

lemma int_column_Inr: "int_column r = Inr i \<Longrightarrow> of_int i = r \<and> int32 i"
  using quotient_of_div [of r "fst (quotient_of r)" "snd (quotient_of r)"]
  by (auto simp: int_column_def js_is_integer_def split: if_splits)

lemma upsert_Inr:
  assumes "upsert b s = Inr (b', s')"
  shows "\<exists>onHand reserved available. of_int onHand = ba_onHand b \<and> of_int reserved = ba_reserved b \<and>
    of_int available = ba_available b \<and>
    s' = s\<lparr>w_inventory := save_row \<lparr>in_warehouseId = ba_warehouseId b, in_stockItemId = ba_stockItemId b,
       in_locationId = ba_locationId b, in_onHand = onHand, in_reserved = reserved,
       in_available = Some available\<rparr> (w_inventory s)\<rparr>"
  using assms unfolding upsert_def by (auto simp: action_Inr Let_def dest!: int_column_Inr)

lemma saved_balance_ok:
  assumes "of_int onHand = (h :: rat)" "of_int reserved = (r :: rat)" "of_int available = h - r"
    and "\<not> (h < 0 \<or> r < 0 \<or> h < r)"
  shows "balance_ok \<lparr>in_warehouseId = w, in_stockItemId = j, in_locationId = loc, in_onHand = onHand,
    in_reserved = reserved, in_available = Some available\<rparr>"
proof -
  have "(of_int available :: rat) = of_int (onHand - reserved)" using assms by simp
  then have "available = onHand - reserved" by (simp only: of_int_eq_iff)
  moreover have "0 \<le> reserved" "reserved \<le> onHand" using assms by auto
  ultimately show ?thesis by (simp add: balance_ok_def)
qed

lemma saves_checked_balance:
  assumes "sthen (validateInventoryBalance h r)
      (upsert \<lparr>ba_warehouseId = w, ba_stockItemId = j, ba_locationId = loc, ba_onHand = h,
         ba_reserved = r, ba_available = h - r\<rparr>) s = Inr (b, s')"
  shows "\<exists>row. balance_ok row \<and> in_warehouseId row = w \<and> in_stockItemId row = j \<and>
    in_locationId row = loc \<and> of_int (in_onHand row) = h \<and> of_int (in_reserved row) = r \<and>
    s' = s\<lparr>w_inventory := save_row row (w_inventory s)\<rparr>"
proof -
  from assms have v: "\<not> (h < 0 \<or> r < 0 \<or> h < r)"
    and "upsert \<lparr>ba_warehouseId = w, ba_stockItemId = j, ba_locationId = loc, ba_onHand = h,
         ba_reserved = r, ba_available = h - r\<rparr> s = Inr (b, s')"
    by (auto simp: validateInventoryBalance_def action_Inr)
  from upsert_Inr [OF this(2)] obtain onHand reserved available where
    o: "of_int onHand = h" "of_int reserved = r" "of_int available = h - r" and
    s': "s' = s\<lparr>w_inventory := save_row \<lparr>in_warehouseId = w, in_stockItemId = j,
       in_locationId = loc, in_onHand = onHand, in_reserved = reserved,
       in_available = Some available\<rparr> (w_inventory s)\<rparr>" by auto
  show ?thesis
    by (rule exI [of _ "\<lparr>in_warehouseId = w, in_stockItemId = j, in_locationId = loc,
        in_onHand = onHand, in_reserved = reserved, in_available = Some available\<rparr>"])
      (simp add: saved_balance_ok [OF o v] o(1,2) s')
qed

text \<open>An increment saves a valid row, computed from the balance before.\<close>

lemma incrementReserved_Inr:
  assumes "incrementReserved w j loc d s = Inr (b, s')"
  shows "\<exists>row. balance_ok row \<and> in_warehouseId row = w \<and> in_stockItemId row = j \<and>
    in_locationId row = loc \<and> of_int (in_onHand row) = ba_onHand (current_balance s w j loc) \<and>
    of_int (in_reserved row) = ba_reserved (current_balance s w j loc) + d \<and>
    s' = s\<lparr>w_inventory := save_row row (w_inventory s)\<rparr>"
  by (rule saves_checked_balance)
     (use assms in \<open>simp add: incrementReserved_def getSnapshot_def sbind_def sreads_def Let_def
        current_balance_def cong: option.case_cong\<close>)

lemma incrementOnHand_Inr:
  assumes "incrementOnHand w j loc d s = Inr (b, s')"
  shows "\<exists>row. balance_ok row \<and> in_warehouseId row = w \<and> in_stockItemId row = j \<and>
    in_locationId row = loc \<and> of_int (in_onHand row) = ba_onHand (current_balance s w j loc) + d \<and>
    of_int (in_reserved row) = ba_reserved (current_balance s w j loc) \<and>
    s' = s\<lparr>w_inventory := save_row row (w_inventory s)\<rparr>"
  by (rule saves_checked_balance)
     (use assms in \<open>simp add: incrementOnHand_def getSnapshot_def sbind_def sreads_def Let_def
        current_balance_def cong: option.case_cong\<close>)

lemma set_save_row: "set (save_row r rows) \<subseteq> insert r (set rows)"
  by (induction rows) auto

lemma keys_save_row:
  "(\<lambda>r. (in_warehouseId r, in_stockItemId r)) ` set (save_row r rows) =
   insert (in_warehouseId r, in_stockItemId r) ((\<lambda>r. (in_warehouseId r, in_stockItemId r)) ` set rows)"
  by (induction rows) (auto simp: inventory_key_def)

lemma distinct_save_row:
  "distinct (map (\<lambda>r. (in_warehouseId r, in_stockItemId r)) rows) \<Longrightarrow>
   distinct (map (\<lambda>r. (in_warehouseId r, in_stockItemId r)) (save_row r rows))"
proof (induction rows)
  case (Cons row rows)
  then show ?case
    using keys_save_row [of r rows] by (auto simp: inventory_key_def simp flip: image_set)
qed simp

lemma inventory_ok_save_row:
  "inventory_ok s \<Longrightarrow> balance_ok row \<Longrightarrow> inventory_ok (s\<lparr>w_inventory := save_row row (w_inventory s)\<rparr>)"
  using set_save_row [of row "w_inventory s"] distinct_save_row [of "w_inventory s" row]
  by (auto simp: inventory_ok_def list_all_iff)

section \<open>Writes of the other tables\<close>

lemma update_order_Inr:
  "update_order i f s = Inr (u, s') \<Longrightarrow>
   s' = s\<lparr>w_orders := update_where (\<lambda>x. so_id x = i) f (w_orders s)\<rparr>"
  by (simp add: update_order_def action_Inr)

lemma updateWorkflowState_Inr:
  "updateWorkflowState i st s = Inr (x, s') \<Longrightarrow>
   s' = s\<lparr>w_orders := update_where (\<lambda>x. so_id x = i) (\<lambda>x. x\<lparr>so_currentStateId := st\<rparr>) (w_orders s)\<rparr>"
  by (auto simp: updateWorkflowState_def action_Inr dest: update_order_Inr split: option.splits)

lemma fresh_id_Inr: "fresh_id s = Inr (i, s') \<Longrightarrow> s' = s\<lparr>w_next := Suc (w_next s)\<rparr>"
  by (simp add: fresh_id_def)

lemma createDocument_Inr:
  "createDocument document s = Inr (x, s') \<Longrightarrow> id_note x = id_note document \<and>
   id_status x = id_status document \<and>
   s' = s\<lparr>w_next := Suc (w_next s), w_documents := w_documents s @ [x]\<rparr>"
  by (auto simp: createDocument_def action_Inr Let_def dest!: fresh_id_Inr)

lemma addItem_Inr:
  "addItem di j n waste l l' cost s = Inr (x, s') \<Longrightarrow> of_int (di_quantity x) = n \<and> di_stockItemId x = j \<and>
   di_docId x = di \<and> s' = s\<lparr>w_next := Suc (w_next s), w_documentItems := w_documentItems s @ [x]\<rparr>"
  by (auto simp: addItem_def action_Inr Let_def dest!: fresh_id_Inr int_column_Inr)

lemma markPosted_Inr:
  "markPosted di by t s = Inr (u, s') \<Longrightarrow>
   s' = s\<lparr>w_documents := update_where (\<lambda>d. id_id d = di)
     (\<lambda>d. d\<lparr>id_status := DOC_POSTED, id_postedBy := by, id_postedAt := Some t\<rparr>) (w_documents s)\<rparr>"
  by (simp add: markPosted_def action_Inr)

lemma reserveNextNumber_Inr:
  "reserveNextNumber i s = Inr (n, s') \<Longrightarrow> \<exists>m. s' = s\<lparr>w_series := update_where (\<lambda>d. ds_id d = i)
     (\<lambda>d. d\<lparr>ds_nextNumber := m\<rparr>) (w_series s)\<rparr>"
  by (auto simp: reserveNextNumber_def action_Inr split: option.splits if_splits)

lemma appendLedger_Inr:
  "appendLedger es s = Inr (u, s') \<Longrightarrow>
   \<exists>rows. ledger_rows es = Inr rows \<and> s' = s\<lparr>w_ledger := w_ledger s @ rows\<rparr>"
  by (auto simp: appendLedger_def action_Inr)

lemma appendHistory_Inr: "appendHistory h s = Inr (u, s') \<Longrightarrow> s' = s\<lparr>w_history := w_history s @ [h]\<rparr>"
  by (simp add: appendHistory_def action_Inr)

lemma saveExecution_Inr:
  "saveExecution e s = Inr (u, s') \<Longrightarrow>
   s' = s\<lparr>w_executions := (if \<exists>r \<in> set (w_executions s). ae_id r = ae_id e
      then update_where (\<lambda>r. ae_id r = ae_id e) (\<lambda>_. e) (w_executions s) else w_executions s @ [e])\<rparr>"
  by (auto simp: saveExecution_def action_Inr split: if_splits)

lemmas write_shapes = update_order_Inr updateWorkflowState_Inr fresh_id_Inr createDocument_Inr
  addItem_Inr markPosted_Inr reserveNextNumber_Inr appendLedger_Inr appendHistory_Inr
  saveExecution_Inr incrementReserved_Inr incrementOnHand_Inr

section \<open>Reads\<close>

text \<open>With no write allowed, the relation is equality: what only reads returns in the same state.\<close>

interpretation reading: order_writes "(=)" "\<lambda>_. False"
  by unfold_locales auto

section \<open>Balances\<close>

text \<open>A world whose inventory is the same has valid balances when the other has.\<close>

lemma inventory_ok_other:
  "inventory_ok (s\<lparr>w_orders := a\<rparr>) = inventory_ok s" "inventory_ok (s\<lparr>w_next := n\<rparr>) = inventory_ok s"
  "inventory_ok (s\<lparr>w_documents := ds\<rparr>) = inventory_ok s"
  "inventory_ok (s\<lparr>w_documentItems := ds'\<rparr>) = inventory_ok s"
  "inventory_ok (s\<lparr>w_series := ss\<rparr>) = inventory_ok s" "inventory_ok (s\<lparr>w_ledger := le\<rparr>) = inventory_ok s"
  "inventory_ok (s\<lparr>w_history := hs\<rparr>) = inventory_ok s"
  "inventory_ok (s\<lparr>w_executions := es\<rparr>) = inventory_ok s"
  by (simp_all add: inventory_ok_def)

interpretation balances: repository_relation "\<lambda>s s'. inventory_ok s \<longrightarrow> inventory_ok s'" "\<lambda>_. True"
  by unfold_locales
     (auto simp: ensures_def inventory_ok_other dest!: write_shapes intro: inventory_ok_save_row)

interpretation balances: step_relation "\<lambda>s s'. inventory_ok s \<longrightarrow> inventory_ok s'" "\<lambda>_. True"
  by unfold_locales (auto simp: ensures_def inventory_ok_other dest!: write_shapes)

section \<open>Tables that only grow\<close>

definition only_grows :: "world \<Rightarrow> world \<Rightarrow> bool" where
  "only_grows s s' \<longleftrightarrow> prefix (w_ledger s) (w_ledger s') \<and> prefix (w_history s) (w_history s') \<and>
     prefix (w_documentItems s) (w_documentItems s') \<and>
     prefix (map id_id (w_documents s)) (map id_id (w_documents s')) \<and> w_catalog s' = w_catalog s"

lemma map_update_where: "(\<And>x. g (f x) = g x) \<Longrightarrow> map g (update_where p f xs) = map g xs"
  by (simp add: update_where_def)

interpretation growing: repository_relation only_grows "\<lambda>_. True"
  by unfold_locales
     (auto simp: only_grows_def ensures_def map_update_where dest!: write_shapes intro: prefix_order.trans)

interpretation growing: step_relation only_grows "\<lambda>_. True"
  by unfold_locales (auto simp: only_grows_def ensures_def dest!: write_shapes)

section \<open>Other orders\<close>

text \<open>What a step about the order \<open>i\<close> leaves as it is: the other orders, their history and the
  log of their actions, and which orders there are.\<close>

definition others_kept :: "string \<Rightarrow> world \<Rightarrow> world \<Rightarrow> bool" where
  "others_kept i s s' \<longleftrightarrow>
     map so_id (w_orders s') = map so_id (w_orders s) \<and>
     filter (\<lambda>x. so_id x \<noteq> i) (w_orders s') = filter (\<lambda>x. so_id x \<noteq> i) (w_orders s) \<and>
     filter (\<lambda>h. sh_saleOrderId h \<noteq> i) (w_history s') = filter (\<lambda>h. sh_saleOrderId h \<noteq> i) (w_history s)"

lemma filter_update_where:
  "(\<And>x. so_id (f x) = so_id x) \<Longrightarrow>
   filter (\<lambda>x. so_id x \<noteq> i) (update_where (\<lambda>x. so_id x = i) f xs) = filter (\<lambda>x. so_id x \<noteq> i) xs"
  by (induction xs) (auto simp: update_where_def)

interpretation others: repository_relation "others_kept i" "\<lambda>j. j = i" for i
  by unfold_locales
     (auto simp: others_kept_def ensures_def map_update_where filter_update_where harmless_def
        dest!: write_shapes)

interpretation others: step_relation "others_kept i" "\<lambda>j. j = i" for i
  by unfold_locales
     (auto simp: others_kept_def ensures_def map_update_where filter_update_where dest!: write_shapes)

section \<open>Orders evolve\<close>

text \<open>No order appears or disappears, and each keeps all but its state, its warehouse and its marks.\<close>

definition orders_evolve :: "world \<Rightarrow> world \<Rightarrow> bool" where
  "orders_evolve s s' \<longleftrightarrow> list_all2 order_evolves (w_orders s) (w_orders s')"

lemma order_evolves_refl [simp]: "order_evolves x x"
  by (simp add: order_evolves_def)

lemma order_evolves_trans: "order_evolves x y \<Longrightarrow> order_evolves y z \<Longrightarrow> order_evolves x z"
  by (auto simp: order_evolves_def)

lemma orders_evolve_refl [simp]: "orders_evolve s s"
  by (simp add: orders_evolve_def list_all2_refl)

lemma orders_evolve_trans: "orders_evolve s t \<Longrightarrow> orders_evolve t u \<Longrightarrow> orders_evolve s u"
  unfolding orders_evolve_def by (rule list_all2_trans [OF order_evolves_trans])

lemma orders_evolve_same: "w_orders s' = w_orders s \<Longrightarrow> orders_evolve s s'"
  by (simp add: orders_evolve_def list_all2_refl)

lemma orders_evolve_update:
  "(\<And>x. order_evolves x (f x)) \<Longrightarrow> orders_evolve s (s\<lparr>w_orders := update_where p f (w_orders s)\<rparr>)"
  by (simp add: orders_evolve_def update_where_def list_all2_map2 list_all2_refl)

lemma state_write_evolves: "order_evolves x (x\<lparr>so_currentStateId := st\<rparr>)"
  by (simp add: order_evolves_def order_core_def)

interpretation evolving: preorder_on_states orders_evolve
  by unfold_locales (rule orders_evolve_refl, rule orders_evolve_trans)

interpretation evolving: repository_relation orders_evolve "\<lambda>_. True"
  by unfold_locales
     (auto simp: ensures_def harmless_def dest!: write_shapes
        intro: orders_evolve_same orders_evolve_update)

interpretation evolving: step_relation orders_evolve "\<lambda>_. True"
  by unfold_locales
     (auto simp: ensures_def dest!: write_shapes
        intro: orders_evolve_same orders_evolve_update state_write_evolves)

section \<open>The run leaves the workflow alone\<close>

definition positions :: "world \<Rightarrow> (string \<times> string option \<times> string option \<times> bool) list" where
  "positions s = map (\<lambda>x. (so_id x, so_workflowId x, so_currentStateId x, so_isActive x)) (w_orders s)"

definition workflow_kept :: "world \<Rightarrow> world \<Rightarrow> bool" where
  "workflow_kept s s' \<longleftrightarrow> positions s' = positions s \<and> w_history s' = w_history s \<and>
     w_executions s' = w_executions s \<and> w_catalog s' = w_catalog s"

interpretation workflow: repository_relation workflow_kept "\<lambda>_. True"
  by unfold_locales
     (auto simp: workflow_kept_def positions_def ensures_def map_update_where harmless_def
        dest!: write_shapes)

end
