(* ===== verification/Fixtures.thy ===== *)
theory Fixtures
  imports UseCases
begin

text \<open>
  A small database on which the properties are applied: one order of two units of a stock item
  with ten on hand, and a workflow whose transitions reserve, consume and restore its stock.
\<close>

definition example_order :: sale_order where
  "example_order = \<lparr>so_id = ''o1'', so_serie = Some ''PE'', so_correlative = Some 7,
     so_scheduleDate = None, so_deliveryDate = Some ''2025-03-10'', so_subTotal = 0,
     so_deliveryCost = 0, so_discount = 0, so_total = 0, so_currency = PEN, so_note = None,
     so_advertisingCode = None, so_observation = None, so_sendDate = None, so_sendPhoto = None,
     so_sendCode = None, so_sendAddress = None, so_assignedBy = None, so_clientId = ''c1'',
     so_agencySubsidiaryId = None, so_agencyDetail = None, so_sourceId = None,
     so_warehouseId = Some ''w1'', so_createdBy = ''u1'', so_companyId = ''k'',
     so_workflowId = Some ''f'', so_currentStateId = Some ''a'', so_invoiceSend = False,
     so_prepared = False, so_preguide = False, so_reserveBool = False,
     so_stockRevertedBool = False, so_lotes = None, so_isActive = True, so_createdAt = 0\<rparr>"

definition example_action :: "string \<Rightarrow> string \<Rightarrow> action_type \<Rightarrow> workflow_action" where
  "example_action i t ty = \<lparr>wa_id = i, wa_transitionId = t, wa_type = ty, wa_config = [],
     wa_position = 0, wa_branch = THEN_BRANCH\<rparr>"

definition example_serie :: "string \<Rightarrow> doc_type \<Rightarrow> document_serie" where
  "example_serie i ty = \<lparr>ds_id = i, ds_code = i, ds_name = i, ds_docType = ty,
     ds_warehouseId = ''w1'', ds_nextNumber = 1, ds_padding = 6, ds_separator = ''-'',
     ds_isActive = True, ds_createdAt = 0\<rparr>"

definition example_catalog :: catalog where
  "example_catalog = \<lparr>
     c_items = [\<lparr>it_id = ''i1'', it_saleOrderId = ''o1'', it_referencePackId = None,
       it_packNameSnapshot = None, it_description = None, it_quantity = 1, it_unitPrice = 0,
       it_total = 0, it_createdAt = 0\<rparr>],
     c_components = [\<lparr>co_id = ''k1'', co_saleOrderItemId = ''i1'', co_skuId = ''s1'',
       co_referencePackItemId = None, co_skuNameSnapshot = None, co_backendSkuSnapshot = None,
       co_customSkuSnapshot = None, co_barcodeSnapshot = None, co_imageSnapshot = None,
       co_productIdSnapshot = None, co_attributesSnapshot = [], co_quantity = 2,
       co_unitPrice = 0, co_total = 0, co_createdAt = 0\<rparr>],
     c_supplies = [],
     c_stockItems = [\<lparr>si_id = ''x1'', si_skuId = ''s1'', si_isActive = True, si_createdAt = 0\<rparr>],
     c_skus = [\<lparr>sk_id = ''s1'', sk_productId = ''p1'', sk_backendSku = ''SKU1'',
       sk_customSku = None, sk_name = ''Polo'', sk_barcode = None, sk_image = None, sk_price = 0,
       sk_cost = 0, sk_isSellable = True, sk_isPurchasable = True, sk_isManufacturable = False,
       sk_isStockTracked = True, sk_isActive = True, sk_isDeleted = False, sk_createdAt = 0\<rparr>],
     c_products = [\<lparr>pr_id = ''p1'', pr_name = ''Polo'', pr_description = None, pr_type = PRODUCT,
       pr_brand = None, pr_baseUnitId = None, pr_isActive = True, pr_isDeleted = False,
       pr_createdAt = 0\<rparr>],
     c_productions = [], c_productionItems = [], c_recipes = [], c_recipeItems = [],
     c_clients = [],
     c_warehouses = [\<lparr>wh_id = ''w1'', wh_name = ''Lima'', wh_department = ''15'',
       wh_province = ''1501'', wh_district = ''150101'', wh_address = None, wh_isActive = True,
       wh_isProductionDefault = False, wh_createdAt = 0\<rparr>],
     c_payments = [], c_allocations = [], c_workflows = [example_flow],
     c_states = [example_state ''a'' 0, example_state ''b'' 1, example_state ''c'' 2],
     c_transitions = [example_transition ''ab'' ''a'' ''b'', example_transition ''bc'' ''b'' ''c'',
       example_transition ''ca'' ''c'' ''a''],
     c_conditions = [],
     c_actions = [example_action ''r'' ''ab'' RESERVE_STOCK, example_action ''q'' ''bc'' CONSUME_STOCK,
       example_action ''z'' ''ca'' RESTORE_STOCK],
     c_uuid = (\<lambda>n. nat_string (1000 + n)), c_now = 0\<rparr>"

definition example_world :: world where
  "example_world = \<lparr>w_catalog = example_catalog, w_orders = [example_order],
     w_inventory = [\<lparr>in_warehouseId = ''w1'', in_stockItemId = ''x1'', in_locationId = None,
       in_onHand = 10, in_reserved = 0, in_available = Some 10\<rparr>],
     w_documents = [], w_documentItems = [],
     w_series = [example_serie ''so'' OUT_DOC, example_serie ''si'' IN_DOC],
     w_ledger = [], w_history = [], w_executions = [], w_next = 0\<rparr>"

definition example_input :: "string \<Rightarrow> advance_input" where
  "example_input t = \<lparr>ai_saleOrderId = ''o1'', ai_executedBy = ''u1'', ai_transitionId = Some t,
     ai_transitionCode = None, ai_transitionPurpose = None, ai_metadata = None,
     ai_idempotencyKey = None, ai_financialCancellationResolved = False\<rparr>"

text \<open>The same order without a warehouse, under the workflow without actions: a step only moves it.\<close>

definition plain_world :: world where
  "plain_world = example_world\<lparr>w_orders := [example_order\<lparr>so_warehouseId := None\<rparr>],
     w_catalog := example_catalog\<lparr>c_actions := []\<rparr>\<rparr>"

lemma zero_cents: "toMinorUnits_num 0 = Inr 0" "fromMinorUnits 0 = Inr 0"
  by code_simp+

lemmas fixture_defs = plain_world_def example_world_def example_catalog_def example_order_def
  example_input_def example_action_def example_serie_def example_flow_def example_state_def
  example_transition_def new_workflow_def

lemmas step_eval = advance_def plan_step_def execute_plan_def run_step_def run_def
  findByIdForUpdate_def findWorkflowDetailed_def state_in_def find_bundle_def nonempty_def
  findTransitionDetailed_def bundle_of_def sort_position_def sort_cmp_def check_cancellation_def
  check_transition_def canTransition_def evaluateConditions_def actions_of_branch_def
  updateWorkflowState_def update_order_def update_where_def step_history_def step_metadata_def
  recordActionOutcomes_def appendHistory_def fresh_id_def List.map_filter_def distinct_first_def
  build_context_def getOperationalAppliedTotal_def operationalAppliedTotal_def action_simps
  lift_string_def findClientById_def find_by_def hasAvailableStock_def now_def or_default_def
  zero_cents fixture_defs

lemma plain_step:
  "\<exists>r s'. advance (\<lambda>_. None) (example_input ''ab'') plain_world = Inr (r, s') \<and>
     map so_currentStateId (w_orders s') = [Some ''b'']"
  by (simp add: step_eval)

end
