(* ===== verification/Steps.thy ===== *)
theory Steps
  imports Invariants Fixtures
begin

text \<open>
  A step by hand and an automatic step, seen from the workflow: each moves its order along an
  edge of the graph of the workflow, which the engine allows, and writes one row of history.
  The use cases refine the paths of that graph.
\<close>

section \<open>The graph of a workflow\<close>

text \<open>Where a transition takes an order that is in the state \<open>a\<close>.\<close>

definition target_of :: "transition_effect option \<Rightarrow> string option \<Rightarrow> string \<Rightarrow> string option" where
  "target_of effect to a = (if effect = Some RUN_ACTIONS then Some a else to)"

text \<open>
  An edge of the graph: either branch of an active transition of the workflow. The branch taken
  when a condition fails is open to automatic transitions only.
\<close>

inductive edge :: "catalog \<Rightarrow> string \<Rightarrow> string \<Rightarrow> string option \<Rightarrow> bool" for c f where
  then_branch: "t \<in> set (c_transitions c) \<Longrightarrow> wt_workflowId t = f \<Longrightarrow> wt_isActive t \<Longrightarrow>
     leaves_from t a \<or> wt_autoTrigger t \<and> wt_fromStateId t = Some a \<Longrightarrow>
     edge c f a (target_of (Some (wt_effect t)) (wt_toStateId t) a)"
| else_branch: "t \<in> set (c_transitions c) \<Longrightarrow> wt_workflowId t = f \<Longrightarrow> wt_isActive t \<Longrightarrow>
     wt_autoTrigger t \<Longrightarrow> leaves_from t a \<or> wt_fromStateId t = Some a \<Longrightarrow>
     edge c f a (target_of (wt_elseEffect t) (wt_elseToStateId t) a)"

text \<open>The states an order can come to, from the state it is in.\<close>

inductive path :: "catalog \<Rightarrow> string \<Rightarrow> string option \<Rightarrow> string option \<Rightarrow> bool" for c f where
  stays: "path c f a a"
| walks: "path c f a (Some b) \<Longrightarrow> edge c f b d \<Longrightarrow> path c f a d"

lemma path_trans: "path c f b d \<Longrightarrow> path c f a b \<Longrightarrow> path c f a d"
  by (induction rule: path.induct) (auto intro: path.intros)

lemma edge_path: "edge c f a b \<Longrightarrow> path c f (Some a) b"
  by (auto intro: path.intros)

section \<open>A planned step\<close>

lemma plan_step_state: "plan_step pd input s = Inr (p, s1) \<Longrightarrow> s1 = s"
  using relatesD [OF reading.plans_step] by blast

lemma reads_bind:
  assumes "relates (=) m"
  shows "sbind m f s = Inr (b, s') \<longleftrightarrow> (\<exists>a. m s = Inr (a, s) \<and> f a s = Inr (b, s'))"
  using relatesD [OF assms] unfolding sbind_Inr by blast

lemma reads_then:
  assumes "relates (=) m"
  shows "sthen m k s = Inr (b, s') \<longleftrightarrow> (\<exists>a. m s = Inr (a, s) \<and> k s = Inr (b, s'))"
  unfolding sthen_def by (rule reads_bind [OF assms])

lemma option_throw_Inr:
  "(case x of None \<Rightarrow> sthrow e | Some y \<Rightarrow> f y) s = Inr r \<longleftrightarrow> (\<exists>y. x = Some y \<and> f y s = Inr r)"
  by (cases x) (simp_all add: sthrow_Inr)

lemma findByIdForUpdate_Inr:
  "findByIdForUpdate i s = Inr (x, s') \<longleftrightarrow> x = find_by so_id i (w_orders s) \<and> s' = s"
  by (simp add: findByIdForUpdate_def sreads_Inr)

lemma check_transition_allowed:
  assumes "check_transition pd order ag st b s = Inr (u, s1)"
  shows "\<exists>conditions cx. create_conditions pd (tb_conditions b) = Inr conditions \<and>
    td_allowed (canTransition (ag_workflow ag) st (tb_transition b) conditions cx
      (Option.bind (nonempty (wt_toStateId (tb_transition b))) (state_in ag)))"
  using assms unfolding check_transition_def Let_def
  by (auto simp: action_Inr lift_string_def split: sum.splits)

lemma tb_transition_bundle_of [simp]: "tb_transition (bundle_of c t) = t"
  by (simp add: bundle_of_def)

lemma findTransitionDetailed_transition:
  assumes "findTransitionDetailed i s = Inr (Some b, s1)"
  shows "tb_transition b \<in> set (c_transitions (w_catalog s))"
  using assms unfolding findTransitionDetailed_def
  by (cases "find_by wt_id i (c_transitions (w_catalog s))") (auto simp: action_Inr dest: find_by_SomeD)

lemma listFromState_transitions:
  assumes "listFromState f a s = Inr (bs, s1)" "b \<in> set bs"
  shows "tb_transition b \<in> set (c_transitions (w_catalog s)) \<and> wt_workflowId (tb_transition b) = f \<and>
    wt_isActive (tb_transition b) \<and>
    (wt_fromStateId (tb_transition b) = Some a \<or>
     wt_isGlobal (tb_transition b) \<and> a \<notin> set (wt_excludedStateIds (tb_transition b)))"
  using assms unfolding listFromState_def by (auto simp: action_Inr)

lemma find_bundle_transition:
  assumes "find_bundle input f a s = Inr (Some b, s1)"
  shows "tb_transition b \<in> set (c_transitions (w_catalog s))"
proof (cases "nonempty (ai_transitionId input)")
  case None
  then obtain bs where bs: "listFromState f a s = Inr (bs, s)" and "b \<in> set bs"
    using assms
    by (auto simp: find_bundle_def reads_bind [OF reading.reads_any(17)] sreturn_Inr find_Some_iff2
        in_set_conv_nth)
  then show ?thesis using listFromState_transitions by blast
next
  case (Some t)
  then show ?thesis using assms findTransitionDetailed_transition by (simp add: find_bundle_def)
qed

lemma findWorkflowDetailed_Inr:
  assumes "findWorkflowDetailed f s = Inr (Some ag, s1)"
  shows "wf_id (ag_workflow ag) = f \<and>
    ag_transitions ag = filter (\<lambda>t. wt_workflowId t = f) (c_transitions (w_catalog s)) \<and>
    ag_states ag = sort_position ws_position (filter (\<lambda>x. ws_workflowId x = f) (c_states (w_catalog s)))"
proof (cases "find_by wf_id f (c_workflows (w_catalog s))")
  case None
  then show ?thesis using assms by (simp add: findWorkflowDetailed_def action_Inr Let_def)
next
  case (Some wf)
  with find_by_SomeD [OF Some] show ?thesis
    using assms by (auto simp: findWorkflowDetailed_def action_Inr Let_def)
qed

text \<open>A planned step is about the order, in the state it is in, and the engine allows it.\<close>

lemma plan_step_Inr:
  assumes "plan_step pd input s = Inr (p, s1)"
  shows "find_by so_id (ai_saleOrderId input) (w_orders s) = Some (pl_order p) \<and>
    so_workflowId (pl_order p) = Some (pl_workflowId p) \<and>
    so_currentStateId (pl_order p) = Some (pl_currentStateId p) \<and>
    tb_transition (pl_bundle p) \<in> set (c_transitions (w_catalog s)) \<and>
    wt_workflowId (tb_transition (pl_bundle p)) = pl_workflowId p \<and>
    wt_isActive (tb_transition (pl_bundle p)) \<and>
    leaves_from (tb_transition (pl_bundle p)) (pl_currentStateId p)"
proof -
  from assms obtain order f a ag st b u where
    o: "find_by so_id (ai_saleOrderId input) (w_orders s) = Some order" and
    f: "so_workflowId order = Some f" "so_currentStateId order = Some a" and
    ag: "findWorkflowDetailed f s = Inr (Some ag, s)" and
    st: "state_in ag a = Some st" and
    b: "find_bundle input f a s = Inr (Some b, s)" and
    ok: "check_transition pd order ag st b s = Inr (u, s)" and
    p: "p = \<lparr>pl_order = order, pl_workflowId = f, pl_currentStateId = a, pl_bundle = b\<rparr>"
    unfolding plan_step_def
    by (auto simp: reads_bind [OF reading.reads_any(1)] reads_bind [OF reading.reads_any(15)]
        reads_bind [OF reading.finds_bundle] reads_then [OF reading.checks_cancellation]
        reads_then [OF reading.checks_transition] sreturn_Inr findByIdForUpdate_Inr option_throw_Inr)
  from check_transition_allowed [OF ok]
  have "wt_isActive (tb_transition b)" "wt_workflowId (tb_transition b) = wf_id (ag_workflow ag)"
    "leaves_from (tb_transition b) (ws_id st)"
    unfolding canTransition_allowed by auto
  moreover have "wf_id (ag_workflow ag) = f" using findWorkflowDetailed_Inr [OF ag] by simp
  moreover have "ws_id st = a" using find_by_SomeD [OF st [unfolded state_in_def]] by simp
  ultimately show ?thesis
    using o f find_bundle_transition [OF b] by (simp add: p)
qed

text \<open>A step that names its transition takes that transition.\<close>

lemma plan_step_transition:
  assumes "plan_step pd input s = Inr (p, s1)" "ai_transitionId input = Some k" "k \<noteq> []"
  shows "wt_id (tb_transition (pl_bundle p)) = k"
proof -
  from assms(1) obtain f a where "find_bundle input f a s = Inr (Some (pl_bundle p), s)"
    unfolding plan_step_def
    by (auto simp: reads_bind [OF reading.reads_any(1)] reads_bind [OF reading.reads_any(15)]
        reads_bind [OF reading.finds_bundle] reads_then [OF reading.checks_cancellation]
        reads_then [OF reading.checks_transition] sreturn_Inr findByIdForUpdate_Inr option_throw_Inr)
  then have b: "findTransitionDetailed k s = Inr (Some (pl_bundle p), s)"
    using assms(2,3) by (simp add: find_bundle_def nonempty_def)
  then show ?thesis
    unfolding findTransitionDetailed_def sreads_Inr
    by (cases "find_by wt_id k (c_transitions (w_catalog s))") (auto dest: find_by_SomeD)
qed

section \<open>A step by hand\<close>

definition set_position ::
  "string \<Rightarrow> string option \<Rightarrow> string \<times> string option \<times> string option \<times> bool \<Rightarrow>
   string \<times> string option \<times> string option \<times> bool" where
  "set_position i b q = (case q of (j, f, a, act) \<Rightarrow> (j, f, if j = i then b else a, act))"

lemma position_of:
  "x \<in> set (w_orders s) \<Longrightarrow>
   (so_id x, so_workflowId x, so_currentStateId x, so_isActive x) \<in> set (positions s)"
  by (simp add: positions_def)

lemma positions_update:
  "positions (s\<lparr>w_orders := update_where (\<lambda>x. so_id x = i) (\<lambda>x. x\<lparr>so_currentStateId := b\<rparr>) (w_orders s)\<rparr>) =
   map (set_position i b) (positions s)"
  by (simp add: positions_def update_where_def set_position_def)

lemma set_same_position:
  assumes "distinct (map so_id (w_orders s))" "find_by so_id i (w_orders s) = Some x"
    and "so_currentStateId x = a"
  shows "map (set_position i a) (positions s) = positions s"
proof -
  have "y = x" if "y \<in> set (w_orders s)" "so_id y = i" for y
    using assms(1) that find_by_SomeD [OF assms(2)] by (metis distinct_map inj_on_def)
  then show ?thesis using assms(3) by (auto simp: positions_def set_position_def)
qed

lemma step_history_Inr:
  assumes "step_history order f a b to by m s = Inr (u, s')"
  shows "\<exists>h. w_history s' = w_history s @ [h] \<and> sh_saleOrderId h = so_id order \<and> sh_workflowId h = f \<and>
    sh_transitionId h = Some (wt_id (tb_transition b)) \<and> sh_fromStateId h = Some a \<and>
    sh_toStateId h = or_default to a \<and> sh_executedBy h = by \<and> sh_metadata h = Some m \<and>
    positions s' = positions s \<and> w_catalog s' = w_catalog s"
  using assms unfolding step_history_def
  by (auto simp: action_Inr now_def positions_def dest!: fresh_id_Inr appendHistory_Inr)

text \<open>The log of executed actions is a table of its own.\<close>

definition logs_only :: "world \<Rightarrow> world \<Rightarrow> bool" where
  "logs_only s s' \<longleftrightarrow> positions s' = positions s \<and> w_history s' = w_history s \<and> w_catalog s' = w_catalog s"

interpretation logging: log_relation logs_only "\<lambda>_. True"
  by unfold_locales (auto simp: logs_only_def ensures_def harmless_def positions_def map_update_where dest!: write_shapes)

text \<open>
  What the end of a step writes, by hand or automatic: the position of the order, one row of
  history and the log.
\<close>

lemma step_writes:
  assumes run: "ensures workflow_kept (\<lambda>x. so_id (ru_order x) = so_id order) m" "m s = Inr (result, s1)"
    and move: "(if e = RUN_ACTIONS then sreturn (ru_order result)
       else updateWorkflowState (so_id (ru_order result)) to) s1 = Inr (updated, s2)"
    and hist: "step_history order f a b to by meta s2 = Inr (u, s3)"
    and rec: "recordActionOutcomes (so_id order) tr k as ocs time s3 = Inr (u', s')"
    and "distinct (map so_id (w_orders s))" "find_by so_id (so_id order) (w_orders s) = Some order"
    and "so_currentStateId order = Some a"
  shows "\<exists>h. w_history s' = w_history s @ [h] \<and> sh_saleOrderId h = so_id order \<and>
    sh_workflowId h = f \<and> sh_transitionId h = Some (wt_id (tb_transition b)) \<and>
    sh_fromStateId h = Some a \<and> sh_toStateId h = or_default to a \<and> w_catalog s' = w_catalog s \<and>
    positions s' = map (set_position (so_id order) (target_of (Some e) to a)) (positions s)"
proof -
  have i: "so_id (ru_order result) = so_id order" and k: "workflow_kept s s1"
    using run by (auto simp: ensures_def)
  have "positions s1 = positions s" using k by (simp add: workflow_kept_def)
  moreover have "map (set_position (so_id order) (Some a)) (positions s) = positions s"
    using assms(6-8) by (rule set_same_position)
  ultimately have m: "w_history s2 = w_history s \<and> w_catalog s2 = w_catalog s \<and>
      positions s2 = map (set_position (so_id order) (target_of (Some e) to a)) (positions s)"
    using move i k
    by (auto simp: workflow_kept_def target_of_def sreturn_Inr positions_update
        dest!: updateWorkflowState_Inr split: if_splits)
  have l: "logs_only s3 s'" using relatesD [OF logging.records_all rec] by simp
  from step_history_Inr [OF hist] m l show ?thesis by (auto simp: logs_only_def)
qed

text \<open>One step of the order \<open>i\<close> along the graph of its workflow.\<close>

definition walks_edge :: "string \<Rightarrow> world \<Rightarrow> world \<Rightarrow> bool" where
  "walks_edge i s s' \<longleftrightarrow> (\<exists>f a b act h. (i, Some f, Some a, act) \<in> set (positions s) \<and>
     edge (w_catalog s) f a b \<and> positions s' = map (set_position i b) (positions s) \<and>
     w_catalog s' = w_catalog s \<and> w_history s' = w_history s @ [h] \<and> sh_saleOrderId h = i \<and>
     sh_workflowId h = f \<and> sh_fromStateId h = Some a)"

lemma advance_Inr:
  assumes "distinct (map so_id (w_orders s))" "advance pd input s = Inr (r, s')"
  shows "\<exists>p h. plan_step pd input s = Inr (p, s) \<and> so_id (pl_order p) = ai_saleOrderId input \<and>
    w_history s' = w_history s @ [h] \<and> sh_saleOrderId h = ai_saleOrderId input \<and>
    sh_workflowId h = pl_workflowId p \<and> sh_fromStateId h = Some (pl_currentStateId p) \<and>
    w_catalog s' = w_catalog s \<and>
    positions s' = map (set_position (ai_saleOrderId input)
      (target_of (Some (wt_effect (tb_transition (pl_bundle p))))
         (wt_toStateId (tb_transition (pl_bundle p))) (pl_currentStateId p))) (positions s)"
proof -
  from assms(2) obtain p s0 where p: "plan_step pd input s = Inr (p, s0)"
    and "execute_plan input p s0 = Inr (r, s')"
    by (auto simp: advance_def sbind_Inr)
  with plan_step_state [OF p] have x: "execute_plan input p s = Inr (r, s')"
    and p': "plan_step pd input s = Inr (p, s)" by simp_all
  note plan = plan_step_Inr [OF p]
  then have i: "so_id (pl_order p) = ai_saleOrderId input" by (blast dest: find_by_SomeD)
  with plan have o: "find_by so_id (so_id (pl_order p)) (w_orders s) = Some (pl_order p)" by simp
  have e: "ensures workflow_kept (\<lambda>x. so_id (ru_order x) = so_id (pl_order p))
      (run_step (pl_order p) (pl_bundle p) (actions_of_branch THEN_BRANCH (pl_bundle p)) (ai_executedBy input))"
    unfolding run_step_def by (intro workflow.ensures_map_error workflow.runs TrueI)
  from x plan p' i show ?thesis
    unfolding execute_plan_def Let_def
    by (auto simp: sbind_Inr sthen_Inr now_def sreads_Inr sreturn_Inr
        dest!: step_writes [OF e _ _ _ _ assms(1) o])
qed

lemma advance_walks:
  assumes "distinct (map so_id (w_orders s))" "advance pd input s = Inr (r, s')"
  shows "walks_edge (ai_saleOrderId input) s s'"
proof -
  from advance_Inr [OF assms] obtain p h where p: "plan_step pd input s = Inr (p, s)"
    and w: "so_id (pl_order p) = ai_saleOrderId input" "w_history s' = w_history s @ [h]"
      "sh_saleOrderId h = ai_saleOrderId input" "sh_workflowId h = pl_workflowId p"
      "sh_fromStateId h = Some (pl_currentStateId p)" "w_catalog s' = w_catalog s"
      "positions s' = map (set_position (ai_saleOrderId input)
        (target_of (Some (wt_effect (tb_transition (pl_bundle p))))
           (wt_toStateId (tb_transition (pl_bundle p))) (pl_currentStateId p))) (positions s)"
    by blast
  note plan = plan_step_Inr [OF p]
  then have "edge (w_catalog s) (pl_workflowId p) (pl_currentStateId p)
      (target_of (Some (wt_effect (tb_transition (pl_bundle p))))
         (wt_toStateId (tb_transition (pl_bundle p))) (pl_currentStateId p))"
    by (intro edge.then_branch) auto
  moreover have "pl_order p \<in> set (w_orders s)" using plan by (blast dest: find_by_SomeD)
  then have "(ai_saleOrderId input, Some (pl_workflowId p), Some (pl_currentStateId p),
      so_isActive (pl_order p)) \<in> set (positions s)"
    using position_of [of "pl_order p" s] plan w(1) by simp
  ultimately show ?thesis using w unfolding walks_edge_def by blast
qed

section \<open>An automatic step\<close>

text \<open>The effect and the target of a branch of a transition.\<close>

definition takes_branch ::
  "workflow_transition \<Rightarrow> branch \<Rightarrow> transition_effect \<Rightarrow> string option \<Rightarrow> bool" where
  "takes_branch t br e to \<longleftrightarrow> (case br of
     THEN_BRANCH \<Rightarrow> e = wt_effect t \<and> to = wt_toStateId t
   | ELSE_BRANCH \<Rightarrow> wt_elseEffect t = Some e \<and> to = wt_elseToStateId t)"

lemma try_bundles_Inr:
  assumes "try_bundles pd order f a by cx bundles s = Inr (x, s')"
  shows "(x = None \<and> s' = s) \<or> (\<exists>b \<in> set bundles. \<exists>br e to updated. x = Some updated \<and>
    takes_branch (tb_transition b) br e to \<and>
    execute_automatic order f a by b br e to (actions_of_branch br b) s = Inr (updated, s'))"
  using assms
proof (induction bundles)
  case Nil
  then show ?case by (simp add: sreturn_Inr)
next
  case (Cons b bundles)
  let ?t = "tb_transition b"
  from Cons.prems obtain conditions where c: "create_conditions pd (tb_conditions b) = Inr conditions"
    by (auto simp: action_Inr lift_string_def split: sum.splits)
  define br where
    "br = (if list_all ev_passed (evaluateConditions conditions cx) then THEN_BRANCH else ELSE_BRANCH)"
  define effect where "effect = (if br = THEN_BRANCH then Some (wt_effect ?t) else wt_elseEffect ?t)"
  define to where "to = (if br = THEN_BRANCH then wt_toStateId ?t else wt_elseToStateId ?t)"
  have step: "(case effect of None \<Rightarrow> try_bundles pd order f a by cx bundles
      | Some e \<Rightarrow> if e = MOVE_STATE \<and> nonempty to = None
          then sthrow (BadRequestException ''Estado destino automatico invalido'')
          else if e = RUN_ACTIONS \<and> actions_of_branch br b = []
          then sthrow (BadRequestException ''Rama automatica de acciones sin acciones'')
          else sbind (execute_automatic order f a by b br e to (actions_of_branch br b))
                 (\<lambda>updated. sreturn (Some updated))) s = Inr (x, s')"
    using Cons.prems c
    by (cases "list_all ev_passed (evaluateConditions conditions cx)")
      (simp_all add: sbind_def slift_def lift_string_def Let_def br_def effect_def to_def
        cong: if_cong option.case_cong)
  show ?case
  proof (cases effect)
    case None
    then show ?thesis using step Cons.IH by simp blast
  next
    case (Some e)
    then have "takes_branch ?t br e to"
      by (cases br) (auto simp: takes_branch_def effect_def to_def)
    moreover obtain updated where "x = Some updated"
      "execute_automatic order f a by b br e to (actions_of_branch br b) s = Inr (updated, s')"
      using step Some by (auto simp: action_Inr split: if_splits)
    ultimately show ?thesis by auto
  qed
qed

lemma automatic_writes:
  assumes x: "execute_automatic order f a by b br e to as s = Inr (updated, s')"
    and o: "distinct (map so_id (w_orders s))" "find_by so_id (so_id order) (w_orders s) = Some order"
      "so_currentStateId order = Some a"
  shows "\<exists>h. w_history s' = w_history s @ [h] \<and> sh_saleOrderId h = so_id order \<and>
    sh_workflowId h = f \<and> sh_transitionId h = Some (wt_id (tb_transition b)) \<and>
    sh_fromStateId h = Some a \<and> sh_toStateId h = or_default to a \<and> w_catalog s' = w_catalog s \<and>
    positions s' = map (set_position (so_id order) (target_of (Some e) to a)) (positions s)"
  using x unfolding execute_automatic_def
  by (auto simp: sbind_Inr sthen_Inr now_def sreads_Inr sreturn_Inr
      dest!: step_writes [OF workflow.runs [OF TrueI] _ _ _ _ o])

lemma takes_branch_edge:
  assumes "takes_branch t br e to" "t \<in> set (c_transitions c)" "wt_workflowId t = f"
    "wt_isActive t" "wt_autoTrigger t" "leaves_from t a \<or> wt_fromStateId t = Some a"
  shows "edge c f a (target_of (Some e) to a)"
proof (cases br)
  case THEN_BRANCH
  then show ?thesis using assms edge.then_branch [of t c f a] by (auto simp: takes_branch_def)
next
  case ELSE_BRANCH
  then show ?thesis using assms edge.else_branch [of t c f a] by (auto simp: takes_branch_def)
qed

lemma leaves_from_listed:
  "wt_fromStateId t = Some a \<or> wt_isGlobal t \<and> a \<notin> set (wt_excludedStateIds t) \<Longrightarrow>
   leaves_from t a \<or> wt_fromStateId t = Some a"
  by (auto simp: leaves_from_def)

lemma advanceAutomatic_walks:
  assumes "distinct (map so_id (w_orders s))" "advanceAutomatic lc pd i by s = Inr (x, s')"
  shows "(x = None \<and> s' = s) \<or> (x \<noteq> None \<and> walks_edge i s s')"
proof (cases "find_by so_id i (w_orders s)")
  case None
  then show ?thesis using assms(2) by (simp add: advanceAutomatic_def action_simps findByIdForUpdate_def)
next
  case (Some order)
  then have o: "find_by so_id (so_id order) (w_orders s) = Some order" "so_id order = i"
    "order \<in> set (w_orders s)"
    using find_by_SomeD [OF Some] by simp_all
  show ?thesis
  proof (cases "\<exists>f a. so_workflowId order = Some f \<and> so_currentStateId order = Some a")
    case False
    then show ?thesis using assms(2) Some
      by (auto simp: advanceAutomatic_def action_simps findByIdForUpdate_def split: option.splits)
  next
    case True
    then obtain f a where f: "so_workflowId order = Some f" "so_currentStateId order = Some a" by blast
    from assms(2) consider "x = None" "s' = s"
    | cx bundles where "listFromState f a s = Inr (bundles, s)"
        "try_bundles pd order f a by cx (automatic_bundles lc bundles) s = Inr (x, s')"
      by (auto simp: advanceAutomatic_def reads_bind [OF reading.reads_any(1)]
          reads_bind [OF reading.reads_any(15)] reads_bind [OF reading.builds_context]
          reads_bind [OF reading.reads_any(17)] findByIdForUpdate_Inr Some f sreturn_Inr
          split: option.splits)
    then show ?thesis
    proof cases
      case 1
      then show ?thesis by simp
    next
      case 2
      consider "x = None" "s' = s"
      | b br e to updated where "b \<in> set (automatic_bundles lc bundles)" "x = Some updated"
          "takes_branch (tb_transition b) br e to"
          "execute_automatic order f a by b br e to (actions_of_branch br b) s = Inr (updated, s')"
        using try_bundles_Inr [OF 2(2)] by blast
      then show ?thesis
      proof cases
        case 1
        then show ?thesis by simp
      next
        case (2 b br e to updated)
        have "b \<in> set bundles" "wt_autoTrigger (tb_transition b)"
          using 2(1) by (simp_all add: automatic_bundles_def)
        note t = listFromState_transitions [OF \<open>listFromState f a s = Inr (bundles, s)\<close> this(1)] this(2)
        have "edge (w_catalog s) f a (target_of (Some e) to a)"
          using takes_branch_edge [OF 2(3)] t leaves_from_listed by blast
        with automatic_writes [OF 2(4) assms(1) o(1) f(2)] 2(2) position_of [OF o(3)]
        show ?thesis by (auto simp: walks_edge_def o(2) f)
      qed
    qed
  qed
qed

section \<open>The use cases walk the graph\<close>

text \<open>
  Two positions of one order, the second reached from the first along the graph of its
  workflow; without a workflow the order does not move.
\<close>

definition position_path ::
  "catalog \<Rightarrow> string \<times> string option \<times> string option \<times> bool \<Rightarrow>
   string \<times> string option \<times> string option \<times> bool \<Rightarrow> bool" where
  "position_path c p q = (case (p, q) of ((i, f, a, act), (i', f', a', act')) \<Rightarrow>
     i' = i \<and> f' = f \<and> act' = act \<and> (case f of None \<Rightarrow> a' = a | Some g \<Rightarrow> path c g a a'))"

definition follows :: "world \<Rightarrow> world \<Rightarrow> bool" where
  "follows s s' \<longleftrightarrow> (distinct (map so_id (w_orders s)) \<longrightarrow>
     w_catalog s' = w_catalog s \<and> list_all2 (position_path (w_catalog s)) (positions s) (positions s'))"

lemma position_path_refl: "position_path c p p"
  by (cases p) (auto simp: position_path_def path.stays split: option.splits)

lemma position_path_trans: "position_path c p q \<Longrightarrow> position_path c q r \<Longrightarrow> position_path c p r"
  by (auto simp: position_path_def intro: path_trans split: prod.splits option.splits)

lemma position_path_ids: "list_all2 (position_path c) ps qs \<Longrightarrow> map fst qs = map fst ps"
  by (induction rule: list_all2_induct) (auto simp: position_path_def)

lemma ids_positions: "map fst (positions s) = map so_id (w_orders s)"
  by (simp add: positions_def)

lemma follows_same: "positions s' = positions s \<Longrightarrow> w_catalog s' = w_catalog s \<Longrightarrow> follows s s'"
  by (simp add: follows_def list_all2_refl position_path_refl)

lemma follows_distinct: "(distinct (map so_id (w_orders s)) \<Longrightarrow> follows s s') \<Longrightarrow> follows s s'"
  by (auto simp: follows_def)

lemma follows_trans:
  assumes "follows s t" "follows t u"
  shows "follows s u"
proof (rule follows_distinct)
  assume d: "distinct (map so_id (w_orders s))"
  with assms(1) have st: "w_catalog t = w_catalog s"
    "list_all2 (position_path (w_catalog s)) (positions s) (positions t)"
    by (simp_all add: follows_def)
  have "distinct (map so_id (w_orders t))"
    using position_path_ids [OF st(2)] d by (simp add: ids_positions)
  with assms(2) st(1) have tu: "w_catalog u = w_catalog s"
    "list_all2 (position_path (w_catalog s)) (positions t) (positions u)"
    by (simp_all add: follows_def)
  then show "follows s u"
    using list_all2_trans [OF position_path_trans st(2) tu(2)] by (simp add: follows_def)
qed

lemma walks_edge_follows: "walks_edge i s s' \<Longrightarrow> follows s s'"
proof -
  assume "walks_edge i s s'"
  then obtain f a b act where p: "(i, Some f, Some a, act) \<in> set (positions s)"
    "positions s' = map (set_position i b) (positions s)" "w_catalog s' = w_catalog s"
    and e: "edge (w_catalog s) f a b"
    by (auto simp: walks_edge_def)
  have "list_all2 (position_path (w_catalog s)) (positions s) (positions s')"
    if d: "distinct (map so_id (w_orders s))"
  proof -
    have "position_path (w_catalog s) q (set_position i b q)" if q: "q \<in> set (positions s)" for q
    proof (cases "fst q = i")
      case True
      then have "q = (i, Some f, Some a, act)"
        using d p(1) q unfolding ids_positions [symmetric] by (auto simp: distinct_map inj_on_def)
      then show ?thesis using edge_path [OF e] by (simp add: position_path_def set_position_def)
    next
      case False
      then have "set_position i b q = q" by (auto simp: set_position_def split: prod.splits)
      then show ?thesis by (simp add: position_path_refl)
    qed
    then show ?thesis by (simp add: p(2) list_all2_conv_all_nth)
  qed
  then show ?thesis by (simp add: follows_def p(3))
qed

interpretation following: preorder_on_states follows
  by unfold_locales (simp add: follows_same, rule follows_trans)

interpretation following: order_writes follows "\<lambda>_. True"
  by unfold_locales
    (auto simp: ensures_def harmless_def positions_def map_update_where dest!: update_order_Inr
       intro!: follows_same)

interpretation following: use_case_relation follows "\<lambda>_. True"
proof
  show "relates follows (advance pd input)" for pd input
    by (rule ensuresI, rule conjI [OF follows_distinct TrueI]) (blast intro: advance_walks walks_edge_follows)
  show "relates follows (advanceAutomatic lc pd i e)" for lc pd i e
  proof (rule ensuresI, rule conjI [OF follows_distinct TrueI])
    fix s x s' assume "advanceAutomatic lc pd i e s = Inr (x, s')" "distinct (map so_id (w_orders s))"
    from advanceAutomatic_walks [OF this(2,1)] show "follows s s'"
      by (auto simp: follows_same intro: walks_edge_follows)
  qed
qed

section \<open>How many steps a job takes\<close>

text \<open>The log of the executed actions leaves the history alone, so a step adds one row.\<close>

definition bounded_steps :: "nat \<Rightarrow> world \<Rightarrow> world \<Rightarrow> bool" where
  "bounded_steps n s s' \<longleftrightarrow> map so_id (w_orders s') = map so_id (w_orders s) \<and>
     (distinct (map so_id (w_orders s)) \<longrightarrow> length (w_history s') \<le> length (w_history s) + n)"

lemma walks_edge_steps:
  assumes "walks_edge i s s'" "map so_id (w_orders s') = map so_id (w_orders s)"
  shows "bounded_steps 1 s s'"
  using assms by (auto simp: walks_edge_def bounded_steps_def)

lemma bounded_steps_trans: "bounded_steps m s t \<Longrightarrow> bounded_steps n t u \<Longrightarrow> bounded_steps (m + n) s u"
  by (auto simp: bounded_steps_def)

lemma bounded_steps_refl: "bounded_steps n s s"
  by (simp add: bounded_steps_def)

lemma automatic_transaction_steps:
  "bounded_steps 1 s (snd (runInTransaction (advanceAutomatic lc pd i e) s))"
proof (cases "advanceAutomatic lc pd i e s")
  case (Inl err)
  then show ?thesis by (simp add: runInTransaction_def bounded_steps_refl)
next
  case (Inr r)
  then obtain x s' where x: "advanceAutomatic lc pd i e s = Inr (x, s')" by (cases r) simp
  have "map so_id (w_orders s') = map so_id (w_orders s)"
    using relatesD [OF others.advances_automatic [of i i] x] by (simp add: others_kept_def)
  then have "bounded_steps 1 s s'"
    using advanceAutomatic_walks [OF _ x] walks_edge_steps [of i s s']
    by (auto simp: bounded_steps_def)
  then show ?thesis by (simp add: runInTransaction_def x)
qed

lemma idle_steps: "bounded_steps fuel s (snd (advance_until_idle lc pd i fuel u s))"
proof (induction fuel arbitrary: u s)
  case 0
  then show ?case by (simp add: bounded_steps_refl)
next
  case (Suc fuel)
  obtain x s' where x: "runInTransaction (advanceAutomatic lc pd i None) s = (x, s')" by fastforce
  then have s': "bounded_steps 1 s s'" using automatic_transaction_steps [of s lc pd i None] by simp
  then have "bounded_steps (Suc fuel) s s'" by (auto simp: bounded_steps_def)
  then show ?case
    using bounded_steps_trans [OF s' Suc.IH [of s' True]] by (auto simp: x split: sum.splits option.splits)
qed

lemma orders_steps:
  "bounded_steps (MAX_AUTOMATIC_STEPS_PER_ORDER * length ids) s (snd (run_orders lc pd ids r s))"
proof (induction ids arbitrary: r s)
  case Nil
  then show ?case by (simp add: bounded_steps_refl)
next
  case (Cons i ids)
  obtain x s' where x: "advance_until_idle lc pd i MAX_AUTOMATIC_STEPS_PER_ORDER False s = (x, s')"
    by fastforce
  then have "bounded_steps MAX_AUTOMATIC_STEPS_PER_ORDER s s'"
    using idle_steps [of MAX_AUTOMATIC_STEPS_PER_ORDER s lc pd i False] by simp
  from bounded_steps_trans [OF this Cons.IH]
  show ?case by (auto simp: x split: sum.splits bool.splits)
qed

end
