(* ===== verification/Routes.thy ===== *)
theory Routes
  imports Steps
begin

text \<open>
  The route of an order to a target state: when the use case reports no failure, the state of
  the order in the database is the state it reports, and that state is the target.
\<close>

section \<open>One planned step\<close>

definition order_state :: "string \<Rightarrow> world \<Rightarrow> string option option" where
  "order_state i s = map_option so_currentStateId (find_by so_id i (w_orders s))"

text \<open>The primary keys of orders, transitions and states.\<close>

definition keys_ok :: "world \<Rightarrow> bool" where
  "keys_ok s \<longleftrightarrow> distinct (map so_id (w_orders s)) \<and>
     distinct (map wt_id (c_transitions (w_catalog s))) \<and>
     distinct (map ws_id (c_states (w_catalog s))) \<and>
     list_all (\<lambda>t. wt_id t \<noteq> []) (c_transitions (w_catalog s))"

lemma order_state_set_position:
  assumes "positions s' = map (set_position i b) (positions s)" "(i, f, a, act) \<in> set (positions s)"
  shows "order_state i s' = Some b"
proof -
  have "i \<in> set (map fst (positions s'))"
    using assms by (force simp: set_position_def)
  then obtain x where x: "find_by so_id i (w_orders s') = Some x"
    by (cases "find_by so_id i (w_orders s')") (auto simp: positions_def dest: find_by_NoneD)
  then have "(i, so_workflowId x, so_currentStateId x, so_isActive x) \<in> set (positions s')"
    using position_of [of x s'] find_by_SomeD [OF x] by simp
  then have "so_currentStateId x = b"
    by (auto simp: assms(1) set_position_def split: if_splits)
  then show ?thesis by (simp add: order_state_def x)
qed

lemma advance_keys:
  assumes "keys_ok s" "advance pd input s = Inr (r, s')"
  shows "keys_ok s'" "w_catalog s' = w_catalog s"
proof -
  have d: "distinct (map so_id (w_orders s))" using assms(1) by (simp add: keys_ok_def)
  show "w_catalog s' = w_catalog s" using advance_walks [OF d assms(2)] by (auto simp: walks_edge_def)
  moreover have "map so_id (w_orders s') = map so_id (w_orders s)"
    using relatesD [OF others.advances [OF refl] assms(2)] by (simp add: others_kept_def)
  ultimately show "keys_ok s'" using assms(1) by (simp add: keys_ok_def)
qed

lemma advance_moves:
  assumes "keys_ok s" "advance pd input s = Inr (r, s')"
    and "ai_transitionId input = Some (wt_id t)" "t \<in> set (c_transitions (w_catalog s))"
    and "wt_effect t = MOVE_STATE"
  shows "order_state (ai_saleOrderId input) s' = Some (wt_toStateId t)"
proof -
  have d: "distinct (map so_id (w_orders s))" "wt_id t \<noteq> []"
    using assms(1,4) by (auto simp: keys_ok_def list_all_iff)
  from advance_Inr [OF d(1) assms(2)] obtain p where p: "plan_step pd input s = Inr (p, s)"
    and i: "so_id (pl_order p) = ai_saleOrderId input"
    and m: "positions s' = map (set_position (ai_saleOrderId input)
      (target_of (Some (wt_effect (tb_transition (pl_bundle p))))
         (wt_toStateId (tb_transition (pl_bundle p))) (pl_currentStateId p))) (positions s)"
    by blast
  note plan = plan_step_Inr [OF p]
  have "tb_transition (pl_bundle p) = t"
    using plan assms(1,4) plan_step_transition [OF p assms(3) d(2)]
    unfolding keys_ok_def distinct_map by (blast dest: inj_onD)
  then have m': "positions s' = map (set_position (ai_saleOrderId input) (wt_toStateId t)) (positions s)"
    using m assms(5) by (simp add: target_of_def)
  have "pl_order p \<in> set (w_orders s)" using plan by (blast dest: find_by_SomeD)
  from order_state_set_position [OF m' position_of [OF this, unfolded i]] show ?thesis .
qed

section \<open>The steps of a route\<close>

lemma route_step_transition [simp]:
  "ai_transitionId (route_step_input i target e n len t) = Some (wt_id t)"
  "ai_saleOrderId (route_step_input i target e n len t) = i"
  by (simp_all add: route_step_input_def)

lemma runInTransaction_Inr: "runInTransaction m s = (Inr a, s') \<longleftrightarrow> m s = Inr (a, s')"
  by (auto simp: runInTransaction_def split: sum.splits)

lemma succeeded_failed [simp]:
  "rt_failure (succeeded_route i tg a b c w) = None" "rt_finalState (succeeded_route i tg a b c w) = Some b"
  "rt_failure (failed_route i tg a' b' c w code m d) = Some \<lparr>rf_code = code, rf_message = m, rf_details = d\<rparr>"
  by (simp_all add: succeeded_route_def failed_route_def)

lemma route_steps_target:
  assumes "keys_ok s" "set ts \<subseteq> set (c_transitions (w_catalog s))" "\<forall>t \<in> set ts. wt_effect t = MOVE_STATE"
    and "route_steps pd i target e ag initial len n ts final done w s = (r, s')" "rt_failure r = None"
  shows "if ts = [] then s' = s \<and> rt_finalState r = Some final
    else order_state i s' = Some (wt_toStateId (last ts)) \<and>
      (\<exists>st. Option.bind (wt_toStateId (last ts)) (state_by_id (ag_states ag)) = Some st \<and>
        rt_finalState r = Some (toStateReference st))"
  using assms
proof (induction ts arbitrary: n final "done" w s)
  case Nil
  then show ?case by auto
next
  case (Cons t ts)
  from Cons.prems(4,5) obtain a s1 where
    a: "advance_order_state pd (route_step_input i target e n len t) s = (Inr a, s1)"
    by (cases "advance_order_state pd (route_step_input i target e n len t) s")
      (auto split: sum.splits prod.splits)
  then have step: "advance pd (route_step_input i target e n len t) s = Inr (a, s1)"
    by (simp add: advance_order_state_def runInTransaction_Inr)
  from Cons.prems(4,5) a obtain final' done' w' st where
    rest: "route_steps pd i target e ag initial len (Suc n) ts final' done' w' s1 = (r, s')"
    and st: "Option.bind (wt_toStateId t) (state_by_id (ag_states ag)) = Some st"
      "final' = toStateReference st"
    by (auto simp: Let_def split: option.splits if_splits)
  have s1: "keys_ok s1" "w_catalog s1 = w_catalog s" using advance_keys [OF Cons.prems(1) step] by simp_all
  have "order_state i s1 = Some (wt_toStateId t)"
    using advance_moves [OF Cons.prems(1) step] Cons.prems(2,3) by simp
  with Cons.IH [OF s1(1) _ _ rest Cons.prems(5)] Cons.prems(2,3) s1(2) st show ?case
    by (cases "ts = []") auto
qed

section \<open>The route reaches the target\<close>

lemma walk_last:
  "walk out nxt u p v \<Longrightarrow> p \<noteq> [] \<Longrightarrow> nxt (last p) = Some v"
  by (induction p arbitrary: u) (auto split: option.splits)

lemma walk_set: "walk out nxt u p v \<Longrightarrow> t \<in> set p \<Longrightarrow> \<exists>w. t \<in> set (out w)"
  by (induction p arbitrary: u) (auto split: option.splits)

lemma set_sort_position [simp]: "set (sort_position f xs) = set xs"
  by (simp add: sort_position_def)

text \<open>What a planned route says of the graph of the workflow.\<close>

lemma resolve_Ready_route:
  assumes "resolve lc ag a target = Some (Ready c t p)" "distinct (ag_transitions ag)"
  shows "p \<noteq> [] \<and> wt_toStateId (last p) = Some (ws_id t) \<and> t \<in> set (ag_states ag) \<and>
    ws_saleOrderStateId t = target \<and> set p \<subseteq> set (ag_transitions ag) \<and>
    (\<forall>x \<in> set p. wt_effect x = MOVE_STATE)"
proof -
  from assms(1) have n: "search_needed ag a target c t"
    and "search_from lc ag (ws_id c) (ws_id t) = Some (UniqueRoute p)"
    by (simp_all add: resolve_Ready_iff)
  then have w: "walk (outgoing (filter is_route_transition (ag_transitions ag))) (next_state ag)
      (ws_id c) p (ws_id t)"
    using search_from_unique_iff [OF assms(2)]
    by (simp add: unique_shortest_route_def workflow_route_def)
  have p: "p \<noteq> []" using w n by (auto simp: search_needed_def)
  moreover have "wt_toStateId (last p) = Some (ws_id t)"
    using walk_last [OF w p] by (auto simp: next_state_def split: option.splits if_splits)
  moreover have "x \<in> set (ag_transitions ag) \<and> wt_effect x = MOVE_STATE" if "x \<in> set p" for x
    using walk_set [OF w that] by (auto simp: outgoing_def is_route_transition_def)
  ultimately show ?thesis
    using n target_state_of_SomeD [of "ag_states ag" target t] by (auto simp: search_needed_def)
qed

lemma plan_route_Inr:
  assumes "plan_route lc i target s = Inr (q, s1)"
  shows "s1 = s \<and> ((\<exists>r. q = Done r \<and> rt_failure r \<noteq> None) \<or>
    (\<exists>order f a ag. find_by so_id i (w_orders s) = Some order \<and> so_workflowId order = Some f \<and>
       so_currentStateId order = Some a \<and> findWorkflowDetailed f s = Inr (Some ag, s) \<and>
       ((\<exists>c t. resolve lc ag a target = Some (AlreadyAtTarget c t) \<and>
           q = Done (succeeded_route i target (toStateReference c) (toStateReference t) [] [])) \<or>
        (\<exists>c t ts. resolve lc ag a target = Some (Ready c t ts) \<and>
           q = Planned ag (toStateReference c) (toStateReference t) ts))))"
proof -
  have s1: "s1 = s" using relatesD [OF reading.plans_route assms] by simp
  note reads = plan_route_def reads_bind [OF reading.reads_any(1)] reads_bind [OF reading.reads_any(15)]
    findByIdForUpdate_Inr sreturn_Inr
  show ?thesis
  proof (cases "find_by so_id i (w_orders s)")
    case None
    then show ?thesis using assms unfolding s1 by (auto simp: reads)
  next
    case (Some order)
    note o = this
    show ?thesis
    proof (cases "\<exists>f a. so_workflowId order = Some f \<and> so_currentStateId order = Some a")
      case False
      then show ?thesis using assms o unfolding s1 by (auto simp: reads split: option.splits)
    next
      case True
      then obtain f a where f: "so_workflowId order = Some f" "so_currentStateId order = Some a" by blast
      from assms obtain found where found: "findWorkflowDetailed f s = Inr (found, s)"
        unfolding s1 by (auto simp: reads o f)
      obtain x where x: "resolve lc (the found) a target = Some x" using resolve_terminates by blast
      show ?thesis
        using assms found x o f unfolding s1
        by (cases found; cases x) (auto simp: reads Let_def split: if_splits)
    qed
  qed
qed

lemma state_of_id:
  assumes "distinct (map ws_id (c_states (w_catalog s)))"
    and "set (ag_states ag) \<subseteq> set (c_states (w_catalog s))"
    and "state_by_id (ag_states ag) (ws_id t) = Some st" "t \<in> set (ag_states ag)"
  shows "st = t"
  using assms state_by_id_SomeD [OF assms(3)] unfolding distinct_map by (blast dest: inj_onD)

lemma advance_to_target_Inr:
  assumes "advance_to_target lc pd i target e s = (Inr r, s')" "rt_failure r = None" "keys_ok s"
  shows "\<exists>st \<in> set (c_states (w_catalog s)). ws_saleOrderStateId st = target \<and>
    order_state i s' = Some (Some (ws_id st)) \<and> rt_finalState r = Some (toStateReference st)"
proof -
  from assms(1) obtain q s1 where q: "plan_route lc i target s = Inr (q, s1)"
    by (auto simp: advance_to_target_def runInTransaction_def split: sum.splits)
  from plan_route_Inr [OF q] have s1: "s1 = s" by simp
  have t: "runInTransaction (plan_route lc i target) s = (Inr q, s)"
    using q s1 by (simp add: runInTransaction_Inr)
  from plan_route_Inr [OF q] consider
    (failed) x where "q = Done x" "rt_failure x \<noteq> None"
  | (found) order f a ag where "find_by so_id i (w_orders s) = Some order"
      "so_currentStateId order = Some a" "findWorkflowDetailed f s = Inr (Some ag, s)"
      "(\<exists>c u. resolve lc ag a target = Some (AlreadyAtTarget c u) \<and>
           q = Done (succeeded_route i target (toStateReference c) (toStateReference u) [] [])) \<or>
        (\<exists>c u ts. resolve lc ag a target = Some (Ready c u ts) \<and>
           q = Planned ag (toStateReference c) (toStateReference u) ts)"
    by blast
  then show ?thesis
  proof cases
    case failed
    then show ?thesis using assms(1,2) t by (simp add: advance_to_target_def)
  next
    case found
    note ag = findWorkflowDetailed_Inr [OF found(3)]
    have states: "set (ag_states ag) \<subseteq> set (c_states (w_catalog s))" using ag by auto
    from found(4) show ?thesis
    proof (elim disjE exE conjE)
      fix c u assume x: "resolve lc ag a target = Some (AlreadyAtTarget c u)"
        and "q = Done (succeeded_route i target (toStateReference c) (toStateReference u) [] [])"
      then have r: "rt_finalState r = Some (toStateReference u)" "s' = s"
        using assms(1) t by (auto simp: advance_to_target_def)
      from x have "ws_id u = a" "u \<in> set (ag_states ag)" "ws_saleOrderStateId u = target"
        by (auto simp: resolve_def dest!: state_by_id_SomeD target_state_of_SomeD
            split: option.splits if_splits search_result.splits)
      then show ?thesis using r states found(1,2) by (auto simp: order_state_def)
    next
      fix c u ts assume x: "resolve lc ag a target = Some (Ready c u ts)"
        and "q = Planned ag (toStateReference c) (toStateReference u) ts"
      then have steps: "route_steps pd i target e ag (toStateReference c) (length ts) 0 ts
          (toStateReference c) [] [] s = (r, s')"
        using assms(1) t by (auto simp: advance_to_target_def split: prod.splits)
      have "distinct (ag_transitions ag)"
        using assms(3) ag by (simp add: keys_ok_def distinct_map)
      note ts = resolve_Ready_route [OF x this]
      have "set ts \<subseteq> set (c_transitions (w_catalog s))" using ts ag by auto
      from route_steps_target [OF assms(3) this _ steps assms(2)] ts obtain st where
        "order_state i s' = Some (Some (ws_id u))" "state_by_id (ag_states ag) (ws_id u) = Some st"
        "rt_finalState r = Some (toStateReference st)" by auto
      moreover have "st = u"
        using state_of_id [OF _ states calculation(2)] ts assms(3) by (auto simp: keys_ok_def)
      ultimately show ?thesis using ts states by auto
    qed
  qed
qed

section \<open>A route on the fixtures\<close>

lemma plain_route:
  "\<exists>r s'. advance_to_target (\<lambda>_ _. 0) (\<lambda>_. None) ''o1'' ''sb'' ''u1'' plain_world = (Inr r, s') \<and>
     rt_failure r = None"
  by (simp add: advance_to_target_def runInTransaction_def plan_route_def planner_eval step_eval
      route_step_input_def advance_order_state_def succeeded_route_def toStateReference_def Let_def)

section \<open>Global transitions on a route\<close>






end
