(* ===== verification/ActionLaws.thy ===== *)
theory ActionLaws
  imports Invariants Fixtures
begin

text \<open>
  The laws of the actions of a transition: what the validation of their order and of their
  configuration accepts, the plan of quantities, the markers, the effective date of a
  consumption, and the log of executed actions.
\<close>

section \<open>Validation\<close>

text \<open>At most one restoring action, and then no other stock action.\<close>

definition restores_alone :: "(action_type \<times> int) list \<Rightarrow> bool" where
  "restores_alone actions \<longleftrightarrow>
     length (filter (\<lambda>a. fst a = RESTORE_STOCK) actions) \<le> 1 \<and>
     ((\<exists>a \<in> set actions. fst a = RESTORE_STOCK) \<longrightarrow>
        (\<forall>a \<in> set actions. is_stock_action (fst a) \<longrightarrow> fst a = RESTORE_STOCK))"

lemma assignments_before_min:
  assumes "filter (\<lambda>a. is_stock_action (fst a)) actions \<noteq> []"
  shows "(\<exists>a \<in> set actions. is_warehouse_action (fst a) \<and>
       Min (set (map snd (filter (\<lambda>a. is_stock_action (fst a)) actions))) \<le> snd a) \<longleftrightarrow>
     \<not> assignments_first actions"
proof -
  let ?S = "set (map snd (filter (\<lambda>a. is_stock_action (fst a)) actions))"
  have "finite ?S" "?S \<noteq> {}"
    using assms by (simp, simp only: set_map set_empty image_is_empty not_False_eq_True)
  then have "Min ?S \<le> p \<longleftrightarrow> (\<exists>x \<in> ?S. x \<le> p)" for p by (rule Min_le_iff)
  also have "(\<exists>x \<in> ?S. x \<le> p) \<longleftrightarrow> (\<exists>b \<in> set actions. is_stock_action (fst b) \<and> snd b \<le> p)" for p
    by force
  finally have "Min ?S \<le> p \<longleftrightarrow> (\<exists>b \<in> set actions. is_stock_action (fst b) \<and> snd b \<le> p)" for p .
  then show ?thesis by (auto simp: assignments_first_def not_less)
qed

text \<open>
  C32. The actions of a transition pass the check of their order exactly when every assignment
  of a warehouse stands before every stock action, and an action that restores consumed stock
  is the only stock action.
\<close>

theorem validateOrder_iff:
  "validateOrder actions = Inr () \<longleftrightarrow> assignments_first actions \<and> restores_alone actions"
proof (cases "filter (\<lambda>a. is_stock_action (fst a)) actions = []")
  case True
  then have "\<not> is_stock_action (fst a)" if "a \<in> set actions" for a
    using that by (auto simp: filter_empty_conv)
  moreover from this have "filter (\<lambda>a. fst a = RESTORE_STOCK) actions = []"
    by (auto simp: filter_empty_conv is_stock_action_def)
  ultimately show ?thesis
    by (auto simp: validateOrder_def assignments_first_def restores_alone_def True)
next
  case False
  have "is_stock_action ty \<and> ty \<noteq> RESTORE_STOCK \<longleftrightarrow> ty \<in> {RESERVE_STOCK, CONSUME_STOCK, REVERT_STOCK}" for ty
    by (auto simp: is_stock_action_def)
  then have "filter (\<lambda>a. fst a \<in> {RESERVE_STOCK, CONSUME_STOCK, REVERT_STOCK}) actions = [] \<longleftrightarrow>
      (\<forall>a \<in> set actions. is_stock_action (fst a) \<longrightarrow> fst a = RESTORE_STOCK)"
    by (auto simp: filter_empty_conv)
  moreover have "filter (\<lambda>a. fst a = RESTORE_STOCK) actions = [] \<longleftrightarrow>
      \<not> (\<exists>a \<in> set actions. fst a = RESTORE_STOCK)" by (auto simp: filter_empty_conv)
  ultimately show ?thesis
    using assignments_before_min [OF False] False
    by (simp add: validateOrder_def Let_def restores_alone_def) blast
qed

text \<open>The pattern of a UUID, as the regular expression of the code reads.\<close>

definition uuid_pattern :: "string \<Rightarrow> bool" where
  "uuid_pattern s \<longleftrightarrow> (\<exists>a b v c n d e.
     s = a @ CHR ''-'' # b @ CHR ''-'' # (v # c) @ CHR ''-'' # (n # d) @ CHR ''-'' # e \<and>
     length a = 8 \<and> length b = 4 \<and> length c = 3 \<and> length d = 3 \<and> length e = 12 \<and>
     list_all is_hex (a @ b @ c @ d @ e) \<and> v \<in> set ''12345678'' \<and> n \<in> set ''89abAB'')"

lemma split_on_not_Nil [simp]: "split_on c s \<noteq> []"
  by (induction s) (auto split: list.splits)

lemma split_on_append: "c \<notin> set a \<Longrightarrow> split_on c (a @ c # s) = a # split_on c s"
  by (induction a) auto

lemma split_on_same: "c \<notin> set a \<Longrightarrow> split_on c a = [a]"
  by (induction a) auto

fun join_on :: "char \<Rightarrow> string list \<Rightarrow> string" where
  "join_on c [] = []"
| "join_on c [a] = a"
| "join_on c (a # b # as) = a @ c # join_on c (b # as)"

lemma join_split: "join_on c (split_on c s) = s"
proof (induction s)
  case (Cons x s)
  obtain a as where s: "split_on c s = a # as" by (cases "split_on c s") auto
  show ?case using Cons by (cases as) (auto simp: s)
qed simp

lemma dash_not_hex [simp]: "list_all is_hex a \<Longrightarrow> CHR ''-'' \<notin> set a"
  by (auto simp: list_all_iff is_hex_def is_digit_def)

lemma hex_literals: "list_all is_hex ''12345678''" "list_all is_hex ''89abAB''"
  by code_simp+

lemma uuid_digits_hex: "v \<in> set ''12345678'' \<Longrightarrow> is_hex v" "n \<in> set ''89abAB'' \<Longrightarrow> is_hex n"
  using hex_literals unfolding list_all_iff by blast+

lemma uuid_segments_pattern: "uuid_segments_ok (split_on CHR ''-'' s) \<longleftrightarrow> uuid_pattern s"
proof
  assume ok: "uuid_segments_ok (split_on CHR ''-'' s)"
  then obtain a b c' d' e where split: "split_on CHR ''-'' s = [a, b, c', d', e]"
    and l: "length a = 8" "length b = 4" "length c' = 4" "length d' = 4" "length e = 12"
    and h: "list_all is_hex a" "list_all is_hex b" "list_all is_hex c'" "list_all is_hex d'"
      "list_all is_hex e" "hd c' \<in> set ''12345678''" "hd d' \<in> set ''89abAB''"
    by (auto simp: uuid_segments_ok_def simp del: list.set insert_iff split: list.splits)
  obtain v c n d where c: "c' = v # c" "d' = n # d" using l(3,4) by (cases c'; cases d') auto
  have "s = join_on CHR ''-'' [a, b, c', d', e]" using join_split [of "CHR ''-''" s] split by simp
  then show "uuid_pattern s"
    unfolding uuid_pattern_def using l h c
    by (intro exI [of _ a] exI [of _ b] exI [of _ v] exI [of _ c] exI [of _ n] exI [of _ d] exI [of _ e]) simp
next
  assume "uuid_pattern s"
  then obtain a b v c n d e where
    s: "s = a @ CHR ''-'' # b @ CHR ''-'' # (v # c) @ CHR ''-'' # (n # d) @ CHR ''-'' # e"
    and l: "length a = 8" "length b = 4" "length c = 3" "length d = 3" "length e = 12"
    and h: "list_all is_hex a" "list_all is_hex b" "list_all is_hex c" "list_all is_hex d" "list_all is_hex e"
    and v: "v \<in> set ''12345678''" "n \<in> set ''89abAB''"
    by (auto simp: uuid_pattern_def simp del: list.set insert_iff)
  have "list_all is_hex (v # c)" "list_all is_hex (n # d)" using h(3,4) v uuid_digits_hex by simp_all
  note x = h(1,2) this h(5)
  have "split_on CHR ''-'' s = [a, b, v # c, n # d, e]"
    unfolding s
    by (simp only: split_on_append [OF dash_not_hex [OF x(1)]] split_on_append [OF dash_not_hex [OF x(2)]]
        split_on_append [OF dash_not_hex [OF x(3)]] split_on_append [OF dash_not_hex [OF x(4)]]
        split_on_same [OF dash_not_hex [OF x(5)]])
  then show "uuid_segments_ok (split_on CHR ''-'' s)"
    using l x v by (simp add: uuid_segments_ok_def)
qed

text \<open>
  A configured warehouse or workflow identifier is accepted exactly when it is a string that
  is a UUID: five groups of hexadecimal digits with a version digit from 1 to 8 and a variant
  digit among 8, 9, a, b.
\<close>

theorem validateWarehouseId_iff:
  "validateWarehouseId v \<longleftrightarrow> (\<exists>s. v = JStr s \<and> uuid_pattern s)"
  by (cases v) (simp_all add: uuid_segments_pattern)

section \<open>The plan of quantities\<close>

definition snapshot_ok :: "stock_snapshot \<Rightarrow> bool" where
  "snapshot_ok n \<longleftrightarrow> 0 \<le> sn_reserved n \<and> sn_reserved n \<le> sn_onHand n \<and>
     sn_available n = sn_onHand n - sn_reserved n"

definition snapshots_ok :: "snapshots \<Rightarrow> bool" where
  "snapshots_ok m \<longleftrightarrow> (\<forall>i n. map_of m i = Some n \<longrightarrow> snapshot_ok n)"

lemma snapshots_ok_single: "snapshots_ok [(i, n)] = snapshot_ok n"
  by (auto simp: snapshots_ok_def)

lemma plan_quantity_ok:
  assumes "plan_quantity ty quantity n = Inr (q, n')" "snapshot_ok n" "0 < quantity"
    and "ty \<in> {RESERVE_STOCK, CONSUME_STOCK, REVERT_STOCK}"
  shows "snapshot_ok n' \<and> 0 \<le> q \<and> q \<le> quantity \<and>
    (ty = RESERVE_STOCK \<longrightarrow> q = quantity \<and> q \<le> sn_available n) \<and>
    (ty = CONSUME_STOCK \<longrightarrow> q = quantity \<and> q \<le> sn_reserved n) \<and>
    (ty = REVERT_STOCK \<longrightarrow> q \<le> sn_reserved n)"
  using assms by (auto simp: plan_quantity_def snapshot_ok_def Let_def split: if_splits)

lemma plan_action_snapshots:
  assumes "plan_action ty requirements m qs = Inr (qs', m')" "snapshots_ok m"
    and "list_all (\<lambda>(i, q). 0 < q) requirements" "ty \<in> {RESERVE_STOCK, CONSUME_STOCK, REVERT_STOCK}"
  shows "snapshots_ok m'"
  using assms
proof (induction ty requirements m qs rule: plan_action.induct)
  case 1
  then show ?case by simp
next
  case (2 ty i quantity rs m qs)
  show ?case
  proof (cases "map_of m i")
    case None
    then show ?thesis using 2 by simp
  next
    case (Some n)
    then obtain q n' where q: "plan_quantity ty quantity n = Inr (q, n')"
      using 2(3) by (auto split: sum.splits)
    have "snapshot_ok n'"
      using plan_quantity_ok [OF q] 2(4-6) Some by (auto simp: snapshots_ok_def)
    then have "snapshots_ok (map_set i n' m)" using 2(4) by (auto simp: snapshots_ok_def)
    then show ?thesis using 2(2) [OF Some q] 2(3-6) Some q by simp
  qed
qed

lemma plan_action_quantities:
  assumes "plan_action ty requirements m qs = Inr (qs', m')" "snapshots_ok m"
    and "list_all (\<lambda>(i, q). 0 < q) requirements" "ty \<in> {RESERVE_STOCK, CONSUME_STOCK, REVERT_STOCK}"
    and "\<forall>(i, q) \<in> set qs. 0 \<le> q"
  shows "\<forall>(i, q) \<in> set qs'. 0 \<le> q"
  using assms
proof (induction ty requirements m qs rule: plan_action.induct)
  case 1
  then show ?case by simp
next
  case (2 ty i quantity rs m qs)
  have nonneg: "\<forall>(i, q) \<in> set (map_set i x qs). 0 \<le> q" if "0 \<le> x" for x
    using 2(7) that by (induction i x qs rule: map_set.induct) auto
  show ?case
  proof (cases "map_of m i")
    case None
    then show ?thesis using 2(1) 2(3-6) nonneg [of 0] by simp
  next
    case (Some n)
    then obtain q n' where q: "plan_quantity ty quantity n = Inr (q, n')"
      using 2(3) by (auto split: sum.splits)
    have n: "snapshot_ok n' \<and> 0 \<le> q"
      using plan_quantity_ok [OF q] 2(4-6) Some by (auto simp: snapshots_ok_def)
    then have "snapshots_ok (map_set i n' m)" using 2(4) by (auto simp: snapshots_ok_def)
    then show ?thesis using 2(2) [OF Some q] 2(3-6) Some q n nonneg [of q] by simp
  qed
qed

text \<open>
  The plan of a stock action never leaves the balances it is computed from: when the
  snapshots satisfy \<open>0 \<le> reserved \<le> onHand\<close> and \<open>available = onHand - reserved\<close>, so do the
  snapshots after it, and it plans no negative quantity; otherwise it is refused.
\<close>

theorem plan_action_keeps_snapshots:
  assumes "snapshots_ok m" "list_all (\<lambda>(i, q). 0 < q) requirements"
    and "ty \<in> {RESERVE_STOCK, CONSUME_STOCK, REVERT_STOCK}"
    and "plan_action ty requirements m [] = Inr (qs, m')"
  shows "snapshots_ok m' \<and> (\<forall>(i, q) \<in> set qs. 0 \<le> q)"
  using plan_action_snapshots [OF assms(4,1,2,3)] plan_action_quantities [OF assms(4,1,2,3)] by simp

theorem plan_action_keeps_snapshots_witness:
  "snapshots_ok [(''x'', \<lparr>sn_onHand = 5, sn_reserved = 3, sn_available = 2\<rparr>)]"
  using plan_action_keeps_snapshots
    [of "[(''x'', \<lparr>sn_onHand = 5, sn_reserved = 1, sn_available = 4\<rparr>)]" "[(''x'', 2)]" RESERVE_STOCK
       "[(''x'', 2)]" "[(''x'', \<lparr>sn_onHand = 5, sn_reserved = 3, sn_available = 2\<rparr>)]"]
  by (simp add: plan_quantity_def snapshots_ok_single snapshot_ok_def)

section \<open>Markers\<close>

definition marker_of_order :: "marker \<Rightarrow> sale_order \<Rightarrow> bool" where
  "marker_of_order k x = (case k of InvoiceSent \<Rightarrow> so_invoiceSend x | Preguide \<Rightarrow> so_preguide x
     | Prepared \<Rightarrow> so_prepared x)"

lemma marker_value_set [simp]: "marker_value k (set_marker k b m) = b"
  by (cases k) simp_all

lemma marker_value_set_other: "k \<noteq> j \<Longrightarrow> marker_value k (set_marker j b m) = marker_value k m"
  by (cases k; cases j) simp_all

text \<open>The update that an action of a marker is.\<close>

definition marker_update :: "marker \<Rightarrow> bool \<Rightarrow> sale_order \<Rightarrow> sale_order" where
  "marker_update k b x = (case k of InvoiceSent \<Rightarrow> x\<lparr>so_invoiceSend := b\<rparr>
     | Preguide \<Rightarrow> x\<lparr>so_preguide := b\<rparr> | Prepared \<Rightarrow> x\<lparr>so_prepared := b\<rparr>)"

lemma marker_update_simps [simp]:
  "marker_of_order k (marker_update k b x) = b" "so_id (marker_update k b x) = so_id x"
  by (cases k; simp add: marker_of_order_def marker_update_def)+

lemma marker_updates:
  "marker_update InvoiceSent b = (\<lambda>x. x\<lparr>so_invoiceSend := b\<rparr>)"
  "marker_update Preguide b = (\<lambda>x. x\<lparr>so_preguide := b\<rparr>)"
  "marker_update Prepared b = (\<lambda>x. x\<lparr>so_prepared := b\<rparr>)"
  by (rule ext, simp add: marker_update_def)+

lemma markerFor_Some:
  "markerFor ty = Some k \<Longrightarrow>
   ty = MARK_INVOICE_SENT \<and> k = InvoiceSent \<or> ty = MARK_PREGUIDE \<and> k = Preguide \<or>
   ty = UNMARK_PREGUIDE \<and> k = Preguide \<or> ty = MARK_PREPARED \<and> k = Prepared \<or>
   ty = UNMARK_PREPARED \<and> k = Prepared"
  by (cases ty) auto

lemma write_marker_update:
  assumes "markerFor ty = Some k"
  shows "write_marker ty i = update_order i (marker_update k (expectedValue ty))"
  using markerFor_Some [OF assms]
  by (elim disjE conjE)
    (simp_all add: markInvoiceSent_def markPreguide_def markPrepared_def unmarkPreguide_def
      unmarkPrepared_def marker_updates expectedValue_def)

lemma write_marker_order:
  assumes "markerFor ty = Some k" "write_marker ty i s = Inr (u, s')" "x \<in> set (w_orders s')" "so_id x = i"
  shows "marker_of_order k x = expectedValue ty"
proof -
  have "w_orders s' = update_where (\<lambda>y. so_id y = i) (marker_update k (expectedValue ty)) (w_orders s)"
    using update_order_Inr [OF assms(2) [unfolded write_marker_update [OF assms(1)]]] by simp
  from assms(3) [unfolded this set_update_where]
  obtain y where "x = (if so_id y = i then marker_update k (expectedValue ty) y else y)"
    by (rule imageE)
  with assms(4) have "x = marker_update k (expectedValue ty) y" by (cases "so_id y = i") simp_all
  then show ?thesis by simp
qed

text \<open>
  After a marker action has run, the order carries the mark in the database, the action
  inspected again is already satisfied, and the other marks of the run are as before.
\<close>

theorem marker_execute_satisfies:
  assumes "markerFor ty = Some k" "marker_execute order ty m s = Inr ((m', oc), s')"
  shows "marker_inspect ty m' = ALREADY_SATISFIED
      [(''field'', JStr (marker_name k)), (''value'', JBool (expectedValue ty))] \<and>
    oc = applied ty \<and> (\<forall>j. j \<noteq> k \<longrightarrow> marker_value j m' = marker_value j m) \<and>
    (\<forall>x \<in> set (w_orders s'). so_id x = so_id order \<longrightarrow> marker_of_order k x = expectedValue ty)"
proof -
  from assms obtain u where w: "write_marker ty (so_id order) s = Inr (u, s')"
    and m: "m' = set_marker k (expectedValue ty) m" "oc = applied ty"
    by (auto simp: marker_execute_def action_Inr)
  show ?thesis
    using write_marker_order [OF assms(1) w]
    by (simp add: m marker_inspect_def assms(1) marker_value_set_other)
qed

theorem marker_execute_satisfies_witness:
  "\<exists>s'. marker_execute example_order MARK_PREPARED (initial_markers example_order) example_world =
     Inr ((\<lparr>ms_invoiceSent = False, ms_preguide = False, ms_prepared = True\<rparr>, applied MARK_PREPARED), s') \<and>
     (\<forall>x \<in> set (w_orders s'). so_id x = ''o1'' \<longrightarrow> so_prepared x)"
proof -
  let ?m = "\<lparr>ms_invoiceSent = False, ms_preguide = False, ms_prepared = True\<rparr>"
  obtain s' where x: "marker_execute example_order MARK_PREPARED (initial_markers example_order) example_world =
      Inr ((?m, applied MARK_PREPARED), s')"
    by (simp add: marker_execute_def action_simps markPrepared_def update_order_def expectedValue_def
        initial_markers_def example_order_def)
  from marker_execute_satisfies [OF _ x, of Prepared] show ?thesis
    using x by (simp add: marker_of_order_def expectedValue_def example_order_def)
qed

section \<open>The log of executed actions\<close>

text \<open>
  The log is idempotent: an execution recorded under a key is returned by every later
  recording under that key, whatever its status and time, and nothing more is written.
\<close>

theorem execution_record_idempotent:
  assumes "execution_record n st ev er t s = Inr (e, s')"
    and "nx_idempotencyKey n' = nx_idempotencyKey n"
  shows "execution_record n' st' ev' er' t' s' = Inr (e, s')"
proof -
  have "find_by ae_idempotencyKey (nx_idempotencyKey n) (w_executions s') = Some e"
  proof (cases "find_by ae_idempotencyKey (nx_idempotencyKey n) (w_executions s)")
    case (Some x)
    then show ?thesis using assms(1)
      by (auto simp: execution_record_def findByIdempotencyKey_def action_Inr)
  next
    case None
    then obtain i where e: "e = execution_of n i st ev er t (Some t)"
      and s': "saveExecution e (s\<lparr>w_next := Suc (w_next s)\<rparr>) = Inr ((), s')"
      using assms(1)
      by (auto simp: execution_record_def findByIdempotencyKey_def action_Inr Let_def dest!: fresh_id_Inr)
    have key: "ae_idempotencyKey e = nx_idempotencyKey n" by (simp add: e execution_of_def)
    have same: "List.find P (map (\<lambda>x. if ae_id x = i then e else x) rows) = Some e"
      if "List.find P rows = None" "P e" "r \<in> set rows" "ae_id r = i" for P rows r i
      using that by (induction rows) (auto split: if_splits)
    have new: "List.find P (rows @ [e]) = Some e" if "List.find P rows = None" "P e" for P rows
      using that by (induction rows) (auto split: if_splits)
    have "find_by ae_idempotencyKey (nx_idempotencyKey n)
        (if \<exists>r \<in> set rows. ae_id r = ae_id e then update_where (\<lambda>r. ae_id r = ae_id e) (\<lambda>_. e) rows
         else rows @ [e]) = Some e"
      if "find_by ae_idempotencyKey (nx_idempotencyKey n) rows = None" for rows
      using that key same new unfolding find_by_def update_where_def by (auto split: if_splits)
    moreover have "w_executions s' = (if \<exists>r \<in> set (w_executions s). ae_id r = ae_id e
        then update_where (\<lambda>r. ae_id r = ae_id e) (\<lambda>_. e) (w_executions s)
        else w_executions s @ [e])"
      using saveExecution_Inr [OF s'] by simp
    ultimately show ?thesis using None by presburger
  qed
  then show ?thesis using assms(2)
    by (simp add: execution_record_def findByIdempotencyKey_def action_simps)
qed

theorem execution_record_idempotent_witness:
  "\<exists>e s'. execution_record \<lparr>nx_saleOrderId = ''o1'', nx_transitionId = None, nx_actionId = None,
       nx_actionType = ''X'', nx_idempotencyKey = ''k''\<rparr> COMPLETED None None 1 example_world = Inr (e, s') \<and>
     execution_record \<lparr>nx_saleOrderId = ''o2'', nx_transitionId = None, nx_actionId = None,
       nx_actionType = ''Y'', nx_idempotencyKey = ''k''\<rparr> EXECUTION_SKIPPED None None 2 s' = Inr (e, s')"
proof -
  let ?n = "\<lparr>nx_saleOrderId = ''o1'', nx_transitionId = None, nx_actionId = None,
       nx_actionType = ''X'', nx_idempotencyKey = ''k''\<rparr>"
  obtain e s' where x: "execution_record ?n COMPLETED None None 1 example_world = Inr (e, s')"
    by (simp add: execution_record_def findByIdempotencyKey_def action_simps find_by_def fresh_id_def
        saveExecution_def example_world_def Let_def)
  show ?thesis
    by (intro exI [of _ e] exI [of _ s'] conjI x execution_record_idempotent [OF x]) simp
qed

section \<open>The effective date of a consumption\<close>

lemma iso_date_four_digits:
  assumes "1000 \<le> year_from_day z" "year_from_day z \<le> 9999"
  shows "iso_date z = nat_string (nat (year_from_day z)) @ ''-'' @
    pad_digits 2 (nat_string (nat (month_of_day z + 1))) @ ''-'' @
    pad_digits 2 (nat_string (nat (date_of_day z)))"
proof -
  let ?y = "nat_string (nat (year_from_day z))"
  have y: "length ?y = 4"
    using nat_string_four_digits [of "nat (year_from_day z)"] assms by simp
  then have "iso_year (year_from_day z) = ?y" using assms by (simp add: iso_year_def pad_digits_def)
  moreover have "length (pad_digits 2 (nat_string (nat (month_of_day z + 1)))) = 2"
    "length (pad_digits 2 (nat_string (nat (date_of_day z)))) = 2"
    using civil_ranges [of z] pad_two_digits by simp_all
  ultimately show ?thesis using y by (simp add: iso_date_def)
qed

text \<open>
  The stock of an order leaves the warehouse on the delivery date less the days of the
  delivery window of the transition: for a delivery date of the calendar and a window of \<open>n\<close>
  days, the effective date is the day \<open>n\<close> days before, across ends of months and leap days.
\<close>

theorem effective_date_before_delivery:
  assumes "so_deliveryDate order = Some (iso_date z)"
    and "1000 \<le> year_from_day z" "year_from_day z \<le> 9999"
    and "resolveDaysBefore conditions = Some n"
  shows "resolveConsumptionEffectiveDate order conditions s = Inr (Some (iso_date (z - n)), s)"
proof -
  have "date_only_parts (iso_date z) = Some (year_from_day z, month_of_day z + 1, date_of_day z)"
    unfolding iso_date_four_digits [OF assms(2,3)] by (rule date_only_parts_day [OF assms(2,3)])
  moreover have "utc_full_year (year_from_day z) = year_from_day z"
    using assms(2) by (simp add: utc_full_year_def)
  ultimately show ?thesis
    by (simp add: resolveConsumptionEffectiveDate_def assms(1,4) action_simps Let_def make_day_of_civil)
qed

theorem effective_date_before_delivery_witness:
  "resolveConsumptionEffectiveDate (example_order\<lparr>so_deliveryDate := Some (iso_date 19783)\<rparr>)
     [\<lparr>wc_id = ''w'', wc_transitionId = ''bc'', wc_type = SCHEDULE_DELIVERY_WINDOW,
       wc_config = [(''maxDaysBefore'', JNum 1)], wc_position = 0\<rparr>] example_world =
   Inr (Some (iso_date 19782), example_world)"
proof -
  have "19783 = make_day 2024 2 1" "valid_date 2024 2 1"
    by (simp_all add: make_day_def day_from_year_def month_start_def is_leap_def valid_date_def
        days_in_month_def)
  then have "year_from_day 19783 = 2024" using civil_of_make_day(1) by metis
  moreover have "resolveDaysBefore [\<lparr>wc_id = ''w'', wc_transitionId = ''bc'',
      wc_type = SCHEDULE_DELIVERY_WINDOW, wc_config = [(''maxDaysBefore'', JNum 1)],
      wc_position = 0\<rparr>] = Some 1"
    by (simp add: resolveDaysBefore_def js_get_def js_is_integer_def)
  ultimately show ?thesis
    using effective_date_before_delivery
      [of "example_order\<lparr>so_deliveryDate := Some (iso_date 19783)\<rparr>" 19783 _ 1 example_world] by simp
qed

section \<open>The outcomes of an assignment\<close>

text \<open>What an action outside the stock leaves of the state of a run.\<close>

definition one_outcome :: "run_state \<Rightarrow> run_state \<Rightarrow> bool" where
  "one_outcome r r' \<longleftrightarrow> length (rs_outcomes r') = Suc (length (rs_outcomes r)) \<and>
     rs_stockActions r' = rs_stockActions r \<and> rs_skippedConsume r' = rs_skippedConsume r \<and>
     rs_skippedReserve r' = rs_skippedReserve r \<and> rs_restoreAction r' = rs_restoreAction r"

lemma handler_one_outcome:
  "handler_execute h a r s = Inr (r', s') \<Longrightarrow> one_outcome r r'"
  by (cases h) (auto simp: handler_execute_def action_Inr one_outcome_def push_outcome_def)

lemma marker_one_outcome:
  assumes "runMarkerAction a r s = Inr ((did, r'), s')" "\<not> is_stock_action (wa_type a)"
  shows "one_outcome r r'"
proof -
  from assms obtain h d where "(case d of
       CONFLICT reason \<Rightarrow> sthrow (BadRequestException reason)
     | ALREADY_SATISFIED evidence \<Rightarrow>
         sreturn (True, push_outcome (skipped (wa_type a) (Some ''La accion ya estaba satisfecha'')) r)
     | PENDING \<Rightarrow> sbind (handler_execute h a r) (\<lambda>r'. sreturn (True, r'))) s = Inr ((did, r'), s')"
    by (cases "registry_get (wa_type a)")
      (auto simp: runMarkerAction_def sthrow_Inr reading.inspects_handler sbind_Inr
        dest: relatesD [OF reading.inspects_handler])
  then show ?thesis
    by (cases d) (auto simp: action_Inr one_outcome_def push_outcome_def dest: handler_one_outcome)
qed

text \<open>
  A transition whose only action assigns a warehouse runs that action twice: the phase that
  assigns and the loop without stock actions each write an outcome for it.
\<close>

theorem assignment_runs_twice:
  assumes "run order [a] e cs s = Inr (result, s')" "is_warehouse_action (wa_type a)"
  shows "length (ru_outcomes result) = 2"
proof -
  have a: "\<not> is_stock_action (wa_type a)" "wa_type a \<noteq> RESTORE_STOCK"
    "wa_type a \<notin> {RESERVE_STOCK, CONSUME_STOCK, REVERT_STOCK}"
    using assms(2) by (auto simp: is_warehouse_action_def is_stock_action_def)
  have ordered: "sort_position wa_position [a] = [a]" by (simp add: sort_position_def sort_cmp_def)
  from assms(1) obtain r s1 where
    p: "prepare_run [a] e (initial_run order) s = Inr (r, s1)" and
    f: "finish_run [a] e cs r s1 = Inr (result, s')"
    by (auto simp: run_def ordered Let_def sthrow_Inr sthen_Inr sbind_Inr sfor_def sguard_Inr
        sreturn_Inr split: if_splits)
  from p obtain r1 s2 did where
    r1: "runMarkerAction a (initial_run order) s = Inr ((did, r1), s2)" and
    r: "rs_outcomes r = rs_outcomes r1" "rs_stockActions r = []" "rs_skippedConsume r = rs_skippedConsume r1"
      "rs_skippedReserve r = [] \<or> rs_skippedReserve r = rs_skippedReserve r1"
      "rs_restoreAction r = rs_restoreAction r1"
    using assms(2) a
    by (auto simp: prepare_run_def assign_phase_def plan_stock_actions_def sfor_def consumption_phase_def
        reserved_phase_def restore_phase_def has_type_def sbind_Inr sthen_Inr slift_Inr sreturn_Inr Let_def
        split: if_splits)
  note one = marker_one_outcome [OF r1 a(1)]
  from f obtain did' r' where "runMarkerAction a r s1 = Inr ((did', r'), s')" "ru_outcomes result = rs_outcomes r'"
    using r one
    by (auto simp: finish_run_def no_stock_step_def is_restore_action_def one_outcome_def initial_run_def
        run_result_of_def sbind_Inr sreturn_Inr)
  with marker_one_outcome [OF this(1) a(1)] one r(1) show ?thesis
    by (simp add: one_outcome_def initial_run_def)
qed

definition assigning_action :: workflow_action where
  "assigning_action = (example_action ''w'' ''ab'' ASSIGN_WAREHOUSE_BY_WORKFLOW)\<lparr>wa_config :=
     [(''workflowId'', JStr ''0f8fad5b-d9cb-469f-a165-70867728950e''),
      (''warehouseId'', JStr ''7c9e6679-7425-40de-944b-e07fc1f90ae7'')]\<rparr>"

lemma assigning_action_valid:
  "validateWorkflowWarehouseAssignmentConfig (wa_config assigning_action) = Inr ()"
  by code_simp

theorem assignment_runs_twice_witness:
  "\<exists>result. run example_order [assigning_action] None [] example_world = Inr (result, example_world) \<and>
     length (ru_outcomes result) = 2"
proof -
  have ty: "wa_type assigning_action = ASSIGN_WAREHOUSE_BY_WORKFLOW"
    by (simp add: assigning_action_def example_action_def)
  have marker: "runMarkerAction assigning_action r s = Inr ((True, push_outcome
      (skipped ASSIGN_WAREHOUSE_BY_WORKFLOW (Some ''La accion ya estaba satisfecha'')) r), s)"
    if "rs_order r = example_order" for r s
    by (simp add: runMarkerAction_def ty that is_stock_action_def registry_get_def is_marker_action_def
        is_warehouse_action_def handler_inspect_def warehouse_inspect_def example_order_def action_simps)
  have o: "so_isActive example_order" "\<not> so_reserveBool example_order"
    by (simp_all add: example_order_def)
  obtain result where x: "run example_order [assigning_action] None [] example_world = Inr (result, example_world)"
    by (simp add: run_def sort_position_def sort_cmp_def sfor_def prepare_run_def finish_run_def
        assign_phase_def ty is_warehouse_action_def assigning_action_valid marker initial_run_def push_outcome_def
        plan_stock_actions_def consumption_phase_def reserved_phase_def restore_phase_def has_type_def
        no_stock_step_def is_restore_action_def registry_get_def is_marker_action_def Let_def action_simps o)
  from assignment_runs_twice [OF x] x show ?thesis by (simp add: ty is_warehouse_action_def)
qed

end
