(* ===== verification/Conservation.thy ===== *)
theory Conservation
  imports Invariants
begin

text \<open>
  Stock is neither made nor lost: as long as no row of the inventory has a location, every
  change of the quantity on hand of a stock item in a warehouse is booked in the ledger. The
  consumption of an order and its reversal collect the entries while they change the rows and
  book them at the end, so the relation is proved for the two services and handed to
  \<open>stock_relation\<close>.
\<close>

section \<open>Quantities on hand and booked\<close>

definition on_hand :: "world \<Rightarrow> string \<Rightarrow> string \<Rightarrow> int" where
  "on_hand s w j = (case inventory_row_of w j (w_inventory s) of None \<Rightarrow> 0 | Some r \<Rightarrow> in_onHand r)"

definition no_locations :: "world \<Rightarrow> bool" where
  "no_locations s \<longleftrightarrow> list_all (\<lambda>r. in_locationId r = None) (w_inventory s)"

definition booked_row :: "string \<Rightarrow> string \<Rightarrow> ledger_entry \<Rightarrow> int" where
  "booked_row w j e =
     (if le_warehouseId e = w \<and> le_stockItemId e = j
      then (if le_direction e = IN_DIRECTION then le_quantity e else - le_quantity e) else 0)"

definition booked :: "world \<Rightarrow> string \<Rightarrow> string \<Rightarrow> int" where
  "booked s w j = sum_list (map (booked_row w j) (w_ledger s))"

definition collected_entry :: "string \<Rightarrow> string \<Rightarrow> new_ledger_entry \<Rightarrow> rat" where
  "collected_entry w j e =
     (if ne_warehouseId e = w \<and> ne_stockItemId e = j
      then (if ne_direction e = IN_DIRECTION then ne_quantity e else - ne_quantity e) else 0)"

definition collected :: "new_ledger_entry list \<Rightarrow> string \<Rightarrow> string \<Rightarrow> rat" where
  "collected es w j = sum_list (map (collected_entry w j) es)"

definition conserved :: "world \<Rightarrow> world \<Rightarrow> bool" where
  "conserved s s' \<longleftrightarrow> (no_locations s \<longrightarrow> no_locations s' \<and>
     (\<forall>w j. on_hand s' w j - booked s' w j = on_hand s w j - booked s w j))"

lemma inventory_row_of_save_row [simp]:
  "inventory_row_of w j (save_row r rows) =
     (if inventory_key w j r then Some r else inventory_row_of w j rows)"
  by (induction rows) (auto simp: inventory_row_of_def inventory_key_def)

lemma no_locations_save_row:
  "no_locations s \<Longrightarrow> in_locationId r = None \<Longrightarrow>
   no_locations (s\<lparr>w_inventory := save_row r (w_inventory s)\<rparr>)"
  using set_save_row [of r "w_inventory s"] by (auto simp: no_locations_def list_all_iff)

lemma inventory_row_of_SomeD:
  "inventory_row_of w j rows = Some r \<Longrightarrow> r \<in> set rows \<and> inventory_key w j r"
  by (auto simp: inventory_row_of_def find_Some_iff)

lemma current_on_hand:
  assumes "no_locations s"
  shows "ba_onHand (current_balance s w j None) = of_int (on_hand s w j)"
proof (cases "inventory_row_of w j (w_inventory s)")
  case (Some r)
  then have "in_locationId r = None"
    using assms inventory_row_of_SomeD by (fastforce simp: no_locations_def list_all_iff)
  with Some show ?thesis by (simp add: current_balance_def on_hand_def toBalance_def or_default_def)
qed (simp add: current_balance_def on_hand_def empty_balance_def or_default_def)

text \<open>The entries become rows with the same quantities.\<close>

lemma ledger_rows_collected:
  "ledger_rows es = Inr rows \<Longrightarrow>
   of_int (sum_list (map (booked_row w j) rows)) = collected es w j"
proof (induction es arbitrary: rows)
  case (Cons e es)
  then obtain r rs where r: "ledger_row e = Inr r" and rs: "ledger_rows es = Inr rs" "rows = r # rs"
    by (auto split: sum.splits)
  have "of_int (booked_row w j r) = collected_entry w j e"
    using r by (auto simp: ledger_row_def booked_row_def collected_entry_def dest!: int_column_Inr
        split: sum.splits)
  with Cons.IH [OF rs(1)] rs(2) show ?case by (simp add: collected_def)
qed (simp add: collected_def)

section \<open>The services that book\<close>

text \<open>Between two states with the entries collected so far.\<close>

definition tracked :: "world \<Rightarrow> new_ledger_entry list \<Rightarrow> world \<Rightarrow> new_ledger_entry list \<Rightarrow> bool" where
  "tracked s es s' es' \<longleftrightarrow> (no_locations s \<longrightarrow> no_locations s' \<and> w_ledger s' = w_ledger s \<and>
     (\<forall>w j. of_int (on_hand s' w j) - collected es' w j = of_int (on_hand s w j) - collected es w j))"

lemma tracked_refl: "tracked s es s es"
  by (simp add: tracked_def)

lemma tracked_trans: "tracked s es s1 es1 \<Longrightarrow> tracked s1 es1 s2 es2 \<Longrightarrow> tracked s es s2 es2"
  by (simp add: tracked_def)

lemma tracked_fold:
  assumes "\<And>x es s es' s'. f x es s = Inr (es', s') \<Longrightarrow> tracked s es s' es'"
  shows "sfold f xs es s = Inr (es', s') \<Longrightarrow> tracked s es s' es'"
proof (induction xs arbitrary: es s)
  case Nil
  then show ?case by (simp add: sreturn_Inr tracked_refl)
next
  case (Cons x xs)
  then obtain es1 s1 where "f x es s = Inr (es1, s1)" "sfold f xs es1 s1 = Inr (es', s')"
    by (auto simp: sbind_Inr)
  then show ?case using assms Cons.IH tracked_trans by blast
qed

lemma other_tables [simp]:
  "on_hand (s\<lparr>w_orders := a\<rparr>) = on_hand s" "on_hand (s\<lparr>w_next := n\<rparr>) = on_hand s"
  "on_hand (s\<lparr>w_documents := ds\<rparr>) = on_hand s" "on_hand (s\<lparr>w_documentItems := is\<rparr>) = on_hand s"
  "on_hand (s\<lparr>w_series := ss\<rparr>) = on_hand s" "on_hand (s\<lparr>w_ledger := le\<rparr>) = on_hand s"
  "no_locations (s\<lparr>w_orders := a\<rparr>) = no_locations s" "no_locations (s\<lparr>w_next := n\<rparr>) = no_locations s"
  "no_locations (s\<lparr>w_documents := ds\<rparr>) = no_locations s"
  "no_locations (s\<lparr>w_documentItems := is\<rparr>) = no_locations s"
  "no_locations (s\<lparr>w_series := ss\<rparr>) = no_locations s"
  "no_locations (s\<lparr>w_ledger := le\<rparr>) = no_locations s"
  by (simp_all add: on_hand_def no_locations_def fun_eq_iff)

text \<open>A reservation leaves the quantity on hand; the other increment adds to it.\<close>

lemma reserved_on_hand:
  assumes "incrementReserved w j None d s = Inr (b, s')" "no_locations s"
  shows "no_locations s' \<and> w_ledger s' = w_ledger s \<and> on_hand s' = on_hand s"
proof -
  from incrementReserved_Inr [OF assms(1)] obtain row where
    row: "in_warehouseId row = w" "in_stockItemId row = j" "in_locationId row = None"
      "(of_int (in_onHand row) :: rat) = of_int (on_hand s w j)"
      "s' = s\<lparr>w_inventory := save_row row (w_inventory s)\<rparr>"
    unfolding current_on_hand [OF assms(2)] by blast
  then have "in_onHand row = on_hand s w j" by simp
  then show ?thesis
    using row no_locations_save_row [OF assms(2)] by (auto simp: on_hand_def fun_eq_iff inventory_key_def)
qed

lemma onHand_on_hand:
  assumes "incrementOnHand w j None d s = Inr (b, s')" "no_locations s"
  shows "no_locations s' \<and> w_ledger s' = w_ledger s \<and>
    (\<forall>w' j'. of_int (on_hand s' w' j') = of_int (on_hand s w' j') + (if w' = w \<and> j' = j then d else 0))"
proof -
  from incrementOnHand_Inr [OF assms(1)] obtain row where
    row: "in_warehouseId row = w" "in_stockItemId row = j" "in_locationId row = None"
      "of_int (in_onHand row) = of_int (on_hand s w j) + d"
      "s' = s\<lparr>w_inventory := save_row row (w_inventory s)\<rparr>"
    unfolding current_on_hand [OF assms(2)] by blast
  then show ?thesis
    using no_locations_save_row [OF assms(2)] by (auto simp: on_hand_def inventory_key_def)
qed

lemma consume_item_tracked:
  assumes "consume_item di w req es s = Inr (es', s')"
  shows "tracked s es s' es'"
proof -
  obtain j q where req: "req = (j, q)" by fastforce
  obtain item s1 b s2 b' where
    a: "addItem di j q 0 None None None s = Inr (item, s1)" and
    r: "incrementReserved w j None (- q) s1 = Inr (b, s2)" and
    h: "incrementOnHand w j None (- q) s2 = Inr (b', s')" and
    es': "es' = es @ [\<lparr>ne_docId = di, ne_docItemId = Some (di_id item), ne_warehouseId = w,
      ne_stockItemId = j, ne_direction = OUT_DIRECTION, ne_quantity = q, ne_locationId = None,
      ne_wasteQty = Some 0, ne_unitCost = None\<rparr>]"
    using assms unfolding consume_item_def req prod.case by (auto simp: action_Inr)
  show ?thesis unfolding tracked_def
  proof
    assume n: "no_locations s"
    have s1: "no_locations s1" "w_ledger s1 = w_ledger s" "on_hand s1 = on_hand s"
      using addItem_Inr [OF a] n by auto
    note s2 = reserved_on_hand [OF r s1(1)]
    note s3 = onHand_on_hand [OF h conjunct1 [OF s2]]
    show "no_locations s' \<and> w_ledger s' = w_ledger s \<and>
      (\<forall>w j. of_int (on_hand s' w j) - collected es' w j = of_int (on_hand s w j) - collected es w j)"
      using s1 s2 s3 by (auto simp: es' collected_def collected_entry_def)
  qed
qed

lemma restore_item_tracked:
  assumes "restore_item di w k consumed es s = Inr (es', s')"
  shows "tracked s es s' es'"
proof -
  let ?j = "di_stockItemId consumed" and ?q = "of_int (di_quantity consumed) :: rat"
  obtain item s1 b s2 where
    a: "addItem di ?j ?q 0 None None (di_unitCost consumed) s = Inr (item, s1)" and
    h: "incrementOnHand w ?j None ?q s1 = Inr (b, s2)" and
    r: "(\<exists>b'. incrementReserved w ?j None ?q s2 = Inr (b', s')) \<or> s' = s2" and
    es': "es' = es @ [\<lparr>ne_docId = di, ne_docItemId = Some (di_id item), ne_warehouseId = w,
      ne_stockItemId = ?j, ne_direction = IN_DIRECTION, ne_quantity = ?q, ne_locationId = None,
      ne_wasteQty = Some 0, ne_unitCost = di_unitCost consumed\<rparr>]"
    using assms unfolding restore_item_def Let_def by (auto simp: action_Inr split: if_splits)
  show ?thesis unfolding tracked_def
  proof
    assume n: "no_locations s"
    have s1: "no_locations s1" "w_ledger s1 = w_ledger s" "on_hand s1 = on_hand s"
      using addItem_Inr [OF a] n by auto
    note s2 = onHand_on_hand [OF h s1(1)]
    have s3: "no_locations s' \<and> w_ledger s' = w_ledger s2 \<and> on_hand s' = on_hand s2"
      using r reserved_on_hand s2 by blast
    show "no_locations s' \<and> w_ledger s' = w_ledger s \<and>
      (\<forall>w j. of_int (on_hand s' w j) - collected es' w j = of_int (on_hand s w j) - collected es w j)"
      using s1 s2 s3 by (auto simp: es' collected_def collected_entry_def)
  qed
qed

text \<open>A loop that collects, and the booking of what it collected.\<close>

lemma books_entries:
  assumes loop: "sfold f xs [] s = Inr (es, s1)"
    and step: "\<And>x es s es' s'. f x es s = Inr (es', s') \<Longrightarrow> tracked s es s' es'"
    and book: "appendLedger es s1 = Inr (u, s2)"
  shows "conserved s s2"
proof -
  have t: "tracked s [] s1 es" by (rule tracked_fold [OF step loop])
  from appendLedger_Inr [OF book] obtain rows where
    rows: "ledger_rows es = Inr rows" "s2 = s1\<lparr>w_ledger := w_ledger s1 @ rows\<rparr>" by blast
  have "on_hand s2 w j - booked s2 w j = on_hand s w j - booked s w j" if "no_locations s" for w j
  proof -
    have "of_int (on_hand s1 w j) - collected es w j = of_int (on_hand s w j)"
      using t that by (simp add: tracked_def collected_def)
    then have "(of_int (on_hand s1 w j) :: rat) =
        of_int (on_hand s w j + sum_list (map (booked_row w j) rows))"
      using ledger_rows_collected [OF rows(1), of w j] by simp
    then have "on_hand s1 w j = on_hand s w j + sum_list (map (booked_row w j) rows)"
      by (simp only: of_int_eq_iff)
    then show ?thesis using t that by (simp add: rows(2) booked_def tracked_def)
  qed
  then show ?thesis using t by (simp add: conserved_def tracked_def rows(2))
qed

lemma conserved_trans: "conserved s t \<Longrightarrow> conserved t u \<Longrightarrow> conserved s u"
  by (simp add: conserved_def)

lemma conserved_other:
  "conserved s (s\<lparr>w_orders := a\<rparr>)" "conserved s (s\<lparr>w_next := n\<rparr>)" "conserved s (s\<lparr>w_documents := ds\<rparr>)"
  "conserved s (s\<lparr>w_series := ss\<rparr>)" "conserved s (s\<lparr>w_next := n, w_documents := ds\<rparr>)"
  "conserved s (s\<lparr>w_history := hs\<rparr>)" "conserved s (s\<lparr>w_executions := es\<rparr>)"
  by (simp_all add: conserved_def booked_def on_hand_def no_locations_def)

interpretation conserving: order_writes conserved "\<lambda>_. True"
  by unfold_locales
     (auto simp: conserved_def ensures_def booked_def on_hand_def no_locations_def dest!: update_order_Inr)

lemma conserving_writes:
  "relates conserved (createDocument document)" "relates conserved (markPosted di by t)"
  "relates conserved (reserveNextNumber i)" "relates conserved fresh_id"
  "relates conserved (updateWorkflowState j st)" "relates conserved (appendHistory h)"
  "relates conserved (saveExecution ae)"
  by (auto simp: ensures_def conserved_other dest!: write_shapes)

lemma conserving_loop:
  assumes "\<And>x es s es' s'. f x es s = Inr (es', s') \<Longrightarrow> tracked s es s' es'"
    and "relates conserved k"
  shows "relates conserved (sbind (sfold f xs []) (\<lambda>es. sthen (appendLedger es) k))"
  using assms books_entries [where f = f and xs = xs]
  by (auto simp: ensures_def sbind_Inr sthen_Inr) (meson conserved_trans)

lemma conserving_consumption: "relates conserved (consume order q eff)"
  unfolding consume_def
  by (intro ensures_option conserving.relates_bind conserving.has_consumption
      conserving.reads_any conserving.step_rules conserving_writes conserving_loop ensures_list
      ensures_if consume_item_tracked TrueI)

lemma conserving_reversal:
  "relates conserved (restore_document order e w k document items serie)"
  unfolding restore_document_def
  by (intro conserving.relates_bind conserving.reads_any conserving.ensures_then conserving.marks
      conserving_writes conserving_loop restore_item_tracked TrueI)

interpretation conserving: step_relation conserved "\<lambda>_. True"
proof unfold_locales
  show "relates conserved (incrementReserved w j None d)" for w j d
    using reserved_on_hand by (auto simp: ensures_def conserved_def booked_def)
qed (simp_all add: conserving_consumption conserving_reversal conserving_writes)

end
