(* ===== verification/StockLaws.thy ===== *)
theory StockLaws
  imports Conservation Fixtures
begin

text \<open>
  The laws of the stock services: the reconciliation of reservations, the consumption of the
  stock of an order and its reversal, and what an increment does to a row of another location.
\<close>

section \<open>Reconciliation\<close>

text \<open>The balance without a location carries this reservation, and covers it.\<close>

definition reserved_is :: "world \<Rightarrow> string \<Rightarrow> string \<Rightarrow> rat \<Rightarrow> bool" where
  "reserved_is s w i e \<longleftrightarrow> (\<exists>row. inventory_row_of w i (w_inventory s) = Some row \<and>
     in_locationId row = None \<and> of_int (in_reserved row) = e \<and> e \<le> of_int (in_onHand row))"

lemma snapshot_row:
  "getSnapshot w i (Some loc) s = Inr (Some b, s') \<longleftrightarrow>
   (\<exists>row. inventory_row_of w i (w_inventory s) = Some row \<and> in_locationId row = loc \<and> b = toBalance row \<and> s' = s)"
  by (auto simp: getSnapshot_def sreads_Inr split: option.splits)

lemma current_balance_row:
  "inventory_row_of w i (w_inventory s) = Some row \<Longrightarrow> in_locationId row = loc \<Longrightarrow>
   current_balance s w i loc = toBalance row"
  by (simp add: current_balance_def or_default_def)

lemma toBalance_simps [simp]:
  "ba_onHand (toBalance row) = of_int (in_onHand row)" "ba_reserved (toBalance row) = of_int (in_reserved row)"
  by (simp_all add: toBalance_def)

lemma reconcile_item_Inr:
  assumes "reconcile_item w qs rows i items s = Inr (items', s')"
  shows "(\<exists>e. expected_of rows i = Some e \<and> reserved_is s' w i (er_expectedReserved e)) \<and>
    (\<forall>j. j \<noteq> i \<longrightarrow> inventory_row_of w j (w_inventory s') = inventory_row_of w j (w_inventory s))"
proof -
  from assms obtain e b row where e: "expected_of rows i = Some e"
    and row: "inventory_row_of w i (w_inventory s) = Some row" "in_locationId row = None" "b = toBalance row"
    and le: "er_expectedReserved e \<le> of_int (in_onHand row)"
    and adjust: "swhen (er_expectedReserved e - of_int (in_reserved row) \<noteq> 0)
        (sbind (incrementReserved w i None (er_expectedReserved e - of_int (in_reserved row)))
           (\<lambda>_. sreturn ())) s = Inr ((), s')"
    by (cases "expected_of rows i")
      (auto simp: reconcile_item_def sbind_Inr sthen_Inr snapshot_row sthrow_Inr Let_def sreturn_Inr
        split: option.splits if_splits)
  show ?thesis
  proof (cases "er_expectedReserved e = of_int (in_reserved row)")
    case True
    then have "s' = s" using adjust by (simp add: swhen_Inr)
    then show ?thesis using e row le True by (auto simp: reserved_is_def)
  next
    case False
    then obtain x where "incrementReserved w i None (er_expectedReserved e - of_int (in_reserved row)) s
        = Inr (x, s')"
      using adjust by (auto simp: swhen_Inr sbind_Inr sreturn_Inr)
    from incrementReserved_Inr [OF this] obtain row' where
      "in_warehouseId row' = w" "in_stockItemId row' = i" "in_locationId row' = None"
      "(of_int (in_onHand row') :: rat) = of_int (in_onHand row)"
      "of_int (in_reserved row') = er_expectedReserved e"
      "s' = s\<lparr>w_inventory := save_row row' (w_inventory s)\<rparr>"
      unfolding current_balance_row [OF row(1,2)] by auto
    then show ?thesis using e le by (auto simp: reserved_is_def inventory_key_def)
  qed
qed

lemma reconcile_fold:
  assumes "sfold (reconcile_item w qs rows) is items s = Inr (items', s')" "i \<in> set is"
  shows "\<exists>e. expected_of rows i = Some e \<and> reserved_is s' w i (er_expectedReserved e)"
proof -
  let ?ok = "\<lambda>s. \<exists>e. expected_of rows i = Some e \<and> reserved_is s w i (er_expectedReserved e)"
  have step: "?ok s' \<or> (j \<noteq> i \<and> (?ok s \<longrightarrow> ?ok s'))"
    if "reconcile_item w qs rows j items s = Inr (items', s')" for j items s items' s'
    using reconcile_item_Inr [OF that] by (cases "j = i") (auto simp: reserved_is_def)
  have keeps: "sfold (reconcile_item w qs rows) is items s = Inr (items', s') \<Longrightarrow> ?ok s \<Longrightarrow> ?ok s'"
    for "is" items s items' s'
  proof (induction "is" arbitrary: items s)
    case (Cons j js)
    then obtain items1 s1 where "reconcile_item w qs rows j items s = Inr (items1, s1)"
      "sfold (reconcile_item w qs rows) js items1 s1 = Inr (items', s')" by (auto simp: sbind_Inr)
    with Cons step show ?case by blast
  qed (simp add: sreturn_Inr)
  from assms show ?thesis
  proof (induction "is" arbitrary: items s)
    case (Cons j js)
    then obtain items1 s1 where 1: "reconcile_item w qs rows j items s = Inr (items1, s1)"
      "sfold (reconcile_item w qs rows) js items1 s1 = Inr (items', s')" by (auto simp: sbind_Inr)
    show ?case
    proof (cases "i \<in> set js")
      case True
      with 1 Cons.IH show ?thesis by blast
    next
      case False
      then have "j = i" using Cons.prems(2) by simp
      then show ?thesis using step [OF 1(1)] keeps [OF 1(2)] by blast
    qed
  qed simp
qed

lemma order_quantities_keys:
  "order_quantities rs msg acc = Inr acc' \<Longrightarrow> fst ` set acc' = fst ` set rs \<union> fst ` set acc"
proof (induction rs msg acc rule: order_quantities.induct)
  case (2 i q rs msg acc)
  then show ?case by (auto simp: add_quantity_def keys_map_set split: if_splits)
qed simp

lemma expected_of_listExpected:
  assumes "listExpected w ids s = Inr (rows, s')" "expected_of rows i = Some e"
  shows "er_expectedReserved e = expected_reserved s w i"
proof -
  have "e \<in> set rows" "er_stockItemId e = i"
    using assms(2) find_by_SomeD [of er_stockItemId i "rev rows" e] by (simp_all add: expected_of_def)
  then show ?thesis using assms(1) by (auto simp: listExpected_def sreads_Inr)
qed

text \<open>
  C25. After a reconciliation that succeeds, what each required stock item has reserved in the
  warehouse of the order is exactly what the active orders that hold a reservation there and the
  productions under way require, and it is covered by what is on hand.
\<close>

theorem reconcile_sets_expected:
  assumes "reconcile order requirements s = Inr (r, s')" "so_warehouseId order = Some w"
    and "(i, q) \<in> set requirements"
  shows "reserved_is s' w i (expected_reserved s w i)"
proof -
  from assms obtain qs rows items where
    qs: "order_quantities requirements err_invalid_requirements_accented [] = Inr qs" and
    rows: "listExpected w (sort (map fst qs)) s = Inr (rows, s)" and
    items: "sfold (reconcile_item w qs rows) (sort (map fst qs)) [] s = Inr (items, s')"
    by (cases "requirements = []")
      (auto simp: reconcile_def sbind_Inr slift_Inr Let_def sreturn_Inr listExpected_def sreads_Inr)
  have "i \<in> fst ` set requirements" using assms(3) by force
  then have "i \<in> set (sort (map fst qs))"
    using order_quantities_keys [OF qs] by simp
  from reconcile_fold [OF items this] expected_of_listExpected [OF rows] show ?thesis by auto
qed

section \<open>The documents of a consumption\<close>

text \<open>The posted consumptions of an order, the posted reversal of one, and the ones in force.\<close>

definition of_order :: "string \<Rightarrow> doc_type \<Rightarrow> inventory_document \<Rightarrow> bool" where
  "of_order i ty d \<longleftrightarrow> id_referenceId d = Some i \<and> id_referenceType d = Some SALE_ORDER_REFERENCE \<and>
     id_docType d = ty \<and> id_status d = DOC_POSTED"


definition out_documents :: "string \<Rightarrow> inventory_document list \<Rightarrow> inventory_document list" where
  "out_documents i docs = filter (\<lambda>d. of_order i OUT_DOC d \<and> id_id d \<noteq> []) docs"





section \<open>The loops over the items\<close>

definition moved :: "inventory_document_item list \<Rightarrow> string \<Rightarrow> int" where
  "moved items j = sum_list (map (\<lambda>x. if di_stockItemId x = j then di_quantity x else 0) items)"

lemma moved_simps [simp]:
  "moved [] j = 0" "moved (items @ items') j = moved items j + moved items' j"
  "moved (x # items) j = (if di_stockItemId x = j then di_quantity x else 0) + moved items j"
  by (simp_all add: moved_def)












section \<open>Consumption and reversal\<close>





text \<open>A new document of the other direction changes no list of consumptions but by its note.\<close>

lemma out_documents_append [simp]:
  "out_documents i (docs @ [d]) =
   out_documents i docs @ (if of_order i OUT_DOC d \<and> id_id d \<noteq> [] then [d] else [])"
  by (simp add: out_documents_def)







section \<open>Rows of another location\<close>

text \<open>
  The balance of a warehouse and stock item is one row, but an increment that names another
  location than the row starts from an empty balance and saves it over the row: what was on hand
  is lost.
\<close>

theorem increment_replaces_other_location:
  assumes "inventory_row_of w j (w_inventory s) = Some row" "in_locationId row \<noteq> loc"
    and "0 \<le> d" "int32 d"
  shows "\<exists>b s' row'. incrementOnHand w j loc (of_int d) s = Inr (b, s') \<and>
    inventory_row_of w j (w_inventory s') = Some row' \<and> in_onHand row' = d \<and> in_reserved row' = 0"
proof -
  have int: "int_column (of_int i) = Inr i" if "int32 i" for i
    using that by (simp add: int_column_def js_is_integer_def)
  have "int32 0" by (simp add: int32_def)
  then show ?thesis
    using assms int [OF assms(4)] int [OF \<open>int32 0\<close>]
    by (simp add: incrementOnHand_def getSnapshot_def action_simps or_default_def empty_balance_def
        validateInventoryBalance_def upsert_def Let_def inventory_key_def)
qed

section \<open>On the fixtures\<close>

text \<open>The order holds a reservation of its two units.\<close>

definition reserved_world :: world where
  "reserved_world = example_world\<lparr>w_orders := [example_order\<lparr>so_reserveBool := True\<rparr>],
     w_inventory := [\<lparr>in_warehouseId = ''w1'', in_stockItemId = ''x1'', in_locationId = None,
       in_onHand = 10, in_reserved = 2, in_available = Some 8\<rparr>]\<rparr>"

lemma int_columns:
  "int_column 0 = Inr 0" "int_column 1 = Inr 1" "int_column 2 = Inr 2" "int_column 8 = Inr 8"
  "int_column 10 = Inr 10"
  by code_simp+


lemmas inventory_eval = incrementReserved_def incrementOnHand_def getSnapshot_def inventory_row_of_def
  inventory_key_def toBalance_def or_default_def validateInventoryBalance_def upsert_def Let_def
  find_by_def action_simps reserved_world_def fixture_defs int_columns





theorem reconcile_sets_expected_witness:
  "\<exists>r s'. reconcile (example_order\<lparr>so_reserveBool := True\<rparr>) [(''x1'', 2)]
      (reserved_world\<lparr>w_inventory := w_inventory example_world\<rparr>) = Inr (r, s') \<and>
    reserved_is s' ''w1'' ''x1'' 2"
proof -
  let ?w = "reserved_world\<lparr>w_inventory := w_inventory example_world\<rparr>"
  obtain r s' where x: "reconcile (example_order\<lparr>so_reserveBool := True\<rparr>) [(''x1'', 2)] ?w = Inr (r, s')"
    by (simp add: reconcile_def add_quantity_def listExpected_def expected_of_def expected_reserved_def
        active_reservations_def order_stock_def production_stock_def reconcile_item_def inventory_eval)
  have "expected_reserved ?w ''w1'' ''x1'' = 2"
    by (simp add: expected_reserved_def active_reservations_def order_stock_def production_stock_def
        reserved_world_def fixture_defs)
  with reconcile_sets_expected [OF x, of "''w1''" "''x1''" 2] x show ?thesis
    by (simp add: example_order_def)
qed



theorem increment_replaces_other_location_witness:
  "\<exists>b s' row'. incrementOnHand ''w1'' ''x1'' (Some ''l'') 3 example_world = Inr (b, s') \<and>
     inventory_row_of ''w1'' ''x1'' (w_inventory s') = Some row' \<and> in_onHand row' = 3"
  using increment_replaces_other_location [of "''w1''" "''x1''" example_world _ "Some ''l''" 3]
  by (auto simp: inventory_row_of_def inventory_key_def example_world_def int32_def)

end
