(* ===== verification/InventoryMovements.thy ===== *)
theory InventoryMovements
  imports StockServices
begin

text \<open>
  Movements of stock that no order asks for, from
  \<open>src/modules/product-catalog/application/usecases\<close>: a document is dispatched or posted
  (\<open>process-inventory-document\<close>), a transfer is received (\<open>receive-inventory-transfer\<close>), a
  movement is registered (\<open>register-inventory-movement\<close>) and a transfer is drafted
  (\<open>transfer-between-warehouses\<close>), with the repository methods only they call. The events that
  a use case emits once its transaction is committed are part of its result.
\<close>

section \<open>Reads and writes of the repositories\<close>

definition findDocumentForUpdate :: "string \<Rightarrow> inventory_document option service" where
  "findDocumentForUpdate i = sreads (\<lambda>s. find_by id_id i (w_documents s))"

definition markInTransit :: "string \<Rightarrow> string \<Rightarrow> int \<Rightarrow> unit service" where
  "markInTransit docId dispatchedBy dispatchedAt =
     smodify (\<lambda>s. s\<lparr>w_documents := update_where
       (\<lambda>d. id_id d = docId \<and> id_status d = DOC_DRAFT \<and> id_docType d = TRANSFER)
       (\<lambda>d. d\<lparr>id_status := IN_TRANSIT, id_dispatchedBy := Some dispatchedBy,
              id_dispatchedAt := Some dispatchedAt\<rparr>) (w_documents s)\<rparr>)"

definition markReceived :: "string \<Rightarrow> string \<Rightarrow> int \<Rightarrow> unit service" where
  "markReceived docId receivedBy receivedAt =
     smodify (\<lambda>s. s\<lparr>w_documents := update_where
       (\<lambda>d. id_id d = docId \<and> id_status d = IN_TRANSIT \<and> id_docType d = TRANSFER)
       (\<lambda>d. d\<lparr>id_status := DOC_POSTED, id_receivedBy := Some receivedBy,
              id_receivedAt := Some receivedAt, id_postedBy := Some receivedBy,
              id_postedAt := Some receivedAt\<rparr>) (w_documents s)\<rparr>)"

definition findSerieById :: "string \<Rightarrow> document_serie option service" where
  "findSerieById i = sreads (\<lambda>s. find_by ds_id i (w_series s))"

definition findSkuById :: "string \<Rightarrow> sku option service" where
  "findSkuById i = sreads (\<lambda>s.
     List.find (\<lambda>k. sk_id k = i \<and> \<not> sk_isDeleted k) (c_skus (w_catalog s)))"

definition findProductById :: "string \<Rightarrow> product option service" where
  "findProductById i = sreads (\<lambda>s. find_by pr_id i (c_products (w_catalog s)))"

text \<open>
  The rows of a stock item; the callers look one warehouse up, which has at most one row, so the
  order of the rows (by their last update) is not observed.
\<close>

definition listByStockItemId :: "string \<Rightarrow> inventory_balance list service" where
  "listByStockItemId i = sreads (\<lambda>s.
     map toBalance (filter (\<lambda>r. in_stockItemId r = i) (w_inventory s)))"

definition balance_at ::
  "string \<Rightarrow> string \<Rightarrow> string option \<Rightarrow> inventory_balance list \<Rightarrow> inventory_balance" where
  "balance_at w i loc balances =
     or_default (List.find (\<lambda>b. ba_warehouseId b = w \<and> ba_locationId b = loc) balances)
       (empty_balance w i loc)"

text \<open>The index on the SKU is unique.\<close>

definition saveStockItem :: "string \<Rightarrow> bool \<Rightarrow> stock_item service" where
  "saveStockItem skuId isActive =
     sbind (sreads (\<lambda>s. c_stockItems (w_catalog s))) (\<lambda>rows.
       if \<exists>x \<in> set rows. si_skuId x = skuId then sthrow QueryFailed
       else sbind fresh_id (\<lambda>i. sbind now (\<lambda>t.
         (let saved = \<lparr>si_id = i, si_skuId = skuId, si_isActive = isActive, si_createdAt = t\<rparr>
          in sthen (smodify (\<lambda>s. s\<lparr>w_catalog :=
                      (w_catalog s)\<lparr>c_stockItems := c_stockItems (w_catalog s) @ [saved]\<rparr>\<rparr>))
               (sreturn saved)))))"

definition createStockItem :: "string \<Rightarrow> bool option \<Rightarrow> stock_item service" where
  "createStockItem skuId isActive =
     sbind (findSkuById skuId) (\<lambda>k.
     case k of
       None \<Rightarrow> sthrow (NotFoundException ''Sku not found'')
     | Some _ \<Rightarrow>
         sbind (findBySkuId skuId) (\<lambda>existing.
         case existing of
           Some _ \<Rightarrow> sthrow (ConflictException ''Stock item already exists for this sku'')
         | None \<Rightarrow> saveStockItem skuId (or_default isActive True)))"

text \<open>
  The date of the business in Lima, five hours behind UTC since 1994, as a string of ten
  characters.
\<close>

definition business_date :: "int \<Rightarrow> string" where
  "business_date t = iso_date (day_of_instant (t - 5 * 3600000))"

section \<open>Events\<close>

record stock_event =
  ev_warehouseId :: string
  ev_stockItemId :: string
  ev_locationId :: "string option"
  ev_onHand :: rat
  ev_reserved :: rat
  ev_available :: rat
  ev_documentId :: string
  ev_docType :: doc_type
  ev_productType :: "product_type option"
  ev_occurredAt :: int

definition stock_event_of ::
  "inventory_balance \<Rightarrow> string \<Rightarrow> doc_type \<Rightarrow> product_type option \<Rightarrow> int \<Rightarrow> stock_event" where
  "stock_event_of b docId docType productType t = \<lparr>ev_warehouseId = ba_warehouseId b,
     ev_stockItemId = ba_stockItemId b, ev_locationId = ba_locationId b, ev_onHand = ba_onHand b,
     ev_reserved = ba_reserved b, ev_available = ba_available b, ev_documentId = docId,
     ev_docType = docType, ev_productType = productType, ev_occurredAt = t\<rparr>"

type_synonym movement_log = "new_ledger_entry list \<times> stock_event list"

definition log_of ::
  "inventory_document \<Rightarrow> inventory_document_item \<Rightarrow> string \<Rightarrow> direction \<Rightarrow> rat \<Rightarrow>
   string option \<Rightarrow> inventory_balance \<Rightarrow> movement_log \<Rightarrow> movement_log service" where
  "log_of document item w dir quantity loc saved acc =
     sbind now (\<lambda>t.
       sreturn (fst acc @ [\<lparr>ne_docId = id_id document, ne_docItemId = Some (di_id item),
           ne_warehouseId = w, ne_stockItemId = di_stockItemId item, ne_direction = dir,
           ne_quantity = quantity, ne_locationId = loc, ne_wasteQty = Some (di_wasteQty item),
           ne_unitCost = di_unitCost item\<rparr>],
         snd acc @ [stock_event_of saved (id_id document) (id_docType document)
           (id_productType document) t]))"

section \<open>Dispatch and adjustment\<close>

definition or_else :: "'a option \<Rightarrow> 'a option \<Rightarrow> 'a option" where
  "or_else x y = (case x of None \<Rightarrow> y | Some a \<Rightarrow> Some a)"

definition dispatch_item ::
  "inventory_document \<Rightarrow> string \<Rightarrow> inventory_document_item \<Rightarrow> movement_log \<Rightarrow> movement_log service" where
  "dispatch_item document w item acc =
     (let loc = or_else (di_fromLocationId item) (di_toLocationId item);
          quantity = of_int (di_quantity item)
      in sbind (listByStockItemId (di_stockItemId item)) (\<lambda>balances.
         (let current = balance_at w (di_stockItemId item) loc balances;
              fromOnHand = ba_onHand current - quantity
          in sthen (sguard (\<not> ba_available current < quantity)
               (BadRequestException ''Stock insuficiente para procesar transferencia''))
            (sthen (sguard (\<not> fromOnHand < 0)
               (BadRequestException ''El inventario no puede quedar en negativo''))
            (sbind (upsert \<lparr>ba_warehouseId = w, ba_stockItemId = di_stockItemId item,
                ba_locationId = loc, ba_onHand = fromOnHand, ba_reserved = ba_reserved current,
                ba_available = fromOnHand - ba_reserved current\<rparr>) (\<lambda>saved.
             log_of document item w OUT_DIRECTION quantity loc saved acc))))))"

definition adjustment_direction :: "inventory_document_item \<Rightarrow> direction" where
  "adjustment_direction item =
     (let from_set = nonempty (di_fromLocationId item) \<noteq> None;
          to_set = nonempty (di_toLocationId item) \<noteq> None
      in if from_set \<and> \<not> to_set then OUT_DIRECTION
         else if to_set \<and> \<not> from_set then IN_DIRECTION
         else if di_quantity item < 0 then OUT_DIRECTION else IN_DIRECTION)"

definition adjust_item ::
  "inventory_document \<Rightarrow> string \<Rightarrow> inventory_document_item \<Rightarrow> movement_log \<Rightarrow> movement_log service" where
  "adjust_item document w item acc =
     sthen (sguard (di_quantity item \<noteq> 0)
         (BadRequestException ''Cantidad invalida en item de ajuste''))
       (let dir = adjustment_direction item; quantity = of_int \<bar>di_quantity item\<bar>;
            loc = (if dir = OUT_DIRECTION then di_fromLocationId item else di_toLocationId item)
        in sbind (getSnapshot w (di_stockItemId item) (Some loc)) (\<lambda>snapshot.
           (let current = or_default snapshot (empty_balance w (di_stockItemId item) loc);
                nextOnHand = (if dir = IN_DIRECTION then ba_onHand current + quantity
                              else ba_onHand current - quantity)
            in sthen (sguard (\<not> (dir = OUT_DIRECTION \<and> ba_available current < quantity))
                 (BadRequestException ''Stock insuficiente para procesar ajuste''))
              (sthen (sguard (\<not> nextOnHand < 0)
                 (BadRequestException ''El inventario no puede quedar en negativo''))
              (sbind (upsert \<lparr>ba_warehouseId = w, ba_stockItemId = di_stockItemId item,
                  ba_locationId = loc, ba_onHand = nextOnHand, ba_reserved = ba_reserved current,
                  ba_available = nextOnHand - ba_reserved current\<rparr>) (\<lambda>saved.
               log_of document item w dir quantity loc saved acc))))))"

definition dispatch_items ::
  "inventory_document \<Rightarrow> inventory_document_item list \<Rightarrow> movement_log service" where
  "dispatch_items document items =
     (case (nonempty (id_fromWarehouseId document), nonempty (id_toWarehouseId document)) of
        (Some w, Some _) \<Rightarrow>
          sbind now (\<lambda>t.
            (case nonempty (id_scheduledDepartureDate document) of
               None \<Rightarrow> sfold (dispatch_item document w) items ([], [])
             | Some departure \<Rightarrow>
                 if business_date t < departure
                 then sthrow (BadRequestException
                        (''La transferencia esta programada para salir el '' @ departure))
                 else sfold (dispatch_item document w) items ([], [])))
      | _ \<Rightarrow> sthrow (BadRequestException ''Documento TRANSFER invalido''))"

definition adjust_items ::
  "inventory_document \<Rightarrow> inventory_document_item list \<Rightarrow> movement_log service" where
  "adjust_items document items =
     (case nonempty (or_else (id_fromWarehouseId document) (id_toWarehouseId document)) of
        None \<Rightarrow> sthrow (BadRequestException ''Documento ADJUSTMENT invalido'')
      | Some w \<Rightarrow> sfold (adjust_item document w) items ([], []))"

definition process_document :: "string \<Rightarrow> string \<Rightarrow> (doc_status \<times> stock_event list) service" where
  "process_document docId postedBy =
     sbind (findDocumentForUpdate docId) (\<lambda>found.
     case found of
       None \<Rightarrow> sthrow (NotFoundException ''Documento no encontrado'')
     | Some document \<Rightarrow>
         sthen (sguard (id_status document = DOC_DRAFT)
           (BadRequestException ''Solo se pueden procesar documentos en DRAFT''))
        (sthen (sguard (id_docType document = TRANSFER \<or> id_docType document = ADJUSTMENT)
           (BadRequestException ''Solo se permite procesar TRANSFER y ADJUSTMENT''))
        (sbind (listItems (id_id document)) (\<lambda>items.
         sthen (sguard (items \<noteq> []) (BadRequestException ''El documento no tiene items''))
        (sbind (if id_docType document = TRANSFER then dispatch_items document items
                else adjust_items document items) (\<lambda>(entries, events).
         sthen (swhen (entries \<noteq> []) (appendLedger entries))
        (sbind now (\<lambda>processedAt.
           if id_docType document = TRANSFER
           then sthen (markInTransit (id_id document) postedBy processedAt)
                  (sreturn (IN_TRANSIT, events))
           else sthen (markPosted (id_id document) (Some postedBy) processedAt)
                  (sreturn (DOC_POSTED, events))))))))))"

section \<open>Reception of a transfer\<close>

definition receive_item ::
  "inventory_document \<Rightarrow> string \<Rightarrow> inventory_document_item \<Rightarrow> movement_log \<Rightarrow> movement_log service" where
  "receive_item document w item acc =
     (let loc = or_else (di_toLocationId item) (di_fromLocationId item);
          quantity = of_int (di_quantity item)
      in sbind (getSnapshot w (di_stockItemId item) (Some loc)) (\<lambda>snapshot.
         (let current = or_default snapshot (empty_balance w (di_stockItemId item) loc);
              nextOnHand = ba_onHand current + quantity
          in sbind (upsert \<lparr>ba_warehouseId = w, ba_stockItemId = di_stockItemId item,
               ba_locationId = loc, ba_onHand = nextOnHand, ba_reserved = ba_reserved current,
               ba_available = nextOnHand - ba_reserved current\<rparr>) (\<lambda>saved.
             log_of document item w IN_DIRECTION quantity loc saved acc))))"

definition receive_transfer :: "string \<Rightarrow> string \<Rightarrow> (doc_status \<times> stock_event list) service" where
  "receive_transfer docId receivedBy =
     sbind (findDocumentForUpdate docId) (\<lambda>found.
     case found of
       None \<Rightarrow> sthrow (NotFoundException ''Transferencia no encontrada'')
     | Some document \<Rightarrow>
         sthen (sguard (id_docType document = TRANSFER)
           (BadRequestException ''El documento no es una transferencia''))
        (sthen (sguard (id_status document = IN_TRANSIT)
           (BadRequestException ''Solo se pueden recibir transferencias en transito''))
        (case nonempty (id_toWarehouseId document) of
           None \<Rightarrow> sthrow (BadRequestException ''La transferencia no tiene almacen destino'')
         | Some w \<Rightarrow>
             sbind (listItems (id_id document)) (\<lambda>items.
             sthen (sguard (items \<noteq> []) (BadRequestException ''La transferencia no tiene items''))
            (sbind (sfold (receive_item document w) items ([], [])) (\<lambda>(entries, events).
             sthen (appendLedger entries)
            (sbind now (\<lambda>receivedAt.
             sthen (markReceived (id_id document) receivedBy receivedAt)
               (sreturn (DOC_POSTED, events))))))))))"

section \<open>Registering a movement\<close>

text \<open>A quantity that is not finite is \<open>None\<close>.\<close>

record movement_row =
  mr_skuId :: string
  mr_quantity :: "rat option"
  mr_direction :: "direction option"
  mr_unitCost :: "rat option"
  mr_locationId :: "string option"

record movement_input =
  mi_docType :: doc_type
  mi_serieId :: "string option"
  mi_items :: "movement_row list"
  mi_warehouseId :: string
  mi_direction :: "direction option"
  mi_locationId :: "string option"
  mi_note :: "string option"
  mi_createdBy :: "string option"
  mi_createdAt :: "string option"
  mi_postedAt :: "int option"
  mi_referenceId :: "string option"
  mi_referenceType :: "reference_type option"
  mi_autoPost :: "bool option"

record movement_result =
  ms_skuId :: string
  ms_stockItemId :: string
  ms_documentItemId :: string
  ms_quantity :: rat
  ms_unitCost :: "rat option"
  ms_locationId :: "string option"
  ms_balance :: "inventory_balance option"

text \<open>The cache of product types lives for one transaction, in which products do not change.\<close>

type_synonym type_cache = "(string \<times> product_type) list"

definition resolveProductType :: "string \<Rightarrow> type_cache \<Rightarrow> (product_type \<times> type_cache) service" where
  "resolveProductType productId cache =
     (case map_of cache productId of
        Some t \<Rightarrow> sreturn (t, cache)
      | None \<Rightarrow> sbind (findProductById productId) (\<lambda>p.
          case p of
            None \<Rightarrow> sthrow (NotFoundException ''Producto no encontrado'')
          | Some q \<Rightarrow> sreturn (pr_type q, map_set productId (pr_type q) cache)))"

definition require_sku :: "string \<Rightarrow> sku service" where
  "require_sku skuId = sbind (findSkuById skuId) (\<lambda>k.
     case k of None \<Rightarrow> sthrow (NotFoundException ''Sku no encontrado'') | Some x \<Rightarrow> sreturn x)"

definition movement_serie :: "movement_input \<Rightarrow> string service" where
  "movement_serie input =
     (case nonempty (mi_serieId input) of
        Some i \<Rightarrow> sbind (findSerieById i) (\<lambda>serie.
          case serie of
            None \<Rightarrow> sthrow (NotFoundException ''Serie no definida'')
          | Some d \<Rightarrow>
              if ds_id d = [] \<or> \<not> ds_isActive d
              then sthrow (NotFoundException ''Serie no definida'')
              else sthen (sguard (ds_docType d = mi_docType input)
                     (BadRequestException ''Serie no coincide con el tipo de doc''))
                   (sreturn (ds_id d)))
      | None \<Rightarrow> sbind (findActiveFor (Some (mi_docType input)) (mi_warehouseId input) (Some True)) (\<lambda>series.
          case series of
            [] \<Rightarrow> sthrow (NotFoundException ''Serie no definida'')
          | d # _ \<Rightarrow>
              if ds_id d = [] then sthrow (NotFoundException ''Serie no definida'')
              else sreturn (ds_id d)))"

text \<open>The constructor is called with \<open>createdAt\<close> in the place of \<open>postedBy\<close>.\<close>

definition movement_document ::
  "movement_input \<Rightarrow> product_type \<Rightarrow> string \<Rightarrow> int \<Rightarrow> inventory_document" where
  "movement_document input productType serieId correlative =
     \<lparr>id_id = [], id_docType = mi_docType input, id_productType = Some productType,
      id_status = DOC_DRAFT, id_serieId = Some serieId, id_correlative = Some correlative,
      id_fromWarehouseId = (if mi_docType input = OUT_DOC \<or> mi_docType input = ADJUSTMENT
                            then Some (mi_warehouseId input) else None),
      id_toWarehouseId = (if mi_docType input = IN_DOC then Some (mi_warehouseId input) else None),
      id_referenceId = mi_referenceId input, id_referenceType = mi_referenceType input,
      id_note = mi_note input, id_createdBy = mi_createdBy input,
      id_postedBy = mi_createdAt input, id_postedAt = mi_postedAt input, id_effectiveDate = None,
      id_scheduledDepartureDate = None, id_expectedArrivalDate = None, id_dispatchedBy = None,
      id_dispatchedAt = None, id_receivedBy = None, id_receivedAt = None\<rparr>"

definition ensure_stock_item :: "string \<Rightarrow> stock_item service" where
  "ensure_stock_item skuId = sbind (findBySkuId skuId) (\<lambda>existing.
     case existing of Some x \<Rightarrow> sreturn x | None \<Rightarrow> createStockItem skuId (Some True))"

text \<open>\<open>sku.name || sku.backendSku || skuId\<close>.\<close>

definition sku_label :: "sku \<Rightarrow> string \<Rightarrow> string" where
  "sku_label k skuId = (if sk_name k \<noteq> [] then sk_name k
     else if sk_backendSku k \<noteq> [] then sk_backendSku k else skuId)"

definition post_movement ::
  "movement_input \<Rightarrow> string \<Rightarrow> movement_row \<Rightarrow> direction \<Rightarrow> rat \<Rightarrow> string option \<Rightarrow> sku \<Rightarrow>
   string \<Rightarrow> string \<Rightarrow> (inventory_balance \<times> new_ledger_entry) service" where
  "post_movement input docId row dir quantity loc k stockItemId itemId =
     sbind (listByStockItemId stockItemId) (\<lambda>balances.
       (let current = balance_at (mi_warehouseId input) stockItemId loc balances;
            nextOnHand = (if dir = IN_DIRECTION then ba_onHand current + quantity
                          else ba_onHand current - quantity)
        in sthen (sguard (\<not> (dir = OUT_DIRECTION \<and>
                   (ba_available current \<le> 0 \<or> ba_available current < quantity)))
             (BadRequestException (''Stock de '' @ sku_label k (mr_skuId row) @
                '' no es suficiente para el ajuste'')))
          (sthen (sguard (\<not> nextOnHand < 0)
             (BadRequestException ''El inventario no puede quedar en negativo''))
          (sbind (upsert \<lparr>ba_warehouseId = mi_warehouseId input, ba_stockItemId = stockItemId,
              ba_locationId = loc, ba_onHand = nextOnHand, ba_reserved = ba_reserved current,
              ba_available = nextOnHand - ba_reserved current\<rparr>) (\<lambda>saved.
           sreturn (saved, \<lparr>ne_docId = docId, ne_docItemId = Some itemId,
             ne_warehouseId = mi_warehouseId input, ne_stockItemId = stockItemId,
             ne_direction = dir, ne_quantity = quantity, ne_locationId = loc,
             ne_wasteQty = Some 0, ne_unitCost = mr_unitCost row\<rparr>))))))"

definition movement_result_of ::
  "movement_row \<Rightarrow> rat \<Rightarrow> string option \<Rightarrow> string \<Rightarrow> string \<Rightarrow> inventory_balance option \<Rightarrow> movement_result" where
  "movement_result_of row quantity loc stockItemId itemId balance =
     \<lparr>ms_skuId = mr_skuId row, ms_stockItemId = stockItemId, ms_documentItemId = itemId,
      ms_quantity = quantity, ms_unitCost = mr_unitCost row, ms_locationId = loc,
      ms_balance = balance\<rparr>"

definition register_item ::
  "movement_input \<Rightarrow> string \<Rightarrow> bool \<Rightarrow> movement_row \<Rightarrow> new_ledger_entry list \<times> movement_result list \<Rightarrow>
   (new_ledger_entry list \<times> movement_result list) service" where
  "register_item input docId autoPost row acc =
     (case or_else (mr_direction row) (mi_direction input) of
        None \<Rightarrow> sthrow (BadRequestException ''Direccion requerida'')
      | Some dir \<Rightarrow>
     (case mr_quantity row of
        None \<Rightarrow> sthrow (BadRequestException ''La cantidad debe ser mayor a 0'')
      | Some quantity \<Rightarrow>
          sthen (sguard (\<not> quantity \<le> 0) (BadRequestException ''La cantidad debe ser mayor a 0''))
         (let loc = or_else (mr_locationId row) (mi_locationId input);
              quantityForItem = (if \<not> autoPost \<and> mi_docType input = ADJUSTMENT
                 then (if dir = OUT_DIRECTION then - \<bar>quantity\<bar> else \<bar>quantity\<bar>) else quantity)
          in sbind (require_sku (mr_skuId row)) (\<lambda>k.
             sbind (ensure_stock_item (mr_skuId row)) (\<lambda>x.
             sbind (addItem docId (si_id x) quantityForItem 0
                 (if dir = OUT_DIRECTION then loc else None)
                 (if dir = IN_DIRECTION then loc else None) (mr_unitCost row)) (\<lambda>item.
             if autoPost
             then sbind (post_movement input docId row dir quantity loc k (si_id x) (di_id item)) (\<lambda>(saved, entry).
               sreturn (fst acc @ [entry],
                 snd acc @ [movement_result_of row quantity loc (si_id x) (di_id item) (Some saved)]))
             else sreturn (fst acc,
               snd acc @ [movement_result_of row quantity loc (si_id x) (di_id item) None])))))))"

record registered_movement =
  rg_documentId :: string
  rg_status :: doc_status
  rg_items :: "movement_result list"

definition movement_events ::
  "string \<Rightarrow> doc_type \<Rightarrow> product_type \<Rightarrow> int \<Rightarrow> movement_result list \<Rightarrow> stock_event list" where
  "movement_events docId docType productType t results =
     concat (map (\<lambda>r. case ms_balance r of None \<Rightarrow> []
       | Some b \<Rightarrow> [stock_event_of b docId docType (Some productType) t]) results)"

definition register_movement ::
  "movement_input \<Rightarrow> (registered_movement \<times> stock_event list) service" where
  "register_movement input =
     (case mi_items input of
        [] \<Rightarrow> sthrow (BadRequestException ''Necesita al menos 1 item'')
      | first # _ \<Rightarrow>
          sbind (require_sku (mr_skuId first)) (\<lambda>firstSku.
          sbind (resolveProductType (sk_productId firstSku) []) (\<lambda>(productType, _).
          sbind (movement_serie input) (\<lambda>serieId.
          sbind (reserveNextNumber serieId) (\<lambda>correlative.
          sbind (createDocument (movement_document input productType serieId correlative)) (\<lambda>document.
          (let autoPost = or_default (mi_autoPost input) True
           in sbind (sfold (register_item input (id_id document) autoPost) (mi_items input) ([], []))
                (\<lambda>(entries, results).
              sthen (swhen (entries \<noteq> []) (appendLedger entries))
             (sbind now (\<lambda>t.
              sthen (swhen autoPost (markPosted (id_id document) (mi_createdBy input) t))
                (sreturn (\<lparr>rg_documentId = id_id document,
                   rg_status = (if autoPost then DOC_POSTED else DOC_DRAFT), rg_items = results\<rparr>,
                   if autoPost then movement_events (id_id document) (mi_docType input) productType t results
                   else []))))))))))))"

section \<open>Drafting a transfer\<close>

record transfer_row =
  tr_skuId :: string
  tr_quantity :: "rat option"
  tr_unitCost :: "rat option"
  tr_locationId :: "string option"

record transfer_input =
  ti_fromWarehouseId :: string
  ti_toWarehouseId :: string
  ti_serieId :: string
  ti_scheduledDepartureDate :: string
  ti_expectedArrivalDate :: string
  ti_locationId :: "string option"
  ti_note :: "string option"
  ti_createdBy :: "string option"
  ti_items :: "transfer_row list"
  ti_autoPost :: "bool option"

text \<open>The parse of a date is the parameter \<open>pd\<close>.\<close>

definition isValidDate :: "(string \<Rightarrow> int option) \<Rightarrow> string \<Rightarrow> bool" where
  "isValidDate pd v = (case pd (v @ ''T00:00:00.000Z'') of
     None \<Rightarrow> False | Some t \<Rightarrow> iso_date (day_of_instant t) = v)"

definition check_transfer :: "(string \<Rightarrow> int option) \<Rightarrow> transfer_input \<Rightarrow> unit service" where
  "check_transfer pd input =
     sthen (sguard (ti_fromWarehouseId input \<noteq> ti_toWarehouseId input)
       (BadRequestException ''fromWarehouseId y toWarehouseId no pueden ser iguales''))
    (sthen (sguard (isValidDate pd (ti_scheduledDepartureDate input) \<and>
         isValidDate pd (ti_expectedArrivalDate input))
       (BadRequestException ''Las fechas de salida y llegada no son validas''))
    (sthen (sguard (\<not> ti_expectedArrivalDate input < ti_scheduledDepartureDate input)
       (BadRequestException ''La llegada estimada no puede ser anterior a la salida''))
    (sbind now (\<lambda>t.
     sthen (sguard (\<not> ti_scheduledDepartureDate input < business_date t)
       (BadRequestException ''La fecha de salida no puede estar en el pasado''))
       (sguard (ti_autoPost input \<noteq> Some True)
         (BadRequestException ''Las transferencias deben despacharse y recibirse por separado''))))))"

definition transfer_document ::
  "transfer_input \<Rightarrow> product_type \<Rightarrow> string \<Rightarrow> int \<Rightarrow> inventory_document" where
  "transfer_document input productType serieId correlative =
     \<lparr>id_id = [], id_docType = TRANSFER, id_productType = Some productType,
      id_status = DOC_DRAFT, id_serieId = Some serieId, id_correlative = Some correlative,
      id_fromWarehouseId = Some (ti_fromWarehouseId input),
      id_toWarehouseId = Some (ti_toWarehouseId input), id_referenceId = None,
      id_referenceType = None, id_note = ti_note input, id_createdBy = ti_createdBy input,
      id_postedBy = None, id_postedAt = None, id_effectiveDate = None,
      id_scheduledDepartureDate = Some (ti_scheduledDepartureDate input),
      id_expectedArrivalDate = Some (ti_expectedArrivalDate input), id_dispatchedBy = None,
      id_dispatchedAt = None, id_receivedBy = None, id_receivedAt = None\<rparr>"

definition transfer_item ::
  "transfer_input \<Rightarrow> string \<Rightarrow> product_type \<Rightarrow> transfer_row \<Rightarrow> type_cache \<Rightarrow> type_cache service" where
  "transfer_item input docId documentType row cache =
     (case tr_quantity row of
        None \<Rightarrow> sthrow (BadRequestException ''La cantidad debe ser mayor a 0'')
      | Some quantity \<Rightarrow>
          sthen (sguard (\<not> quantity \<le> 0) (BadRequestException ''La cantidad debe ser mayor a 0''))
         (let loc = or_else (tr_locationId row) (ti_locationId input)
          in sbind (require_sku (tr_skuId row)) (\<lambda>k.
             sbind (resolveProductType (sk_productId k) cache) (\<lambda>(itemType, cache').
             sthen (sguard (itemType = documentType)
               (BadRequestException ''No se permiten transferencias con SKUs de distinto tipo''))
            (sbind (ensure_stock_item (tr_skuId row)) (\<lambda>x.
             sbind (addItem docId (si_id x) quantity 0 loc loc (tr_unitCost row)) (\<lambda>_.
             sreturn cache')))))))"

text \<open>Only the draft is made: the branch that would post it at once is switched off in the code.\<close>

definition create_transfer :: "transfer_input \<Rightarrow> transfer_row \<Rightarrow> (string \<times> doc_status) service" where
  "create_transfer input first =
     sbind (findSerieById (ti_serieId input)) (\<lambda>found.
     case found of
       None \<Rightarrow> sthrow (NotFoundException ''Serie no definida'')
     | Some serie \<Rightarrow>
         if ds_id serie = [] \<or> \<not> ds_isActive serie \<or> ds_docType serie \<noteq> TRANSFER
         then sthrow (NotFoundException ''Serie no definida'')
         else
           sthen (sguard (ds_warehouseId serie = ti_fromWarehouseId input)
             (BadRequestException ''Serie no definida''))
          (sbind (require_sku (tr_skuId first)) (\<lambda>firstSku.
           sbind (resolveProductType (sk_productId firstSku) []) (\<lambda>(documentType, cache).
           sbind (reserveNextNumber (ds_id serie)) (\<lambda>correlative.
           sbind (createDocument (transfer_document input documentType (ds_id serie) correlative)) (\<lambda>document.
           sthen (sbind (sfold (transfer_item input (id_id document) documentType) (ti_items input) cache)
                    (\<lambda>_. sreturn ()))
             (sreturn (id_id document, DOC_DRAFT))))))))"

text \<open>The checks run before the transaction and only read.\<close>

definition transfer_between_warehouses ::
  "(string \<Rightarrow> int option) \<Rightarrow> transfer_input \<Rightarrow> (string \<times> doc_status) service" where
  "transfer_between_warehouses pd input =
     (case ti_items input of
        [] \<Rightarrow> sthrow (BadRequestException ''Necesita al menos 1 item'')
      | first # _ \<Rightarrow> sthen (check_transfer pd input) (create_transfer input first))"

end
