(* ===== verification/MovementLaws.thy ===== *)
theory MovementLaws
  imports InventoryMovements Conservation
begin

text \<open>
  What the movements of stock promise: a moved row is computed from the balance before and
  booked with the quantity that moved, balances stay valid, what is on hand stays what is
  booked, and a document goes through its states once.
\<close>

section \<open>One moved row\<close>

text \<open>The row of a warehouse, a stock item and a location.\<close>

definition balance_of :: "world \<Rightarrow> string \<Rightarrow> string \<Rightarrow> string option \<Rightarrow> inventory_balance" where
  "balance_of s w j loc = balance_at w j loc
     (map toBalance (filter (\<lambda>r. in_stockItemId r = j) (w_inventory s)))"

definition signed :: "direction \<Rightarrow> rat \<Rightarrow> rat" where
  "signed dir q = (if dir = IN_DIRECTION then q else - q)"

definition moved ::
  "world \<Rightarrow> inventory_balance \<Rightarrow> string \<Rightarrow> string \<Rightarrow> string option \<Rightarrow> rat \<Rightarrow> world \<Rightarrow> bool" where
  "moved s current w j loc delta s' \<longleftrightarrow> (\<exists>row. in_warehouseId row = w \<and> in_stockItemId row = j \<and>
     in_locationId row = loc \<and> of_int (in_onHand row) = ba_onHand current + delta \<and>
     of_int (in_reserved row) = ba_reserved current \<and>
     in_available row = Some (in_onHand row - in_reserved row) \<and>
     w_inventory s' = save_row row (w_inventory s) \<and> w_ledger s' = w_ledger s)"

lemma upsert_moved:
  assumes "upsert \<lparr>ba_warehouseId = w, ba_stockItemId = j, ba_locationId = loc, ba_onHand = h,
      ba_reserved = ba_reserved current, ba_available = h - ba_reserved current\<rparr> s = Inr (b, s')"
    and "h = ba_onHand current + delta"
  shows "moved s current w j loc delta s'"
proof -
  from upsert_Inr [OF assms(1)] obtain onHand reserved available where
    o: "of_int onHand = h" "of_int reserved = ba_reserved current"
      "(of_int available :: rat) = h - ba_reserved current" and
    s': "s' = s\<lparr>w_inventory := save_row \<lparr>in_warehouseId = w, in_stockItemId = j, in_locationId = loc,
       in_onHand = onHand, in_reserved = reserved, in_available = Some available\<rparr> (w_inventory s)\<rparr>"
    by auto
  have "(of_int available :: rat) = of_int (onHand - reserved)" using o by simp
  then have "available = onHand - reserved" by (simp only: of_int_eq_iff)
  then show ?thesis unfolding moved_def s'
    by (intro exI [of _ "\<lparr>in_warehouseId = w, in_stockItemId = j, in_locationId = loc,
        in_onHand = onHand, in_reserved = reserved, in_available = Some available\<rparr>"])
      (simp add: o(1,2) assms(2))
qed

lemma now_Inr: "now s = Inr (t, s') \<longleftrightarrow> t = c_now (w_catalog s) \<and> s' = s"
  by (auto simp: now_def sreads_Inr)

definition entry_of ::
  "inventory_document \<Rightarrow> inventory_document_item \<Rightarrow> string \<Rightarrow> direction \<Rightarrow> rat \<Rightarrow> string option \<Rightarrow>
   new_ledger_entry" where
  "entry_of document item w dir q loc = \<lparr>ne_docId = id_id document, ne_docItemId = Some (di_id item),
     ne_warehouseId = w, ne_stockItemId = di_stockItemId item, ne_direction = dir, ne_quantity = q,
     ne_locationId = loc, ne_wasteQty = Some (di_wasteQty item), ne_unitCost = di_unitCost item\<rparr>"

lemma log_of_Inr:
  "log_of document item w dir q loc b acc s = Inr (acc', s') \<Longrightarrow>
   s' = s \<and> fst acc' = fst acc @ [entry_of document item w dir q loc]"
  by (auto simp: log_of_def sbind_Inr sreturn_Inr now_Inr entry_of_def)

lemma listByStockItemId_Inr:
  "listByStockItemId j s = Inr (bs, s') \<longleftrightarrow>
   bs = map toBalance (filter (\<lambda>r. in_stockItemId r = j) (w_inventory s)) \<and> s' = s"
  by (auto simp: listByStockItemId_def sreads_Inr)

lemma getSnapshot_current:
  "getSnapshot w j (Some loc) s = Inr (b, s') \<Longrightarrow>
   s' = s \<and> or_default b (empty_balance w j loc) = current_balance s w j loc"
  by (simp add: getSnapshot_def sreads_Inr current_balance_def cong: option.case_cong)

text \<open>Each item of a document moves one row and books one entry.\<close>

lemma dispatch_item_Inr:
  assumes "dispatch_item document w item acc s = Inr (acc', s')"
  defines "loc \<equiv> or_else (di_fromLocationId item) (di_toLocationId item)"
    and "q \<equiv> of_int (di_quantity item)"
  shows "moved s (balance_of s w (di_stockItemId item) loc) w (di_stockItemId item) loc (- q) s' \<and>
    q \<le> ba_available (balance_of s w (di_stockItemId item) loc) \<and>
    q \<le> ba_onHand (balance_of s w (di_stockItemId item) loc) \<and>
    fst acc' = fst acc @ [entry_of document item w OUT_DIRECTION q loc]"
  using assms(1) unfolding dispatch_item_def Let_def loc_def [symmetric] q_def [symmetric]
  by (auto simp: action_Inr listByStockItemId_Inr balance_of_def dest!: log_of_Inr
      intro!: upsert_moved)

lemma adjust_item_Inr:
  assumes "adjust_item document w item acc s = Inr (acc', s')"
  defines "dir \<equiv> adjustment_direction item"
    and "loc \<equiv> (if adjustment_direction item = OUT_DIRECTION then di_fromLocationId item
                else di_toLocationId item)"
    and "q \<equiv> of_int \<bar>di_quantity item\<bar>"
  shows "moved s (current_balance s w (di_stockItemId item) loc) w (di_stockItemId item) loc
      (signed dir q) s' \<and>
    0 \<le> ba_onHand (current_balance s w (di_stockItemId item) loc) + signed dir q \<and>
    (dir = OUT_DIRECTION \<longrightarrow> q \<le> ba_available (current_balance s w (di_stockItemId item) loc)) \<and>
    fst acc' = fst acc @ [entry_of document item w dir q loc]"
  using assms(1) unfolding adjust_item_def Let_def dir_def loc_def q_def
  by (cases "adjustment_direction item")
     (auto simp: action_Inr signed_def simp del: of_int_abs dest!: getSnapshot_current log_of_Inr
        intro!: upsert_moved)

lemma receive_item_Inr:
  assumes "receive_item document w item acc s = Inr (acc', s')"
  defines "loc \<equiv> or_else (di_toLocationId item) (di_fromLocationId item)"
    and "q \<equiv> of_int (di_quantity item)"
  shows "moved s (current_balance s w (di_stockItemId item) loc) w (di_stockItemId item) loc q s' \<and>
    fst acc' = fst acc @ [entry_of document item w IN_DIRECTION q loc]"
  using assms(1) unfolding receive_item_def Let_def loc_def [symmetric] q_def [symmetric]
  by (auto simp: action_Inr dest!: getSnapshot_current log_of_Inr intro!: upsert_moved)

section \<open>The balance before\<close>

definition balance_valid :: "inventory_balance \<Rightarrow> bool" where
  "balance_valid b \<longleftrightarrow> 0 \<le> ba_reserved b \<and> ba_reserved b \<le> ba_onHand b \<and>
     ba_available b = ba_onHand b - ba_reserved b"

lemma toBalance_valid: "balance_ok r \<Longrightarrow> balance_valid (toBalance r)"
  by (simp add: balance_ok_def balance_valid_def toBalance_def)

lemma empty_balance_valid [simp]: "balance_valid (empty_balance w j loc)"
  by (simp add: balance_valid_def empty_balance_def)

lemma current_balance_valid: "inventory_ok s \<Longrightarrow> balance_valid (current_balance s w j loc)"
  by (auto simp: current_balance_def inventory_ok_def list_all_iff toBalance_valid
      dest!: inventory_row_of_SomeD split: option.splits)

lemma find_SomeD: "List.find p xs = Some x \<Longrightarrow> x \<in> set xs \<and> p x"
  by (auto simp: find_Some_iff)

lemma balance_of_row:
  "balance_of s w j loc = empty_balance w j loc \<or>
   (\<exists>r \<in> set (w_inventory s). balance_of s w j loc = toBalance r \<and> inventory_key w j r \<and>
      in_locationId r = loc)"
proof (cases "List.find (\<lambda>b. ba_warehouseId b = w \<and> ba_locationId b = loc)
    (map toBalance (filter (\<lambda>r. in_stockItemId r = j) (w_inventory s)))")
  case (Some b)
  from find_SomeD [OF this] Some show ?thesis
    by (auto simp: balance_of_def balance_at_def inventory_key_def toBalance_def)
qed (simp add: balance_of_def balance_at_def)

lemma balance_of_valid: "inventory_ok s \<Longrightarrow> balance_valid (balance_of s w j loc)"
  using balance_of_row [of s w j loc] by (auto simp: inventory_ok_def list_all_iff toBalance_valid)

lemma find_map_filter:
  "(\<And>r. q (f r) = p r) \<Longrightarrow> List.find q (map f (filter g xs)) = map_option f (List.find (\<lambda>r. g r \<and> p r) xs)"
  by (induction xs) auto

lemma find_cong_set: "(\<And>x. x \<in> set xs \<Longrightarrow> p x = q x) \<Longrightarrow> List.find p xs = List.find q xs"
  by (induction xs) auto

text \<open>Without locations the two ways to read a balance agree.\<close>

lemma balance_of_current:
  assumes "no_locations s"
  shows "balance_of s w j None = current_balance s w j None"
proof -
  have "List.find (\<lambda>b. ba_warehouseId b = w \<and> ba_locationId b = None)
      (map toBalance (filter (\<lambda>r. in_stockItemId r = j) (w_inventory s))) =
    map_option toBalance (List.find (\<lambda>r. in_stockItemId r = j \<and> in_warehouseId r = w \<and>
      in_locationId r = None) (w_inventory s))"
    by (rule find_map_filter) (simp add: toBalance_def)
  also have "List.find (\<lambda>r. in_stockItemId r = j \<and> in_warehouseId r = w \<and> in_locationId r = None)
      (w_inventory s) = inventory_row_of w j (w_inventory s)"
    unfolding inventory_row_of_def
    by (rule find_cong_set) (use assms in \<open>auto simp: no_locations_def list_all_iff inventory_key_def\<close>)
  finally show ?thesis
    using assms inventory_row_of_SomeD
    by (fastforce simp: balance_of_def balance_at_def current_balance_def no_locations_def list_all_iff
        split: option.splits)
qed

section \<open>Loops that move stock\<close>

lemma list_all2_in2: "list_all2 P xs ys \<Longrightarrow> y \<in> set ys \<Longrightarrow> \<exists>x \<in> set xs. P x y"
  by (induction xs ys rule: list_all2_induct) auto

text \<open>
  The interface of a step that moves one row of the warehouse \<open>w\<close> and collects the entry that
  books it; \<open>books\<close> says which entry an element of the loop gives.
\<close>

definition covers :: "new_ledger_entry \<Rightarrow> inventory_balance \<Rightarrow> bool" where
  "covers e b \<longleftrightarrow> 0 \<le> ba_reserved b \<and>
     ba_reserved b \<le> ba_onHand b + signed (ne_direction e) (ne_quantity e)"

definition harmless_entry :: "new_ledger_entry \<Rightarrow> bool" where
  "harmless_entry e \<longleftrightarrow> ne_direction e = OUT_DIRECTION \<or> 0 \<le> ne_quantity e"

locale stock_mover =
  fixes step :: "'x \<Rightarrow> 'acc \<Rightarrow> 'acc service" and entries :: "'acc \<Rightarrow> new_ledger_entry list"
    and w :: string and books :: "'x \<Rightarrow> new_ledger_entry \<Rightarrow> bool"
  assumes step_moves: "step x acc s = Inr (acc', s') \<Longrightarrow>
    \<exists>e b. books x e \<and> ne_warehouseId e = w \<and> entries acc' = entries acc @ [e] \<and>
      moved s b w (ne_stockItemId e) (ne_locationId e) (signed (ne_direction e) (ne_quantity e)) s' \<and>
      (no_locations s \<longrightarrow> ne_locationId e = None \<longrightarrow> ba_onHand b = of_int (on_hand s w (ne_stockItemId e))) \<and>
      (inventory_ok s \<longrightarrow> harmless_entry e \<longrightarrow> covers e b)"
begin

lemma moved_on_hand:
  assumes "moved s b w j None d s'" "no_locations s" "ba_onHand b = of_int (on_hand s w j)"
  shows "no_locations s' \<and>
    of_int (on_hand s' w' j') = of_int (on_hand s w' j') + (if w' = w \<and> j' = j then d else 0)"
proof -
  from assms(1) obtain row where
    row: "in_warehouseId row = w" "in_stockItemId row = j" "in_locationId row = None"
      "of_int (in_onHand row) = ba_onHand b + d" "w_inventory s' = save_row row (w_inventory s)"
    by (auto simp: moved_def)
  then show ?thesis
    using no_locations_save_row [OF assms(2) row(3)] assms(3)
    by (auto simp: on_hand_def inventory_key_def no_locations_def)
qed

lemma moved_inventory_ok:
  assumes "moved s b w j loc (signed (ne_direction e) (ne_quantity e)) s'" "inventory_ok s" "covers e b"
  shows "inventory_ok s'"
proof -
  from assms(1) obtain row where
    row: "of_int (in_onHand row) = ba_onHand b + signed (ne_direction e) (ne_quantity e)"
      "of_int (in_reserved row) = ba_reserved b"
      "in_available row = Some (in_onHand row - in_reserved row)"
      "w_inventory s' = save_row row (w_inventory s)"
    by (auto simp: moved_def)
  have "(0 :: rat) \<le> of_int (in_reserved row)" "(of_int (in_reserved row) :: rat) \<le> of_int (in_onHand row)"
    using assms(3) by (simp_all only: covers_def row(1,2))
  then have "balance_ok row" by (simp add: balance_ok_def row(3))
  then show ?thesis
    using inventory_ok_save_row [OF assms(2)] row(4) by (simp add: inventory_ok_def)
qed

lemma loop_moves:
  "sfold step xs acc s = Inr (acc', s') \<Longrightarrow>
   \<exists>es. entries acc' = entries acc @ es \<and> list_all2 books xs es \<and>
     w_ledger s' = w_ledger s \<and>
     (no_locations s \<longrightarrow> (\<forall>e \<in> set es. ne_locationId e = None) \<longrightarrow> no_locations s' \<and>
        (\<forall>w' j. of_int (on_hand s' w' j) = of_int (on_hand s w' j) + collected es w' j)) \<and>
     (inventory_ok s \<longrightarrow> (\<forall>e \<in> set es. harmless_entry e) \<longrightarrow> inventory_ok s')"
proof (induction xs arbitrary: acc s)
  case Nil
  then show ?case by (simp add: sreturn_Inr collected_def)
next
  case (Cons x xs)
  then obtain acc1 s1 where "step x acc s = Inr (acc1, s1)" and rest: "sfold step xs acc1 s1 = Inr (acc', s')"
    by (auto simp: sbind_Inr)
  from step_moves [OF this(1)] obtain e b where
    e: "books x e" "ne_warehouseId e = w" "entries acc1 = entries acc @ [e]" and
    m: "moved s b w (ne_stockItemId e) (ne_locationId e) (signed (ne_direction e) (ne_quantity e)) s1" and
    b: "no_locations s \<longrightarrow> ne_locationId e = None \<longrightarrow> ba_onHand b = of_int (on_hand s w (ne_stockItemId e))"
       "inventory_ok s \<longrightarrow> harmless_entry e \<longrightarrow> covers e b"
    by (elim exE conjE) (rule that)
  from Cons.IH [OF rest] obtain es where
    es: "entries acc' = entries acc1 @ es" "list_all2 books xs es" "w_ledger s' = w_ledger s1"
      "no_locations s1 \<longrightarrow> (\<forall>e \<in> set es. ne_locationId e = None) \<longrightarrow> no_locations s' \<and>
        (\<forall>w' j. of_int (on_hand s' w' j) = of_int (on_hand s1 w' j) + collected es w' j)"
      "inventory_ok s1 \<longrightarrow> (\<forall>e \<in> set es. harmless_entry e) \<longrightarrow> inventory_ok s'"
    by (elim exE conjE) (rule that)
  have c: "collected (e # es) w' j = collected es w' j +
      (if w' = w \<and> j = ne_stockItemId e then signed (ne_direction e) (ne_quantity e) else 0)" for w' j
    using e(2) by (auto simp: collected_def collected_entry_def signed_def)
  have "w_ledger s1 = w_ledger s" using m by (auto simp: moved_def)
  moreover have "no_locations s' \<and> (\<forall>w' j. of_int (on_hand s' w' j) = of_int (on_hand s w' j) + collected (e # es) w' j)"
    if "no_locations s" "\<forall>e' \<in> set (e # es). ne_locationId e' = None"
    using moved_on_hand [of s b "ne_stockItemId e" _ s1] m b(1) es(4) that by (auto simp: c)
  moreover have "inventory_ok s'" if "inventory_ok s" "\<forall>e' \<in> set (e # es). harmless_entry e'"
    using moved_inventory_ok [OF m] b(2) es(5) that by simp
  ultimately show ?case
    using e es(1,2,3) by (intro exI [of _ "e # es"]) simp
qed

text \<open>When the entries are a function of the elements, the change of what is on hand is theirs.\<close>

lemma books_map: "list_all2 books xs es \<Longrightarrow> (\<And>x e. books x e \<Longrightarrow> e = f x) \<Longrightarrow> es = map f xs"
  by (induction xs es rule: list_all2_induct) auto

lemma loop_on_hand:
  assumes "sfold step xs acc s = Inr (acc', s')" "\<And>x e. books x e \<Longrightarrow> e = f x"
    and "no_locations s" "\<And>x. x \<in> set xs \<Longrightarrow> ne_locationId (f x) = None"
  shows "of_int (on_hand s' w' j) = of_int (on_hand s w' j) + collected (map f xs) w' j"
proof -
  from loop_moves [OF assms(1)] obtain es where es: "list_all2 books xs es" and
    m: "no_locations s \<longrightarrow> (\<forall>e \<in> set es. ne_locationId e = None) \<longrightarrow> no_locations s' \<and>
      (\<forall>w' j. of_int (on_hand s' w' j) = of_int (on_hand s w' j) + collected es w' j)"
    by (elim exE conjE) (rule that)
  have "es = map f xs" by (rule books_map [OF es assms(2)])
  then show ?thesis using m assms(3,4) by simp
qed

text \<open>What is collected is booked, so on hand and booked change alike.\<close>

lemma loop_conserves:
  assumes "sfold step xs acc s = Inr (acc', s1)" "entries acc = []"
    and "ledger_rows (entries acc') = Inr rows" "w_ledger s' = w_ledger s1 @ rows"
    and "w_inventory s' = w_inventory s1" "\<And>x e. x \<in> set xs \<Longrightarrow> books x e \<Longrightarrow> ne_locationId e = None"
  shows "conserved s s'"
proof -
  from loop_moves [OF assms(1)] obtain es where
    es: "entries acc' = es" "list_all2 books xs es" and l: "w_ledger s1 = w_ledger s" and
    m: "no_locations s \<longrightarrow> (\<forall>e \<in> set es. ne_locationId e = None) \<longrightarrow> no_locations s1 \<and>
      (\<forall>w' j. of_int (on_hand s1 w' j) = of_int (on_hand s w' j) + collected es w' j)"
    unfolding assms(2) append_Nil by (elim exE conjE) (rule that)
  have "\<forall>e \<in> set es. ne_locationId e = None" using list_all2_in2 [OF es(2)] assms(6) by blast
  with m have m: "no_locations s \<longrightarrow> no_locations s1 \<and> (\<forall>w' j. of_int (on_hand s1 w' j) =
      of_int (on_hand s w' j) + collected (entries acc') w' j)"
    by (simp add: es(1))
  have "on_hand s' w' j - booked s' w' j = on_hand s w' j - booked s w' j" if "no_locations s" for w' j
  proof -
    have "(of_int (on_hand s1 w' j) :: rat) =
        of_int (on_hand s w' j + sum_list (map (booked_row w' j) rows))"
      using m that ledger_rows_collected [OF assms(3), of w' j] by simp
    then have "on_hand s1 w' j = on_hand s w' j + sum_list (map (booked_row w' j) rows)"
      by (simp only: of_int_eq_iff)
    then show ?thesis by (simp add: booked_def assms(4) l) (simp add: on_hand_def assms(5))
  qed
  then show ?thesis using m by (simp add: conserved_def no_locations_def assms(5))
qed

lemma loop_keeps_balances:
  assumes "sfold step xs acc s = Inr (acc', s')" "inventory_ok s"
    and "\<And>x e. x \<in> set xs \<Longrightarrow> books x e \<Longrightarrow> harmless_entry e"
  shows "inventory_ok s'"
proof -
  from loop_moves [OF assms(1)] obtain es where es: "list_all2 books xs es" and
    m: "inventory_ok s \<longrightarrow> (\<forall>e \<in> set es. harmless_entry e) \<longrightarrow> inventory_ok s'"
    by (elim exE conjE) (rule that)
  show ?thesis using m assms(2,3) list_all2_in2 [OF es] by blast
qed

end

section \<open>The steps of the use cases\<close>

lemma valid_covers_out:
  "balance_valid b \<Longrightarrow> ne_direction e = OUT_DIRECTION \<Longrightarrow> ne_quantity e \<le> ba_available b \<Longrightarrow> covers e b"
  by (auto simp: balance_valid_def covers_def signed_def)

lemma valid_covers_in:
  "balance_valid b \<Longrightarrow> ne_direction e = IN_DIRECTION \<Longrightarrow> harmless_entry e \<Longrightarrow> covers e b"
  by (auto simp: balance_valid_def covers_def signed_def harmless_entry_def)

lemma balance_of_on_hand:
  "no_locations s \<Longrightarrow> ba_onHand (balance_of s w j None) = of_int (on_hand s w j)"
  by (simp add: balance_of_current current_on_hand)

lemma entry_of_sel [simp]:
  "ne_docId (entry_of d item w dir q loc) = id_id d"
  "ne_warehouseId (entry_of d item w dir q loc) = w"
  "ne_stockItemId (entry_of d item w dir q loc) = di_stockItemId item"
  "ne_direction (entry_of d item w dir q loc) = dir" "ne_quantity (entry_of d item w dir q loc) = q"
  "ne_locationId (entry_of d item w dir q loc) = loc"
  by (simp_all add: entry_of_def)

definition dispatch_entry :: "inventory_document \<Rightarrow> string \<Rightarrow> inventory_document_item \<Rightarrow> new_ledger_entry" where
  "dispatch_entry document w item = entry_of document item w OUT_DIRECTION (of_int (di_quantity item))
     (or_else (di_fromLocationId item) (di_toLocationId item))"

definition receive_entry :: "inventory_document \<Rightarrow> string \<Rightarrow> inventory_document_item \<Rightarrow> new_ledger_entry" where
  "receive_entry document w item = entry_of document item w IN_DIRECTION (of_int (di_quantity item))
     (or_else (di_toLocationId item) (di_fromLocationId item))"

definition adjust_entry :: "inventory_document \<Rightarrow> string \<Rightarrow> inventory_document_item \<Rightarrow> new_ledger_entry" where
  "adjust_entry document w item = entry_of document item w (adjustment_direction item)
     (of_int \<bar>di_quantity item\<bar>)
     (if adjustment_direction item = OUT_DIRECTION then di_fromLocationId item else di_toLocationId item)"

interpretation dispatching: stock_mover "dispatch_item document w" fst w
  "\<lambda>item e. e = dispatch_entry document w item" for document w
proof
  fix item acc s acc' s'
  assume "dispatch_item document w item acc s = Inr (acc', s')"
  note d = dispatch_item_Inr [OF this]
  let ?e = "dispatch_entry document w item"
  let ?b = "balance_of s w (di_stockItemId item) (ne_locationId ?e)"
  show "\<exists>e b. e = ?e \<and> ne_warehouseId e = w \<and> fst acc' = fst acc @ [e] \<and>
      moved s b w (ne_stockItemId e) (ne_locationId e) (signed (ne_direction e) (ne_quantity e)) s' \<and>
      (no_locations s \<longrightarrow> ne_locationId e = None \<longrightarrow> ba_onHand b = of_int (on_hand s w (ne_stockItemId e))) \<and>
      (inventory_ok s \<longrightarrow> harmless_entry e \<longrightarrow> covers e b)"
    using d balance_of_on_hand [of s w "di_stockItemId item"] balance_of_valid [of s]
    by (intro exI [of _ ?e] exI [of _ ?b]) (auto simp: dispatch_entry_def signed_def intro: valid_covers_out)
qed

interpretation receiving: stock_mover "receive_item document w" fst w
  "\<lambda>item e. e = receive_entry document w item" for document w
proof
  fix item acc s acc' s'
  assume "receive_item document w item acc s = Inr (acc', s')"
  note d = receive_item_Inr [OF this]
  let ?e = "receive_entry document w item"
  let ?b = "current_balance s w (di_stockItemId item) (ne_locationId ?e)"
  show "\<exists>e b. e = ?e \<and> ne_warehouseId e = w \<and> fst acc' = fst acc @ [e] \<and>
      moved s b w (ne_stockItemId e) (ne_locationId e) (signed (ne_direction e) (ne_quantity e)) s' \<and>
      (no_locations s \<longrightarrow> ne_locationId e = None \<longrightarrow> ba_onHand b = of_int (on_hand s w (ne_stockItemId e))) \<and>
      (inventory_ok s \<longrightarrow> harmless_entry e \<longrightarrow> covers e b)"
    using d current_on_hand [of s w "di_stockItemId item"] current_balance_valid [of s]
    by (intro exI [of _ ?e] exI [of _ ?b]) (auto simp: receive_entry_def signed_def intro: valid_covers_in)
qed

interpretation adjusting: stock_mover "adjust_item document w" fst w
  "\<lambda>item e. e = adjust_entry document w item" for document w
proof
  fix item acc s acc' s'
  assume "adjust_item document w item acc s = Inr (acc', s')"
  note d = adjust_item_Inr [OF this]
  let ?e = "adjust_entry document w item"
  let ?b = "current_balance s w (di_stockItemId item) (ne_locationId ?e)"
  have "harmless_entry ?e" by (simp add: harmless_entry_def adjust_entry_def)
  then have "covers ?e ?b" if "inventory_ok s"
    using d current_balance_valid [OF that] by (cases "adjustment_direction item")
      (auto simp: adjust_entry_def intro: valid_covers_in valid_covers_out)
  then show "\<exists>e b. e = ?e \<and> ne_warehouseId e = w \<and> fst acc' = fst acc @ [e] \<and>
      moved s b w (ne_stockItemId e) (ne_locationId e) (signed (ne_direction e) (ne_quantity e)) s' \<and>
      (no_locations s \<longrightarrow> ne_locationId e = None \<longrightarrow> ba_onHand b = of_int (on_hand s w (ne_stockItemId e))) \<and>
      (inventory_ok s \<longrightarrow> harmless_entry e \<longrightarrow> covers e b)"
    using d current_on_hand [of s w "di_stockItemId item"]
    by (intro exI [of _ ?e] exI [of _ ?b])
       (auto simp: adjust_entry_def simp del: of_int_abs split del: if_split)
qed

text \<open>What a row of a movement may write before it moves stock.\<close>

lemma ensure_stock_item_Inr:
  "ensure_stock_item k s = Inr (x, s') \<Longrightarrow> s' = s \<or>
   (\<exists>row. s' = s\<lparr>w_next := Suc (w_next s),
      w_catalog := (w_catalog s)\<lparr>c_stockItems := c_stockItems (w_catalog s) @ [row]\<rparr>\<rparr>)"
  by (auto simp: ensure_stock_item_def createStockItem_def saveStockItem_def findBySkuId_def
      findSkuById_def fresh_id_def now_def action_simps Let_def split: option.splits if_splits)

lemma require_sku_Inr: "require_sku k s = Inr (x, s') \<Longrightarrow> s' = s"
  by (auto simp: require_sku_def findSkuById_def action_simps split: option.splits)

definition movement_entry :: "movement_input \<Rightarrow> string \<Rightarrow> movement_row \<Rightarrow> new_ledger_entry \<Rightarrow> bool" where
  "movement_entry input docId row e \<longleftrightarrow> ne_docId e = docId \<and>
     or_else (mr_direction row) (mi_direction input) = Some (ne_direction e) \<and>
     mr_quantity row = Some (ne_quantity e) \<and> 0 < ne_quantity e \<and>
     ne_locationId e = or_else (mr_locationId row) (mi_locationId input)"

lemma post_movement_Inr:
  assumes "post_movement input docId row dir q loc k j itemId s = Inr ((b, e), s')"
  shows "ne_docId e = docId \<and> ne_warehouseId e = mi_warehouseId input \<and> ne_stockItemId e = j \<and>
    ne_direction e = dir \<and> ne_quantity e = q \<and> ne_locationId e = loc \<and>
    moved s (balance_of s (mi_warehouseId input) j loc) (mi_warehouseId input) j loc (signed dir q) s' \<and>
    (dir = OUT_DIRECTION \<longrightarrow> q \<le> ba_available (balance_of s (mi_warehouseId input) j loc))"
  using assms unfolding post_movement_def Let_def
  by (cases dir) (auto simp: action_Inr listByStockItemId_Inr balance_of_def signed_def
      intro!: upsert_moved)

lemma moved_same: "w_inventory s = w_inventory t \<Longrightarrow> w_ledger s = w_ledger t \<Longrightarrow>
    moved s b w j loc d s' = moved t b w j loc d s'"
  by (simp add: moved_def)

lemma register_item_Inr:
  assumes "register_item input docId True row acc s = Inr (acc', s')"
  shows "\<exists>e. movement_entry input docId row e \<and> ne_warehouseId e = mi_warehouseId input \<and>
    fst acc' = fst acc @ [e] \<and>
    moved s (balance_of s (mi_warehouseId input) (ne_stockItemId e) (ne_locationId e))
      (mi_warehouseId input) (ne_stockItemId e) (ne_locationId e)
      (signed (ne_direction e) (ne_quantity e)) s' \<and>
    (ne_direction e = OUT_DIRECTION \<longrightarrow> ne_quantity e \<le>
       ba_available (balance_of s (mi_warehouseId input) (ne_stockItemId e) (ne_locationId e)))"
proof -
  let ?loc = "or_else (mr_locationId row) (mi_locationId input)"
  obtain dir q k x s1 item s2 b e where
    d: "or_else (mr_direction row) (mi_direction input) = Some dir" "mr_quantity row = Some q" "0 < q" and
    k: "ensure_stock_item (mr_skuId row) s = Inr (x, s1)" and
    a: "\<exists>n l l' c. addItem docId (si_id x) n 0 l l' c s1 = Inr (item, s2)" and
    p: "post_movement input docId row dir q ?loc k (si_id x) (di_id item) s2 = Inr ((b, e), s')" and
    acc: "fst acc' = fst acc @ [e]"
    using assms unfolding register_item_def Let_def
    by (auto simp: action_Inr split: option.splits dest!: require_sku_Inr) blast
  have s: "w_inventory s2 = w_inventory s" "w_ledger s2 = w_ledger s"
    using ensure_stock_item_Inr [OF k] a by (auto dest!: addItem_Inr)
  then have b: "balance_of s2 = balance_of s" by (simp add: balance_of_def fun_eq_iff)
  show ?thesis
    using post_movement_Inr [OF p] d acc
    by (intro exI [of _ e]) (simp add: movement_entry_def b moved_same [OF s])
qed

interpretation registering: stock_mover "register_item input docId True" fst "mi_warehouseId input"
  "movement_entry input docId" for input docId
proof
  fix row acc s acc' s'
  assume "register_item input docId True row acc s = Inr (acc', s')"
  from register_item_Inr [OF this] obtain e where
    e: "movement_entry input docId row e" "ne_warehouseId e = mi_warehouseId input"
      "fst acc' = fst acc @ [e]" and
    m: "moved s (balance_of s (mi_warehouseId input) (ne_stockItemId e) (ne_locationId e))
      (mi_warehouseId input) (ne_stockItemId e) (ne_locationId e)
      (signed (ne_direction e) (ne_quantity e)) s'" and
    q: "ne_direction e = OUT_DIRECTION \<longrightarrow> ne_quantity e \<le>
      ba_available (balance_of s (mi_warehouseId input) (ne_stockItemId e) (ne_locationId e))"
    by auto
  let ?b = "balance_of s (mi_warehouseId input) (ne_stockItemId e) (ne_locationId e)"
  have "covers e ?b" if "inventory_ok s" "harmless_entry e"
    using q balance_of_valid [OF that(1)] that(2)
    by (cases "ne_direction e") (auto intro: valid_covers_in valid_covers_out)
  then show "\<exists>e b. movement_entry input docId row e \<and> ne_warehouseId e = mi_warehouseId input \<and>
      fst acc' = fst acc @ [e] \<and>
      moved s b (mi_warehouseId input) (ne_stockItemId e) (ne_locationId e)
        (signed (ne_direction e) (ne_quantity e)) s' \<and>
      (no_locations s \<longrightarrow> ne_locationId e = None \<longrightarrow>
        ba_onHand b = of_int (on_hand s (mi_warehouseId input) (ne_stockItemId e))) \<and>
      (inventory_ok s \<longrightarrow> harmless_entry e \<longrightarrow> covers e b)"
    using e m balance_of_on_hand by (intro exI [of _ e] exI [of _ ?b]) simp
qed

section \<open>What else the loops write\<close>

text \<open>The items of a document that is dispatched, adjusted or received write the inventory only.\<close>

definition only_inventory :: "world \<Rightarrow> world \<Rightarrow> bool" where
  "only_inventory s s' \<longleftrightarrow> (\<exists>inv. s' = s\<lparr>w_inventory := inv\<rparr>)"

interpretation inventory_writes: preorder_on_states only_inventory
proof
  show "only_inventory s s" for s
    unfolding only_inventory_def by (rule exI [of _ "w_inventory s"]) simp
qed (auto simp: only_inventory_def)

lemma inventory_write:
  "relates only_inventory (upsert b)" "relates only_inventory (listByStockItemId j)"
  "relates only_inventory (getSnapshot w j loc)" "relates only_inventory now"
  using inventory_writes.R_refl
  by (auto simp: ensures_def listByStockItemId_def getSnapshot_def now_def sreads_Inr)
     (auto simp: only_inventory_def dest!: upsert_Inr)

lemma item_writes:
  "relates only_inventory (dispatch_item document w item acc)"
  "relates only_inventory (adjust_item document w item acc)"
  "relates only_inventory (receive_item document w item acc)"
  unfolding dispatch_item_def adjust_item_def receive_item_def log_of_def
  by (intro inventory_writes.relates_bind inventory_writes.step_rules inventory_write ensures_cases TrueI)+

lemmas items_only_inventory = item_writes [THEN inventory_writes.relates_fold, THEN relatesD]

end
