(* ===== verification/MovementSteps.thy ===== *)
theory MovementSteps
  imports MovementLaws
begin

text \<open>
  The use cases of \<open>InventoryMovements\<close> as steps of a state machine: what each call that
  succeeds writes, the invariant of documents and items, and the life of a document over any
  sequence of calls.
\<close>

section \<open>What the calls write\<close>

definition dispatched :: "string \<Rightarrow> string \<Rightarrow> int \<Rightarrow> inventory_document list \<Rightarrow> inventory_document list" where
  "dispatched i u t = update_where
     (\<lambda>d. id_id d = i \<and> id_status d = DOC_DRAFT \<and> id_docType d = TRANSFER)
     (\<lambda>d. d\<lparr>id_status := IN_TRANSIT, id_dispatchedBy := Some u, id_dispatchedAt := Some t\<rparr>)"

definition received :: "string \<Rightarrow> string \<Rightarrow> int \<Rightarrow> inventory_document list \<Rightarrow> inventory_document list" where
  "received i u t = update_where
     (\<lambda>d. id_id d = i \<and> id_status d = IN_TRANSIT \<and> id_docType d = TRANSFER)
     (\<lambda>d. d\<lparr>id_status := DOC_POSTED, id_receivedBy := Some u, id_receivedAt := Some t,
            id_postedBy := Some u, id_postedAt := Some t\<rparr>)"

definition posted :: "string \<Rightarrow> string option \<Rightarrow> int \<Rightarrow> inventory_document list \<Rightarrow> inventory_document list" where
  "posted i u t = update_where (\<lambda>d. id_id d = i)
     (\<lambda>d. d\<lparr>id_status := DOC_POSTED, id_postedBy := u, id_postedAt := Some t\<rparr>)"

definition items_of :: "world \<Rightarrow> string \<Rightarrow> inventory_document_item list" where
  "items_of s i = filter (\<lambda>x. di_docId x = i) (w_documentItems s)"

text \<open>A state that differs in the inventory, the ledger and the documents.\<close>

definition booked_in ::
  "world \<Rightarrow> world \<Rightarrow> new_ledger_entry list \<Rightarrow> inventory_document list \<Rightarrow> world \<Rightarrow> bool" where
  "booked_in s s1 entries ds s' \<longleftrightarrow> (\<exists>rows. ledger_rows entries = Inr rows \<and>
     s' = s\<lparr>w_inventory := w_inventory s1, w_ledger := w_ledger s @ rows, w_documents := ds\<rparr>)"

lemma books_after_loop:
  assumes "only_inventory s s1"
    and "swhen (es \<noteq> []) (appendLedger es) s1 = Inr (u, s2) \<or> appendLedger es s1 = Inr (u, s2)"
    and "s' = s2\<lparr>w_documents := f (c_now (w_catalog s2)) (w_documents s2)\<rparr>"
  shows "booked_in s s1 es (f (c_now (w_catalog s)) (w_documents s)) s'"
proof -
  obtain rows where "ledger_rows es = Inr rows" "s2 = s1\<lparr>w_ledger := w_ledger s1 @ rows\<rparr>"
    using assms(2) by (cases "es = []") (auto simp: swhen_Inr dest: appendLedger_Inr)
  moreover obtain inv where "s1 = s\<lparr>w_inventory := inv\<rparr>"
    using assms(1) unfolding only_inventory_def by blast
  ultimately show ?thesis unfolding booked_in_def assms(3) by auto
qed

lemma only_inventory_loops:
  "dispatch_items d items s = Inr (acc, s') \<Longrightarrow> only_inventory s s'"
  "adjust_items d items s = Inr (acc, s') \<Longrightarrow> only_inventory s s'"
  by (auto simp: dispatch_items_def adjust_items_def sbind_Inr now_Inr sthrow_Inr
      split: option.splits if_splits dest: items_only_inventory)

lemma process_document_Inr:
  assumes "process_document i u s = Inr ((st, evs), s')"
  shows "\<exists>d entries events s1 t. find_by id_id i (w_documents s) = Some d \<and>
    id_status d = DOC_DRAFT \<and>
    (id_docType d = TRANSFER \<and> st = IN_TRANSIT \<and>
       dispatch_items d (items_of s (id_id d)) s = Inr ((entries, events), s1) \<and>
       booked_in s s1 entries (dispatched (id_id d) u t (w_documents s)) s' \<or>
     id_docType d = ADJUSTMENT \<and> st = DOC_POSTED \<and>
       adjust_items d (items_of s (id_id d)) s = Inr ((entries, events), s1) \<and>
       booked_in s s1 entries (posted (id_id d) (Some u) t (w_documents s)) s')"
proof -
  obtain d where d: "find_by id_id i (w_documents s) = Some d" "id_status d = DOC_DRAFT"
    "id_docType d = TRANSFER \<or> id_docType d = ADJUSTMENT"
    and r: "sbind (if id_docType d = TRANSFER then dispatch_items d (items_of s (id_id d))
        else adjust_items d (items_of s (id_id d))) (\<lambda>(entries, events).
         sthen (swhen (entries \<noteq> []) (appendLedger entries))
        (sbind now (\<lambda>processedAt.
           if id_docType d = TRANSFER
           then sthen (markInTransit (id_id d) u processedAt) (sreturn (IN_TRANSIT, events))
           else sthen (markPosted (id_id d) (Some u) processedAt) (sreturn (DOC_POSTED, events))))) s
      = Inr ((st, evs), s')"
    using assms unfolding process_document_def findDocumentForUpdate_def listItems_def
    by (auto simp: sbind_Inr sthen_Inr sreads_Inr sguard_Inr sthrow_Inr items_of_def split: option.splits)
  show ?thesis
  proof (cases "id_docType d = TRANSFER")
    case True
    with r obtain entries events s1 s2 where
      l: "dispatch_items d (items_of s (id_id d)) s = Inr ((entries, events), s1)" and
      a: "swhen (entries \<noteq> []) (appendLedger entries) s1 = Inr ((), s2)" and
      s': "s' = s2\<lparr>w_documents := dispatched (id_id d) u (c_now (w_catalog s2)) (w_documents s2)\<rparr>"
         "st = IN_TRANSIT"
      by (auto simp: sbind_Inr sthen_Inr now_Inr markInTransit_def smodify_Inr sreturn_Inr dispatched_def)
    have "booked_in s s1 entries (dispatched (id_id d) u (c_now (w_catalog s)) (w_documents s)) s'"
      by (rule books_after_loop [OF only_inventory_loops(1) [OF l]]) (use a s' in auto)
    with d l s' True show ?thesis by blast
  next
    case False
    with r obtain entries events s1 s2 where
      l: "adjust_items d (items_of s (id_id d)) s = Inr ((entries, events), s1)" and
      a: "swhen (entries \<noteq> []) (appendLedger entries) s1 = Inr ((), s2)" and
      s': "s' = s2\<lparr>w_documents := posted (id_id d) (Some u) (c_now (w_catalog s2)) (w_documents s2)\<rparr>"
         "st = DOC_POSTED"
      by (auto simp: sbind_Inr sthen_Inr now_Inr markPosted_def smodify_Inr sreturn_Inr posted_def)
    have "booked_in s s1 entries (posted (id_id d) (Some u) (c_now (w_catalog s)) (w_documents s)) s'"
      by (rule books_after_loop [OF only_inventory_loops(2) [OF l]]) (use a s' in auto)
    with d l s' False show ?thesis by blast
  qed
qed

lemma process_document_cases [consumes 1, case_names dispatch adjust]:
  assumes "process_document i u s = Inr (r, s')"
  obtains d entries events s1 t where "find_by id_id i (w_documents s) = Some d"
      "id_status d = DOC_DRAFT" "id_docType d = TRANSFER" "fst r = IN_TRANSIT"
      "dispatch_items d (items_of s (id_id d)) s = Inr ((entries, events), s1)"
      "booked_in s s1 entries (dispatched (id_id d) u t (w_documents s)) s'"
    | d entries events s1 t where "find_by id_id i (w_documents s) = Some d"
      "id_status d = DOC_DRAFT" "id_docType d = ADJUSTMENT" "fst r = DOC_POSTED"
      "adjust_items d (items_of s (id_id d)) s = Inr ((entries, events), s1)"
      "booked_in s s1 entries (posted (id_id d) (Some u) t (w_documents s)) s'"
proof -
  have "process_document i u s = Inr ((fst r, snd r), s')" using assms by simp
  from process_document_Inr [OF this] show thesis
    by (elim exE conjE disjE) ((rule that(1); assumption) | (rule that(2); assumption))+
qed

lemma receive_transfer_Inr:
  assumes "receive_transfer i u s = Inr ((st, evs), s')"
  shows "\<exists>d w entries events s1 t. find_by id_id i (w_documents s) = Some d \<and>
    id_status d = IN_TRANSIT \<and> id_docType d = TRANSFER \<and> st = DOC_POSTED \<and>
    nonempty (id_toWarehouseId d) = Some w \<and>
    sfold (receive_item d w) (items_of s (id_id d)) ([], []) s = Inr ((entries, events), s1) \<and>
    booked_in s s1 entries (received (id_id d) u t (w_documents s)) s'"
proof -
  obtain d w entries events s1 s2 where
    d: "find_by id_id i (w_documents s) = Some d" "id_status d = IN_TRANSIT" "id_docType d = TRANSFER"
      "nonempty (id_toWarehouseId d) = Some w" and
    l: "sfold (receive_item d w) (items_of s (id_id d)) ([], []) s = Inr ((entries, events), s1)" and
    a: "appendLedger entries s1 = Inr ((), s2)" and
    s': "s' = s2\<lparr>w_documents := received (id_id d) u (c_now (w_catalog s2)) (w_documents s2)\<rparr>"
      "st = DOC_POSTED"
    using assms unfolding receive_transfer_def findDocumentForUpdate_def listItems_def
    by (auto simp: sbind_Inr sthen_Inr sreads_Inr sguard_Inr sthrow_Inr items_of_def now_Inr
        markReceived_def smodify_Inr sreturn_Inr received_def split: option.splits)
  have "booked_in s s1 entries (received (id_id d) u (c_now (w_catalog s)) (w_documents s)) s'"
    by (rule books_after_loop [OF items_only_inventory(3) [OF l]]) (use a s' in auto)
  with d l s' show ?thesis by blast
qed

lemma receive_transfer_cases [consumes 1]:
  assumes "receive_transfer i u s = Inr (r, s')"
  obtains d w entries events s1 t where "find_by id_id i (w_documents s) = Some d"
    "id_status d = IN_TRANSIT" "id_docType d = TRANSFER" "fst r = DOC_POSTED"
    "nonempty (id_toWarehouseId d) = Some w"
    "sfold (receive_item d w) (items_of s (id_id d)) ([], []) s = Inr ((entries, events), s1)"
    "booked_in s s1 entries (received (id_id d) u t (w_documents s)) s'"
proof -
  have "receive_transfer i u s = Inr ((fst r, snd r), s')" using assms by simp
  from receive_transfer_Inr [OF this] show thesis by (elim exE conjE) (rule that)
qed

section \<open>New documents\<close>

lemma createDocument_id:
  "createDocument document s = Inr (x, s') \<Longrightarrow>
   x = document\<lparr>id_id := c_uuid (w_catalog s) (w_next s)\<rparr> \<and>
   s' = s\<lparr>w_next := Suc (w_next s), w_documents := w_documents s @ [x]\<rparr>"
  by (auto simp: createDocument_def action_Inr Let_def fresh_id_def)

text \<open>The items of a new document are added one by one; nothing else of the documents changes.\<close>

definition adds_items :: "(inventory_document_item \<Rightarrow> bool) \<Rightarrow> world \<Rightarrow> world \<Rightarrow> bool" where
  "adds_items P s s' \<longleftrightarrow> w_documents s' = w_documents s \<and>
     c_uuid (w_catalog s') = c_uuid (w_catalog s) \<and> w_next s \<le> w_next s' \<and>
     (\<exists>items. w_documentItems s' = w_documentItems s @ items \<and> list_all P items)"

lemma adds_none:
  "w_documents s' = w_documents s \<Longrightarrow> w_documentItems s' = w_documentItems s \<Longrightarrow>
   c_uuid (w_catalog s') = c_uuid (w_catalog s) \<Longrightarrow> w_next s \<le> w_next s' \<Longrightarrow> adds_items P s s'"
  by (simp add: adds_items_def)

interpretation adding: preorder_on_states "adds_items P" for P
proof
  show "adds_items P s s" for s by (rule adds_none) simp_all
  show "adds_items P s u" if "adds_items P s t" "adds_items P t u" for s t u
    using that unfolding adds_items_def by (metis append.assoc le_trans list_all_append)
qed

lemma adds_moved: "only_inventory s s' \<Longrightarrow> adds_items P s s'"
  by (auto simp: only_inventory_def intro: adds_none)

lemma adding_writes:
  "relates (adds_items P) (require_sku k)" "relates (adds_items P) (ensure_stock_item k)"
  "relates (adds_items P) (resolveProductType p c)"
  "relates (adds_items P) (post_movement input docId row dir q loc k' j itemId)"
proof -
  show "relates (adds_items P) (require_sku k)" "relates (adds_items P) (ensure_stock_item k)"
    using adding.R_refl
    by (auto simp: ensures_def dest!: require_sku_Inr ensure_stock_item_Inr intro: adds_none)
  show "relates (adds_items P) (resolveProductType p c)"
    unfolding resolveProductType_def findProductById_def
    by (intro ensures_option adding.relates_bind adding.step_rules TrueI)
  have "relates only_inventory (post_movement input docId row dir q loc k' j itemId)"
    unfolding post_movement_def
    by (intro inventory_writes.relates_bind inventory_writes.step_rules inventory_write ensures_cases TrueI)
  then show "relates (adds_items P) (post_movement input docId row dir q loc k' j itemId)"
    by (auto simp: ensures_def intro: adds_moved)
qed

definition item_of_doc :: "string \<Rightarrow> doc_type \<Rightarrow> inventory_document_item \<Rightarrow> bool" where
  "item_of_doc docId ty item \<longleftrightarrow> di_docId item = docId \<and> (ty = TRANSFER \<longrightarrow> 0 < di_quantity item)"

lemma addItem_adds:
  assumes "ty = TRANSFER \<Longrightarrow> 0 < q"
  shows "relates (adds_items (item_of_doc docId ty)) (addItem docId j q waste l l' c)"
proof -
  have "item_of_doc docId ty x" if "of_int (di_quantity x) = q" "di_docId x = docId" for x
    using that assms by (auto simp: item_of_doc_def)
  then show ?thesis by (auto simp: ensures_def adds_items_def dest!: addItem_Inr)
qed

lemma ensures_guarded: "(b \<Longrightarrow> ensures R Q k) \<Longrightarrow> ensures R Q (sthen (sguard b e) k)"
  by (auto simp: ensures_def sthen_Inr sguard_Inr)

lemma register_item_adds:
  "relates (adds_items (item_of_doc docId (mi_docType input))) (register_item input docId ap row acc)"
  unfolding register_item_def
  by (intro ensures_option ensures_guarded ensures_throw ensures_if ensures_Let ensures_pair
      adding.ensures_return adding.relates_bind [OF adding_writes(1)]
      adding.relates_bind [OF adding_writes(2)] adding.relates_bind [OF adding_writes(4)]
      adding.relates_bind [OF addItem_adds] TrueI) simp

lemma transfer_item_adds:
  "relates (adds_items (item_of_doc docId TRANSFER)) (transfer_item input docId ty row cache)"
  unfolding transfer_item_def
  by (intro ensures_option ensures_guarded ensures_throw ensures_if ensures_Let ensures_pair
      adding.ensures_return adding.relates_bind [OF adding_writes(1)]
      adding.relates_bind [OF adding_writes(2)] adding.relates_bind [OF adding_writes(3)]
      adding.relates_bind [OF addItem_adds] TrueI) simp

definition created :: "inventory_document \<Rightarrow> world \<Rightarrow> world \<Rightarrow> bool" where
  "created d s s' \<longleftrightarrow> id_id d = c_uuid (w_catalog s) (w_next s) \<and> id_status d = DOC_DRAFT \<and>
     (\<exists>ss. s' = s\<lparr>w_series := ss, w_next := Suc (w_next s), w_documents := w_documents s @ [d]\<rparr>)"

lemma draft_created:
  assumes "reserveNextNumber i s = Inr (n, s1)" "createDocument document s1 = Inr (d, s2)"
    and "id_status document = DOC_DRAFT"
  shows "created d s s2 \<and> id_docType d = id_docType document"
proof -
  obtain m where "s1 = s\<lparr>w_series := update_where (\<lambda>d. ds_id d = i) (\<lambda>d. d\<lparr>ds_nextNumber := m\<rparr>) (w_series s)\<rparr>"
    using reserveNextNumber_Inr [OF assms(1)] by blast
  then show ?thesis
    using createDocument_id [OF assms(2)] assms(3) by (auto simp: created_def)
qed

lemma movement_serie_same: "movement_serie input s = Inr (i, s') \<Longrightarrow> s' = s"
  by (auto simp: movement_serie_def findSerieById_def findActiveFor_def sbind_Inr sthen_Inr sreads_Inr
      sthrow_Inr sguard_Inr sreturn_Inr split: option.splits list.splits if_splits)

lemma resolveProductType_same: "resolveProductType p c s = Inr (r, s') \<Longrightarrow> s' = s"
  by (auto simp: resolveProductType_def findProductById_def sbind_Inr sreads_Inr sthrow_Inr sreturn_Inr
      split: option.splits)

text \<open>The branches that throw are not the ones that return.\<close>

lemma throwing_branches:
  "(case x of None \<Rightarrow> sthrow e | Some a \<Rightarrow> f a) s = Inr r \<longleftrightarrow> (\<exists>a. x = Some a \<and> f a s = Inr r)"
  "(if c then sthrow e else m) s = Inr r \<longleftrightarrow> \<not> c \<and> m s = Inr r"
  by (cases x; auto simp: sthrow_Inr)+

lemma nonempty_case_Inr:
  "(case xs of [] \<Rightarrow> sthrow e | x # _ \<Rightarrow> f x) s = Inr r \<Longrightarrow> \<exists>x. f x s = Inr r"
  by (cases xs) (auto simp: sthrow_Inr)

lemma register_movement_Inr:
  assumes "register_movement input s = Inr ((m, evs), s')"
  defines "ap \<equiv> or_default (mi_autoPost input) True"
  shows "\<exists>d entries results s0 s1 rows t. created d s s0 \<and> id_docType d = mi_docType input \<and>
    sfold (register_item input (id_id d) ap) (mi_items input) ([], []) s0 = Inr ((entries, results), s1) \<and>
    ledger_rows entries = Inr rows \<and>
    s' = s1\<lparr>w_ledger := w_ledger s1 @ rows,
       w_documents := (if ap then posted (id_id d) (mi_createdBy input) t (w_documents s1)
                       else w_documents s1)\<rparr>"
proof -
  obtain ty serieId n d entries results sr s0 s1 s2 where
    n: "reserveNextNumber serieId s = Inr (n, sr)" and
    c: "createDocument (movement_document input ty serieId n) sr = Inr (d, s0)" and
    l: "sfold (register_item input (id_id d) ap) (mi_items input) ([], []) s0 = Inr ((entries, results), s1)" and
    a: "swhen (entries \<noteq> []) (appendLedger entries) s1 = Inr ((), s2)" and
    s': "s' = (if ap then s2\<lparr>w_documents := posted (id_id d) (mi_createdBy input) (c_now (w_catalog s2)) (w_documents s2)\<rparr>
               else s2)"
    using assms(1) unfolding register_movement_def ap_def [symmetric]
    by (auto simp: sbind_Inr sthen_Inr now_Inr sreturn_Inr Let_def posted_def swhen_Inr [of True]
        swhen_Inr [of False] simp flip: ap_def dest!: nonempty_case_Inr require_sku_Inr resolveProductType_same
          movement_serie_same markPosted_Inr split: if_split_asm)
  have "created d s s0 \<and> id_docType d = mi_docType input"
    using draft_created [OF n c] by (simp add: movement_document_def)
  moreover obtain rows where "ledger_rows entries = Inr rows" "s2 = s1\<lparr>w_ledger := w_ledger s1 @ rows\<rparr>"
    using a by (cases "entries = []") (auto simp: swhen_Inr dest: appendLedger_Inr)
  ultimately show ?thesis
    using l unfolding s' by (intro exI [of _ d] exI [of _ entries] exI [of _ results] exI [of _ s0]
      exI [of _ s1] exI [of _ rows] exI [of _ "c_now (w_catalog s1)"]) simp
qed

lemma transfer_between_warehouses_Inr:
  assumes "transfer_between_warehouses pd input s = Inr (r, s')"
  shows "\<exists>d ty cache acc s0. created d s s0 \<and> id_docType d = TRANSFER \<and>
    sfold (transfer_item input (id_id d) ty) (ti_items input) cache s0 = Inr (acc, s') \<and>
    r = (id_id d, DOC_DRAFT)"
proof -
  have check: "s1 = s" if "check_transfer pd input s = Inr (u, s1)" for u s1
    using that by (auto simp: check_transfer_def sthen_Inr sbind_Inr sguard_Inr now_Inr)
  obtain first ty i n d cache acc sr s0 where
    n: "reserveNextNumber i s = Inr (n, sr)" and
    c: "createDocument (transfer_document input ty i n) sr = Inr (d, s0)" and
    l: "sfold (transfer_item input (id_id d) ty) (ti_items input) cache s0 = Inr (acc, s')" and
    r: "r = (id_id d, DOC_DRAFT)"
    using assms unfolding transfer_between_warehouses_def
    by (auto simp: create_transfer_def findSerieById_def sbind_Inr sthen_Inr sreads_Inr sguard_Inr
        sreturn_Inr throwing_branches dest!: nonempty_case_Inr check require_sku_Inr resolveProductType_same)
  have "created d s s0 \<and> id_docType d = TRANSFER"
    using draft_created [OF n c] by (simp add: transfer_document_def)
  with l r show ?thesis by blast
qed

end
