(* ===== verification/DocumentLife.thy ===== *)
theory DocumentLife
  imports MovementSteps
begin

text \<open>
  The life of inventory documents over any sequence of movements, as a step relation on states:
  the invariant of documents and items, the edges along which the status of a document goes,
  and what is on hand against what is booked.
\<close>

section \<open>The step relation\<close>

text \<open>A call that succeeds, or the clock going on.\<close>

inductive movement_step :: "(string \<Rightarrow> int option) \<Rightarrow> world \<Rightarrow> world \<Rightarrow> bool" for pd where
  processed: "process_document i u s = Inr (r, s') \<Longrightarrow> movement_step pd s s'"
| received: "receive_transfer i u s = Inr (r, s') \<Longrightarrow> movement_step pd s s'"
| registered: "register_movement input s = Inr (r, s') \<Longrightarrow> movement_step pd s s'"
| drafted: "transfer_between_warehouses pd tinput s = Inr (r, s') \<Longrightarrow> movement_step pd s s'"
| tick: "movement_step pd s (s\<lparr>w_catalog := (w_catalog s)\<lparr>c_now := t\<rparr>\<rparr>)"

abbreviation movements :: "(string \<Rightarrow> int option) \<Rightarrow> world \<Rightarrow> world \<Rightarrow> bool" where
  "movements pd \<equiv> (movement_step pd)\<^sup>*\<^sup>*"

section \<open>Documents and their items\<close>

definition kinds :: "world \<Rightarrow> (string \<times> doc_type) list" where
  "kinds s = map (\<lambda>d. (id_id d, id_docType d)) (w_documents s)"

text \<open>
  Identifiers are generated once, no two documents share one, and every item belongs to a
  document, with a positive quantity when that is a transfer.
\<close>

definition documents_ok :: "world \<Rightarrow> bool" where
  "documents_ok s \<longleftrightarrow> inj (c_uuid (w_catalog s)) \<and> distinct (map fst (kinds s)) \<and>
     fst ` set (kinds s) \<subseteq> c_uuid (w_catalog s) ` {..<w_next s} \<and>
     (\<forall>i \<in> set (w_documentItems s). \<exists>ty. (di_docId i, ty) \<in> set (kinds s) \<and>
        (ty = TRANSFER \<longrightarrow> 0 < di_quantity i))"

lemma documents_ok_same:
  "documents_ok s \<Longrightarrow> kinds s' = kinds s \<Longrightarrow> w_documentItems s' = w_documentItems s \<Longrightarrow>
   c_uuid (w_catalog s') = c_uuid (w_catalog s) \<Longrightarrow> w_next s \<le> w_next s' \<Longrightarrow> documents_ok s'"
  using image_mono [of "{..<w_next s}" "{..<w_next s'}" "c_uuid (w_catalog s)"]
  by (auto simp: documents_ok_def)

lemma kinds_updates [simp]:
  "map (\<lambda>d. (id_id d, id_docType d)) (dispatched i u t ds) = map (\<lambda>d. (id_id d, id_docType d)) ds"
  "map (\<lambda>d. (id_id d, id_docType d)) (received i u t ds) = map (\<lambda>d. (id_id d, id_docType d)) ds"
  "map (\<lambda>d. (id_id d, id_docType d)) (posted i v t ds) = map (\<lambda>d. (id_id d, id_docType d)) ds"
  by (simp_all add: dispatched_def received_def posted_def map_update_where)

lemma documents_ok_booked:
  assumes "documents_ok s" "booked_in s s1 entries ds s'"
    and "map (\<lambda>d. (id_id d, id_docType d)) ds = map (\<lambda>d. (id_id d, id_docType d)) (w_documents s)"
  shows "documents_ok s'"
  by (rule documents_ok_same [OF assms(1)]) (use assms(2,3) in \<open>auto simp: booked_in_def kinds_def\<close>)

text \<open>A new document with its items.\<close>

lemma created_fresh:
  assumes "documents_ok s" "created d s s0"
  shows "id_id d \<notin> fst ` set (kinds s)"
proof
  assume "id_id d \<in> fst ` set (kinds s)"
  then obtain n where "n < w_next s" "c_uuid (w_catalog s) (w_next s) = c_uuid (w_catalog s) n"
    using assms by (auto simp: documents_ok_def created_def)
  then show False using assms(1) by (auto simp: documents_ok_def dest: injD)
qed

lemma documents_ok_created:
  assumes ok: "documents_ok s" and c: "created d s s0"
    and a: "adds_items (item_of_doc (id_id d) (id_docType d)) s0 s1"
  shows "documents_ok s1"
proof -
  let ?g = "c_uuid (w_catalog s)"
  obtain items where
    s1: "w_documentItems s1 = w_documentItems s @ items" "list_all (item_of_doc (id_id d) (id_docType d)) items"
      "kinds s1 = kinds s @ [(id_id d, id_docType d)]" "c_uuid (w_catalog s1) = ?g" "Suc (w_next s) \<le> w_next s1"
    and d: "id_id d = ?g (w_next s)"
    using c a by (auto simp: created_def adds_items_def kinds_def)
  have "id_id d \<notin> fst ` set (kinds s)" by (rule created_fresh [OF ok c])
  moreover have "fst ` set (kinds s1) \<subseteq> ?g ` {..<w_next s1}"
    using ok s1(3,5) d by (force simp: documents_ok_def)
  ultimately show ?thesis
    using ok s1 by (fastforce simp: documents_ok_def list_all_iff item_of_doc_def)
qed

lemma registered_documents:
  assumes "register_movement input s = Inr (r, s')"
  shows "\<exists>d s0 s1. created d s s0 \<and> adds_items (item_of_doc (id_id d) (id_docType d)) s0 s1 \<and>
    w_documentItems s' = w_documentItems s1 \<and> w_catalog s' = w_catalog s1 \<and> w_next s' = w_next s1 \<and>
    (w_documents s' = w_documents s1 \<or> (\<exists>v t. w_documents s' = posted (id_id d) v t (w_documents s1)))"
proof -
  obtain m evs where r: "r = (m, evs)" by fastforce
  from register_movement_Inr [OF assms [unfolded r]] obtain d entries results s0 s1 rows t where
    d: "created d s s0" "id_docType d = mi_docType input" and
    l: "sfold (register_item input (id_id d) (or_default (mi_autoPost input) True)) (mi_items input)
      ([], []) s0 = Inr ((entries, results), s1)" and
    s': "s' = s1\<lparr>w_ledger := w_ledger s1 @ rows, w_documents :=
      (if or_default (mi_autoPost input) True then posted (id_id d) (mi_createdBy input) t (w_documents s1)
       else w_documents s1)\<rparr>" by blast
  have "adds_items (item_of_doc (id_id d) (id_docType d)) s0 s1"
    unfolding d(2) using relatesD [OF adding.relates_fold [OF register_item_adds] l] .
  then show ?thesis using d(1) by (intro exI [of _ d] exI [of _ s0] exI [of _ s1]) (auto simp: s')
qed

lemma drafted_documents:
  assumes "transfer_between_warehouses pd input s = Inr (r, s')"
  shows "\<exists>d s0. created d s s0 \<and> adds_items (item_of_doc (id_id d) (id_docType d)) s0 s'"
proof -
  from transfer_between_warehouses_Inr [OF assms] obtain d ty cache acc s0 where
    d: "created d s s0" "id_docType d = TRANSFER" and
    l: "sfold (transfer_item input (id_id d) ty) (ti_items input) cache s0 = Inr (acc, s')" by blast
  have "adds_items (item_of_doc (id_id d) (id_docType d)) s0 s'"
    unfolding d(2) using relatesD [OF adding.relates_fold [OF transfer_item_adds] l] .
  with d(1) show ?thesis by blast
qed

lemma step_documents_ok:
  assumes "movement_step pd s s'" "documents_ok s"
  shows "documents_ok s'"
  using assms
proof cases
  case (processed i u r)
  then show ?thesis
    by (cases rule: process_document_cases) (auto intro: documents_ok_booked [OF assms(2)])
next
  case (received i u r)
  then show ?thesis
    by (cases rule: receive_transfer_cases) (auto intro: documents_ok_booked [OF assms(2)])
next
  case (registered input r)
  from registered_documents [OF this] obtain d s0 s1 where
    d: "created d s s0" "adds_items (item_of_doc (id_id d) (id_docType d)) s0 s1" and
    s': "w_documentItems s' = w_documentItems s1" "w_catalog s' = w_catalog s1" "w_next s' = w_next s1"
      "w_documents s' = w_documents s1 \<or> (\<exists>v t. w_documents s' = posted (id_id d) v t (w_documents s1))"
    by (elim exE conjE) (rule that)
  show ?thesis
    by (rule documents_ok_same [OF documents_ok_created [OF assms(2) d]]) (use s' in \<open>auto simp: kinds_def\<close>)
next
  case (drafted tinput r)
  from drafted_documents [OF this] show ?thesis using documents_ok_created [OF assms(2)] by blast
next
  case (tick t)
  then show ?thesis using documents_ok_same [OF assms(2), of s'] by (simp add: kinds_def)
qed

section \<open>The life of a document\<close>

inductive doc_edge :: "inventory_document \<Rightarrow> inventory_document \<Rightarrow> bool" where
  dispatch: "id_status d = DOC_DRAFT \<Longrightarrow> id_docType d = TRANSFER \<Longrightarrow>
    doc_edge d (d\<lparr>id_status := IN_TRANSIT, id_dispatchedBy := Some u, id_dispatchedAt := Some t\<rparr>)"
| reception: "id_status d = IN_TRANSIT \<Longrightarrow> id_docType d = TRANSFER \<Longrightarrow>
    doc_edge d (d\<lparr>id_status := DOC_POSTED, id_receivedBy := Some u, id_receivedAt := Some t,
      id_postedBy := Some u, id_postedAt := Some t\<rparr>)"
| adjustment: "id_status d = DOC_DRAFT \<Longrightarrow> id_docType d = ADJUSTMENT \<Longrightarrow>
    doc_edge d (d\<lparr>id_status := DOC_POSTED, id_postedBy := Some u, id_postedAt := Some t\<rparr>)"

definition documents_advance :: "world \<Rightarrow> world \<Rightarrow> bool" where
  "documents_advance s s' \<longleftrightarrow> (\<exists>ds new. w_documents s' = ds @ new \<and>
     list_all2 doc_edge\<^sup>*\<^sup>* (w_documents s) ds)"

lemma advance_update:
  assumes "w_documents s' = update_where p f (w_documents s)"
    and "\<And>d. d \<in> set (w_documents s) \<Longrightarrow> p d \<Longrightarrow> doc_edge d (f d)"
  shows "documents_advance s s'"
proof -
  have "list_all2 doc_edge\<^sup>*\<^sup>* (w_documents s) (update_where p f (w_documents s))"
    using assms(2) by (auto simp: update_where_def list_all2_map2 list_all2_same)
  then show ?thesis unfolding documents_advance_def assms(1) by (metis append_Nil2)
qed

lemma advance_append: "w_documents s' = w_documents s @ new \<Longrightarrow> documents_advance s s'"
  unfolding documents_advance_def by (metis list.rel_refl rtranclp.rtrancl_refl)

lemma advance_trans:
  assumes "documents_advance s t" "documents_advance t u"
  shows "documents_advance s u"
proof -
  obtain ds new where t: "w_documents t = ds @ new" "list_all2 doc_edge\<^sup>*\<^sup>* (w_documents s) ds"
    using assms(1) by (auto simp: documents_advance_def)
  obtain ds' new' where u: "w_documents u = ds' @ new'" "list_all2 doc_edge\<^sup>*\<^sup>* (ds @ new) ds'"
    using assms(2) by (auto simp: documents_advance_def t(1))
  then obtain e1 e2 where "ds' = e1 @ e2" "list_all2 doc_edge\<^sup>*\<^sup>* ds e1"
    by (auto simp: list_all2_append1)
  moreover have "list_all2 doc_edge\<^sup>*\<^sup>* (w_documents s) e1"
    by (rule list_all2_trans [OF rtranclp_trans t(2) calculation(2)])
  ultimately show ?thesis unfolding documents_advance_def using u(1) by auto
qed

lemma booked_in_documents: "booked_in s s1 es ds s' \<Longrightarrow> w_documents s' = ds"
  by (auto simp: booked_in_def)

lemma same_document:
  assumes "documents_ok s" "find_by id_id i (w_documents s) = Some d" "x \<in> set (w_documents s)"
    and "id_id x = id_id d"
  shows "x = d"
proof -
  have "distinct (map id_id (w_documents s))" using assms(1) by (simp add: documents_ok_def kinds_def comp_def)
  then show ?thesis
    using find_by_SomeD [OF assms(2)] assms(3,4) by (auto simp: distinct_map dest: inj_onD)
qed

lemma posted_other: "i \<notin> id_id ` set ds \<Longrightarrow> posted i v t (ds @ [d]) = ds @ posted i v t [d]"
  by (auto simp: posted_def update_where_def intro!: map_idI)

lemma registered_append:
  assumes "register_movement input s = Inr (r, s')" "documents_ok s"
  shows "\<exists>new. w_documents s' = w_documents s @ new"
proof -
  from registered_documents [OF assms(1)] obtain d s0 s1 where
    d: "created d s s0" "adds_items (item_of_doc (id_id d) (id_docType d)) s0 s1" and
    s': "w_documents s' = w_documents s1 \<or> (\<exists>v t. w_documents s' = posted (id_id d) v t (w_documents s1))"
    by (elim exE conjE) (rule that)
  have "w_documents s1 = w_documents s @ [d]" using d by (auto simp: created_def adds_items_def)
  moreover have "id_id d \<notin> id_id ` set (w_documents s)"
    using created_fresh [OF assms(2) d(1)] by (simp add: kinds_def image_image)
  ultimately show ?thesis using s' by (auto simp: posted_other)
qed

lemma drafted_append:
  "transfer_between_warehouses pd input s = Inr (r, s') \<Longrightarrow> \<exists>new. w_documents s' = w_documents s @ new"
  by (drule drafted_documents) (auto simp: created_def adds_items_def)

lemma step_documents_advance:
  assumes "movement_step pd s s'" "documents_ok s"
  shows "documents_advance s s'"
  using assms(1)
proof cases
  case (processed i u r)
  then show ?thesis
  proof (cases rule: process_document_cases)
    case (dispatch d entries events s1 t)
    then have "w_documents s' = dispatched (id_id d) u t (w_documents s)" by (rule_tac booked_in_documents)
    then show ?thesis unfolding dispatched_def by (rule advance_update) (auto intro: doc_edge.dispatch)
  next
    case (adjust d entries events s1 t)
    then have "w_documents s' = posted (id_id d) (Some u) t (w_documents s)"
      by (rule_tac booked_in_documents)
    then show ?thesis unfolding posted_def
      by (rule advance_update) (use adjust same_document [OF assms(2) adjust(1)] in
        \<open>auto intro: doc_edge.adjustment\<close>)
  qed
next
  case (received i u r)
  then show ?thesis
  proof (cases rule: receive_transfer_cases)
    case (1 d w entries events s1 t)
    then have "w_documents s' = received (id_id d) u t (w_documents s)"
      by (rule_tac booked_in_documents)
    then show ?thesis unfolding received_def by (rule advance_update) (auto intro: doc_edge.reception)
  qed
next
  case (registered input r)
  then show ?thesis using registered_append [OF _ assms(2)] advance_append by blast
next
  case (drafted tinput r)
  then show ?thesis using drafted_append advance_append by blast
next
  case (tick t)
  then show ?thesis by (intro advance_append [where new = "[]"]) simp
qed

lemma movements_life:
  "movements pd s s' \<Longrightarrow> documents_ok s \<Longrightarrow> documents_ok s' \<and> documents_advance s s'"
proof (induction rule: rtranclp_induct)
  case base
  then show ?case by (simp add: advance_append)
next
  case (step t u)
  then show ?case
    using step_documents_ok step_documents_advance advance_trans by blast
qed

section \<open>Looking a document up later\<close>

lemma doc_edge_keeps: "doc_edge d d' \<Longrightarrow> id_id d' = id_id d \<and> id_docType d' = id_docType d \<and>
   id_fromWarehouseId d' = id_fromWarehouseId d \<and> id_toWarehouseId d' = id_toWarehouseId d"
  by (auto elim: doc_edge.cases)

lemma doc_path_keeps: "doc_edge\<^sup>*\<^sup>* d d' \<Longrightarrow> id_id d' = id_id d \<and> id_docType d' = id_docType d \<and>
   id_fromWarehouseId d' = id_fromWarehouseId d \<and> id_toWarehouseId d' = id_toWarehouseId d"
  by (induction rule: rtranclp_induct) (auto dest: doc_edge_keeps)

lemma doc_path_draft: "doc_edge\<^sup>*\<^sup>* d d' \<Longrightarrow> id_status d \<noteq> DOC_DRAFT \<Longrightarrow> id_status d' \<noteq> DOC_DRAFT"
  by (induction rule: rtranclp_induct) (auto elim: doc_edge.cases)

lemma doc_path_posted: "doc_edge\<^sup>*\<^sup>* d d' \<Longrightarrow> id_status d = DOC_POSTED \<Longrightarrow> d' = d"
  by (induction rule: rtranclp_induct) (auto elim: doc_edge.cases)

lemma find_by_advance:
  assumes "documents_advance s s'" "find_by id_id i (w_documents s) = Some d"
  shows "\<exists>d'. find_by id_id i (w_documents s') = Some d' \<and> doc_edge\<^sup>*\<^sup>* d d'"
proof -
  have "list_all2 doc_edge\<^sup>*\<^sup>* ds es \<Longrightarrow> find_by id_id i ds = Some d \<Longrightarrow>
      \<exists>d'. find_by id_id i (es @ new) = Some d' \<and> doc_edge\<^sup>*\<^sup>* d d'" for ds es new
    by (induction ds es rule: list_all2_induct)
       (auto simp: find_by_def dest: doc_path_keeps split: if_splits)
  then show ?thesis using assms by (auto simp: documents_advance_def)
qed

lemma process_document_leaves_draft:
  assumes "process_document i u s = Inr (r, s')"
  shows "\<exists>d. find_by id_id i (w_documents s') = Some d \<and> id_status d \<noteq> DOC_DRAFT"
  using assms
proof (cases rule: process_document_cases)
  case (dispatch d entries events s1 t)
  then show ?thesis
    by (simp add: booked_in_documents [OF dispatch(6)] dispatched_def find_by_update_where)
next
  case (adjust d entries events s1 t)
  then show ?thesis
    by (simp add: booked_in_documents [OF adjust(6)] posted_def find_by_update_where)
qed

lemma receive_transfer_posts:
  assumes "receive_transfer i u s = Inr (r, s')"
  shows "\<exists>d. find_by id_id i (w_documents s') = Some d \<and> id_status d = DOC_POSTED \<and> id_docType d = TRANSFER"
  using assms
proof (cases rule: receive_transfer_cases)
  case (1 d w entries events s1 t)
  then show ?thesis
    by (simp add: booked_in_documents [OF 1(7)] received_def find_by_update_where)
qed

lemma process_document_not_draft:
  "find_by id_id i (w_documents s) = Some d \<Longrightarrow> id_status d \<noteq> DOC_DRAFT \<Longrightarrow>
   process_document i u s = Inl (BadRequestException ''Solo se pueden procesar documentos en DRAFT'')"
  by (simp add: process_document_def findDocumentForUpdate_def action_simps)

lemma receive_transfer_not_in_transit:
  "find_by id_id i (w_documents s) = Some d \<Longrightarrow> id_docType d = TRANSFER \<Longrightarrow> id_status d \<noteq> IN_TRANSIT \<Longrightarrow>
   receive_transfer i u s = Inl (BadRequestException ''Solo se pueden recibir transferencias en transito'')"
  by (simp add: receive_transfer_def findDocumentForUpdate_def action_simps)

end
