(* ===== verification/TransferLaws.thy ===== *)
theory TransferLaws
  imports DocumentLife Fixtures
begin

text \<open>
  Stock over any sequence of movements: balances stay valid, what is on hand stays what is
  booked, the items of a document stay, so that a transfer gives to its destination what it took
  from its source.
\<close>

section \<open>Drafts move no stock\<close>

definition stock_kept :: "world \<Rightarrow> world \<Rightarrow> bool" where
  "stock_kept s s' \<longleftrightarrow> w_inventory s' = w_inventory s \<and> w_ledger s' = w_ledger s"

interpretation keeping: preorder_on_states stock_kept
  by unfold_locales (auto simp: stock_kept_def)

lemma keeping_writes:
  "relates stock_kept (require_sku k)" "relates stock_kept (ensure_stock_item k)"
  "relates stock_kept (resolveProductType p c)" "relates stock_kept (addItem di j q waste l l' cost)"
  by (auto simp: ensures_def stock_kept_def
      dest!: require_sku_Inr ensure_stock_item_Inr resolveProductType_same addItem_Inr)

lemma transfer_item_keeps: "relates stock_kept (transfer_item input docId ty row cache)"
  unfolding transfer_item_def
  by (intro ensures_cases ensures_guarded keeping.relates_bind [OF keeping_writes(1)]
      keeping.relates_bind [OF keeping_writes(2)] keeping.relates_bind [OF keeping_writes(3)]
      keeping.relates_bind [OF keeping_writes(4)] keeping.step_rules TrueI)

lemma register_draft_keeps:
  "ensures stock_kept (\<lambda>acc'. fst acc' = fst acc) (register_item input docId False row acc)"
  unfolding register_item_def
  by (intro ensures_cases ensures_guarded keeping.relates_bind [OF keeping_writes(1)]
      keeping.relates_bind [OF keeping_writes(2)] keeping.relates_bind [OF keeping_writes(4)]
      ensures_throw keeping.ensures_return) simp_all

lemma register_drafts_keep:
  assumes "sfold (register_item input docId False) rows acc s = Inr (acc', s')"
  shows "stock_kept s s' \<and> fst acc' = fst acc"
proof -
  have "ensures stock_kept (\<lambda>acc'. fst acc' = fst acc) (sfold (register_item input docId False) rows acc)"
    by (rule keeping.ensures_fold) (auto intro: ensures_weaken [OF register_draft_keeps])
  then show ?thesis using assms relatesD ensuresD by fast
qed

lemma created_keeps: "created d s s0 \<Longrightarrow> stock_kept s s0"
  by (auto simp: created_def stock_kept_def)

lemma drafted_keeps:
  assumes "transfer_between_warehouses pd input s = Inr (r, s')"
  shows "stock_kept s s'"
proof -
  from transfer_between_warehouses_Inr [OF assms] obtain d ty cache acc s0 where
    d: "created d s s0" and
    l: "sfold (transfer_item input (id_id d) ty) (ti_items input) cache s0 = Inr (acc, s')"
    by blast
  show ?thesis
    by (rule keeping.R_trans [OF created_keeps [OF d]
          relatesD [OF keeping.relates_fold [OF transfer_item_keeps] l]])
qed

section \<open>Balances\<close>

lemma inventory_ok_kept: "w_inventory s' = w_inventory s \<Longrightarrow> inventory_ok s' = inventory_ok s"
  by (simp add: inventory_ok_def)

lemma booked_in_inventory: "booked_in s s1 es ds s' \<Longrightarrow> w_inventory s' = w_inventory s1"
  by (auto simp: booked_in_def)

lemma dispatch_items_loop:
  "dispatch_items d items s = Inr (acc, s') \<Longrightarrow> \<exists>w. nonempty (id_fromWarehouseId d) = Some w \<and>
     nonempty (id_toWarehouseId d) \<noteq> None \<and> sfold (dispatch_item d w) items ([], []) s = Inr (acc, s')"
  by (auto simp: dispatch_items_def sbind_Inr now_Inr sthrow_Inr split: option.splits if_splits)

lemma adjust_items_loop:
  "adjust_items d items s = Inr (acc, s') \<Longrightarrow> \<exists>w. sfold (adjust_item d w) items ([], []) s = Inr (acc, s')"
  by (auto simp: adjust_items_def sthrow_Inr split: option.splits)

lemma transfer_items_positive:
  assumes "documents_ok s" "d \<in> set (w_documents s)" "id_docType d = TRANSFER" "x \<in> set (items_of s (id_id d))"
  shows "0 < di_quantity x"
proof -
  have d: "(id_id d, TRANSFER) \<in> set (kinds s)" using assms(2,3) by (auto simp: kinds_def)
  from assms(1,4) obtain ty where ty: "(id_id d, ty) \<in> set (kinds s)" "ty = TRANSFER \<longrightarrow> 0 < di_quantity x"
    by (auto simp: documents_ok_def items_of_def)
  have "distinct (map fst (kinds s))" using assms(1) by (simp add: documents_ok_def)
  then have "ty = TRANSFER" using d ty(1) by (metis eq_key_imp_eq_value)
  with ty(2) show ?thesis by simp
qed

lemma step_inventory_ok:
  assumes "movement_step pd s s'" "documents_ok s" "inventory_ok s"
  shows "inventory_ok s'"
  using assms(1)
proof cases
  case (processed i u r)
  then show ?thesis
  proof (cases rule: process_document_cases)
    case (dispatch d entries events s1 t)
    from dispatch_items_loop [OF dispatch(5)] have "inventory_ok s1"
      using dispatching.loop_keeps_balances [OF _ assms(3)]
      by (auto simp: harmless_entry_def dispatch_entry_def)
    then show ?thesis by (simp add: inventory_ok_kept [OF booked_in_inventory [OF dispatch(6)]])
  next
    case (adjust d entries events s1 t)
    from adjust_items_loop [OF adjust(5)] have "inventory_ok s1"
      using adjusting.loop_keeps_balances [OF _ assms(3)]
      by (auto simp: harmless_entry_def adjust_entry_def)
    then show ?thesis by (simp add: inventory_ok_kept [OF booked_in_inventory [OF adjust(6)]])
  qed
next
  case (received i u r)
  then show ?thesis
  proof (cases rule: receive_transfer_cases)
    case (1 d w entries events s1 t)
    have "d \<in> set (w_documents s)" using find_by_SomeD [OF 1(1)] by simp
    then have "inventory_ok s1"
      using receiving.loop_keeps_balances [OF 1(6) assms(3)] transfer_items_positive [OF assms(2) _ 1(3)]
      by (auto simp: harmless_entry_def receive_entry_def intro: less_imp_le)
    then show ?thesis by (simp add: inventory_ok_kept [OF booked_in_inventory [OF 1(7)]])
  qed
next
  case (registered input r)
  obtain m evs where r: "r = (m, evs)" by fastforce
  from register_movement_Inr [OF registered [unfolded r]] obtain d entries results s0 s1 where
    d: "created d s s0" and
    l: "sfold (register_item input (id_id d) (or_default (mi_autoPost input) True)) (mi_items input)
      ([], []) s0 = Inr ((entries, results), s1)" and i: "w_inventory s' = w_inventory s1"
    by auto
  have s0: "inventory_ok s0" using assms(3) created_keeps [OF d] by (simp add: stock_kept_def inventory_ok_def)
  have "inventory_ok s1"
  proof (cases "or_default (mi_autoPost input) True")
    case True
    then show ?thesis
      using registering.loop_keeps_balances [OF _ s0] l by (auto simp: harmless_entry_def movement_entry_def)
  next
    case False
    then show ?thesis using register_drafts_keep l s0 by (auto simp: stock_kept_def inventory_ok_def)
  qed
  then show ?thesis using i by (simp add: inventory_ok_def)
next
  case (drafted tinput r)
  then show ?thesis using drafted_keeps assms(3) by (auto simp: stock_kept_def inventory_ok_def)
next
  case (tick t)
  then show ?thesis using assms(3) by (simp add: inventory_ok_def)
qed

lemma movements_inventory_ok:
  "movements pd s s' \<Longrightarrow> documents_ok s \<Longrightarrow> inventory_ok s \<Longrightarrow> inventory_ok s'"
proof (induction rule: rtranclp_induct)
  case (step t u)
  then show ?case using step_inventory_ok movements_life by blast
qed

section \<open>Items\<close>

text \<open>Items are only added, and never to a document that was there before.\<close>

definition items_kept :: "world \<Rightarrow> world \<Rightarrow> bool" where
  "items_kept s s' \<longleftrightarrow> (\<exists>new. w_documentItems s' = w_documentItems s @ new \<and>
     (\<forall>x \<in> set new. di_docId x \<notin> fst ` set (kinds s)))"

lemma created_items:
  assumes "documents_ok s" "created d s s0" "adds_items (item_of_doc (id_id d) ty) s0 s1"
  shows "items_kept s s1"
proof -
  have "w_documentItems s0 = w_documentItems s" using assms(2) by (auto simp: created_def)
  then show ?thesis
    using created_fresh [OF assms(1,2)] assms(3)
    by (auto simp: adds_items_def items_kept_def list_all_iff item_of_doc_def)
qed

lemma step_items_kept:
  assumes "movement_step pd s s'" "documents_ok s"
  shows "items_kept s s'"
  using assms(1)
proof cases
  case (processed i u r)
  then show ?thesis by (cases rule: process_document_cases) (auto simp: booked_in_def items_kept_def)
next
  case (received i u r)
  then show ?thesis by (cases rule: receive_transfer_cases) (auto simp: booked_in_def items_kept_def)
next
  case (registered input r)
  from registered_documents [OF this] obtain d s0 s1 where
    "created d s s0" "adds_items (item_of_doc (id_id d) (id_docType d)) s0 s1"
    "w_documentItems s' = w_documentItems s1" by auto
  then show ?thesis using created_items [OF assms(2)] by (simp add: items_kept_def)
next
  case (drafted tinput r)
  from drafted_documents [OF this] show ?thesis using created_items [OF assms(2)] by blast
next
  case (tick t)
  then show ?thesis by (simp add: items_kept_def)
qed

lemma kinds_grow: "documents_advance s s' \<Longrightarrow> set (kinds s) \<subseteq> set (kinds s')"
proof -
  have "list_all2 doc_edge\<^sup>*\<^sup>* ds es \<Longrightarrow>
      map (\<lambda>d. (id_id d, id_docType d)) es = map (\<lambda>d. (id_id d, id_docType d)) ds" for ds es
    by (induction ds es rule: list_all2_induct) (auto dest: doc_path_keeps)
  then have "documents_advance s s' \<Longrightarrow> \<exists>new. kinds s' = kinds s @ new"
    by (fastforce simp: documents_advance_def kinds_def)
  then show "documents_advance s s' \<Longrightarrow> set (kinds s) \<subseteq> set (kinds s')" by auto
qed

lemma movements_items_kept:
  "movements pd s s' \<Longrightarrow> documents_ok s \<Longrightarrow> items_kept s s'"
proof (induction rule: rtranclp_induct)
  case base
  then show ?case by (simp add: items_kept_def)
next
  case (step t u)
  then have t: "documents_ok t" "documents_advance s t" using movements_life by blast+
  have "items_kept t u" by (rule step_items_kept [OF step(2) t(1)])
  then show ?case using step.IH step.prems kinds_grow [OF t(2)] by (fastforce simp: items_kept_def)
qed

lemma items_of_kept:
  assumes "items_kept s s'" "i \<in> fst ` set (kinds s)"
  shows "items_of s' i = items_of s i"
proof -
  obtain new where new: "w_documentItems s' = w_documentItems s @ new"
    "\<forall>x \<in> set new. di_docId x \<notin> fst ` set (kinds s)" using assms(1) by (auto simp: items_kept_def)
  then have "\<forall>x \<in> set new. di_docId x \<noteq> i" using assms(2) by blast
  then show ?thesis by (simp add: items_of_def new(1) filter_empty_conv)
qed

section \<open>Conservation\<close>

definition plain_items :: "world \<Rightarrow> bool" where
  "plain_items s \<longleftrightarrow>
     list_all (\<lambda>x. di_fromLocationId x = None \<and> di_toLocationId x = None) (w_documentItems s)"

lemma plain_items_before: "items_kept s s' \<Longrightarrow> plain_items s' \<Longrightarrow> plain_items s"
  by (auto simp: items_kept_def plain_items_def)

lemma plain_entries:
  assumes "plain_items s" "x \<in> set (items_of s i)"
  shows "ne_locationId (dispatch_entry d w x) = None" "ne_locationId (receive_entry d w x) = None"
    "ne_locationId (adjust_entry d w x) = None"
  using assms by (auto simp: plain_items_def items_of_def list_all_iff dispatch_entry_def
      receive_entry_def adjust_entry_def or_else_def)

text \<open>The items of a movement carry the location its stock moves at.\<close>

lemma register_item_located:
  assumes "register_item input docId ap row acc s = Inr (acc', s')"
  shows "\<exists>x. w_documentItems s' = w_documentItems s @ [x] \<and>
    or_else (mr_locationId row) (mi_locationId input) \<in> {di_fromLocationId x, di_toLocationId x}"
proof -
  have p: "w_documentItems s2 = w_documentItems s1"
    if "post_movement input docId row dir q loc k j itemId s1 = Inr (r, s2)" for dir q loc k j itemId s1 r s2
  proof -
    have "relates only_inventory (post_movement input docId row dir q loc k j itemId)"
      unfolding post_movement_def
      by (intro inventory_writes.relates_bind inventory_writes.step_rules inventory_write ensures_cases TrueI)
    from relatesD [OF this that] show ?thesis by (auto simp: only_inventory_def)
  qed
  have e: "w_documentItems s1 = w_documentItems s" if "ensure_stock_item k s = Inr (x, s1)" for k x s1
    using ensure_stock_item_Inr [OF that] by auto
  have a: "\<exists>x. w_documentItems s2 = w_documentItems s1 @ [x] \<and> di_fromLocationId x = l \<and> di_toLocationId x = l'"
    if "addItem docId j q waste l l' c s1 = Inr (x, s2)" for j q waste l l' c s1 x s2
    using that by (auto simp: addItem_def action_Inr Let_def fresh_id_def)
  have "dir = OUT_DIRECTION \<or> dir = IN_DIRECTION" for dir by (cases dir) simp_all
  then show ?thesis
    using assms unfolding register_item_def Let_def
    by (fastforce simp: sbind_Inr sthen_Inr sguard_Inr sthrow_Inr sreturn_Inr
        dest!: require_sku_Inr e a p split: option.splits if_splits)
qed

lemma register_locations:
  "sfold (register_item input docId ap) rows acc s = Inr (acc', s') \<Longrightarrow>
   \<exists>new. w_documentItems s' = w_documentItems s @ new \<and>
     (\<forall>row \<in> set rows. \<exists>x \<in> set new.
        or_else (mr_locationId row) (mi_locationId input) \<in> {di_fromLocationId x, di_toLocationId x})"
proof (induction rows arbitrary: acc s)
  case Nil
  then show ?case by (simp add: sreturn_Inr)
next
  case (Cons row rows)
  then obtain acc1 s1 where r: "register_item input docId ap row acc s = Inr (acc1, s1)"
    and rest: "sfold (register_item input docId ap) rows acc1 s1 = Inr (acc', s')"
    by (auto simp: sbind_Inr)
  obtain x where x: "w_documentItems s1 = w_documentItems s @ [x]"
    "or_else (mr_locationId row) (mi_locationId input) \<in> {di_fromLocationId x, di_toLocationId x}"
    using register_item_located [OF r] by (elim exE conjE) (rule that)
  obtain new where new: "w_documentItems s' = w_documentItems s1 @ new"
    "\<forall>row \<in> set rows. \<exists>x \<in> set new.
       or_else (mr_locationId row) (mi_locationId input) \<in> {di_fromLocationId x, di_toLocationId x}"
    using Cons.IH [OF rest] by (elim exE conjE) (rule that)
  show ?case
    by (rule exI [of _ "x # new"]) (use x new in \<open>simp del: insert_iff\<close>)
qed

lemma booked_in_rows:
  "booked_in s s1 es ds s' \<Longrightarrow> only_inventory s s1 \<Longrightarrow>
   \<exists>rows. ledger_rows es = Inr rows \<and> w_ledger s' = w_ledger s1 @ rows \<and> w_inventory s' = w_inventory s1"
  by (auto simp: booked_in_def only_inventory_def)

lemma stock_kept_conserved: "stock_kept s s' \<Longrightarrow> conserved s s'"
  by (simp add: stock_kept_def conserved_def no_locations_def on_hand_def booked_def)

lemma registered_conserves:
  assumes "register_movement input s = Inr (r, s')" "plain_items s'"
  shows "conserved s s'"
proof -
  let ?ap = "or_default (mi_autoPost input) True"
  obtain m evs where r: "r = (m, evs)" by fastforce
  from register_movement_Inr [OF assms(1) [unfolded r]] obtain d entries results s0 s1 rows where
    d: "created d s s0" and
    l: "sfold (register_item input (id_id d) ?ap) (mi_items input) ([], []) s0 = Inr ((entries, results), s1)" and
    rows: "ledger_rows entries = Inr rows" "w_ledger s' = w_ledger s1 @ rows" and
    i: "w_inventory s' = w_inventory s1" "w_documentItems s' = w_documentItems s1" by auto
  have plain: "or_else (mr_locationId row) (mi_locationId input) = None" if "row \<in> set (mi_items input)" for row
    using register_locations [OF l] assms(2) i(2) that
    by (fastforce simp: plain_items_def list_all_iff)
  have "conserved s0 s'"
  proof (cases ?ap)
    case True
    have l': "sfold (register_item input (id_id d) True) (mi_items input) ([], []) s0 = Inr ((entries, results), s1)"
      using l True by simp
    show ?thesis
      by (rule registering.loop_conserves [OF l', of rows])
         (use rows i plain in \<open>auto simp: movement_entry_def\<close>)
  next
    case False
    then have "sfold (register_item input (id_id d) False) (mi_items input) ([], []) s0 =
      Inr ((entries, results), s1)" using l by simp
    from register_drafts_keep [OF this] have "stock_kept s0 s1" "entries = []" by simp_all
    then show ?thesis using rows i(1) by (intro stock_kept_conserved) (simp add: stock_kept_def)
  qed
  then show ?thesis by (rule conserved_trans [OF stock_kept_conserved [OF created_keeps [OF d]]])
qed

lemma processed_conserves:
  assumes "process_document i u s = Inr (r, s')" "plain_items s"
  shows "conserved s s'"
  using assms(1)
proof (cases rule: process_document_cases)
  case (dispatch d entries events s1 t)
  obtain w where l: "sfold (dispatch_item d w) (items_of s (id_id d)) ([], []) s = Inr ((entries, events), s1)"
    using dispatch_items_loop [OF dispatch(5)] by blast
  obtain rows where "ledger_rows entries = Inr rows" "w_ledger s' = w_ledger s1 @ rows" "w_inventory s' = w_inventory s1"
    using booked_in_rows [OF dispatch(6) items_only_inventory(1) [OF l]] by blast
  then show ?thesis
    by (intro dispatching.loop_conserves [OF l, of rows]) (auto simp: plain_entries [OF assms(2)])
next
  case (adjust d entries events s1 t)
  obtain w where l: "sfold (adjust_item d w) (items_of s (id_id d)) ([], []) s = Inr ((entries, events), s1)"
    using adjust_items_loop [OF adjust(5)] by blast
  obtain rows where "ledger_rows entries = Inr rows" "w_ledger s' = w_ledger s1 @ rows" "w_inventory s' = w_inventory s1"
    using booked_in_rows [OF adjust(6) items_only_inventory(2) [OF l]] by blast
  then show ?thesis
    by (intro adjusting.loop_conserves [OF l, of rows]) (auto simp: plain_entries [OF assms(2)])
qed

lemma received_conserves:
  assumes "receive_transfer i u s = Inr (r, s')" "plain_items s"
  shows "conserved s s'"
  using assms(1)
proof (cases rule: receive_transfer_cases)
  case (1 d w entries events s1 t)
  obtain rows where "ledger_rows entries = Inr rows" "w_ledger s' = w_ledger s1 @ rows" "w_inventory s' = w_inventory s1"
    using booked_in_rows [OF 1(7) items_only_inventory(3) [OF 1(6)]] by blast
  then show ?thesis
    by (intro receiving.loop_conserves [OF 1(6), of rows]) (auto simp: plain_entries [OF assms(2)])
qed

lemma step_conserved:
  assumes "movement_step pd s s'" "documents_ok s" "plain_items s'"
  shows "conserved s s'"
proof -
  have plain: "plain_items s" by (rule plain_items_before [OF step_items_kept [OF assms(1,2)] assms(3)])
  from assms(1) show ?thesis
  proof cases
    case (processed i u r)
    then show ?thesis using plain by (rule processed_conserves)
  next
    case (received i u r)
    then show ?thesis using plain by (rule received_conserves)
  next
    case (registered input r)
    then show ?thesis using assms(3) by (rule registered_conserves)
  next
    case (drafted tinput r)
    then show ?thesis by (rule stock_kept_conserved [OF drafted_keeps])
  next
    case (tick t)
    then show ?thesis by (intro stock_kept_conserved) (simp add: stock_kept_def)
  qed
qed

lemma movements_conserved:
  "movements pd s s' \<Longrightarrow> documents_ok s \<Longrightarrow> plain_items s' \<Longrightarrow> conserved s s'"
proof (induction rule: rtranclp_induct)
  case base
  then show ?case by (simp add: conserved_def)
next
  case (step t u)
  then have t: "documents_ok t" using movements_life by blast
  have "plain_items t" by (rule plain_items_before [OF step_items_kept [OF step(2) t] step.prems(2)])
  then show ?case
    using step.IH step.prems step_conserved [OF step(2) t] conserved_trans by blast
qed

section \<open>Transfers\<close>

text \<open>What a document moves of a stock item.\<close>

definition moved_total :: "inventory_document_item list \<Rightarrow> string \<Rightarrow> int" where
  "moved_total items j = sum_list (map di_quantity (filter (\<lambda>x. di_stockItemId x = j) items))"

lemma collected_dispatch:
  "collected (map (dispatch_entry d w) items) w' j = (if w' = w then - of_int (moved_total items j) else 0)"
  by (induction items) (auto simp: collected_def collected_entry_def dispatch_entry_def moved_total_def)

lemma collected_receive:
  "collected (map (receive_entry d w) items) w' j = (if w' = w then of_int (moved_total items j) else 0)"
  by (induction items) (auto simp: collected_def collected_entry_def receive_entry_def moved_total_def)

lemma on_hand_same: "w_inventory s' = w_inventory s \<Longrightarrow> on_hand s' w j = on_hand s w j"
  by (simp add: on_hand_def)

lemma dispatch_takes:
  assumes "process_document i u s = Inr (r, s1)" "find_by id_id i (w_documents s) = Some d"
    and "id_docType d = TRANSFER" "no_locations s" "plain_items s"
  shows "\<exists>a b. id_fromWarehouseId d = Some a \<and> id_toWarehouseId d = Some b \<and>
    (\<forall>w j. on_hand s1 w j = on_hand s w j - (if w = a then moved_total (items_of s i) j else 0))"
  using assms(1)
proof (cases rule: process_document_cases)
  case (dispatch d' entries events s0 t)
  have d: "d' = d" "id_id d = i" using dispatch(1) assms(2) find_by_SomeD [OF assms(2)] by auto
  obtain a where a: "nonempty (id_fromWarehouseId d) = Some a" "nonempty (id_toWarehouseId d) \<noteq> None" and
    l: "sfold (dispatch_item d a) (items_of s i) ([], []) s = Inr ((entries, events), s0)"
    using dispatch_items_loop [OF dispatch(5)] d by blast
  have "of_int (on_hand s0 w j) =
      of_int (on_hand s w j) + collected (map (dispatch_entry d a) (items_of s i)) w j" for w j
    by (rule dispatching.loop_on_hand [OF l _ assms(4)]) (simp_all add: plain_entries [OF assms(5)])
  then have "(of_int (on_hand s0 w j) :: rat) =
      of_int (on_hand s w j - (if w = a then moved_total (items_of s i) j else 0))" for w j
    by (simp add: collected_dispatch)
  then have "on_hand s1 w j = on_hand s w j - (if w = a then moved_total (items_of s i) j else 0)" for w j
    unfolding on_hand_same [OF booked_in_inventory [OF dispatch(6)]] by (simp only: of_int_eq_iff)
  then show ?thesis using a by (auto simp: nonempty_def split: option.splits if_splits)
next
  case (adjust d' entries events s0 t)
  then show ?thesis using assms(2,3) by simp
qed

lemma receive_gives:
  assumes "receive_transfer i u s = Inr (r, s1)" "find_by id_id i (w_documents s) = Some d"
    and "no_locations s" "plain_items s"
  shows "id_docType d = TRANSFER \<and> (\<exists>b. id_toWarehouseId d = Some b \<and>
    (\<forall>w j. on_hand s1 w j = on_hand s w j + (if w = b then moved_total (items_of s i) j else 0)))"
  using assms(1)
proof (cases rule: receive_transfer_cases)
  case (1 d' b entries events s0 t)
  have d: "d' = d" "id_id d = i" using 1(1) assms(2) find_by_SomeD [OF assms(2)] by auto
  have l: "sfold (receive_item d b) (items_of s i) ([], []) s = Inr ((entries, events), s0)"
    using 1(6) d by simp
  have "of_int (on_hand s0 w j) =
      of_int (on_hand s w j) + collected (map (receive_entry d b) (items_of s i)) w j" for w j
    by (rule receiving.loop_on_hand [OF l _ assms(3)]) (simp_all add: plain_entries [OF assms(4)])
  then have "(of_int (on_hand s0 w j) :: rat) =
      of_int (on_hand s w j + (if w = b then moved_total (items_of s i) j else 0))" for w j
    by (simp add: collected_receive)
  then have "on_hand s1 w j = on_hand s w j + (if w = b then moved_total (items_of s i) j else 0)" for w j
    unfolding on_hand_same [OF booked_in_inventory [OF 1(7)]] by (simp only: of_int_eq_iff)
  then show ?thesis using 1(3,5) d by (auto simp: nonempty_def split: option.splits if_splits)
qed

text \<open>The location of a received item replaces the one the row had.\<close>

lemma receive_item_replaces:
  assumes "receive_item document w item acc s = Inr (acc', s')"
    and "inventory_row_of w (di_stockItemId item) (w_inventory s) = Some row"
    and "in_locationId row \<noteq> or_else (di_toLocationId item) (di_fromLocationId item)"
  shows "on_hand s' w (di_stockItemId item) = di_quantity item"
proof -
  let ?j = "di_stockItemId item" and ?loc = "or_else (di_toLocationId item) (di_fromLocationId item)"
  have "current_balance s w ?j ?loc = empty_balance w ?j ?loc"
    using assms(2,3) by (simp add: current_balance_def)
  with receive_item_Inr [OF assms(1)] obtain row' where
    "in_warehouseId row' = w" "in_stockItemId row' = ?j" "(of_int (in_onHand row') :: rat) = of_int (di_quantity item)"
    "w_inventory s' = save_row row' (w_inventory s)"
    by (auto simp: moved_def empty_balance_def)
  then show ?thesis by (simp add: on_hand_def inventory_key_def)
qed

end
