(* ===== verification/TransferProperties.thy ===== *)
theory TransferProperties
  imports TransferLaws
begin

text \<open>
  The properties of the movements of stock, over any sequence of dispatches, receptions,
  registered movements and drafts, each with a run of a transfer of four units between two
  warehouses.
\<close>

section \<open>A transfer\<close>

definition transfer_doc :: inventory_document where
  "transfer_doc = \<lparr>id_id = nat_string 1000, id_docType = TRANSFER, id_productType = Some PRODUCT,
     id_status = DOC_DRAFT, id_serieId = Some ''t'', id_correlative = Some 1,
     id_fromWarehouseId = Some ''w1'', id_toWarehouseId = Some ''w2'', id_referenceId = None,
     id_referenceType = None, id_note = None, id_createdBy = Some ''u1'', id_postedBy = None,
     id_postedAt = None, id_effectiveDate = None, id_scheduledDepartureDate = None,
     id_expectedArrivalDate = None, id_dispatchedBy = None, id_dispatchedAt = None,
     id_receivedBy = None, id_receivedAt = None\<rparr>"

definition transfer_line :: inventory_document_item where
  "transfer_line = \<lparr>di_id = nat_string 1001, di_docId = nat_string 1000, di_stockItemId = ''x1'',
     di_fromLocationId = None, di_toLocationId = None, di_quantity = 4, di_wasteQty = 0,
     di_unitCost = None\<rparr>"

definition transfer_world :: world where
  "transfer_world = example_world\<lparr>w_documents := [transfer_doc],
     w_documentItems := [transfer_line], w_next := 2\<rparr>"

lemmas transfer_fixture = transfer_world_def transfer_doc_def transfer_line_def example_world_def
  example_catalog_def

lemma inj_ids: "inj (\<lambda>n. nat_string (1000 + n))"
proof (rule injI)
  fix a b
  assume "nat_string (1000 + a) = nat_string (1000 + b)"
  then have "digits_value (nat_string (1000 + a)) = digits_value (nat_string (1000 + b))" by simp
  then show "a = b" by simp
qed

lemma transfer_world_ok:
  "documents_ok transfer_world" "inventory_ok transfer_world" "no_locations transfer_world"
proof -
  have "nat_string 1000 \<in> (\<lambda>n. nat_string (1000 + n)) ` {..<2::nat}"
    by (rule image_eqI [where x = 0]) simp_all
  then show "documents_ok transfer_world"
    using inj_ids by (simp add: documents_ok_def kinds_def transfer_fixture)
qed (simp_all add: inventory_ok_def balance_ok_def no_locations_def transfer_fixture)

lemma moved_columns:
  "int_column 0 = Inr 0" "int_column 4 = Inr 4" "int_column 6 = Inr 6" "int_column 10 = Inr 10"
  by code_simp+

lemmas movement_eval = moved_columns process_document_def receive_transfer_def findDocumentForUpdate_def
  listItems_def dispatch_items_def dispatch_item_def receive_item_def listByStockItemId_def
  balance_at_def toBalance_def upsert_def log_of_def
  stock_event_of_def now_def or_else_def nonempty_def appendLedger_def ledger_row_def
  markInTransit_def markReceived_def update_where_def find_by_def getSnapshot_def
  inventory_row_of_def inventory_key_def empty_balance_def action_simps

lemma transfer_run:
  "\<exists>r s1 r' s2. process_document (nat_string 1000) ''u'' transfer_world = Inr (r, s1) \<and>
     receive_transfer (nat_string 1000) ''v'' s1 = Inr (r', s2) \<and> plain_items s2 \<and>
     map id_status (w_documents s1) = [IN_TRANSIT] \<and> map id_status (w_documents s2) = [DOC_POSTED] \<and>
     on_hand s2 ''w1'' ''x1'' = 6 \<and> on_hand s2 ''w2'' ''x1'' = 4"
  by (simp add: movement_eval transfer_fixture plain_items_def on_hand_def)

lemma transfer_runs:
  obtains r s1 r' s2 where
    "process_document (nat_string 1000) ''u'' transfer_world = Inr (r, s1)"
    "receive_transfer (nat_string 1000) ''v'' s1 = Inr (r', s2)" "plain_items s2"
    "map id_status (w_documents s1) = [IN_TRANSIT]" "map id_status (w_documents s2) = [DOC_POSTED]"
    "on_hand s2 ''w1'' ''x1'' = 6" "on_hand s2 ''w2'' ''x1'' = 4"
    "movements (\<lambda>_. None) transfer_world s1" "movements (\<lambda>_. None) transfer_world s2"
proof -
  obtain r s1 r' s2 where t:
    "process_document (nat_string 1000) ''u'' transfer_world = Inr (r, s1)"
    "receive_transfer (nat_string 1000) ''v'' s1 = Inr (r', s2)" "plain_items s2"
    "map id_status (w_documents s1) = [IN_TRANSIT]" "map id_status (w_documents s2) = [DOC_POSTED]"
    "on_hand s2 ''w1'' ''x1'' = 6" "on_hand s2 ''w2'' ''x1'' = 4"
    using transfer_run by (elim exE conjE) (rule that)
  have "movements (\<lambda>_. None) transfer_world s1"
    by (rule r_into_rtranclp) (rule movement_step.processed [OF t(1)])
  moreover from this have "movements (\<lambda>_. None) transfer_world s2"
    by (rule rtranclp.rtrancl_into_rtrancl) (rule movement_step.received [OF t(2)])
  ultimately show thesis by (rule that [OF t])
qed

section \<open>Documents\<close>



text \<open>
  C23. Stock moves once: a document that was processed is refused by every later processing, and a
  transfer that was received by every later reception, whatever happened in between.
\<close>

theorem movements_happen_once:
  assumes "documents_ok s" "movements pd s1 s2"
  shows "(process_document i u s = Inr (r, s1) \<longrightarrow> process_document i u' s2 =
      Inl (BadRequestException ''Solo se pueden procesar documentos en DRAFT'')) \<and>
    (receive_transfer i u s = Inr (r, s1) \<longrightarrow> receive_transfer i u' s2 =
      Inl (BadRequestException ''Solo se pueden recibir transferencias en transito''))"
proof (intro conjI impI)
  assume p: "process_document i u s = Inr (r, s1)"
  have "documents_advance s1 s2"
    using movements_life [OF assms(2) step_documents_ok [OF movement_step.processed [OF p] assms(1)]] ..
  with process_document_leaves_draft [OF p] show "process_document i u' s2 =
      Inl (BadRequestException ''Solo se pueden procesar documentos en DRAFT'')"
    using find_by_advance doc_path_draft process_document_not_draft by blast
next
  assume p: "receive_transfer i u s = Inr (r, s1)"
  have a: "documents_advance s1 s2"
    using movements_life [OF assms(2) step_documents_ok [OF movement_step.received [OF p] assms(1)]] ..
  obtain d where d: "find_by id_id i (w_documents s1) = Some d" "id_status d = DOC_POSTED" "id_docType d = TRANSFER"
    using receive_transfer_posts [OF p] by blast
  from find_by_advance [OF a d(1)] have "find_by id_id i (w_documents s2) = Some d"
    using doc_path_posted d(2) by blast
  then show "receive_transfer i u' s2 =
      Inl (BadRequestException ''Solo se pueden recibir transferencias en transito'')"
    using receive_transfer_not_in_transit d(2,3) by simp
qed

theorem movements_happen_once_witness:
  "\<exists>r s1. process_document (nat_string 1000) ''u'' transfer_world = Inr (r, s1) \<and>
     process_document (nat_string 1000) ''v'' s1 =
       Inl (BadRequestException ''Solo se pueden procesar documentos en DRAFT'')"
proof -
  obtain r s1 where p: "process_document (nat_string 1000) ''u'' transfer_world = Inr (r, s1)"
    by (rule transfer_runs)
  from movements_happen_once [OF transfer_world_ok(1) rtranclp.rtrancl_refl [of _ s1],
      of "nat_string 1000" "''u''" r "''v''"] p
  show ?thesis by (intro exI [of _ r] exI [of _ s1]) simp
qed

section \<open>Stock\<close>

text \<open>
  C24. Balances stay valid over any sequence of movements: what is reserved is neither negative
  nor more than what is on hand, what is available is the difference, and a warehouse has one
  row per stock item.
\<close>

theorem movements_keep_balances:
  assumes "documents_ok s" "inventory_ok s" "movements pd s s'"
  shows "inventory_ok s'"
  by (rule movements_inventory_ok [OF assms(3,1,2)])

theorem movements_keep_balances_witness:
  "\<exists>s'. movements (\<lambda>_. None) transfer_world s' \<and> on_hand s' ''w2'' ''x1'' = 4 \<and> inventory_ok s'"
proof -
  obtain r s1 r' s2 where t: "on_hand s2 ''w2'' ''x1'' = 4" "movements (\<lambda>_. None) transfer_world s2"
    by (rule transfer_runs)
  from movements_keep_balances [OF transfer_world_ok(1,2) t(2)] t show ?thesis by (intro exI [of _ s2]) simp
qed

text \<open>
  C16. As long as no item names a location, what is on hand changes by what the ledger books, over
  any sequence of movements.
\<close>

theorem movements_conserve_stock:
  assumes "documents_ok s" "no_locations s" "movements pd s s'" "plain_items s'"
  shows "on_hand s' w j - booked s' w j = on_hand s w j - booked s w j"
  using movements_conserved [OF assms(3,1,4)] assms(2) by (simp add: conserved_def)

theorem movements_conserve_stock_witness:
  "\<exists>s'. movements (\<lambda>_. None) transfer_world s' \<and> on_hand s' ''w2'' ''x1'' = 4 \<and>
     booked s' ''w2'' ''x1'' = 4"
proof -
  obtain r s1 r' s2 where t: "plain_items s2" "on_hand s2 ''w2'' ''x1'' = 4"
    "movements (\<lambda>_. None) transfer_world s2"
    by (rule transfer_runs)
  have "on_hand transfer_world ''w2'' ''x1'' = 0" "booked transfer_world ''w2'' ''x1'' = 0"
    by (simp_all add: on_hand_def booked_def inventory_row_of_def inventory_key_def transfer_fixture)
  then show ?thesis
    using movements_conserve_stock [OF transfer_world_ok(1,3) t(3,1), of "''w2''" "''x1''"] t by auto
qed



text \<open>
  C36. A reception whose item names another location than the row of the destination forgets the
  row: what is on hand afterwards is the received quantity alone.
\<close>

theorem reception_replaces_other_location:
  assumes "inventory_row_of w (di_stockItemId item) (w_inventory s) = Some row"
    and "in_locationId row \<noteq> or_else (di_toLocationId item) (di_fromLocationId item)"
    and "receive_item document w item acc s = Inr (acc', s')"
  shows "on_hand s' w (di_stockItemId item) = di_quantity item"
  by (rule receive_item_replaces [OF assms(3,1,2)])

theorem reception_replaces_other_location_witness:
  "\<exists>acc' s'. receive_item transfer_doc ''w1'' (transfer_line\<lparr>di_toLocationId := Some ''l''\<rparr>) ([], [])
      transfer_world = Inr (acc', s') \<and>
    on_hand transfer_world ''w1'' ''x1'' = 10 \<and> on_hand s' ''w1'' ''x1'' = 4"
proof -
  let ?item = "transfer_line\<lparr>di_toLocationId := Some ''l''\<rparr>"
  obtain row where row: "inventory_row_of ''w1'' (di_stockItemId ?item) (w_inventory transfer_world) = Some row"
    "in_locationId row \<noteq> or_else (di_toLocationId ?item) (di_fromLocationId ?item)" "in_onHand row = 10"
    by (simp add: inventory_row_of_def inventory_key_def transfer_fixture or_else_def)
  obtain acc' s' where r: "receive_item transfer_doc ''w1'' ?item ([], []) transfer_world = Inr (acc', s')"
    by (simp add: movement_eval Let_def transfer_fixture)
  from reception_replaces_other_location [OF row(1,2) r] r row show ?thesis
    by (auto simp: on_hand_def transfer_line_def)
qed

end
