(* ===== verification/Effects.thy ===== *)
theory Effects
  imports Prelude
begin

text \<open>
  Code that runs outside a transaction. Every statement it sends to the database is committed
  at once, so what it has written stays when a later step throws; the model returns the state
  in both cases. A transaction is an effect whose writes are undone when it throws. The
  judgement \<open>settles R Q m\<close> relates the start state of \<open>m\<close> to its end state, whether
  \<open>m\<close> returns or throws, and describes the result it returns.
\<close>

named_theorems effect_simps \<open>unfolding rules of the effect monad\<close>

section \<open>Effects\<close>

type_synonym ('s, 'e, 'a) effect = "'s \<Rightarrow> ('e + 'a) \<times> 's"

definition ereturn :: "'a \<Rightarrow> ('s, 'e, 'a) effect" where
  "ereturn a s = (Inr a, s)"

definition ethrow :: "'e \<Rightarrow> ('s, 'e, 'a) effect" where
  "ethrow e s = (Inl e, s)"

definition ebind :: "('s, 'e, 'a) effect \<Rightarrow> ('a \<Rightarrow> ('s, 'e, 'b) effect) \<Rightarrow> ('s, 'e, 'b) effect" where
  "ebind m f s = (case m s of (r, t) \<Rightarrow> (case r of Inl e \<Rightarrow> (Inl e, t) | Inr a \<Rightarrow> f a t))"

definition ethen :: "('s, 'e, 'a) effect \<Rightarrow> ('s, 'e, 'b) effect \<Rightarrow> ('s, 'e, 'b) effect" where
  "ethen m k = ebind m (\<lambda>_. k)"

definition ereads :: "('s \<Rightarrow> 'a) \<Rightarrow> ('s, 'e, 'a) effect" where
  "ereads f s = (Inr (f s), s)"

definition emodify :: "('s \<Rightarrow> 's) \<Rightarrow> ('s, 'e, unit) effect" where
  "emodify f s = (Inr (), f s)"

definition eguard :: "bool \<Rightarrow> 'e \<Rightarrow> ('s, 'e, unit) effect" where
  "eguard b e = (if b then ereturn () else ethrow e)"

definition ewhen :: "bool \<Rightarrow> ('s, 'e, unit) effect \<Rightarrow> ('s, 'e, unit) effect" where
  "ewhen b m = (if b then m else ereturn ())"

definition elift :: "'e + 'a \<Rightarrow> ('s, 'e, 'a) effect" where
  "elift r s = (r, s)"

text \<open>A \<open>catch\<close> that throws another error: what was written before stays.\<close>

definition emap_error :: "('e \<Rightarrow> 'e) \<Rightarrow> ('s, 'e, 'a) effect \<Rightarrow> ('s, 'e, 'a) effect" where
  "emap_error h m s = (case m s of (r, t) \<Rightarrow> (case r of Inl e \<Rightarrow> (Inl (h e), t) | Inr a \<Rightarrow> (Inr a, t)))"

text \<open>A loop over a list.\<close>

primrec efor :: "'a list \<Rightarrow> ('a \<Rightarrow> ('s, 'e, unit) effect) \<Rightarrow> ('s, 'e, unit) effect" where
  "efor [] f = ereturn ()"
| "efor (x # xs) f = ethen (f x) (efor xs f)"

text \<open>One transaction: what it wrote is undone when it throws.\<close>

definition transaction :: "('s, 'e, 'a) effect \<Rightarrow> ('s, 'e, 'a) effect" where
  "transaction m s = (case m s of (r, t) \<Rightarrow> (case r of Inl e \<Rightarrow> (Inl e, s) | Inr a \<Rightarrow> (Inr a, t)))"

lemmas effect_defs [effect_simps] =
  ereturn_def ethrow_def ebind_def ethen_def ereads_def emodify_def eguard_def ewhen_def
  elift_def emap_error_def transaction_def

section \<open>What an effect returns\<close>

lemma ebind_Inr:
  "ebind m f s = (Inr b, u) \<longleftrightarrow> (\<exists>a t. m s = (Inr a, t) \<and> f a t = (Inr b, u))"
  by (auto simp: ebind_def split: prod.splits sum.splits)

lemma ethen_Inr: "ethen m k s = (Inr b, u) \<longleftrightarrow> (\<exists>a t. m s = (Inr a, t) \<and> k t = (Inr b, u))"
  by (auto simp: ethen_def ebind_Inr)

lemma ereturn_Inr: "ereturn a s = (Inr b, t) \<longleftrightarrow> b = a \<and> t = s"
  by (auto simp: ereturn_def)

lemma ethrow_Inr: "ethrow e s = (Inr b, t) \<longleftrightarrow> False"
  by (simp add: ethrow_def)

lemma ereads_Inr: "ereads f s = (Inr b, t) \<longleftrightarrow> b = f s \<and> t = s"
  by (auto simp: ereads_def)

lemma emodify_Inr: "emodify f s = (Inr b, t) \<longleftrightarrow> t = f s"
  by (auto simp: emodify_def)

lemma eguard_Inr: "eguard b e s = (Inr u, t) \<longleftrightarrow> b \<and> t = s"
  by (auto simp: eguard_def ereturn_def ethrow_def)

lemma ewhen_Inr: "ewhen b m s = (Inr u, t) \<longleftrightarrow> (if b then m s = (Inr u, t) else t = s)"
  by (auto simp: ewhen_def ereturn_def)

lemma elift_Inr: "elift r s = (Inr b, t) \<longleftrightarrow> r = Inr b \<and> t = s"
  by (auto simp: elift_def)

lemma emap_error_Inr: "emap_error h m s = (Inr b, t) \<longleftrightarrow> m s = (Inr b, t)"
  by (auto simp: emap_error_def split: prod.splits sum.splits)

lemma transaction_Inr: "transaction m s = (Inr b, t) \<longleftrightarrow> m s = (Inr b, t)"
  by (auto simp: transaction_def split: prod.splits sum.splits)

lemmas effect_Inr =
  ebind_Inr ethen_Inr ereturn_Inr ethrow_Inr ereads_Inr emodify_Inr eguard_Inr ewhen_Inr
  elift_Inr emap_error_Inr transaction_Inr

lemma transaction_Inl: "fst (transaction m s) = Inl e \<Longrightarrow> snd (transaction m s) = s"
  by (auto simp: transaction_def split: prod.splits sum.splits)

section \<open>Effects that relate states\<close>

definition settles :: "('s \<Rightarrow> 's \<Rightarrow> bool) \<Rightarrow> ('a \<Rightarrow> bool) \<Rightarrow> ('s, 'e, 'a) effect \<Rightarrow> bool" where
  "settles R Q m \<longleftrightarrow>
     (\<forall>s. R s (snd (m s)) \<and> (case fst (m s) of Inl e \<Rightarrow> True | Inr a \<Rightarrow> Q a))"

abbreviation settled_by :: "('s \<Rightarrow> 's \<Rightarrow> bool) \<Rightarrow> ('s, 'e, 'a) effect \<Rightarrow> bool" where
  "settled_by R m \<equiv> settles R (\<lambda>_. True) m"

lemma settlesD: "settles R Q m \<Longrightarrow> R s (snd (m s))"
  by (simp add: settles_def)

lemma settles_state: "settles R Q m \<Longrightarrow> m s = (r, t) \<Longrightarrow> R s t"
  using settlesD [of R Q m s] by simp

lemma settles_result: "settles R Q m \<Longrightarrow> m s = (Inr a, t) \<Longrightarrow> Q a"
  by (simp add: settles_def) (metis fst_conv sum.simps(6))

lemma settlesI:
  "(\<And>s. R s (snd (m s))) \<Longrightarrow> (\<And>s a t. m s = (Inr a, t) \<Longrightarrow> Q a) \<Longrightarrow> settles R Q m"
  unfolding settles_def by (metis (mono_tags) prod.collapse sum.case_eq_if sum.collapse(2))

lemma settles_weaken: "settles R P m \<Longrightarrow> (\<And>a. P a \<Longrightarrow> Q a) \<Longrightarrow> settles R Q m"
  by (auto simp: settles_def split: sum.splits)

lemma settles_relation: "settles R Q m \<Longrightarrow> (\<And>s t. R s t \<Longrightarrow> S s t) \<Longrightarrow> settles S Q m"
  by (auto simp: settles_def)

lemma settles_if:
  "(c \<Longrightarrow> settles R Q m) \<Longrightarrow> (\<not> c \<Longrightarrow> settles R Q k) \<Longrightarrow> settles R Q (if c then m else k)"
  by simp

lemma settles_option:
  "(x = None \<Longrightarrow> settles R Q m) \<Longrightarrow> (\<And>a. x = Some a \<Longrightarrow> settles R Q (f a)) \<Longrightarrow>
   settles R Q (case x of None \<Rightarrow> m | Some a \<Rightarrow> f a)"
  by (cases x) simp_all

lemma settles_Let: "(\<And>a. a = x \<Longrightarrow> settles R Q (f a)) \<Longrightarrow> settles R Q (Let x f)"
  by simp

lemma settles_pair:
  "(\<And>a b. x = (a, b) \<Longrightarrow> settles R Q (f a b)) \<Longrightarrow> settles R Q (case x of (a, b) \<Rightarrow> f a b)"
  by (cases x) simp

lemma settles_list:
  "(xs = [] \<Longrightarrow> settles R Q m) \<Longrightarrow> (\<And>y ys. xs = y # ys \<Longrightarrow> settles R Q (f y ys)) \<Longrightarrow>
   settles R Q (case xs of [] \<Rightarrow> m | y # ys \<Rightarrow> f y ys)"
  by (cases xs) simp_all

lemmas settles_cases = settles_if settles_list settles_option settles_Let settles_pair

context preorder_on_states
begin

lemma settles_return: "Q a \<Longrightarrow> settles R Q (ereturn a)"
  by (simp add: settles_def ereturn_def R_refl)

lemma settles_throw: "settles R Q (ethrow e)"
  by (simp add: settles_def ethrow_def R_refl)

lemma settles_reads: "settled_by R (ereads f)"
  by (simp add: settles_def ereads_def R_refl split: sum.split)

lemma settles_guard: "settled_by R (eguard b e)"
  by (simp add: eguard_def settles_return settles_throw)

lemma settles_lift: "settled_by R (elift r)"
  by (simp add: settles_def elift_def R_refl split: sum.split)

lemma settles_bind:
  assumes "settles R P m" and "\<And>a. P a \<Longrightarrow> settles R Q (f a)"
  shows "settles R Q (ebind m f)"
  unfolding settles_def
proof (intro allI)
  fix s
  obtain r t where m: "m s = (r, t)" by (cases "m s")
  have Rt: "R s t" using settlesD [OF assms(1), of s] m by simp
  show "R s (snd (ebind m f s)) \<and> (case fst (ebind m f s) of Inl e \<Rightarrow> True | Inr a \<Rightarrow> Q a)"
  proof (cases r)
    case (Inl e)
    then show ?thesis using m Rt by (simp add: ebind_def)
  next
    case (Inr a)
    have "P a" using settles_result [OF assms(1)] m Inr by simp
    then have "settles R Q (f a)" by (rule assms(2))
    then have "R t (snd (f a t)) \<and> (case fst (f a t) of Inl e \<Rightarrow> True | Inr a \<Rightarrow> Q a)"
      by (simp add: settles_def)
    then show ?thesis using m Inr R_trans [OF Rt] by (simp add: ebind_def)
  qed
qed

text \<open>The bind whose first step is a computation, and the one whose result does not matter.\<close>

lemma settles_bind_lift: "(\<And>a. r = Inr a \<Longrightarrow> settles R Q (f a)) \<Longrightarrow> settles R Q (ebind (elift r) f)"
  by (rule settles_bind [where P = "\<lambda>a. r = Inr a"]) (simp_all add: settles_def elift_def R_refl split: sum.split)

lemma settled_bind: "settled_by R m \<Longrightarrow> (\<And>a. settles R Q (f a)) \<Longrightarrow> settles R Q (ebind m f)"
  by (rule settles_bind)

lemma settles_then: "settled_by R m \<Longrightarrow> settles R Q k \<Longrightarrow> settles R Q (ethen m k)"
  unfolding ethen_def by (rule settled_bind)

lemma settles_when: "(b \<Longrightarrow> settled_by R m) \<Longrightarrow> settled_by R (ewhen b m)"
  by (simp add: ewhen_def settles_return)

lemma settles_map_error: "settles R Q m \<Longrightarrow> settles R Q (emap_error h m)"
  by (rule settlesI)
     (auto simp: emap_error_def elim: settles_state settles_result split: prod.splits sum.splits)

lemma settles_transaction: "settles R Q m \<Longrightarrow> settles R Q (transaction m)"
  by (rule settlesI)
     (auto simp: transaction_def R_refl elim: settles_state settles_result split: prod.splits sum.splits)

lemma settles_for: "(\<And>x. settled_by R (f x)) \<Longrightarrow> settled_by R (efor xs f)"
  by (induction xs) (simp_all add: settles_return settles_then)

lemma settles_modify: "(\<And>s. R s (g s)) \<Longrightarrow> settled_by R (emodify g)"
  by (simp add: settles_def emodify_def)

text \<open>The same rules at one state, for steps that depend on what was read there.\<close>

lemma at_bind:
  assumes "R s (snd (m s))" and "\<And>a t. m s = (Inr a, t) \<Longrightarrow> R t (snd (f a t))"
  shows "R s (snd (ebind m f s))"
proof (cases "m s")
  case (Pair r t)
  show ?thesis
  proof (cases r)
    case (Inl e)
    then show ?thesis using assms(1) Pair by (simp add: ebind_def)
  next
    case (Inr a)
    then show ?thesis using assms(1) R_trans [OF _ assms(2) [of a t]] Pair by (simp add: ebind_def)
  qed
qed

lemma at_then:
  "R s (snd (m s)) \<Longrightarrow> (\<And>a t. m s = (Inr a, t) \<Longrightarrow> R t (snd (k t))) \<Longrightarrow> R s (snd (ethen m k s))"
  unfolding ethen_def by (rule at_bind)

lemma at_transaction: "R s (snd (m s)) \<Longrightarrow> R s (snd (transaction m s))"
  by (cases "m s") (auto simp: transaction_def R_refl split: sum.splits)

lemma at_map_error: "R s (snd (m s)) \<Longrightarrow> R s (snd (emap_error h m s))"
  by (cases "m s") (auto simp: emap_error_def split: sum.splits)

lemma at_unchanged: "snd (m s) = s \<Longrightarrow> R s (snd (m s))"
  by (simp add: R_refl)

lemmas effect_rules = settles_throw settles_return settles_reads settles_guard settles_lift
  settles_then settles_when settles_map_error settles_transaction settles_for

end

end
