(* ===== verification/Treasury.thy ===== *)
theory Treasury
  imports Store Effects
begin

text \<open>
  The tables of the purchase side that keep what is owed and what is paid: the accounts
  payable, the payment documents, their allocations and the credit quotas, together with the
  tables the payments read (methods, treasury accounts, supplier destinations, purchases,
  approval requests, evidence) and the two records they write for people, the history of a
  purchase and the calls of the notification service. One record per entity of
  \<open>src/modules/*/adapters/out/persistence/typeorm/entities\<close>; a table is the list of its rows
  in the order of their creation.

  Amounts are exact rationals; a \<open>numeric(12, 2)\<close> column rounds what is stored to cents. The
  environment of the process is part of the state and never changes in a call: the clock, the
  supply of identifiers, the calendar day a \<open>date\<close> column keeps of an instant, and whether a
  condition \<open>null\<close> in the \<open>where\<close> object of a query is dropped, as the installed
  TypeORM 0.3 does, or compared.
\<close>

section \<open>Dates, columns and stored text\<close>

datatype js_date = Instant int | DateOnly int

definition round_half_away :: "rat \<Rightarrow> int" where
  "round_half_away x = (if 0 \<le> x then \<lfloor>x + 1/2\<rfloor> else - \<lfloor>- x + 1/2\<rfloor>)"

definition numeric_12_2 :: "rat \<Rightarrow> app_error + rat" where
  "numeric_12_2 x =
     (let c = round_half_away (x * 100) in if \<bar>c\<bar> < 10 ^ 12 then Inr (of_int c / 100) else Inl QueryFailed)"

definition centesimal :: "rat \<Rightarrow> bool" where
  "centesimal x \<longleftrightarrow> x * 100 \<in> \<int>"

text \<open>\<open>value?.trim() || undefined\<close>\<close>

definition trimmed :: "string option \<Rightarrow> string option" where
  "trimmed v = (case v of None \<Rightarrow> None | Some t \<Rightarrow> if js_trim t = '''' then None else Some (js_trim t))"

definition filled :: "string option \<Rightarrow> bool" where
  "filled v \<longleftrightarrow> v \<noteq> None \<and> v \<noteq> Some ''''"

fun save_by :: "('a \<Rightarrow> 'k) \<Rightarrow> 'a \<Rightarrow> 'a list \<Rightarrow> 'a list" where
  "save_by key r [] = [r]"
| "save_by key r (x # xs) = (if key x = key r then r # xs else x # save_by key r xs)"

section \<open>Accounts payable and payments\<close>

datatype payable_status =
  PayablePending | PayablePartial | PayablePaid | PayableOverdue | PayableCancelled

record account_payable =
  ap_id :: string
  ap_purchaseId :: string
  ap_quotaId :: "string option"
  ap_supplierId :: "string option"
  ap_description :: "string option"
  ap_currency :: currency_type
  ap_amountTotal :: rat
  ap_amountPaid :: rat
  ap_amountPending :: rat
  ap_dueDate :: "js_date option"
  ap_status :: payable_status
  ap_requiresManualReview :: bool
  ap_reconciliationNote :: "string option"
  ap_createdByUserId :: "string option"
  ap_createdAt :: "int option"
  ap_updatedAt :: "int option"

datatype pay_doc_type = PayDocPurchase | PayDocSale

datatype pay_status = DRAFT | SCHEDULED | PENDING_APPROVAL | POSTED | APPROVED | REJECTED | VOIDED

record payment_document =
  pd_id :: string
  pd_method :: string
  pd_date :: int
  pd_operationNumber :: "string option"
  pd_currency :: currency_type
  pd_amount :: rat
  pd_note :: "string option"
  pd_fromDocumentType :: pay_doc_type
  pd_poId :: "string option"
  pd_quotaId :: "string option"
  pd_accountPayableId :: "string option"
  pd_companyPaymentAccountId :: "string option"
  pd_paymentMethodId :: "string option"
  pd_supplierPaymentDestinationId :: "string option"
  pd_status :: pay_status
  pd_requestedByUserId :: "string option"
  pd_approvedByUserId :: "string option"
  pd_rejectedByUserId :: "string option"
  pd_approvedAt :: "int option"
  pd_rejectedAt :: "int option"
  pd_rejectionReason :: "string option"
  pd_paidByUserId :: "string option"
  pd_scheduledByUserId :: "string option"
  pd_scheduledAt :: "int option"
  pd_paidAt :: "int option"
  pd_paymentEvidenceFileId :: "string option"
  pd_bankName :: "string option"
  pd_cardLastFour :: "string option"
  pd_operationCode :: "string option"
  pd_isPartial :: bool

record payment_allocation =
  pl_id :: string
  pl_paymentId :: string
  pl_accountPayableId :: string
  pl_amount :: rat
  pl_currency :: currency_type

record credit_quota =
  cq_id :: string
  cq_number :: rat
  cq_expirationDate :: js_date
  cq_paymentDate :: "int option"
  cq_totalToPay :: rat
  cq_totalPaid :: rat
  cq_fromDocumentType :: pay_doc_type
  cq_poId :: "string option"
  cq_createdAt :: int

section \<open>The tables a payment reads\<close>

record payment_method =
  pm_id :: string
  pm_name :: string
  pm_code :: string
  pm_isActive :: bool
  pm_requiresVoucher :: bool
  pm_requiresSourceAccount :: bool
  pm_requiresDestination :: bool
  pm_requiresOperationReference :: bool

datatype evidence_policy = EvidenceInherit | EvidenceRequired | EvidenceOptional

record company_method =
  cm_companyId :: string
  cm_methodId :: string
  cm_enabled :: bool
  cm_evidencePolicy :: evidence_policy

datatype treasury_account_type = BankAccount | CreditCardAccount | CashAccount | WalletAccount

record treasury_account =
  ta_id :: string
  ta_companyId :: string
  ta_type :: treasury_account_type
  ta_usage :: string
  ta_currency :: currency_type
  ta_isActive :: bool

record supplier_destination =
  sd_id :: string
  sd_supplierId :: string
  sd_methodId :: "string option"
  sd_currency :: currency_type
  sd_isActive :: bool
  sd_requiresManualReview :: bool

text \<open>
  The approval of a purchase and of an approval request; only a purchase may need none.
\<close>

datatype approval_status = ApprovalNotRequired | ApprovalPending | ApprovalApproved | ApprovalRejected

record purchase_header =
  ph_id :: string
  ph_supplierId :: "string option"
  ph_approvalStatus :: approval_status

record purchase_attachment =
  pa_paymentId :: "string option"
  pa_type :: string
  pa_deletedAt :: "int option"

record approval_request =
  ar_id :: string
  ar_module :: string
  ar_action :: string
  ar_entityType :: string
  ar_entityId :: string
  ar_requestedByUserId :: string
  ar_status :: approval_status
  ar_reviewedByUserId :: "string option"
  ar_reviewedAt :: "int option"
  ar_createdAt :: int

text \<open>
  A row of the history of a purchase and a call of \<open>createNotificationForUsers\<close>; the JSON
  values they carry for display are left out.
\<close>

record purchase_event =
  pe_purchaseId :: string
  pe_eventType :: string
  pe_performedByUserId :: "string option"
  pe_targetUserId :: "string option"
  pe_approvalRequestId :: "string option"
  pe_createdAt :: int

record notification =
  no_recipients :: "string list"
  no_title :: string
  no_sourceEntityId :: "string option"

section \<open>The state\<close>

record treasury =
  t_payables :: "account_payable list"
  t_payments :: "payment_document list"
  t_allocations :: "payment_allocation list"
  t_quotas :: "credit_quota list"
  t_methods :: "payment_method list"
  t_companyMethods :: "company_method list"
  t_accounts :: "treasury_account list"
  t_destinations :: "supplier_destination list"
  t_purchases :: "purchase_header list"
  t_attachments :: "purchase_attachment list"
  t_approvals :: "approval_request list"
  t_history :: "purchase_event list"
  t_notifications :: "notification list"
  t_clock :: int
  t_uuid :: "nat \<Rightarrow> string"
  t_next :: nat
  t_localDay :: "int \<Rightarrow> int"
  t_dropsNull :: bool

type_synonym 'a call = "(treasury, app_error, 'a) effect"

definition new_uuid :: "string call" where
  "new_uuid s = (Inr (t_uuid s (t_next s)), s\<lparr>t_next := Suc (t_next s)\<rparr>)"

definition clock_now :: "int call" where
  "clock_now = ereads t_clock"

text \<open>The calendar day a \<open>date\<close> column keeps.\<close>

definition date_column :: "treasury \<Rightarrow> js_date \<Rightarrow> js_date" where
  "date_column s d = (case d of Instant t \<Rightarrow> DateOnly (t_localDay s t) | DateOnly n \<Rightarrow> DateOnly n)"

text \<open>A condition of a \<open>where\<close> object on a nullable column.\<close>

definition null_condition :: "treasury \<Rightarrow> string option \<Rightarrow> string option \<Rightarrow> bool" where
  "null_condition s wanted column = (if wanted = None \<and> t_dropsNull s then True else column = wanted)"

definition recordPayment ::
  "string \<Rightarrow> string \<Rightarrow> string option \<Rightarrow> string option \<Rightarrow> string option \<Rightarrow> unit call" where
  "recordPayment purchaseId eventType performedBy target approvalRequestId =
     emodify (\<lambda>s. s\<lparr>t_history := t_history s @ [\<lparr>pe_purchaseId = purchaseId, pe_eventType = eventType,
       pe_performedByUserId = performedBy, pe_targetUserId = target,
       pe_approvalRequestId = approvalRequestId, pe_createdAt = t_clock s\<rparr>]\<rparr>)"

definition createNotificationForUsers :: "string list \<Rightarrow> string \<Rightarrow> string option \<Rightarrow> unit call" where
  "createNotificationForUsers recipients title source =
     emodify (\<lambda>s. s\<lparr>t_notifications := t_notifications s @
       [\<lparr>no_recipients = recipients, no_title = title, no_sourceEntityId = source\<rparr>]\<rparr>)"

section \<open>Facts on columns and saved rows\<close>

lemma round_half_away_int: "round_half_away (of_int n) = n"
proof -
  have "\<lfloor>of_int n + (1/2 :: rat)\<rfloor> = n" "\<lfloor>- of_int n + (1/2 :: rat)\<rfloor> = - n"
    by (simp_all add: floor_unique)
  then show ?thesis by (simp add: round_half_away_def)
qed

lemma round_half_away_nonneg: "0 \<le> x \<Longrightarrow> 0 \<le> round_half_away x"
  by (simp add: round_half_away_def)

lemma numeric_centesimal: "numeric_12_2 x = Inr y \<Longrightarrow> centesimal y"
  by (auto simp: numeric_12_2_def centesimal_def Let_def simp del: of_int_eq_iff split: if_splits)
     (metis Ints_of_int)?

lemma numeric_nonneg: "numeric_12_2 x = Inr y \<Longrightarrow> 0 \<le> x \<Longrightarrow> 0 \<le> y"
  using round_half_away_nonneg [of "x * 100"]
  by (auto simp: numeric_12_2_def Let_def split: if_splits)

lemma numeric_exact: "centesimal x \<Longrightarrow> numeric_12_2 x = Inr y \<Longrightarrow> y = x"
  by (auto simp: numeric_12_2_def centesimal_def Let_def round_half_away_int elim!: Ints_cases split: if_splits)

lemma centesimal_0 [simp]: "centesimal 0"
  by (simp add: centesimal_def)

lemma centesimal_add: "centesimal x \<Longrightarrow> centesimal y \<Longrightarrow> centesimal (x + y)"
  by (simp add: centesimal_def distrib_right)

lemma centesimal_diff: "centesimal x \<Longrightarrow> centesimal y \<Longrightarrow> centesimal (x - y)"
  by (simp add: centesimal_def left_diff_distrib)

lemma centesimal_sum: "list_all (\<lambda>x. centesimal (f x)) xs \<Longrightarrow> centesimal (\<Sum>x\<leftarrow>xs. f x)"
  by (induction xs) (simp_all add: centesimal_add)

lemma set_save_by: "set (save_by key r xs) \<subseteq> insert r (set xs)"
  by (induction xs) auto

lemma in_save_by: "r \<in> set (save_by key r xs)"
  by (induction xs) auto

lemma save_by_other: "x \<in> set xs \<Longrightarrow> key x \<noteq> key r \<Longrightarrow> x \<in> set (save_by key r xs)"
  by (induction xs) auto

lemma save_by_keys: "key ` set (save_by key r xs) = insert (key r) (key ` set xs)"
  by (induction xs) auto

lemma save_by_distinct: "distinct (map key xs) \<Longrightarrow> distinct (map key (save_by key r xs))"
proof (induction xs)
  case (Cons x xs)
  have "key x \<notin> key ` set (save_by key r xs)" if "key x \<noteq> key r"
    using Cons.prems that by (simp add: save_by_keys)
  then show ?case using Cons by auto
qed simp

lemma save_by_mem:
  "distinct (map key xs) \<Longrightarrow> x \<in> set (save_by key r xs) \<longleftrightarrow> x = r \<or> x \<in> set xs \<and> key x \<noteq> key r"
proof (induction xs)
  case (Cons y ys)
  then show ?case by (auto simp: rev_image_eqI)
qed auto

lemma find_by_unique:
  "distinct (map key xs) \<Longrightarrow> x \<in> set xs \<Longrightarrow> find_by key (key x) xs = Some x"
  unfolding find_by_def by (induction xs) auto

end
