(* ===== verification/Payables.thy ===== *)
theory Payables
  imports Treasury
begin

text \<open>
  The accounts payable: the entity of
  \<open>accounts-payable/domain/entity/account-payable.ts\<close>, its repository, and the use cases that
  create a payable, recompute its balance from the payments made against it and mark the
  overdue ones. The payments of a payable are read by a parameter, the operation
  \<open>findApprovedByAccountPayableId\<close> that the payments provide.
\<close>

section \<open>The entity\<close>

record payable_params =
  pp_accountPayableId :: "string option"
  pp_purchaseId :: string
  pp_quotaId :: "string option"
  pp_supplierId :: "string option"
  pp_description :: "string option"
  pp_currency :: currency_type
  pp_amountTotal :: rat
  pp_amountPaid :: "rat option"
  pp_amountPending :: "rat option"
  pp_dueDate :: "js_date option"
  pp_status :: "payable_status option"
  pp_requiresManualReview :: "bool option"
  pp_reconciliationNote :: "string option"
  pp_createdByUserId :: "string option"
  pp_createdAt :: "int option"
  pp_updatedAt :: "int option"

definition given_or :: "'a option \<Rightarrow> 'a \<Rightarrow> 'a" where
  "given_or x d = (case x of None \<Rightarrow> d | Some v \<Rightarrow> v)"

text \<open>The identifier is generated when none is given; amounts are numbers, hence finite.\<close>

definition payable_create :: "string \<Rightarrow> payable_params \<Rightarrow> app_error + account_payable" where
  "payable_create uuid p =
     (if js_trim (pp_purchaseId p) = '''' then
        Inl (PlainError ''La cuenta por pagar debe estar vinculada a una compra'')
      else if pp_amountTotal p \<le> 0 then
        Inl (PlainError ''El total de la cuenta por pagar debe ser mayor a cero'')
      else
        let amountPaid = given_or (pp_amountPaid p) 0;
            amountPending = given_or (pp_amountPending p) (max (pp_amountTotal p - amountPaid) 0);
            balanceDifference = \<bar>pp_amountTotal p - (amountPaid + amountPending)\<bar>
        in if amountPaid < 0 \<or> amountPending < 0 \<or> balanceDifference > 1/100 then
             Inl (PlainError ''Los importes de la cuenta por pagar no pueden ser negativos'')
           else Inr \<lparr>ap_id = given_or (pp_accountPayableId p) uuid, ap_purchaseId = pp_purchaseId p,
             ap_quotaId = pp_quotaId p, ap_supplierId = pp_supplierId p,
             ap_description = trimmed (pp_description p), ap_currency = pp_currency p,
             ap_amountTotal = pp_amountTotal p, ap_amountPaid = amountPaid,
             ap_amountPending = amountPending, ap_dueDate = pp_dueDate p,
             ap_status = given_or (pp_status p) PayablePending,
             ap_requiresManualReview = given_or (pp_requiresManualReview p) False,
             ap_reconciliationNote = trimmed (pp_reconciliationNote p),
             ap_createdByUserId = pp_createdByUserId p, ap_createdAt = pp_createdAt p,
             ap_updatedAt = pp_updatedAt p\<rparr>)"

definition payable_params_of :: "account_payable \<Rightarrow> payable_params" where
  "payable_params_of a = \<lparr>pp_accountPayableId = Some (ap_id a), pp_purchaseId = ap_purchaseId a,
     pp_quotaId = ap_quotaId a, pp_supplierId = ap_supplierId a, pp_description = ap_description a,
     pp_currency = ap_currency a, pp_amountTotal = ap_amountTotal a,
     pp_amountPaid = Some (ap_amountPaid a), pp_amountPending = Some (ap_amountPending a),
     pp_dueDate = ap_dueDate a, pp_status = Some (ap_status a),
     pp_requiresManualReview = Some (ap_requiresManualReview a),
     pp_reconciliationNote = ap_reconciliationNote a, pp_createdByUserId = ap_createdByUserId a,
     pp_createdAt = ap_createdAt a, pp_updatedAt = ap_updatedAt a\<rparr>"

definition withBalance :: "rat \<Rightarrow> int \<Rightarrow> account_payable \<Rightarrow> app_error + account_payable" where
  "withBalance amountPaid instant a =
     (if amountPaid < 0 then Inl (PlainError ''El importe pagado no puede ser negativo'')
      else if amountPaid > ap_amountTotal a + 1/100 then
        Inl (PlainError ''El importe pagado no puede superar el total de la cuenta por pagar'')
      else
        let settledPaid = min amountPaid (ap_amountTotal a);
            amountPending = max (ap_amountTotal a - settledPaid) 0;
            status = (if amountPending \<le> 0 then PayablePaid
                      else if settledPaid > 0 then PayablePartial
                      else if ap_status a = PayableOverdue then PayableOverdue
                      else PayablePending)
        in payable_create '''' (payable_params_of (a\<lparr>ap_amountPaid := settledPaid,
             ap_amountPending := amountPending, ap_status := status, ap_updatedAt := Some instant\<rparr>)))"

section \<open>The repository\<close>

definition payable_toDomain :: "account_payable \<Rightarrow> app_error + account_payable" where
  "payable_toDomain row = payable_create '''' (payable_params_of row)"

text \<open>
  \<open>save\<close> writes the row and returns the object it was given; only the database sees the
  rounded amounts.
\<close>

definition save_payable :: "account_payable \<Rightarrow> unit call" where
  "save_payable a =
     ebind (elift (numeric_12_2 (ap_amountTotal a))) (\<lambda>total.
     ebind (elift (numeric_12_2 (ap_amountPaid a))) (\<lambda>paid.
     ebind (elift (numeric_12_2 (ap_amountPending a))) (\<lambda>pending.
       emodify (\<lambda>s. s\<lparr>t_payables := save_by ap_id
         (a\<lparr>ap_amountTotal := total, ap_amountPaid := paid, ap_amountPending := pending,
            ap_dueDate := map_option (date_column s) (ap_dueDate a)\<rparr>) (t_payables s)\<rparr>))))"

definition payables_create :: "account_payable \<Rightarrow> account_payable call" where
  "payables_create a =
     ebind clock_now (\<lambda>instant.
       let row = a\<lparr>ap_createdAt := Some instant, ap_updatedAt := Some instant\<rparr>
       in ethen (save_payable row) (elift (payable_toDomain row)))"

definition payables_update :: "account_payable \<Rightarrow> account_payable call" where
  "payables_update a = ethen (save_payable a) (elift (payable_toDomain a))"

definition payable_found :: "account_payable option \<Rightarrow> account_payable option call" where
  "payable_found row = (case row of
     None \<Rightarrow> ereturn None
   | Some r \<Rightarrow> ebind (elift (payable_toDomain r)) (\<lambda>a. ereturn (Some a)))"

definition payables_findById :: "string \<Rightarrow> account_payable option call" where
  "payables_findById i = ebind (ereads (\<lambda>s. find_by ap_id i (t_payables s))) payable_found"

definition findByPurchaseAndQuota :: "string \<Rightarrow> string option \<Rightarrow> account_payable option call" where
  "findByPurchaseAndQuota purchaseId quotaId =
     ebind (ereads (\<lambda>s. List.find (\<lambda>r. ap_purchaseId r = purchaseId \<and>
       null_condition s quotaId (ap_quotaId r)) (t_payables s))) payable_found"

definition due_before :: "int \<Rightarrow> account_payable \<Rightarrow> bool" where
  "due_before today r = (case ap_dueDate r of Some (DateOnly d) \<Rightarrow> d < today | _ \<Rightarrow> False)"

definition is_overdue :: "int \<Rightarrow> account_payable \<Rightarrow> bool" where
  "is_overdue today r \<longleftrightarrow> due_before today r \<and> ap_amountPending r > 0 \<and>
     ap_status r \<in> {PayablePending, PayablePartial}"

text \<open>
  \<open>now.toISOString().slice(0, 10)\<close> is the day of the instant in UTC. An update of the
  query builder refreshes the column \<open>updated_at\<close>.
\<close>

definition markOverdue :: "int \<Rightarrow> nat call" where
  "markOverdue instant =
     (let late = is_overdue (day_of_instant instant)
      in ebind (ereads (\<lambda>s. length (filter late (t_payables s)))) (\<lambda>affected.
         ethen (emodify (\<lambda>s. s\<lparr>t_payables := update_where late
           (\<lambda>r. r\<lparr>ap_status := PayableOverdue, ap_updatedAt := Some (t_clock s)\<rparr>) (t_payables s)\<rparr>))
         (ereturn affected)))"

definition is_open :: "string \<Rightarrow> account_payable \<Rightarrow> bool" where
  "is_open purchaseId r \<longleftrightarrow> ap_purchaseId r = purchaseId \<and>
     ap_status r \<in> {PayablePending, PayablePartial, PayableOverdue} \<and> ap_amountPaid r = 0"

definition cancelOpenByPurchase :: "string \<Rightarrow> nat call" where
  "cancelOpenByPurchase purchaseId =
     ebind (ereads (\<lambda>s. length (filter (is_open purchaseId) (t_payables s)))) (\<lambda>affected.
     ethen (emodify (\<lambda>s. s\<lparr>t_payables := update_where (is_open purchaseId)
       (\<lambda>r. r\<lparr>ap_status := PayableCancelled, ap_amountPending := 0,
              ap_updatedAt := Some (t_clock s)\<rparr>) (t_payables s)\<rparr>))
     (ereturn affected))"

section \<open>The use cases\<close>

record create_payable_input =
  ci_purchaseId :: string
  ci_quotaId :: "string option"
  ci_supplierId :: "string option"
  ci_description :: "string option"
  ci_currency :: currency_type
  ci_amountTotal :: rat
  ci_dueDate :: "js_date option"
  ci_createdByUserId :: "string option"

definition new_payable_params :: "create_payable_input \<Rightarrow> payable_params" where
  "new_payable_params input = \<lparr>pp_accountPayableId = None, pp_purchaseId = ci_purchaseId input,
     pp_quotaId = ci_quotaId input, pp_supplierId = ci_supplierId input,
     pp_description = ci_description input, pp_currency = ci_currency input,
     pp_amountTotal = ci_amountTotal input, pp_amountPaid = None, pp_amountPending = None,
     pp_dueDate = ci_dueDate input, pp_status = None, pp_requiresManualReview = None,
     pp_reconciliationNote = None, pp_createdByUserId = ci_createdByUserId input,
     pp_createdAt = None, pp_updatedAt = None\<rparr>"

definition create_account_payable :: "create_payable_input \<Rightarrow> account_payable call" where
  "create_account_payable input =
     ebind (findByPurchaseAndQuota (ci_purchaseId input) (ci_quotaId input)) (\<lambda>existing.
       case existing of
         Some a \<Rightarrow> ereturn a
       | None \<Rightarrow>
           ebind new_uuid (\<lambda>uuid.
           ebind (elift (payable_create uuid (new_payable_params input))) payables_create))"

definition recalculate_account_payable ::
  "(string \<Rightarrow> payment_document list call) \<Rightarrow> string \<Rightarrow> account_payable call" where
  "recalculate_account_payable findApproved i =
     ebind (payables_findById i) (\<lambda>found.
       case found of
         None \<Rightarrow> ethrow (NotFoundException ''Cuenta por pagar no encontrada'')
       | Some a \<Rightarrow>
           ebind (findApproved i) (\<lambda>approved.
           ebind clock_now (\<lambda>instant.
           ebind (elift (withBalance (\<Sum>d\<leftarrow>approved. pd_amount d) instant a)) payables_update)))"

definition mark_overdue_account_payables :: "nat call" where
  "mark_overdue_account_payables = ebind clock_now markOverdue"

end
