(* ===== verification/PaymentPolicy.thy ===== *)
theory PaymentPolicy
  imports Treasury
begin

text \<open>
  The rules a payment obeys before any table is written: the catalogue of payment methods and
  the reading of method names
  (\<open>payment-methods/domain/value-objects/payment-method-catalog.ts\<close>), the evidence policy of a
  company (\<open>payment-method-voucher-policy.ts\<close>), the treasury accounts a method may use
  (\<open>payment-account-compatibility.ts\<close>), and \<open>PaymentFinancialPolicy\<close>
  (\<open>payments/domain/services/payment-financial-policy.ts\<close>). Strings are Latin-1 texts.
\<close>

section \<open>The catalogue of methods\<close>

datatype method_code =
  M_CASH | M_BANK_TRANSFER | M_BANK_DEPOSIT | M_CARD | M_DIGITAL_WALLET | M_CHECK | M_OTHER

fun method_code_name :: "method_code \<Rightarrow> string" where
  "method_code_name M_CASH = ''CASH''"
| "method_code_name M_BANK_TRANSFER = ''BANK_TRANSFER''"
| "method_code_name M_BANK_DEPOSIT = ''BANK_DEPOSIT''"
| "method_code_name M_CARD = ''CARD''"
| "method_code_name M_DIGITAL_WALLET = ''DIGITAL_WALLET''"
| "method_code_name M_CHECK = ''CHECK''"
| "method_code_name M_OTHER = ''OTHER''"

definition method_codes :: "method_code list" where
  "method_codes =
     [M_CASH, M_BANK_TRANSFER, M_BANK_DEPOSIT, M_CARD, M_DIGITAL_WALLET, M_CHECK, M_OTHER]"

record method_definition =
  md_code :: method_code
  md_defaultName :: string
  md_requiresSourceAccount :: bool
  md_requiresDestination :: bool
  md_requiresOperationReference :: bool
  md_requiresVoucher :: bool

definition o_acute :: string where
  "o_acute = [CHR 0xF3]"

fun method_definition_of :: "method_code \<Rightarrow> method_definition" where
  "method_definition_of M_CASH =
     \<lparr>md_code = M_CASH, md_defaultName = ''Efectivo'', md_requiresSourceAccount = True,
      md_requiresDestination = False, md_requiresOperationReference = False,
      md_requiresVoucher = False\<rparr>"
| "method_definition_of M_BANK_TRANSFER =
     \<lparr>md_code = M_BANK_TRANSFER, md_defaultName = ''Trans. bancaria'',
      md_requiresSourceAccount = True, md_requiresDestination = True,
      md_requiresOperationReference = True, md_requiresVoucher = True\<rparr>"
| "method_definition_of M_BANK_DEPOSIT =
     \<lparr>md_code = M_BANK_DEPOSIT, md_defaultName = ''Dep'' @ o_acute @ ''sito bancario'',
      md_requiresSourceAccount = True, md_requiresDestination = True,
      md_requiresOperationReference = True, md_requiresVoucher = True\<rparr>"
| "method_definition_of M_CARD =
     \<lparr>md_code = M_CARD, md_defaultName = ''Tarjeta'', md_requiresSourceAccount = True,
      md_requiresDestination = False, md_requiresOperationReference = True,
      md_requiresVoucher = True\<rparr>"
| "method_definition_of M_DIGITAL_WALLET =
     \<lparr>md_code = M_DIGITAL_WALLET, md_defaultName = ''Billetera digital'',
      md_requiresSourceAccount = True, md_requiresDestination = True,
      md_requiresOperationReference = True, md_requiresVoucher = True\<rparr>"
| "method_definition_of M_CHECK =
     \<lparr>md_code = M_CHECK, md_defaultName = ''Cheque'', md_requiresSourceAccount = True,
      md_requiresDestination = True, md_requiresOperationReference = True,
      md_requiresVoucher = True\<rparr>"
| "method_definition_of M_OTHER =
     \<lparr>md_code = M_OTHER, md_defaultName = ''Otro'', md_requiresSourceAccount = True,
      md_requiresDestination = False, md_requiresOperationReference = True,
      md_requiresVoucher = True\<rparr>"

text \<open>
  The aliases after \<open>normalize("NFD")\<close> and the removal of the combining marks: the accented
  entry \<open>DEPOSITO\<close> becomes the plain one before it.
\<close>

definition legacy_names :: "(string \<times> method_code) list" where
  "legacy_names = [(''EFECTIVO'', M_CASH), (''CASH'', M_CASH), (''TRANSFERENCIA'', M_BANK_TRANSFER),
     (''TRANSFERENCIA BANCARIA'', M_BANK_TRANSFER), (''TRANS. BANCARIA'', M_BANK_TRANSFER),
     (''TRANFERENCIA BANCARIA'', M_BANK_TRANSFER), (''FRANFERENCIA BANCARIA'', M_BANK_TRANSFER),
     (''BANK_TRANSFER'', M_BANK_TRANSFER), (''BCP'', M_BANK_TRANSFER), (''BBVA'', M_BANK_TRANSFER),
     (''DEPOSITO'', M_BANK_DEPOSIT), (''DEPOSITO'', M_BANK_DEPOSIT),
     (''DEPOSITO BANCARIO'', M_BANK_DEPOSIT), (''BANK_DEPOSIT'', M_BANK_DEPOSIT),
     (''TARJETA'', M_CARD), (''CARD'', M_CARD), (''YAPE'', M_DIGITAL_WALLET),
     (''PLIN'', M_DIGITAL_WALLET), (''BILLETERA'', M_DIGITAL_WALLET),
     (''BILLETERA DIGITAL'', M_DIGITAL_WALLET), (''DIGITAL_WALLET'', M_DIGITAL_WALLET),
     (''CHEQUE'', M_CHECK), (''CHECK'', M_CHECK), (''OTRO'', M_OTHER), (''OTHER'', M_OTHER)]"

text \<open>
  \<open>toUpperCase\<close> followed by the canonical decomposition without its marks, on the letters of
  Latin-1 (the micro sign, whose capital lies outside Latin-1, stays as it is; it occurs in no
  alias).
\<close>

definition plain_capital :: "char \<Rightarrow> string" where
  "plain_capital c =
     (let n = of_char c :: nat; u = (if 224 \<le> n \<and> n \<le> 254 \<and> n \<noteq> 247 then n - 32 else n)
      in if 192 \<le> u \<and> u \<le> 197 then ''A''
         else if u = 199 then ''C''
         else if 200 \<le> u \<and> u \<le> 203 then ''E''
         else if 204 \<le> u \<and> u \<le> 207 then ''I''
         else if u = 209 then ''N''
         else if 210 \<le> u \<and> u \<le> 214 then ''O''
         else if 217 \<le> u \<and> u \<le> 220 then ''U''
         else if u = 221 \<or> u = 255 then ''Y''
         else if u = 223 then ''SS''
         else [js_upper_char (char_of u)])"

definition plain_upper :: "string \<Rightarrow> string" where
  "plain_upper s = concat (map plain_capital s)"

text \<open>\<open>replace(/\s+/g, " ")\<close>\<close>

fun collapse_spaces :: "string \<Rightarrow> string" where
  "collapse_spaces [] = []"
| "collapse_spaces [c] = [if js_whitespace c then CHR '' '' else c]"
| "collapse_spaces (c # d # s) =
     (if js_whitespace c then (if js_whitespace d then collapse_spaces (d # s) else CHR '' '' # collapse_spaces (d # s))
      else c # collapse_spaces (d # s))"

definition code_of_text :: "string \<Rightarrow> method_code option" where
  "code_of_text t = List.find (\<lambda>c. method_code_name c = t) method_codes"

definition normalizePaymentMethodCode :: "string option \<Rightarrow> string option \<Rightarrow> method_code" where
  "normalizePaymentMethodCode code name =
     (case map_option (\<lambda>c. code_of_text (js_toUpperCase (js_trim c))) code of
        Some (Some c) \<Rightarrow> c
      | _ \<Rightarrow>
          let normalized = (case name of None \<Rightarrow> '''' | Some n \<Rightarrow> plain_upper (collapse_spaces (js_trim n)))
          in (case map_of legacy_names normalized of Some c \<Rightarrow> c | None \<Rightarrow> M_OTHER))"

definition getPaymentMethodDefinition :: "string option \<Rightarrow> string option \<Rightarrow> method_definition" where
  "getPaymentMethodDefinition code name = method_definition_of (normalizePaymentMethodCode code name)"

definition canonicalPaymentMethodName :: "string option \<Rightarrow> string" where
  "canonicalPaymentMethodName v =
     (case map_option (\<lambda>t. collapse_spaces (js_trim t)) v of
        None \<Rightarrow> md_defaultName (method_definition_of M_OTHER)
      | Some normalized \<Rightarrow>
          if normalized = '''' then md_defaultName (method_definition_of M_OTHER)
          else
            let code = normalizePaymentMethodCode None (Some normalized)
            in if code = M_OTHER \<and> js_toUpperCase normalized \<notin> {''OTRO'', ''OTHER''} then normalized
               else md_defaultName (getPaymentMethodDefinition (Some (method_code_name code)) None))"

definition resolveCompanyMethodRequiresVoucher :: "bool \<Rightarrow> evidence_policy option \<Rightarrow> bool" where
  "resolveCompanyMethodRequiresVoucher methodRequiresVoucher policy =
     (case policy of
        Some EvidenceRequired \<Rightarrow> True
      | Some EvidenceOptional \<Rightarrow> False
      | _ \<Rightarrow> methodRequiresVoucher)"

section \<open>Treasury accounts\<close>

definition compatible_account_types :: "string \<Rightarrow> treasury_account_type list" where
  "compatible_account_types code =
     (case map_of [(''CASH'', [CashAccount]), (''BANK_TRANSFER'', [BankAccount]),
        (''BANK_DEPOSIT'', [BankAccount, CashAccount]), (''CARD'', [CreditCardAccount]),
        (''DIGITAL_WALLET'', [WalletAccount]), (''CHECK'', [BankAccount])]
        (js_toUpperCase (js_trim code)) of
      Some types \<Rightarrow> types | None \<Rightarrow> [])"

definition isCompanyPaymentAccountCompatible :: "string \<Rightarrow> treasury_account_type \<Rightarrow> bool" where
  "isCompanyPaymentAccountCompatible code ty =
     (let types = compatible_account_types code in types = [] \<or> ty \<in> set types)"

section \<open>The financial policy\<close>

record method_policy =
  mp_code :: string
  mp_isActive :: bool
  mp_requiresSourceAccount :: bool
  mp_requiresDestination :: bool
  mp_requiresOperationReference :: bool
  mp_requiresVoucher :: bool

record policy_input =
  in_method :: method_policy
  in_account :: "treasury_account option"
  in_destination :: "supplier_destination option"
  in_paymentMethodId :: "string option"
  in_currency :: currency_type
  in_operationNumber :: "string option"
  in_hasEvidence :: bool
  in_validateEvidence :: bool

datatype policy_error = PolicyError string string

fun policy_message :: "policy_error \<Rightarrow> string" where
  "policy_message (PolicyError code message) = message"

definition account_violation :: "string \<Rightarrow> currency_type \<Rightarrow> treasury_account \<Rightarrow> policy_error option" where
  "account_violation methodCode currency a =
     (if \<not> ta_isActive a then
        Some (PolicyError ''SOURCE_ACCOUNT_INACTIVE'' ''La cuenta de origen no existe o esta inactiva'')
      else if ta_currency a \<noteq> currency then
        Some (PolicyError ''SOURCE_ACCOUNT_CURRENCY_MISMATCH''
          ''La moneda del pago no coincide con la cuenta de origen'')
      else if ta_usage a \<noteq> ''OUTFLOW'' \<and> ta_usage a \<noteq> ''BOTH'' then
        Some (PolicyError ''SOURCE_ACCOUNT_USAGE_INVALID'' ''La cuenta seleccionada no permite salidas'')
      else if \<not> isCompanyPaymentAccountCompatible methodCode (ta_type a) then
        Some (PolicyError ''SOURCE_ACCOUNT_INCOMPATIBLE''
          ''La cuenta de origen no es compatible con el metodo de pago'')
      else None)"

definition destination_violation ::
  "string option \<Rightarrow> currency_type \<Rightarrow> supplier_destination \<Rightarrow> policy_error option" where
  "destination_violation paymentMethodId currency d =
     (if \<not> sd_isActive d \<or> sd_requiresManualReview d then
        Some (PolicyError ''DESTINATION_UNAVAILABLE''
          ''El destino del proveedor no existe, esta inactivo o requiere revision'')
      else if sd_currency d \<noteq> currency then
        Some (PolicyError ''DESTINATION_CURRENCY_MISMATCH''
          ''La moneda del pago no coincide con el destino del proveedor'')
      else if filled paymentMethodId \<and> filled (sd_methodId d) \<and> sd_methodId d \<noteq> paymentMethodId then
        Some (PolicyError ''DESTINATION_METHOD_MISMATCH''
          ''El destino no es compatible con el metodo de pago'')
      else None)"

definition first_violation :: "policy_error option list \<Rightarrow> policy_error option" where
  "first_violation vs = (case List.find (\<lambda>v. v \<noteq> None) vs of Some v \<Rightarrow> v | None \<Rightarrow> None)"

definition required :: "bool \<Rightarrow> string \<Rightarrow> string \<Rightarrow> policy_error option" where
  "required violated code message = (if violated then Some (PolicyError code message) else None)"

definition validate_policy :: "policy_input \<Rightarrow> policy_error option" where
  "validate_policy i =
     (let m = in_method i; methodCode = js_toUpperCase (js_trim (mp_code m))
      in first_violation [
        required (\<not> mp_isActive m) ''METHOD_INACTIVE'' ''El metodo de pago no esta disponible'',
        required (mp_requiresSourceAccount m \<and> \<not> filled (map_option ta_id (in_account i)))
          ''SOURCE_ACCOUNT_REQUIRED'' ''Debe seleccionar una cuenta de origen'',
        Option.bind (in_account i) (account_violation methodCode (in_currency i)),
        required (mp_requiresDestination m \<and> \<not> filled (map_option sd_id (in_destination i)))
          ''DESTINATION_REQUIRED'' ''Debe seleccionar el destino de pago del proveedor'',
        Option.bind (in_destination i) (destination_violation (in_paymentMethodId i) (in_currency i)),
        required (mp_requiresOperationReference m \<and> trimmed (in_operationNumber i) = None)
          ''OPERATION_REFERENCE_REQUIRED'' ''Ingresa la referencia exigida por el metodo'',
        required (in_validateEvidence i \<and> mp_requiresVoucher m \<and> \<not> in_hasEvidence i)
          ''EVIDENCE_REQUIRED'' ''Adjunta la evidencia requerida por el metodo''])"

end
