(* ===== verification/Payments.thy ===== *)
theory Payments
  imports Payables PaymentPolicy
begin

text \<open>
  Payment documents and credit quotas: the entities of \<open>payments/domain/entity\<close>, their
  repositories, and the use cases that create, edit, submit, approve, reject, void, delete and
  release a payment (\<open>payments/application\<close>, \<open>payments/adapters/in/controllers\<close>).
  The masked label of an account and the number of attachments a payment document carries for
  display are left out.
\<close>

section \<open>The entities\<close>

definition truncate_card :: "string option \<Rightarrow> string option" where
  "truncate_card v = (case v of
     None \<Rightarrow> None
   | Some t \<Rightarrow>
       let ds = filter is_digit t; last4 = drop (length ds - 4) ds
       in if last4 = '''' then None else Some last4)"

definition payment_create :: "payment_document \<Rightarrow> app_error + payment_document" where
  "payment_create p =
     (let method = js_trim (pd_method p)
      in if method = '''' \<or> \<not> pd_amount p > 0 then Inl (PlainError ''El documento de pago es invalido'')
         else Inr (p\<lparr>pd_method := method, pd_operationNumber := trimmed (pd_operationNumber p),
           pd_note := trimmed (pd_note p), pd_rejectionReason := trimmed (pd_rejectionReason p),
           pd_bankName := trimmed (pd_bankName p), pd_cardLastFour := truncate_card (pd_cardLastFour p),
           pd_operationCode := trimmed (pd_operationCode p)\<rparr>))"

definition quota_create :: "credit_quota \<Rightarrow> app_error + credit_quota" where
  "quota_create q =
     (if cq_number q \<le> 0 then Inl (PlainError ''El numero de cuota es invalido'')
      else if cq_totalToPay q \<le> 0 then Inl (PlainError ''El total a pagar es invalido'')
      else if cq_totalPaid q < 0 \<or> cq_totalPaid q > cq_totalToPay q then
        Inl (PlainError ''El total pagado es invalido'')
      else Inr q)"

section \<open>The repositories\<close>

fun traverse :: "('a \<Rightarrow> 'e + 'b) \<Rightarrow> 'a list \<Rightarrow> 'e + 'b list" where
  "traverse f [] = Inr []"
| "traverse f (x # xs) =
     (case f x of Inl e \<Rightarrow> Inl e | Inr y \<Rightarrow>
       (case traverse f xs of Inl e \<Rightarrow> Inl e | Inr ys \<Rightarrow> Inr (y # ys)))"

definition counted :: "pay_status \<Rightarrow> bool" where
  "counted st \<longleftrightarrow> st = APPROVED \<or> st = POSTED"

definition counted_for :: "string \<Rightarrow> payment_document \<Rightarrow> bool" where
  "counted_for i d \<longleftrightarrow> pd_accountPayableId d = Some i \<and> counted (pd_status d)"

definition findApprovedByAccountPayableId :: "string \<Rightarrow> payment_document list call" where
  "findApprovedByAccountPayableId i =
     ebind (ereads (\<lambda>s. filter (counted_for i) (t_payments s))) (\<lambda>rows. elift (traverse payment_create rows))"

definition recalculate :: "string \<Rightarrow> unit call" where
  "recalculate i = ethen (recalculate_account_payable findApprovedByAccountPayableId i) (ereturn ())"

definition payment_row :: "string \<Rightarrow> payment_document option call" where
  "payment_row i = ereads (\<lambda>s. find_by pd_id i (t_payments s))"

definition payments_findById :: "string \<Rightarrow> payment_document option call" where
  "payments_findById i = ebind (payment_row i) (\<lambda>row.
     case row of None \<Rightarrow> ereturn None
     | Some r \<Rightarrow> ebind (elift (payment_create r)) (\<lambda>d. ereturn (Some d)))"

definition save_payment :: "payment_document \<Rightarrow> unit call" where
  "save_payment row = ebind (elift (numeric_12_2 (pd_amount row))) (\<lambda>amount.
     emodify (\<lambda>s. s\<lparr>t_payments := save_by pd_id (row\<lparr>pd_amount := amount\<rparr>) (t_payments s)\<rparr>))"

definition payments_create :: "payment_document \<Rightarrow> payment_document call" where
  "payments_create document =
     ebind new_uuid (\<lambda>uuid.
       let row = document\<lparr>pd_id := uuid\<rparr>
       in ethen (save_payment row) (elift (payment_create row)))"

definition payments_deleteById :: "string \<Rightarrow> unit call" where
  "payments_deleteById i = emodify (\<lambda>s. s\<lparr>t_payments := filter (\<lambda>d. pd_id d \<noteq> i) (t_payments s)\<rparr>)"

definition findLatestByQuotaId :: "string \<Rightarrow> string \<Rightarrow> payment_document option call" where
  "findLatestByQuotaId quotaId exclude =
     ebind (ereads (\<lambda>s. sort_key (\<lambda>d. - pd_date d)
       (filter (\<lambda>d. pd_quotaId d = Some quotaId \<and> pd_id d \<noteq> exclude) (t_payments s)))) (\<lambda>rows.
     case rows of [] \<Rightarrow> ereturn None
     | r # _ \<Rightarrow> ebind (elift (payment_create r)) (\<lambda>d. ereturn (Some d)))"

definition save_allocation :: "string \<Rightarrow> string \<Rightarrow> rat \<Rightarrow> currency_type \<Rightarrow> unit call" where
  "save_allocation paymentId payableId amount currency =
     ebind new_uuid (\<lambda>uuid.
     ebind (elift (numeric_12_2 amount)) (\<lambda>stored.
     ebind (ereads (\<lambda>s. \<exists>l \<in> set (t_allocations s).
       pl_paymentId l = paymentId \<and> pl_accountPayableId l = payableId)) (\<lambda>duplicate.
     ethen (eguard (\<not> duplicate) QueryFailed)
       (emodify (\<lambda>s. s\<lparr>t_allocations := t_allocations s @ [\<lparr>pl_id = uuid, pl_paymentId = paymentId,
          pl_accountPayableId = payableId, pl_amount = stored, pl_currency = currency\<rparr>]\<rparr>)))))"

definition quotas_findById :: "string \<Rightarrow> credit_quota option call" where
  "quotas_findById i = ebind (ereads (\<lambda>s. find_by cq_id i (t_quotas s))) (\<lambda>row.
     case row of None \<Rightarrow> ereturn None
     | Some r \<Rightarrow> ebind (elift (quota_create r)) (\<lambda>q. ereturn (Some q)))"

definition updateTotalPaid :: "string \<Rightarrow> rat \<Rightarrow> unit call" where
  "updateTotalPaid i totalPaid = ebind (elift (numeric_12_2 totalPaid)) (\<lambda>stored.
     emodify (\<lambda>s. s\<lparr>t_quotas := update_where (\<lambda>q. cq_id q = i)
       (\<lambda>q. q\<lparr>cq_totalPaid := stored\<rparr>) (t_quotas s)\<rparr>))"

definition updatePaymentDate :: "string \<Rightarrow> int option \<Rightarrow> unit call" where
  "updatePaymentDate i date = emodify (\<lambda>s. s\<lparr>t_quotas := update_where (\<lambda>q. cq_id q = i)
     (\<lambda>q. q\<lparr>cq_paymentDate := date\<rparr>) (t_quotas s)\<rparr>)"

definition quotas_create :: "credit_quota \<Rightarrow> credit_quota call" where
  "quotas_create q =
     ebind new_uuid (\<lambda>uuid.
     ebind (elift (int_column (cq_number q))) (\<lambda>n.
     ebind (elift (numeric_12_2 (cq_totalToPay q))) (\<lambda>toPay.
     ebind (elift (numeric_12_2 (cq_totalPaid q))) (\<lambda>paid.
       let row = q\<lparr>cq_id := uuid\<rparr>
       in ethen (emodify (\<lambda>s. s\<lparr>t_quotas := t_quotas s @ [row\<lparr>cq_number := of_int n,
            cq_totalToPay := toPay, cq_totalPaid := paid, cq_expirationDate := date_column s (cq_expirationDate q)\<rparr>]\<rparr>))
          (elift (quota_create row))))))"

definition quotas_deleteById :: "string \<Rightarrow> unit call" where
  "quotas_deleteById i = emodify (\<lambda>s. s\<lparr>t_quotas := filter (\<lambda>q. cq_id q \<noteq> i) (t_quotas s)\<rparr>)"

section \<open>Approving a payment\<close>

datatype answer = Success string | Refused string

definition message_of :: "policy_error option \<Rightarrow> string option" where
  "message_of v = map_option policy_message v"

definition lookup_method :: "treasury \<Rightarrow> string option \<Rightarrow> payment_method option" where
  "lookup_method s i = (if filled i then find_by pm_id (the i) (t_methods s) else None)"

definition lookup_account :: "treasury \<Rightarrow> string option \<Rightarrow> treasury_account option" where
  "lookup_account s i = (if filled i then find_by ta_id (the i) (t_accounts s) else None)"

definition lookup_destination :: "treasury \<Rightarrow> string option \<Rightarrow> supplier_destination option" where
  "lookup_destination s i = (if filled i then find_by sd_id (the i) (t_destinations s) else None)"

definition company_method_of :: "treasury \<Rightarrow> treasury_account \<Rightarrow> payment_method \<Rightarrow> company_method option" where
  "company_method_of s a m = List.find (\<lambda>c. cm_companyId c = ta_companyId a \<and> cm_methodId c = pm_id m)
     (t_companyMethods s)"

definition enabled_method :: "company_method option \<Rightarrow> bool" where
  "enabled_method c = (case c of None \<Rightarrow> False | Some cm \<Rightarrow> cm_enabled cm)"

definition has_evidence :: "treasury \<Rightarrow> string \<Rightarrow> bool" where
  "has_evidence s paymentId \<longleftrightarrow> (\<exists>a \<in> set (t_attachments s).
     pa_deletedAt a = None \<and> pa_paymentId a = Some paymentId \<and> pa_type a = ''PAYMENT_PROOF'')"

definition requires_voucher :: "treasury \<Rightarrow> treasury_account option \<Rightarrow> payment_method \<Rightarrow> bool" where
  "requires_voucher s account m = resolveCompanyMethodRequiresVoucher (pm_requiresVoucher m)
     (map_option cm_evidencePolicy (Option.bind account (\<lambda>a. company_method_of s a m)))"

definition policy_for ::
  "payment_method \<Rightarrow> bool \<Rightarrow> bool \<Rightarrow> bool \<Rightarrow> bool \<Rightarrow> method_policy" where
  "policy_for m source destination reference voucher = \<lparr>mp_code = pm_code m, mp_isActive = pm_isActive m,
     mp_requiresSourceAccount = source, mp_requiresDestination = destination,
     mp_requiresOperationReference = reference, mp_requiresVoucher = voucher\<rparr>"

text \<open>The checks of the approval in their order; the first that fails is the answer.\<close>

definition evidence_refusal :: "treasury \<Rightarrow> payment_method \<Rightarrow> bool \<Rightarrow> payment_document \<Rightarrow> string option" where
  "evidence_refusal s m voucher d =
     (if pm_requiresDestination m \<and> \<not> filled (pd_supplierPaymentDestinationId d) then
        Some ''El pago no tiene un destino de proveedor confirmado''
      else if voucher \<and> \<not> has_evidence s (pd_id d) then
        Some ''El pago requiere evidencia antes de ser aprobado''
      else if filled (pd_supplierPaymentDestinationId d) then
        (case lookup_destination s (pd_supplierPaymentDestinationId d) of
           None \<Rightarrow> Some ''El destino del proveedor no esta disponible''
         | Some dest \<Rightarrow>
             if \<not> sd_isActive dest \<or> sd_requiresManualReview dest then
               Some ''El destino del proveedor no esta disponible''
             else if sd_currency dest \<noteq> pd_currency d \<or>
               filled (pd_paymentMethodId d) \<and> sd_methodId dest \<noteq> pd_paymentMethodId d then
               Some ''El destino del proveedor no es compatible con el pago''
             else None)
      else None)"

definition approval_refusal :: "treasury \<Rightarrow> payment_document \<Rightarrow> string option" where
  "approval_refusal s d =
     (case lookup_method s (pd_paymentMethodId d) of
        None \<Rightarrow> Some ''El metodo de pago no esta disponible''
      | Some m \<Rightarrow>
          let account = lookup_account s (pd_companyPaymentAccountId d) in
          if \<not> pm_isActive m then Some ''El metodo de pago no esta disponible''
          else if pm_requiresSourceAccount m \<and> account = None then
            Some ''La cuenta de origen no existe o esta inactiva''
          else
            (case account of
               None \<Rightarrow> evidence_refusal s m (requires_voucher s account m) d
             | Some a \<Rightarrow>
                 if \<not> enabled_method (company_method_of s a m) then
                   Some ''El metodo de pago no esta habilitado para la empresa''
                 else
                   let voucher = requires_voucher s account m in
                   (case validate_policy \<lparr>in_method = policy_for m (pm_requiresSourceAccount m) False False voucher,
                       in_account = Some a, in_destination = None, in_paymentMethodId = None,
                       in_currency = pd_currency d, in_operationNumber = None, in_hasEvidence = False,
                       in_validateEvidence = False\<rparr> of
                      Some e \<Rightarrow> Some (policy_message e)
                    | None \<Rightarrow> evidence_refusal s m voucher d)))"

definition pending_answer :: string where
  "pending_answer = ''El pago no est'' @ [CHR 0xE1] @ '' pendiente de aprobaci'' @ [CHR 0xF3] @ ''n''"

definition approve_creation :: "string \<Rightarrow> string \<Rightarrow> unit call" where
  "approve_creation poId userId =
     ebind (ereads (\<lambda>s. find_by ph_id poId (t_purchases s))) (\<lambda>purchase.
     ewhen (map_option ph_approvalStatus purchase = Some ApprovalPending)
       (ethen (emodify (\<lambda>s. s\<lparr>t_purchases := update_where (\<lambda>p. ph_id p = poId)
           (\<lambda>p. p\<lparr>ph_approvalStatus := ApprovalApproved\<rparr>) (t_purchases s)\<rparr>))
       (ebind (ereads (\<lambda>s. sort_key (\<lambda>r. - ar_createdAt r) (filter (\<lambda>r. ar_entityId r = poId \<and>
           ar_action r = ''PURCHASE_CREATION_WITH_PAYMENT'' \<and> ar_status r = ApprovalPending)
           (t_approvals s)))) (\<lambda>requests.
         case requests of
           [] \<Rightarrow> ereturn ()
         | r # _ \<Rightarrow> emodify (\<lambda>s. s\<lparr>t_approvals := save_by ar_id (r\<lparr>ar_status := ApprovalApproved,
             ar_reviewedByUserId := Some userId, ar_reviewedAt := Some (t_clock s)\<rparr>) (t_approvals s)\<rparr>)))))"

definition pay_quota :: "payment_document \<Rightarrow> unit call" where
  "pay_quota d = (case pd_quotaId d of
     None \<Rightarrow> ereturn ()
   | Some i \<Rightarrow> ebind (quotas_findById i) (\<lambda>quota. case quota of
       None \<Rightarrow> ereturn ()
     | Some q \<Rightarrow> ethen (updateTotalPaid (cq_id q) (cq_totalPaid q + pd_amount d))
         (updatePaymentDate (cq_id q) (Some (pd_date d)))))"

definition post_effects :: "string \<Rightarrow> payment_document \<Rightarrow> unit call" where
  "post_effects userId d =
     ethen (case pd_accountPayableId d of None \<Rightarrow> ereturn ()
            | Some i \<Rightarrow> save_allocation (pd_id d) i (pd_amount d) (pd_currency d))
     (ethen (pay_quota d)
     (ethen (case pd_accountPayableId d of None \<Rightarrow> ereturn () | Some i \<Rightarrow> recalculate i)
     (ethen (case pd_poId d of None \<Rightarrow> ereturn ()
             | Some po \<Rightarrow> ethen (approve_creation po userId)
                 (recordPayment po ''PAYMENT_APPROVED'' (Some userId) (pd_requestedByUserId d) None))
       (case pd_requestedByUserId d of None \<Rightarrow> ereturn ()
        | Some u \<Rightarrow> createNotificationForUsers [u] ''Pago aprobado'' (Some (pd_id d))))))"

definition approved_row :: "string \<Rightarrow> int \<Rightarrow> payment_document \<Rightarrow> payment_document" where
  "approved_row userId t d = d\<lparr>pd_status := POSTED, pd_approvedByUserId := Some userId,
     pd_approvedAt := Some t, pd_paidByUserId := Some userId, pd_paidAt := Some (given_or (pd_paidAt d) t)\<rparr>"

definition approve_payment :: "string \<Rightarrow> string \<Rightarrow> answer call" where
  "approve_payment paymentId userId =
     ebind (payment_row paymentId) (\<lambda>row. case row of
       None \<Rightarrow> ereturn (Refused ''Pago no encontrado'')
     | Some d \<Rightarrow>
         if pd_status d \<notin> {PENDING_APPROVAL, SCHEDULED} then ereturn (Refused pending_answer)
         else ebind (ereads (\<lambda>s. approval_refusal s d)) (\<lambda>refusal. case refusal of
           Some message \<Rightarrow> ereturn (Refused message)
         | None \<Rightarrow>
             ebind clock_now (\<lambda>t.
             ethen (save_payment (approved_row userId t d))
             (ethen (post_effects userId (approved_row userId t d))
               (ereturn (Success ''Pago aprobado correctamente''))))))"

section \<open>Submitting, rejecting and voiding\<close>

definition submit_refusal :: "treasury \<Rightarrow> payment_document \<Rightarrow> string option" where
  "submit_refusal s d =
     (case lookup_method s (pd_paymentMethodId d) of
        None \<Rightarrow> Some ''El metodo de pago no esta disponible''
      | Some m \<Rightarrow>
          let account = lookup_account s (pd_companyPaymentAccountId d);
              voucher = requires_voucher s account m
          in if \<not> pm_isActive m then Some ''El metodo de pago no esta disponible''
             else if account \<noteq> None \<and> \<not> enabled_method (Option.bind account (\<lambda>a. company_method_of s a m)) then
               Some ''El metodo de pago no esta habilitado para la empresa''
             else
               (case validate_policy \<lparr>in_method = policy_for m (pm_requiresSourceAccount m)
                     (pm_requiresDestination m) (pm_requiresOperationReference m) voucher,
                   in_account = account,
                   in_destination = lookup_destination s (pd_supplierPaymentDestinationId d),
                   in_paymentMethodId = pd_paymentMethodId d, in_currency = pd_currency d,
                   in_operationNumber = pd_operationNumber d, in_hasEvidence = False,
                   in_validateEvidence = False\<rparr> of
                  Some e \<Rightarrow> Some (policy_message e)
                | None \<Rightarrow>
                    if voucher \<and> \<not> has_evidence s (pd_id d) then
                      Some ''Adjunta la evidencia requerida antes de enviar el pago''
                    else None))"

definition submitted_row :: "string option \<Rightarrow> payment_document \<Rightarrow> payment_document" where
  "submitted_row requestedBy d = d\<lparr>pd_status := (if pd_scheduledAt d \<noteq> None then SCHEDULED else PENDING_APPROVAL),
     pd_requestedByUserId := (if requestedBy = None then pd_requestedByUserId d else requestedBy)\<rparr>"

definition submit_payment :: "string \<Rightarrow> string option \<Rightarrow> answer call" where
  "submit_payment paymentId requestedBy =
     ebind (payment_row paymentId) (\<lambda>row. case row of
       None \<Rightarrow> ethrow (BadRequestException ''Pago no encontrado'')
     | Some d \<Rightarrow>
         if pd_status d \<noteq> DRAFT then
           ethrow (BadRequestException ''Solo se pueden enviar pagos en borrador'')
         else ebind (ereads (\<lambda>s. submit_refusal s d)) (\<lambda>refusal. case refusal of
           Some message \<Rightarrow> ethrow (BadRequestException message)
         | None \<Rightarrow>
             ethen (save_payment (submitted_row requestedBy d))
               (ereturn (Success (if pd_scheduledAt d \<noteq> None then ''Pago programado correctamente''
                  else ''Pago enviado para aprobacion'')))))"

text \<open>The row of a payment that was turned down, with who did it, when and why.\<close>

definition closed_row :: "pay_status \<Rightarrow> string \<Rightarrow> int \<Rightarrow> string option \<Rightarrow> payment_document \<Rightarrow> payment_document" where
  "closed_row st userId t reason d = d\<lparr>pd_status := st, pd_rejectedByUserId := Some userId,
     pd_rejectedAt := Some t, pd_rejectionReason := trimmed reason\<rparr>"

definition reject_payment :: "string \<Rightarrow> string \<Rightarrow> string option \<Rightarrow> answer call" where
  "reject_payment paymentId userId reason =
     ebind (payment_row paymentId) (\<lambda>row. case row of
       None \<Rightarrow> ereturn (Refused ''Pago no encontrado'')
     | Some d \<Rightarrow>
         if pd_status d \<noteq> PENDING_APPROVAL then ereturn (Refused pending_answer)
         else ebind clock_now (\<lambda>t.
           ethen (save_payment (closed_row REJECTED userId t reason d))
           (ethen (case pd_poId d of None \<Rightarrow> ereturn ()
              | Some po \<Rightarrow> recordPayment po ''PAYMENT_REJECTED'' (Some userId) (pd_requestedByUserId d) None)
           (ethen (case pd_requestedByUserId d of None \<Rightarrow> ereturn ()
              | Some u \<Rightarrow> createNotificationForUsers [u] ''Pago rechazado'' (Some (pd_id d)))
             (ereturn (Success ''Pago rechazado correctamente''))))))"

definition void_payment :: "string \<Rightarrow> string \<Rightarrow> string option \<Rightarrow> answer call" where
  "void_payment paymentId userId reason =
     ebind (payment_row paymentId) (\<lambda>row. case row of
       None \<Rightarrow> ethrow (NotFoundException ''Pago no encontrado'')
     | Some d \<Rightarrow>
         if \<not> counted (pd_status d) then
           ethrow (BadRequestException ''Solo un pago contabilizado puede anularse'')
         else if trimmed reason = None then
           ethrow (BadRequestException (''La anulaci'' @ [CHR 0xF3] @ ''n requiere un motivo''))
         else ebind clock_now (\<lambda>t.
           ethen (save_payment (closed_row VOIDED userId t reason d))
           (ethen (case pd_accountPayableId d of None \<Rightarrow> ereturn () | Some i \<Rightarrow> recalculate i)
             (ereturn (Success ''Pago anulado correctamente'')))))"

section \<open>Deleting a payment\<close>

definition unpay_quota :: "payment_document \<Rightarrow> unit call" where
  "unpay_quota d = (case pd_quotaId d of
     None \<Rightarrow> ereturn ()
   | Some i \<Rightarrow> ebind (quotas_findById i) (\<lambda>quota. case quota of
       None \<Rightarrow> ereturn ()
     | Some q \<Rightarrow> ethen (updateTotalPaid (cq_id q) (max 0 (cq_totalPaid q - pd_amount d)))
         (ewhen (cq_paymentDate q = Some (pd_date d))
           (ebind (findLatestByQuotaId i (pd_id d)) (\<lambda>latest.
              updatePaymentDate (cq_id q) (map_option pd_date latest))))))"

definition delete_payment :: "string \<Rightarrow> string option \<Rightarrow> answer call" where
  "delete_payment payDocId performedBy = transaction (
     ebind (payments_findById payDocId) (\<lambda>found. case found of
       None \<Rightarrow> ethrow (NotFoundException ''Pago no encontrado'')
     | Some d \<Rightarrow>
         if pd_status d \<in> {APPROVED, POSTED, VOIDED} then
           ethrow (BadRequestException (''Los pagos contabilizados o anulados no se eliminan; deben conservarse para auditor'' @ [CHR 0xED] @ ''a''))
         else ethen (unpay_quota d)
           (ethen (emap_error (\<lambda>_. BadRequestException ''No se pudo eliminar el pago'')
              (ethen (payments_deleteById payDocId)
              (ethen (case pd_accountPayableId d of None \<Rightarrow> ereturn () | Some i \<Rightarrow> recalculate i)
                (case pd_poId d of None \<Rightarrow> ereturn ()
                 | Some po \<Rightarrow> recordPayment po ''PAYMENT_DELETED'' performedBy None None))))
              (ereturn (Success ''Pago eliminado con exito'')))))"

end
