(* ===== verification/PaymentCreation.thy ===== *)
theory PaymentCreation
  imports Payments
begin

text \<open>
  Registering a payment: the checks of \<open>CreatePaymentUsecase\<close>
  (\<open>payments/application/usecases/payment/create.usecase.ts\<close>) against the payment method, the
  treasury account, the destination of the supplier, the payable and the quota, and what it
  writes; the draft a user keeps editing; the job that releases scheduled payments; the credit
  quotas. \<open>pd\<close> reads a date as \<open>new Date(text)\<close> does, with \<open>None\<close> for an invalid date.
\<close>

section \<open>The input of a new payment\<close>

record payment_input =
  pi_method :: string
  pi_date :: string
  pi_operationNumber :: "string option"
  pi_currency :: currency_type
  pi_amount :: rat
  pi_note :: "string option"
  pi_quotaId :: "string option"
  pi_poId :: "string option"
  pi_accountPayableId :: "string option"
  pi_companyPaymentAccountId :: "string option"
  pi_paymentMethodId :: "string option"
  pi_supplierPaymentDestinationId :: "string option"
  pi_paidByUserId :: "string option"
  pi_scheduledByUserId :: "string option"
  pi_scheduledAt :: "string option"
  pi_paidAt :: "string option"
  pi_paymentEvidenceFileId :: "string option"
  pi_bankName :: "string option"
  pi_cardLastFour :: "string option"
  pi_operationCode :: "string option"
  pi_isPartial :: "bool option"

record payment_options =
  op_status :: "pay_status option"
  op_requestedByUserId :: "string option"
  op_approvedByUserId :: "string option"
  op_approvedAt :: "int option"
  op_scheduledByUserId :: "string option"

section \<open>The checks\<close>

definition bad_request :: "string \<Rightarrow> app_error + 'a" where
  "bad_request m = Inl (BadRequestException m)"

definition policy_result :: "policy_error option \<Rightarrow> 'a \<Rightarrow> app_error + 'a" where
  "policy_result v a = (case v of None \<Rightarrow> Inr a | Some e \<Rightarrow> bad_request (policy_message e))"

definition definition_policy :: "method_definition \<Rightarrow> bool \<Rightarrow> bool \<Rightarrow> bool \<Rightarrow> method_policy" where
  "definition_policy def source destination reference = \<lparr>mp_code = method_code_name (md_code def),
     mp_isActive = True, mp_requiresSourceAccount = source, mp_requiresDestination = destination,
     mp_requiresOperationReference = reference, mp_requiresVoucher = md_requiresVoucher def\<rparr>"

definition validateTreasuryAccount ::
  "treasury \<Rightarrow> payment_input \<Rightarrow> app_error + (payment_method option \<times> bool)" where
  "validateTreasuryAccount s input =
     (let account = lookup_account s (pi_companyPaymentAccountId input);
          found = lookup_method s (pi_paymentMethodId input);
          check = (\<lambda>policy result. policy_result (validate_policy \<lparr>in_method = policy, in_account = account,
            in_destination = None, in_paymentMethodId = None, in_currency = pi_currency input,
            in_operationNumber = None, in_hasEvidence = False, in_validateEvidence = False\<rparr>) result)
      in if filled (pi_paymentMethodId input) \<and> (case found of None \<Rightarrow> True | Some m \<Rightarrow> \<not> pm_isActive m) then
           bad_request ''El metodo de pago no esta disponible''
         else
           (case found of
              None \<Rightarrow>
                let code = method_code_name (md_code (getPaymentMethodDefinition None (Some (pi_method input))));
                    def = getPaymentMethodDefinition (Some code) (Some (pi_method input))
                in check (definition_policy def True False False) (None, md_requiresVoucher def)
            | Some m \<Rightarrow>
                if account \<noteq> None \<and> \<not> enabled_method (Option.bind account (\<lambda>a. company_method_of s a m)) then
                  bad_request ''El metodo de pago no esta habilitado para la empresa''
                else
                  let voucher = requires_voucher s account m
                  in check (policy_for m (pm_requiresSourceAccount m) False False voucher) (Some m, voucher)))"

definition validateSupplierDestination ::
  "treasury \<Rightarrow> payment_input \<Rightarrow> string \<Rightarrow> payment_method option \<Rightarrow> app_error + unit" where
  "validateSupplierDestination s input purchaseId resolved =
     (let m = (if resolved = None then lookup_method s (pi_paymentMethodId input) else resolved)
      in if filled (pi_paymentMethodId input) \<and> (case m of None \<Rightarrow> True | Some m \<Rightarrow> \<not> pm_isActive m) then
           bad_request ''El metodo de pago no esta disponible''
         else if (case m of None \<Rightarrow> False | Some m \<Rightarrow> pm_requiresDestination m) \<and>
           \<not> filled (pi_supplierPaymentDestinationId input) then
           bad_request ''Debe seleccionar el destino de pago del proveedor''
         else if \<not> filled (pi_supplierPaymentDestinationId input) then Inr ()
         else
           (case lookup_destination s (pi_supplierPaymentDestinationId input) of
              None \<Rightarrow> bad_request ''El destino de pago no esta disponible para uso inmediato''
            | Some d \<Rightarrow>
                if \<not> sd_isActive d \<or> sd_requiresManualReview d then
                  bad_request ''El destino de pago no esta disponible para uso inmediato''
                else if (case find_by ph_id purchaseId (t_purchases s) of None \<Rightarrow> True
                         | Some p \<Rightarrow> ph_supplierId p \<noteq> Some (sd_supplierId d)) then
                  bad_request ''El destino seleccionado no pertenece al proveedor de la compra''
                else
                  let def = getPaymentMethodDefinition (map_option pm_code m) (Some (pi_method input))
                  in policy_result (validate_policy \<lparr>in_method = (case m of
                       Some m \<Rightarrow> policy_for m False (pm_requiresDestination m)
                         (pm_requiresOperationReference m) (pm_requiresVoucher m)
                     | None \<Rightarrow> definition_policy def False (md_requiresDestination def)
                         (md_requiresOperationReference def)),
                     in_account = None, in_destination = Some d,
                     in_paymentMethodId = pi_paymentMethodId input, in_currency = pi_currency input,
                     in_operationNumber = pi_operationNumber input, in_hasEvidence = False,
                     in_validateEvidence = False\<rparr>) ()))"

definition validateMethodRequirements ::
  "treasury \<Rightarrow> payment_input \<Rightarrow> payment_method option \<Rightarrow> app_error + unit" where
  "validateMethodRequirements s input resolved =
     (if \<not> filled (pi_paymentMethodId input) then Inr ()
      else
        (case (if resolved = None then lookup_method s (pi_paymentMethodId input) else resolved) of
           None \<Rightarrow> bad_request ''El metodo de pago no existe''
         | Some m \<Rightarrow> policy_result (validate_policy \<lparr>in_method = policy_for m False False
             (pm_requiresOperationReference m) (pm_requiresVoucher m), in_account = None,
             in_destination = None, in_paymentMethodId = None, in_currency = pi_currency input,
             in_operationNumber = pi_operationNumber input, in_hasEvidence = False,
             in_validateEvidence = False\<rparr>) ()))"

text \<open>A date left out is fine; one that is given must be valid.\<close>

definition optional_date :: "(string \<Rightarrow> int option) \<Rightarrow> string option \<Rightarrow> string \<Rightarrow> app_error + int option" where
  "optional_date pd v message =
     (if \<not> filled v then Inr None
      else case pd (the v) of None \<Rightarrow> bad_request message | Some t \<Rightarrow> Inr (Some t))"

definition check_open_balance :: "string option \<Rightarrow> rat \<Rightarrow> unit call" where
  "check_open_balance payableId amount = (case payableId of
     None \<Rightarrow> ereturn ()
   | Some i \<Rightarrow> ebind (payables_findById i) (\<lambda>payable. case payable of
       None \<Rightarrow> ethrow (BadRequestException ''La cuenta por pagar indicada no existe'')
     | Some a \<Rightarrow> ebind (findApprovedByAccountPayableId i) (\<lambda>approved.
         eguard (\<not> (\<Sum>d\<leftarrow>approved. pd_amount d) + amount > ap_amountTotal a + 1/100)
           (BadRequestException ''El pago supera el saldo pendiente de la cuenta por pagar''))))"

definition check_quota :: "string option \<Rightarrow> string \<Rightarrow> credit_quota option call" where
  "check_quota quotaId poId =
     (if \<not> filled quotaId then ereturn None
      else ebind (quotas_findById (the quotaId)) (\<lambda>quota. case quota of
        None \<Rightarrow> ethrow (NotFoundException ''Cuota no encontrada'')
      | Some q \<Rightarrow>
          ethen (eguard (filled (cq_poId q)) (BadRequestException ''La cuota no tiene orden de compra asociada''))
          (ethen (eguard (cq_poId q = Some poId)
              (BadRequestException ''La cuota no pertenece a la orden de compra indicada''))
            (ereturn (Some q)))))"

section \<open>Creating a payment\<close>

definition document_of ::
  "payment_input \<Rightarrow> payment_options \<Rightarrow> string \<Rightarrow> string \<Rightarrow> string option \<Rightarrow> int \<Rightarrow> int option \<Rightarrow> int option \<Rightarrow> payment_document" where
  "document_of input opt poId method payableId date scheduledAt paidAt = \<lparr>pd_id = '''', pd_method = method,
     pd_date = date, pd_operationNumber = pi_operationNumber input, pd_currency = pi_currency input,
     pd_amount = pi_amount input, pd_note = pi_note input, pd_fromDocumentType = PayDocPurchase,
     pd_poId = Some poId, pd_quotaId = pi_quotaId input, pd_accountPayableId = payableId,
     pd_companyPaymentAccountId = pi_companyPaymentAccountId input,
     pd_paymentMethodId = pi_paymentMethodId input,
     pd_supplierPaymentDestinationId = pi_supplierPaymentDestinationId input,
     pd_status = given_or (op_status opt) APPROVED, pd_requestedByUserId = op_requestedByUserId opt,
     pd_approvedByUserId = op_approvedByUserId opt, pd_rejectedByUserId = None,
     pd_approvedAt = op_approvedAt opt, pd_rejectedAt = None, pd_rejectionReason = None,
     pd_paidByUserId = pi_paidByUserId input,
     pd_scheduledByUserId = (if pi_scheduledByUserId input = None then op_scheduledByUserId opt
                             else pi_scheduledByUserId input),
     pd_scheduledAt = scheduledAt, pd_paidAt = paidAt,
     pd_paymentEvidenceFileId = pi_paymentEvidenceFileId input, pd_bankName = pi_bankName input,
     pd_cardLastFour = pi_cardLastFour input, pd_operationCode = pi_operationCode input,
     pd_isPartial = given_or (pi_isPartial input) False\<rparr>"

definition first_given :: "'a option list \<Rightarrow> 'a option" where
  "first_given xs = (case List.find (\<lambda>x. x \<noteq> None) xs of None \<Rightarrow> None | Some x \<Rightarrow> x)"

definition store_payment ::
  "payment_input \<Rightarrow> payment_options \<Rightarrow> string \<Rightarrow> string option \<Rightarrow> payment_document \<Rightarrow> string call" where
  "store_payment input opt poId payableId document =
     (let status = given_or (op_status opt) APPROVED
      in ebind (payments_create document) (\<lambda>created.
         ethen (if payableId \<noteq> None \<and> counted status
                then save_allocation (pd_id created) (the payableId) (pi_amount input) (pi_currency input)
                else ereturn ())
         (ethen (ewhen (status = APPROVED \<or> status = SCHEDULED)
             (recordPayment poId (if status = SCHEDULED then ''PAYMENT_SCHEDULED'' else ''PAYMENT_REGISTERED'')
               (first_given [op_scheduledByUserId opt, op_approvedByUserId opt, op_requestedByUserId opt,
                  pi_paidByUserId input]) None None))
           (ereturn (pd_id created)))))"

definition link_payment ::
  "payment_input \<Rightarrow> payment_options \<Rightarrow> string option \<Rightarrow> credit_quota option \<Rightarrow> int \<Rightarrow> unit call" where
  "link_payment input opt payableId quota date =
     (let status = given_or (op_status opt) APPROVED
      in ethen (case quota of None \<Rightarrow> ereturn ()
           | Some q \<Rightarrow> ewhen (counted status) (ethen (updateTotalPaid (cq_id q) (cq_totalPaid q + pi_amount input))
               (updatePaymentDate (cq_id q) (Some date))))
         (case payableId of None \<Rightarrow> ereturn () | Some i \<Rightarrow> ewhen (counted status) (recalculate i)))"

definition payable_for :: "payment_input \<Rightarrow> string \<Rightarrow> string option call" where
  "payable_for input poId =
     (if filled (pi_accountPayableId input) then ereturn (pi_accountPayableId input)
      else ebind (findByPurchaseAndQuota poId (pi_quotaId input)) (\<lambda>a. ereturn (map_option ap_id a)))"

definition register_payment ::
  "payment_input \<Rightarrow> payment_options \<Rightarrow> string \<Rightarrow> payment_method option \<Rightarrow> int \<Rightarrow> int option \<Rightarrow> int option \<Rightarrow> string call" where
  "register_payment input opt poId m date scheduledAt paidAt =
     (let status = given_or (op_status opt) APPROVED;
          method = canonicalPaymentMethodName (Some (case m of Some m \<Rightarrow> pm_code m | None \<Rightarrow> pi_method input))
      in ebind (payable_for input poId) (\<lambda>payableId.
         ethen (ewhen (counted status) (check_open_balance payableId (pi_amount input)))
         (ebind (check_quota (pi_quotaId input) poId) (\<lambda>quota.
          ebind (elift (payment_create
            (document_of input opt poId method payableId date scheduledAt paidAt))) (\<lambda>document.
          ebind (emap_error (\<lambda>_. BadRequestException ''No se pudo crear el documento de pago'')
             (store_payment input opt poId payableId document)) (\<lambda>created.
          ethen (emap_error (\<lambda>_. BadRequestException ''No se pudo vincular el pago a la orden de compra'')
             (link_payment input opt payableId quota date))
            (ereturn created)))))))"

definition create_payment ::
  "(string \<Rightarrow> int option) \<Rightarrow> payment_input \<Rightarrow> string option \<Rightarrow> payment_options \<Rightarrow> string call" where
  "create_payment pd input poId opt = transaction (
     let paymentPoId = (if poId = None then pi_poId input else poId);
         status = given_or (op_status opt) APPROVED
     in ethen (eguard (filled paymentPoId) (BadRequestException ''Debe indicar la orden de compra''))
        (ethen (eguard (\<not> pi_amount input \<le> 0) (BadRequestException ''Monto invalido''))
        (ebind (elift (case pd (pi_date input) of None \<Rightarrow> bad_request ''Fecha invalida'' | Some t \<Rightarrow> Inr t)) (\<lambda>date.
         ebind (elift (optional_date pd (pi_scheduledAt input) ''Fecha programada invalida'')) (\<lambda>scheduledAt.
         ebind (elift (optional_date pd (pi_paidAt input) ''Fecha de pago invalida'')) (\<lambda>paidAt.
         ebind (ereads (\<lambda>s. validateTreasuryAccount s input)) (\<lambda>treasury.
         ebind (elift treasury) (\<lambda>(m, voucher).
         ebind (ereads (\<lambda>s. validateSupplierDestination s input (the paymentPoId) m)) (\<lambda>destination.
         ethen (elift destination)
         (ebind (ereads (\<lambda>s. validateMethodRequirements s input m)) (\<lambda>requirements.
         ethen (elift requirements)
         (ethen (eguard (\<not> (counted status \<and> filled (pi_paymentMethodId input) \<and> voucher \<and>
               \<not> filled (pi_paymentEvidenceFileId input)))
             (BadRequestException ''Los pagos que requieren comprobante deben enviarse como borrador con evidencia''))
           (register_payment input opt (the paymentPoId) m date scheduledAt paidAt)))))))))))))"

text \<open>
  The endpoint that registers a payment: who may approve payments posts it at once, everybody
  else asks for the approval of those who may.
\<close>

definition request_approval :: "string \<Rightarrow> payment_input \<Rightarrow> string list \<Rightarrow> unit call" where
  "request_approval user input approvers =
     (case pi_poId input of
        None \<Rightarrow> ereturn ()
      | Some po \<Rightarrow>
          ebind new_uuid (\<lambda>uuid.
          ethen (emodify (\<lambda>s. s\<lparr>t_approvals := t_approvals s @ [\<lparr>ar_id = uuid, ar_module = ''purchases'',
            ar_action = ''PURCHASE_PAYMENT_CREATION'', ar_entityType = ''purchase_payment'',
            ar_entityId = po, ar_requestedByUserId = user, ar_status = ApprovalPending,
            ar_reviewedByUserId = None, ar_reviewedAt = None, ar_createdAt = t_clock s\<rparr>]\<rparr>))
          (ethen (recordPayment po ''PAYMENT_REQUESTED'' (Some user) (Some user) (Some uuid))
          (ethen (let recipients = filter (\<lambda>i. i \<noteq> user) approvers
              in ewhen (recipients \<noteq> []) (createNotificationForUsers recipients
                (''Aprobaci'' @ [CHR 0xF3] @ ''n pendiente de pago'') (Some po)))
            (createNotificationForUsers [user] (''Pago pendiente de aprobaci'' @ [CHR 0xF3] @ ''n'') (Some po))))))"

definition purchase_refusal :: "treasury \<Rightarrow> bool \<Rightarrow> payment_input \<Rightarrow> string option" where
  "purchase_refusal s canApprove input =
     (if \<not> filled (pi_poId input) then None
      else case find_by ph_id (the (pi_poId input)) (t_purchases s) of
        None \<Rightarrow> Some ''Compra no encontrada para registrar el pago.''
      | Some p \<Rightarrow>
          if \<not> canApprove \<and> ph_approvalStatus p = ApprovalPending then
            Some (''La compra est'' @ [CHR 0xE1] @ '' pendiente de aprobaci'' @ [CHR 0xF3] @
              ''n. No puedes registrar pagos hasta que sea aprobada.'')
          else if \<not> canApprove \<and> ph_approvalStatus p = ApprovalRejected then
            Some ''La compra fue rechazada. No puedes registrar pagos en esta compra.''
          else None)"

definition request_options :: "string \<Rightarrow> bool \<Rightarrow> payment_input \<Rightarrow> int \<Rightarrow> payment_options" where
  "request_options user canApprove input t =
     (let isScheduled = filled (pi_scheduledAt input) \<and> \<not> filled (pi_paidAt input)
      in \<lparr>op_status = Some (if isScheduled then SCHEDULED else if canApprove then POSTED else PENDING_APPROVAL),
          op_requestedByUserId = Some user,
          op_approvedByUserId = (if canApprove then Some user else None),
          op_approvedAt = (if canApprove then Some t else None),
          op_scheduledByUserId = (if isScheduled then Some user else None)\<rparr>)"

definition request_payment ::
  "(string \<Rightarrow> int option) \<Rightarrow> payment_input \<Rightarrow> string \<Rightarrow> bool \<Rightarrow> string list \<Rightarrow> answer call" where
  "request_payment pd input user canApprove approvers =
     ebind (ereads (\<lambda>s. purchase_refusal s canApprove input)) (\<lambda>refusal. case refusal of
       Some message \<Rightarrow> ereturn (Refused message)
     | None \<Rightarrow>
         ebind clock_now (\<lambda>t.
         ethen (create_payment pd input None (request_options user canApprove input t))
         (ethen (ewhen (\<not> canApprove \<and> filled (pi_poId input)) (request_approval user input approvers))
           (ereturn (Success ''Pago registrado con exito'')))))"

section \<open>Drafts\<close>

definition draft_options :: "string \<Rightarrow> payment_options" where
  "draft_options user = \<lparr>op_status = Some DRAFT, op_requestedByUserId = Some user,
     op_approvedByUserId = None, op_approvedAt = None, op_scheduledByUserId = None\<rparr>"

definition create_draft :: "(string \<Rightarrow> int option) \<Rightarrow> payment_input \<Rightarrow> string \<Rightarrow> string call" where
  "create_draft pd input user = create_payment pd input None (draft_options user)"

text \<open>
  The editable fields of the body of the request: \<open>None\<close> is a field left out, and for a
  nullable column \<open>Some None\<close> is \<open>null\<close>. Nothing validates a partial body.
\<close>

record draft_patch =
  dp_method :: "string option"
  dp_date :: "int option"
  dp_operationNumber :: "string option option"
  dp_currency :: "currency_type option"
  dp_amount :: "rat option"
  dp_note :: "string option option"
  dp_quotaId :: "string option option"
  dp_poId :: "string option option"
  dp_accountPayableId :: "string option option"
  dp_companyPaymentAccountId :: "string option option"
  dp_paymentMethodId :: "string option option"
  dp_supplierPaymentDestinationId :: "string option option"
  dp_scheduledAt :: "int option option"
  dp_paymentEvidenceFileId :: "string option option"
  dp_bankName :: "string option option"
  dp_cardLastFour :: "string option option"
  dp_operationCode :: "string option option"
  dp_isPartial :: "bool option"

definition apply_patch :: "draft_patch \<Rightarrow> payment_document \<Rightarrow> payment_document" where
  "apply_patch p d = d\<lparr>pd_method := given_or (dp_method p) (pd_method d),
     pd_date := given_or (dp_date p) (pd_date d),
     pd_operationNumber := given_or (dp_operationNumber p) (pd_operationNumber d),
     pd_currency := given_or (dp_currency p) (pd_currency d),
     pd_amount := given_or (dp_amount p) (pd_amount d),
     pd_note := given_or (dp_note p) (pd_note d),
     pd_quotaId := given_or (dp_quotaId p) (pd_quotaId d),
     pd_poId := given_or (dp_poId p) (pd_poId d),
     pd_accountPayableId := given_or (dp_accountPayableId p) (pd_accountPayableId d),
     pd_companyPaymentAccountId := given_or (dp_companyPaymentAccountId p) (pd_companyPaymentAccountId d),
     pd_paymentMethodId := given_or (dp_paymentMethodId p) (pd_paymentMethodId d),
     pd_supplierPaymentDestinationId :=
       given_or (dp_supplierPaymentDestinationId p) (pd_supplierPaymentDestinationId d),
     pd_scheduledAt := given_or (dp_scheduledAt p) (pd_scheduledAt d),
     pd_paymentEvidenceFileId := given_or (dp_paymentEvidenceFileId p) (pd_paymentEvidenceFileId d),
     pd_bankName := given_or (dp_bankName p) (pd_bankName d),
     pd_cardLastFour := given_or (dp_cardLastFour p) (pd_cardLastFour d),
     pd_operationCode := given_or (dp_operationCode p) (pd_operationCode d),
     pd_isPartial := given_or (dp_isPartial p) (pd_isPartial d)\<rparr>"

definition update_draft :: "string \<Rightarrow> draft_patch \<Rightarrow> answer call" where
  "update_draft paymentId patch =
     ebind (payment_row paymentId) (\<lambda>row. case row of
       None \<Rightarrow> ereturn (Refused ''Solo se pueden editar pagos en borrador'')
     | Some d \<Rightarrow>
         if pd_status d \<noteq> DRAFT then ereturn (Refused ''Solo se pueden editar pagos en borrador'')
         else ethen (save_payment (apply_patch patch d)) (ereturn (Success ''Borrador actualizado'')))"

section \<open>Scheduled payments\<close>

definition js_trunc :: "rat \<Rightarrow> int" where
  "js_trunc r = (if 0 \<le> r then \<lfloor>r\<rfloor> else \<lceil>r\<rceil>)"

definition safe_batch_size :: "rat \<Rightarrow> nat" where
  "safe_batch_size batchSize = nat (max 1 (min 500 (js_trunc batchSize)))"

definition is_due :: "int \<Rightarrow> payment_document \<Rightarrow> bool" where
  "is_due t d \<longleftrightarrow> pd_status d = SCHEDULED \<and> pd_scheduledAt d \<noteq> None \<and> the (pd_scheduledAt d) \<le> t"

definition due_payments :: "treasury \<Rightarrow> payment_document list" where
  "due_payments s = sort_key (\<lambda>d. the (pd_scheduledAt d)) (filter (is_due (t_clock s)) (t_payments s))"

definition release_scheduled :: "rat \<Rightarrow> nat call" where
  "release_scheduled batchSize = transaction (
     ebind (ereads (\<lambda>s. take (safe_batch_size batchSize) (due_payments s))) (\<lambda>rows.
     ethen (emodify (\<lambda>s. s\<lparr>t_payments := update_where
         (\<lambda>d. pd_id d \<in> pd_id ` set rows \<and> pd_status d = SCHEDULED)
         (\<lambda>d. d\<lparr>pd_status := PENDING_APPROVAL\<rparr>) (t_payments s)\<rparr>))
     (ethen (efor rows (\<lambda>d. case pd_poId d of
         None \<Rightarrow> ereturn ()
       | Some po \<Rightarrow> recordPayment po ''PAYMENT_REQUESTED'' (pd_scheduledByUserId d) None None))
       (ereturn (length rows)))))"

section \<open>Credit quotas\<close>

record quota_input =
  qi_number :: rat
  qi_expirationDate :: string
  qi_paymentDate :: "string option"
  qi_totalToPay :: rat
  qi_totalPaid :: "rat option"
  qi_poId :: "string option"

definition create_credit_quota ::
  "(string \<Rightarrow> int option) \<Rightarrow> quota_input \<Rightarrow> string option \<Rightarrow> unit call" where
  "create_credit_quota pd input poId = transaction (
     ethen (eguard (case qi_totalPaid input of None \<Rightarrow> True | Some p \<Rightarrow> p \<le> qi_totalToPay input)
       (BadRequestException ''El total pagado no puede ser mayor al total a pagar''))
     (ebind (elift (case pd (qi_expirationDate input) of
         None \<Rightarrow> bad_request ''Fecha de expiracion invalida'' | Some t \<Rightarrow> Inr t)) (\<lambda>expiration.
      ebind (elift (optional_date pd (qi_paymentDate input) ''Fecha de pago invalida'')) (\<lambda>paymentDate.
      ebind clock_now (\<lambda>t.
      ebind (elift (quota_create \<lparr>cq_id = '''', cq_number = qi_number input,
          cq_expirationDate = Instant expiration, cq_paymentDate = paymentDate,
          cq_totalToPay = qi_totalToPay input, cq_totalPaid = given_or (qi_totalPaid input) 0,
          cq_fromDocumentType = PayDocPurchase,
          cq_poId = (if qi_poId input = None then poId else qi_poId input),
          cq_createdAt = t\<rparr>)) (\<lambda>quota.
       emap_error (\<lambda>_. BadRequestException ''No se pudo crear la cuota'')
         (ethen (quotas_create quota) (ereturn ()))))))))"

definition delete_credit_quota :: "string \<Rightarrow> unit call" where
  "delete_credit_quota quotaId =
     ebind (quotas_findById quotaId) (\<lambda>found. case found of
       None \<Rightarrow> ethrow (NotFoundException ''Cuota no encontrada'')
     | Some q \<Rightarrow> emap_error (\<lambda>_. BadRequestException ''No se pudo eliminar la cuota'')
         (quotas_deleteById quotaId))"

end
