(* ===== verification/TreasuryLaws.thy ===== *)
theory TreasuryLaws
  imports PaymentCreation
begin

text \<open>
  The laws of the accounts payable: what a consistent row is (\<open>payable_ok\<close>), what a
  recalculation does to its row (\<open>rebalanced\<close>), and that every operation on payables and
  payments keeps the rows consistent, even one that fails half-way outside a transaction.
\<close>

section \<open>Running an effect from a given state\<close>

lemma run_reads [effect_simps]: "ebind (ereads f) k s = k (f s) s"
  by (simp add: ebind_def ereads_def)

lemma run_lift [effect_simps]:
  "ebind (elift r) k s = (case r of Inl e \<Rightarrow> (Inl e, s) | Inr a \<Rightarrow> k a s)"
  by (simp add: ebind_def elift_def)

lemma run_clock [effect_simps]: "ebind clock_now k s = k (t_clock s) s"
  by (simp add: clock_now_def run_reads)

lemma run_row [effect_simps]: "ebind (payment_row i) k s = k (find_by pd_id i (t_payments s)) s"
  by (simp add: payment_row_def run_reads)

lemmas run_simps = run_reads run_lift run_clock run_row

section \<open>Consistent payables\<close>

definition payable_ok :: "account_payable \<Rightarrow> bool" where
  "payable_ok a \<longleftrightarrow>
     centesimal (ap_amountTotal a) \<and> centesimal (ap_amountPaid a) \<and> centesimal (ap_amountPending a) \<and>
     0 \<le> ap_amountTotal a \<and> 0 \<le> ap_amountPaid a \<and> 0 \<le> ap_amountPending a \<and>
     (if ap_status a = PayableCancelled then ap_amountPaid a = 0 \<and> ap_amountPending a = 0
      else ap_amountPaid a + ap_amountPending a = ap_amountTotal a) \<and>
     (ap_status a = PayablePaid \<longrightarrow> ap_amountPending a = 0) \<and>
     (ap_status a = PayablePartial \<longrightarrow> 0 < ap_amountPaid a \<and> 0 < ap_amountPending a) \<and>
     (ap_status a = PayablePending \<longrightarrow> ap_amountPaid a = 0) \<and>
     (ap_status a = PayableOverdue \<longrightarrow> 0 < ap_amountPending a)"

definition treasury_ok :: "treasury \<Rightarrow> bool" where
  "treasury_ok s \<longleftrightarrow> list_all payable_ok (t_payables s) \<and> list_all (\<lambda>d. centesimal (pd_amount d)) (t_payments s)"

lemma payable_create_Inr:
  assumes "payable_create u p = Inr a"
  shows "ap_amountTotal a = pp_amountTotal p \<and> 0 < ap_amountTotal a \<and>
    ap_amountPaid a = given_or (pp_amountPaid p) 0 \<and> 0 \<le> ap_amountPaid a \<and> 0 \<le> ap_amountPending a \<and>
    ap_amountPending a = given_or (pp_amountPending p) (max (pp_amountTotal p - ap_amountPaid a) 0) \<and>
    \<bar>ap_amountTotal a - (ap_amountPaid a + ap_amountPending a)\<bar> \<le> 1/100 \<and>
    ap_status a = given_or (pp_status p) PayablePending \<and> ap_id a = given_or (pp_accountPayableId p) u \<and>
    ap_purchaseId a = pp_purchaseId p \<and> ap_quotaId a = pp_quotaId p \<and> ap_currency a = pp_currency p \<and>
    ap_dueDate a = pp_dueDate p"
  using assms by (auto simp: payable_create_def Let_def split: if_splits)

lemma trimmed_idem: "trimmed (trimmed v) = trimmed v"
  by (simp add: trimmed_def js_trim_idem split: option.splits)

text \<open>What the entity has accepted once, it accepts again.\<close>

lemma payable_create_idem: "payable_create u p = Inr a \<Longrightarrow> payable_toDomain a = Inr a"
  by (auto simp: payable_toDomain_def payable_create_def payable_params_of_def given_or_def Let_def
      trimmed_idem split: if_splits)

lemma payable_toDomain_Inr:
  assumes "payable_toDomain r = Inr a"
  shows "ap_amountTotal a = ap_amountTotal r \<and> ap_amountPaid a = ap_amountPaid r \<and>
    ap_amountPending a = ap_amountPending r \<and> ap_status a = ap_status r \<and> ap_id a = ap_id r \<and>
    ap_purchaseId a = ap_purchaseId r \<and> ap_quotaId a = ap_quotaId r \<and> ap_currency a = ap_currency r \<and>
    ap_dueDate a = ap_dueDate r \<and> 0 < ap_amountTotal r \<and>
    \<bar>ap_amountTotal r - (ap_amountPaid r + ap_amountPending r)\<bar> \<le> 1/100"
  using payable_create_Inr [OF assms [unfolded payable_toDomain_def]]
  by (auto simp: payable_params_of_def given_or_def)

section \<open>The status a balance gives\<close>

definition balance_status :: "payable_status \<Rightarrow> rat \<Rightarrow> rat \<Rightarrow> payable_status" where
  "balance_status before whole paid =
     (if whole \<le> paid then PayablePaid else if 0 < paid then PayablePartial
      else if before = PayableOverdue then PayableOverdue else PayablePending)"

text \<open>The row \<open>b\<close> that replaces the row \<open>r\<close> when payments of the amount \<open>p\<close> are counted.\<close>

definition rebalanced :: "rat \<Rightarrow> account_payable \<Rightarrow> account_payable \<Rightarrow> bool" where
  "rebalanced p r b \<longleftrightarrow>
     ap_id b = ap_id r \<and> ap_purchaseId b = ap_purchaseId r \<and> ap_quotaId b = ap_quotaId r \<and>
     ap_currency b = ap_currency r \<and> ap_amountTotal b = ap_amountTotal r \<and>
     0 \<le> p \<and> p \<le> ap_amountTotal r + 1/100 \<and> ap_amountPaid b = min p (ap_amountTotal r) \<and>
     ap_amountPending b = ap_amountTotal r - ap_amountPaid b \<and>
     ap_status b = balance_status (ap_status r) (ap_amountTotal r) (ap_amountPaid b)"

lemma withBalance_Inr:
  assumes "withBalance p t a = Inr b"
  shows "rebalanced p a b \<and> payable_toDomain b = Inr b \<and> ap_dueDate b = ap_dueDate a"
proof -
  have range: "0 \<le> p" "p \<le> ap_amountTotal a + 1/100" using assms by (auto simp: withBalance_def split: if_splits)
  have status: "(if max (ap_amountTotal a - min p (ap_amountTotal a)) 0 \<le> 0 then PayablePaid
      else if min p (ap_amountTotal a) > 0 then PayablePartial
      else if ap_status a = PayableOverdue then PayableOverdue else PayablePending) =
    balance_status (ap_status a) (ap_amountTotal a) (min p (ap_amountTotal a))"
    by (simp add: balance_status_def)
  let ?a = "a\<lparr>ap_amountPaid := min p (ap_amountTotal a),
      ap_amountPending := max (ap_amountTotal a - min p (ap_amountTotal a)) 0,
      ap_status := balance_status (ap_status a) (ap_amountTotal a) (min p (ap_amountTotal a)),
      ap_updatedAt := Some t\<rparr>"
  have b: "payable_create '''' (payable_params_of ?a) = Inr b"
    using assms range unfolding withBalance_def Let_def status by simp
  then have "payable_toDomain b = Inr b" by (rule payable_create_idem)
  moreover have "rebalanced p a b \<and> ap_dueDate b = ap_dueDate a"
    using payable_create_Inr [OF b] range
    by (auto simp: rebalanced_def payable_params_of_def given_or_def)
  ultimately show ?thesis by blast
qed

lemma rebalanced_ok:
  assumes "rebalanced p r b" and "centesimal p" and "centesimal (ap_amountTotal r)" and "0 \<le> ap_amountTotal r"
  shows "payable_ok b"
proof -
  have c: "centesimal (min p (ap_amountTotal r))" using assms(2,3) by (simp add: min_def)
  have "0 \<le> min p (ap_amountTotal r)" using assms(1,4) by (simp add: rebalanced_def)
  then show ?thesis using assms c centesimal_diff [OF assms(3) c]
    by (auto simp: payable_ok_def rebalanced_def balance_status_def)
qed

section \<open>Counting the payments of a payable\<close>

definition paid_in :: "treasury \<Rightarrow> string \<Rightarrow> rat" where
  "paid_in s i = (\<Sum>d\<leftarrow>filter (counted_for i) (t_payments s). pd_amount d)"

lemma payment_create_Inr:
  "payment_create p = Inr d \<Longrightarrow> pd_amount d = pd_amount p \<and> pd_id d = pd_id p \<and> pd_status d = pd_status p \<and>
    pd_accountPayableId d = pd_accountPayableId p \<and> pd_currency d = pd_currency p \<and> pd_date d = pd_date p \<and>
    pd_quotaId d = pd_quotaId p \<and> pd_poId d = pd_poId p \<and> 0 < pd_amount p"
  by (auto simp: payment_create_def Let_def split: if_splits)

lemma traverse_amounts:
  "traverse payment_create rows = Inr ds \<Longrightarrow> (\<Sum>d\<leftarrow>ds. pd_amount d) = (\<Sum>d\<leftarrow>rows. pd_amount d)"
  by (induction rows arbitrary: ds) (auto dest: payment_create_Inr split: sum.splits)

lemma paid_in_centesimal: "treasury_ok s \<Longrightarrow> centesimal (paid_in s i)"
  unfolding paid_in_def treasury_ok_def by (rule centesimal_sum) (auto simp: list_all_iff)

lemma findApproved_run:
  "findApprovedByAccountPayableId i s = (traverse payment_create (filter (counted_for i) (t_payments s)), s)"
  by (simp add: findApprovedByAccountPayableId_def run_reads elift_def)

section \<open>Saving a payable\<close>

lemma save_payable_centesimal:
  assumes "centesimal (ap_amountTotal a)" "centesimal (ap_amountPaid a)" "centesimal (ap_amountPending a)"
  shows "(\<exists>e. save_payable a s = (Inl e, s)) \<or>
    save_payable a s = (Inr (), s\<lparr>t_payables := save_by ap_id
      (a\<lparr>ap_dueDate := map_option (date_column s) (ap_dueDate a)\<rparr>) (t_payables s)\<rparr>)"
proof (cases "numeric_12_2 (ap_amountTotal a)")
  case (Inr whole)
  have 1: "whole = ap_amountTotal a" using numeric_exact [OF assms(1) Inr] .
  show ?thesis
  proof (cases "numeric_12_2 (ap_amountPaid a)")
    case Inr_paid: (Inr paid)
    have 2: "paid = ap_amountPaid a" using numeric_exact [OF assms(2) Inr_paid] .
    show ?thesis
    proof (cases "numeric_12_2 (ap_amountPending a)")
      case Inr_pending: (Inr pending)
      have 3: "pending = ap_amountPending a" using numeric_exact [OF assms(3) Inr_pending] .
      show ?thesis using Inr Inr_paid Inr_pending 1 2 3
        by (simp add: save_payable_def run_simps emodify_def)
    qed (simp add: save_payable_def run_simps Inr Inr_paid)
  qed (simp add: save_payable_def run_simps Inr)
qed (simp add: save_payable_def run_simps)

section \<open>Recalculation\<close>

text \<open>
  A recalculation fails and writes nothing, or it replaces the row of the payable by the one
  the payments counted now give.
\<close>

lemma recalculate_outcome:
  assumes "treasury_ok s"
  shows "(\<exists>e. recalculate i s = (Inl e, s)) \<or>
    (\<exists>r b. find_by ap_id i (t_payables s) = Some r \<and> rebalanced (paid_in s i) r b \<and>
       recalculate i s = (Inr (), s\<lparr>t_payables := save_by ap_id b (t_payables s)\<rparr>))"
proof (cases "find_by ap_id i (t_payables s)")
  case None
  then show ?thesis
    by (simp add: recalculate_def recalculate_account_payable_def payables_findById_def payable_found_def
        ethen_def ebind_def ereads_def ereturn_def ethrow_def)
next
  case (Some r)
  have r: "r \<in> set (t_payables s)" using find_by_SomeD [OF Some] by simp
  then have ok: "payable_ok r" using assms by (auto simp: treasury_ok_def list_all_iff)
  show ?thesis
  proof (cases "payable_toDomain r")
    case (Inl e)
    then show ?thesis
      using Some by (simp add: recalculate_def recalculate_account_payable_def payables_findById_def
          payable_found_def ethen_def ebind_def ereads_def elift_def)
  next
    case (Inr a)
    show ?thesis
    proof (cases "traverse payment_create (filter (counted_for i) (t_payments s))")
      case (Inl e)
      then show ?thesis using Some Inr
        by (simp add: recalculate_def recalculate_account_payable_def payables_findById_def findApproved_run
            payable_found_def ethen_def ebind_def ereads_def elift_def ereturn_def)
    next
      case docs: (Inr ds)
      have sum: "(\<Sum>d\<leftarrow>ds. pd_amount d) = paid_in s i"
        using traverse_amounts [OF docs] by (simp add: paid_in_def)
      show ?thesis
      proof (cases "withBalance (paid_in s i) (t_clock s) a")
        case (Inl e)
        then show ?thesis using Some Inr docs sum
          by (simp add: recalculate_def recalculate_account_payable_def payables_findById_def findApproved_run
              payable_found_def ethen_def ebind_def ereads_def elift_def ereturn_def clock_now_def)
      next
        case bal: (Inr b)
        have b: "rebalanced (paid_in s i) a b" "payable_toDomain b = Inr b" "ap_dueDate b = ap_dueDate r"
          using withBalance_Inr [OF bal] payable_toDomain_Inr [OF Inr] by simp_all
        have ar: "rebalanced (paid_in s i) r b"
          using b(1) payable_toDomain_Inr [OF Inr] by (simp add: rebalanced_def)
        have "payable_ok b"
          using rebalanced_ok [OF ar paid_in_centesimal [OF assms]] ok by (simp add: payable_ok_def)
        then have cents: "centesimal (ap_amountTotal b)" "centesimal (ap_amountPaid b)"
          "centesimal (ap_amountPending b)" by (simp_all add: payable_ok_def)
        have run: "recalculate i s = ethen (payables_update b) (ereturn ()) s"
          using Some Inr docs sum bal
          by (simp add: recalculate_def recalculate_account_payable_def payables_findById_def findApproved_run
              payable_found_def ethen_def ebind_def ereads_def elift_def ereturn_def clock_now_def)
        let ?b = "b\<lparr>ap_dueDate := map_option (date_column s) (ap_dueDate b)\<rparr>"
        have "rebalanced (paid_in s i) r ?b" using ar by (simp add: rebalanced_def)
        then show ?thesis
          using save_payable_centesimal [OF cents, of s] Some b(2)
          by (auto simp: run payables_update_def ethen_def ebind_def elift_def ereturn_def)
      qed
    qed
  qed
qed

end
