(* ===== verification/TreasuryRuns.thy ===== *)
theory TreasuryRuns
  imports TreasuryLaws
begin

text \<open>
  The operations on payables and payments as one executable machine: an operation, its run,
  and sequences of operations. A sequence goes on after an operation that throws, with the
  state that operation left behind. The balance sheet of every payable stays consistent along
  every such sequence.
\<close>

section \<open>Operations and their sequences\<close>

datatype treasury_op =
    CreatePayable create_payable_input
  | RecalculatePayable string
  | MarkOverdue
  | CancelPayables string
  | CreateDraft payment_input string
  | UpdateDraft string draft_patch
  | RequestPayment payment_input string bool "string list"
  | CreatePayment payment_input "string option" payment_options
  | SubmitPayment string "string option"
  | ApprovePayment string string
  | RejectPayment string string "string option"
  | VoidPayment string string "string option"
  | DeletePayment string "string option"
  | ReleaseScheduled rat
  | CreateQuota quota_input "string option"
  | DeleteQuota string
  | Wait nat

definition discard :: "'a call \<Rightarrow> unit call" where
  "discard m = ethen m (ereturn ())"

fun run_op :: "(string \<Rightarrow> int option) \<Rightarrow> treasury_op \<Rightarrow> unit call" where
  "run_op pd (CreatePayable input) = discard (create_account_payable input)"
| "run_op pd (RecalculatePayable i) = recalculate i"
| "run_op pd MarkOverdue = discard mark_overdue_account_payables"
| "run_op pd (CancelPayables po) = discard (cancelOpenByPurchase po)"
| "run_op pd (CreateDraft input user) = discard (create_draft pd input user)"
| "run_op pd (UpdateDraft i patch) = discard (update_draft i patch)"
| "run_op pd (RequestPayment input user can approvers) = discard (request_payment pd input user can approvers)"
| "run_op pd (CreatePayment input po opt) = discard (create_payment pd input po opt)"
| "run_op pd (SubmitPayment i user) = discard (submit_payment i user)"
| "run_op pd (ApprovePayment i user) = discard (approve_payment i user)"
| "run_op pd (RejectPayment i user reason) = discard (reject_payment i user reason)"
| "run_op pd (VoidPayment i user reason) = discard (void_payment i user reason)"
| "run_op pd (DeletePayment i user) = discard (delete_payment i user)"
| "run_op pd (ReleaseScheduled n) = discard (release_scheduled n)"
| "run_op pd (CreateQuota input po) = create_credit_quota pd input po"
| "run_op pd (DeleteQuota i) = delete_credit_quota i"
| "run_op pd (Wait n) = emodify (\<lambda>s. s\<lparr>t_clock := t_clock s + int n\<rparr>)"

fun run_ops :: "(string \<Rightarrow> int option) \<Rightarrow> treasury_op list \<Rightarrow> treasury \<Rightarrow> treasury" where
  "run_ops pd [] s = s"
| "run_ops pd (c # cs) s = run_ops pd cs (snd (run_op pd c s))"


text \<open>A relation every operation keeps, every sequence keeps.\<close>

lemma run_ops_related:
  assumes "preorder_on_states R" and "\<And>c. settled_by R (run_op pd c)"
  shows "R s (run_ops pd cs s)"
proof (induction cs arbitrary: s)
  case Nil
  show ?case using preorder_on_states.R_refl [OF assms(1)] by simp
next
  case (Cons c cs)
  show ?case
    using preorder_on_states.R_trans [OF assms(1) settlesD [OF assms(2)] Cons.IH] by simp
qed

section \<open>Consistency\<close>

abbreviation keeps_ok :: "treasury \<Rightarrow> treasury \<Rightarrow> bool" where
  "keeps_ok s t \<equiv> treasury_ok s \<longrightarrow> treasury_ok t"

interpretation sheet: preorder_on_states keeps_ok
  by unfold_locales auto

text \<open>Writes that leave the two tables alone, and the writes of a payment.\<close>

lemma other_write:
  "(\<And>s. t_payables (g s) = t_payables s \<and> t_payments (g s) = t_payments s) \<Longrightarrow> settled_by keeps_ok (emodify g)"
  by (rule sheet.settles_modify) (simp add: treasury_ok_def)

lemma ok_new_uuid: "settled_by keeps_ok new_uuid"
  by (simp add: settles_def new_uuid_def treasury_ok_def)

lemma ok_save_payment: "settled_by keeps_ok (save_payment d)"
proof (unfold save_payment_def, rule sheet.settles_bind_lift, rule sheet.settles_modify, rule impI)
  fix amount s
  assume a: "numeric_12_2 (pd_amount d) = Inr amount" and s: "treasury_ok s"
  have "set (save_by pd_id (d\<lparr>pd_amount := amount\<rparr>) (t_payments s)) \<subseteq>
      insert (d\<lparr>pd_amount := amount\<rparr>) (set (t_payments s))" by (rule set_save_by)
  then show "treasury_ok (s\<lparr>t_payments := save_by pd_id (d\<lparr>pd_amount := amount\<rparr>) (t_payments s)\<rparr>)"
    using s numeric_centesimal [OF a] by (auto simp: treasury_ok_def list_all_iff)
qed

lemma ok_recalculate: "settled_by keeps_ok (recalculate i)"
proof (rule settlesI)
  fix s
  show "keeps_ok s (snd (recalculate i s))"
  proof
    assume s: "treasury_ok s"
    consider e where "recalculate i s = (Inl e, s)"
      | r b where "find_by ap_id i (t_payables s) = Some r" "rebalanced (paid_in s i) r b"
        "recalculate i s = (Inr (), s\<lparr>t_payables := save_by ap_id b (t_payables s)\<rparr>)"
      using recalculate_outcome [OF s] by blast
    then show "treasury_ok (snd (recalculate i s))"
    proof cases
      case 1
      then show ?thesis using s by simp
    next
      case 2
      have "payable_ok r" using s find_by_SomeD [OF 2(1)] by (auto simp: treasury_ok_def list_all_iff)
      then have "payable_ok b"
        using rebalanced_ok [OF 2(2) paid_in_centesimal [OF s]] by (simp add: payable_ok_def)
      then show ?thesis
        using s set_save_by [of ap_id b "t_payables s"] 2(3) by (auto simp: treasury_ok_def list_all_iff)
    qed
  qed
qed simp

section \<open>The operations keep the sheet consistent\<close>

lemma ok_payables_create:
  assumes "payable_create u (new_payable_params input) = Inr a"
  shows "settled_by keeps_ok (payables_create a)"
proof -
  have a: "ap_amountPaid a = 0" "ap_amountPending a = ap_amountTotal a" "0 < ap_amountTotal a"
    "ap_status a = PayablePending"
    using payable_create_Inr [OF assms] by (auto simp: new_payable_params_def given_or_def)
  have "settled_by keeps_ok (save_payable (a\<lparr>ap_createdAt := Some t, ap_updatedAt := Some t\<rparr>))" for t
    unfolding save_payable_def
  proof (intro sheet.settles_bind_lift sheet.settles_modify impI)
    fix whole paid pending s
    assume n: "numeric_12_2 (ap_amountTotal (a\<lparr>ap_createdAt := Some t, ap_updatedAt := Some t\<rparr>)) = Inr whole"
      "numeric_12_2 (ap_amountPaid (a\<lparr>ap_createdAt := Some t, ap_updatedAt := Some t\<rparr>)) = Inr paid"
      "numeric_12_2 (ap_amountPending (a\<lparr>ap_createdAt := Some t, ap_updatedAt := Some t\<rparr>)) = Inr pending"
      and s: "treasury_ok s"
    have c: "centesimal whole" "0 \<le> whole" "paid = 0" "pending = whole"
      using n a numeric_centesimal numeric_nonneg numeric_exact [OF centesimal_0, of paid] by auto
    let ?b = "a\<lparr>ap_createdAt := Some t, ap_updatedAt := Some t, ap_amountTotal := whole, ap_amountPaid := paid,
      ap_amountPending := pending, ap_dueDate := map_option (date_column s) (ap_dueDate a)\<rparr>"
    have "payable_ok ?b" using c a(4) by (simp add: payable_ok_def)
    then show "treasury_ok (s\<lparr>t_payables := save_by ap_id (a\<lparr>ap_createdAt := Some t, ap_updatedAt := Some t,
        ap_amountTotal := whole, ap_amountPaid := paid, ap_amountPending := pending,
        ap_dueDate := map_option (date_column s) (ap_dueDate (a\<lparr>ap_createdAt := Some t, ap_updatedAt := Some t\<rparr>))\<rparr>)
        (t_payables s)\<rparr>)"
      using s set_save_by [of ap_id ?b "t_payables s"] by (auto simp: treasury_ok_def list_all_iff)
  qed
  then show ?thesis
    unfolding payables_create_def clock_now_def Let_def
    by (intro sheet.settled_bind sheet.settles_reads sheet.settles_then sheet.settles_lift)
qed

lemma treasury_ok_update_where:
  assumes "treasury_ok s" and "\<And>a. payable_ok a \<Longrightarrow> c a \<Longrightarrow> payable_ok (f a)"
  shows "treasury_ok (s\<lparr>t_payables := update_where c f (t_payables s)\<rparr>)"
  using assms by (auto simp: treasury_ok_def update_where_def list_all_iff)

lemma overdue_payable_ok:
  "payable_ok a \<Longrightarrow> is_overdue day a \<Longrightarrow> payable_ok (a\<lparr>ap_status := PayableOverdue, ap_updatedAt := t\<rparr>)"
  by (simp add: is_overdue_def payable_ok_def) (elim disjE conjE; simp)

lemma cancelled_payable_ok:
  "payable_ok a \<Longrightarrow> is_open po a \<Longrightarrow>
   payable_ok (a\<lparr>ap_status := PayableCancelled, ap_amountPending := 0, ap_updatedAt := t\<rparr>)"
  by (simp add: is_open_def payable_ok_def)

lemma ok_markOverdue: "settled_by keeps_ok (markOverdue t)"
  unfolding markOverdue_def Let_def
  by (intro sheet.settled_bind sheet.settles_reads sheet.settles_then sheet.settles_return
      sheet.settles_modify impI treasury_ok_update_where overdue_payable_ok TrueI)

lemma ok_cancelOpenByPurchase: "settled_by keeps_ok (cancelOpenByPurchase po)"
  unfolding cancelOpenByPurchase_def
  by (intro sheet.settled_bind sheet.settles_reads sheet.settles_then sheet.settles_return
      sheet.settles_modify impI treasury_ok_update_where cancelled_payable_ok TrueI)

lemmas sheet_rules = sheet.settles_throw sheet.settles_return sheet.settles_reads sheet.settles_guard
  sheet.settles_lift sheet.settles_then sheet.settles_when sheet.settles_map_error
  sheet.settles_transaction sheet.settles_for sheet.settled_bind settles_cases
  ok_new_uuid ok_save_payment ok_recalculate

lemma ok_payable_reads:
  "settled_by keeps_ok (payables_findById i)" "settled_by keeps_ok (findByPurchaseAndQuota po q)"
  "settled_by keeps_ok (findApprovedByAccountPayableId i)" "settled_by keeps_ok clock_now"
  unfolding payables_findById_def findByPurchaseAndQuota_def payable_found_def
    findApprovedByAccountPayableId_def clock_now_def
  by (intro sheet_rules TrueI)+

lemma ok_payment_reads:
  "settled_by keeps_ok (payment_row i)" "settled_by keeps_ok (payments_findById i)"
  "settled_by keeps_ok (findLatestByQuotaId q i)" "settled_by keeps_ok (quotas_findById q)"
  unfolding payments_findById_def payment_row_def findLatestByQuotaId_def quotas_findById_def
  by (intro sheet_rules TrueI)+

lemma ok_other_tables:
  "settled_by keeps_ok (recordPayment po ty u v a)" "settled_by keeps_ok (createNotificationForUsers us t o')"
  "settled_by keeps_ok (updateTotalPaid q x)" "settled_by keeps_ok (updatePaymentDate q dt)"
  "settled_by keeps_ok (save_allocation i j x cur)" "settled_by keeps_ok (quotas_deleteById q)"
  "settled_by keeps_ok (quotas_create cq)"
  unfolding recordPayment_def createNotificationForUsers_def updateTotalPaid_def updatePaymentDate_def
    save_allocation_def quotas_deleteById_def quotas_create_def Let_def
  by (intro sheet_rules other_write TrueI; simp)+

lemma ok_payments_deleteById: "settled_by keeps_ok (payments_deleteById i)"
  unfolding payments_deleteById_def
  by (rule sheet.settles_modify) (auto simp: treasury_ok_def list_all_iff)

lemma ok_payments_create: "settled_by keeps_ok (payments_create d)"
  unfolding payments_create_def Let_def by (intro sheet_rules TrueI)

lemmas ok_parts = sheet_rules ok_payable_reads ok_payment_reads ok_other_tables ok_payments_deleteById
  ok_payments_create

lemma ok_approve_creation: "settled_by keeps_ok (approve_creation po u)"
  unfolding approve_creation_def by (intro ok_parts other_write TrueI; simp)

lemma ok_quota_effects: "settled_by keeps_ok (pay_quota d)" "settled_by keeps_ok (unpay_quota d)"
  unfolding pay_quota_def unpay_quota_def by (intro ok_parts TrueI)+

lemma ok_post_effects: "settled_by keeps_ok (post_effects u d)"
  unfolding post_effects_def by (intro ok_parts ok_approve_creation ok_quota_effects TrueI)

lemma ok_payment_changes:
  "settled_by keeps_ok (approve_payment i u)" "settled_by keeps_ok (submit_payment i v)"
  "settled_by keeps_ok (reject_payment i u r)" "settled_by keeps_ok (void_payment i u r)"
  "settled_by keeps_ok (delete_payment i v)" "settled_by keeps_ok (update_draft i patch)"
  unfolding approve_payment_def submit_payment_def reject_payment_def void_payment_def
    delete_payment_def update_draft_def Let_def
  by (intro ok_parts ok_post_effects ok_quota_effects TrueI)+

lemma ok_register:
  "settled_by keeps_ok (check_open_balance i x)" "settled_by keeps_ok (check_quota q po)"
  "settled_by keeps_ok (store_payment input opt po i d)" "settled_by keeps_ok (link_payment input opt i cq dt)"
  "settled_by keeps_ok (payable_for input po)"
  unfolding check_open_balance_def check_quota_def store_payment_def link_payment_def payable_for_def Let_def
  by (intro ok_parts TrueI)+

lemma ok_create_payment: "settled_by keeps_ok (create_payment pd input po opt)"
  unfolding create_payment_def register_payment_def Let_def by (intro ok_parts ok_register TrueI)

lemma ok_request_approval: "settled_by keeps_ok (request_approval u input us)"
  unfolding request_approval_def Let_def by (intro ok_parts other_write TrueI; simp)

lemma ok_request_payment: "settled_by keeps_ok (request_payment pd input u can us)"
  unfolding request_payment_def by (intro ok_parts ok_create_payment ok_request_approval TrueI)

lemma ok_release_scheduled: "settled_by keeps_ok (release_scheduled n)"
  unfolding release_scheduled_def
  by (intro ok_parts sheet.settles_modify TrueI)
     (auto simp: treasury_ok_def list_all_iff update_where_def)

lemma ok_create_account_payable: "settled_by keeps_ok (create_account_payable input)"
  unfolding create_account_payable_def
  by (intro ok_payable_reads sheet.settled_bind settles_cases sheet.settles_return ok_new_uuid
      sheet.settles_bind_lift ok_payables_create TrueI)

lemma ok_quotas:
  "settled_by keeps_ok (create_credit_quota pd input' po)" "settled_by keeps_ok (delete_credit_quota q)"
  unfolding create_credit_quota_def delete_credit_quota_def by (intro ok_parts TrueI)+

lemma ok_discard: "settled_by keeps_ok m \<Longrightarrow> settled_by keeps_ok (discard m)"
  unfolding discard_def by (intro sheet.settles_then sheet.settles_return) simp_all

lemma ok_run_op: "settled_by keeps_ok (run_op pd c)"
proof (cases c)
  case MarkOverdue
  then show ?thesis
    unfolding MarkOverdue run_op.simps mark_overdue_account_payables_def
    by (intro ok_discard sheet.settled_bind ok_payable_reads ok_markOverdue)
next
  case (Wait n)
  then show ?thesis by (auto intro: other_write)
next
  case (CreateDraft input user)
  then show ?thesis by (simp add: create_draft_def ok_discard ok_create_payment)
qed (simp_all add: ok_discard ok_create_account_payable ok_recalculate ok_cancelOpenByPurchase
    ok_payment_changes ok_create_payment ok_request_payment ok_release_scheduled ok_quotas)

lemma run_ops_keep_ok: "treasury_ok s \<Longrightarrow> treasury_ok (run_ops pd cs s)"
  using run_ops_related [OF sheet.preorder_on_states_axioms ok_run_op] by blast

end
