(* ===== verification/PaymentLife.thy ===== *)
theory PaymentLife
  imports TreasuryRuns
begin

text \<open>
  The life of a payment document. A document is a draft, is scheduled or waits for approval, is
  posted or rejected, and may be voided once posted; a posted or voided document is sealed: it
  is never deleted and what it paid never changes. Every operation, also one that throws after
  some of its writes, respects this.
\<close>

section \<open>The graph of the statuses\<close>

fun pay_edge :: "pay_status \<Rightarrow> pay_status \<Rightarrow> bool" where
  "pay_edge DRAFT st \<longleftrightarrow> st = SCHEDULED \<or> st = PENDING_APPROVAL"
| "pay_edge SCHEDULED st \<longleftrightarrow> st = PENDING_APPROVAL \<or> st = POSTED"
| "pay_edge PENDING_APPROVAL st \<longleftrightarrow> st = POSTED \<or> st = REJECTED"
| "pay_edge POSTED st \<longleftrightarrow> st = VOIDED"
| "pay_edge APPROVED st \<longleftrightarrow> st = VOIDED"
| "pay_edge REJECTED st \<longleftrightarrow> False"
| "pay_edge VOIDED st \<longleftrightarrow> False"

abbreviation pay_path :: "pay_status \<Rightarrow> pay_status \<Rightarrow> bool" where
  "pay_path \<equiv> pay_edge\<^sup>*\<^sup>*"

definition sealed :: "pay_status \<Rightarrow> bool" where
  "sealed st \<longleftrightarrow> st = POSTED \<or> st = APPROVED \<or> st = VOIDED"

text \<open>What a document pays: the amount, the currency, the debt and the date.\<close>

definition paid_core ::
  "payment_document \<Rightarrow> rat \<times> currency_type \<times> string option \<times> string option \<times> string option \<times> int" where
  "paid_core d = (pd_amount d, pd_currency d, pd_accountPayableId d, pd_quotaId d, pd_poId d, pd_date d)"

definition evolves :: "payment_document \<Rightarrow> payment_document \<Rightarrow> bool" where
  "evolves d d' \<longleftrightarrow> pay_path (pd_status d) (pd_status d') \<and>
     (sealed (pd_status d) \<longrightarrow> paid_core d' = paid_core d)"

definition payments_advance :: "treasury \<Rightarrow> treasury \<Rightarrow> bool" where
  "payments_advance s t \<longleftrightarrow>
     t_uuid t = t_uuid s \<and> t_next s \<le> t_next t \<and>
     pd_id ` set (t_payments t) \<subseteq> pd_id ` set (t_payments s) \<union> t_uuid s ` {t_next s..} \<and>
     (\<forall>d \<in> set (t_payments s). sealed (pd_status d) \<longrightarrow> pd_id d \<in> pd_id ` set (t_payments t)) \<and>
     (\<forall>d \<in> set (t_payments s). \<forall>d' \<in> set (t_payments t). pd_id d' = pd_id d \<longrightarrow> evolves d d')"

text \<open>Identifiers are keys, and those still to be generated are not in use.\<close>

definition keyed :: "treasury \<Rightarrow> bool" where
  "keyed s \<longleftrightarrow> treasury_ok s \<and>
     inj (t_uuid s) \<and> distinct (map pd_id (t_payments s)) \<and> distinct (map ap_id (t_payables s)) \<and>
     (\<forall>n \<ge> t_next s. t_uuid s n \<notin> pd_id ` set (t_payments s) \<and> t_uuid s n \<notin> ap_id ` set (t_payables s))"

abbreviation lives :: "treasury \<Rightarrow> treasury \<Rightarrow> bool" where
  "lives s t \<equiv> keyed s \<longrightarrow> keyed t \<and> payments_advance s t"

lemma sealed_edge: "pay_edge a b \<Longrightarrow> sealed a \<Longrightarrow> sealed b"
  by (cases a) (auto simp: sealed_def)

lemma sealed_path: "pay_path a b \<Longrightarrow> sealed a \<Longrightarrow> sealed b"
  by (induction rule: rtranclp_induct) (auto dest: sealed_edge)

lemma evolves_refl: "evolves d d"
  by (simp add: evolves_def)

lemma evolves_trans: "evolves d e \<Longrightarrow> evolves e f \<Longrightarrow> evolves d f"
  by (auto simp: evolves_def dest: sealed_path intro: rtranclp_trans)

lemma payments_advanceI:
  assumes "t_uuid t = t_uuid s" and "t_next s \<le> t_next t"
    and "pd_id ` set (t_payments t) \<subseteq> pd_id ` set (t_payments s) \<union> t_uuid s ` {t_next s..}"
    and "\<And>d. d \<in> set (t_payments s) \<Longrightarrow> sealed (pd_status d) \<Longrightarrow> pd_id d \<in> pd_id ` set (t_payments t)"
    and "\<And>d d'. d \<in> set (t_payments s) \<Longrightarrow> d' \<in> set (t_payments t) \<Longrightarrow> pd_id d' = pd_id d \<Longrightarrow> evolves d d'"
  shows "payments_advance s t"
  using assms by (simp add: payments_advance_def)

lemma unique_row: "distinct (map key xs) \<Longrightarrow> a \<in> set xs \<Longrightarrow> b \<in> set xs \<Longrightarrow> key a = key b \<Longrightarrow> a = b"
  by (auto simp: distinct_map dest: inj_onD)

lemma payments_advance_same:
  assumes "keyed s" "t_payments t = t_payments s" "t_uuid t = t_uuid s" "t_next s \<le> t_next t"
  shows "payments_advance s t"
  unfolding payments_advance_def
proof (intro conjI ballI impI)
  fix d d' assume d: "d \<in> set (t_payments s)" "d' \<in> set (t_payments t)" "pd_id d' = pd_id d"
  have "distinct (map pd_id (t_payments s))" using assms(1) by (simp add: keyed_def)
  then have "d' = d" using d assms(2) by (auto simp: distinct_map dest: inj_onD)
  then show "evolves d d'" by (simp add: evolves_refl)
qed (simp_all add: assms(2-4))

lemma payments_advance_trans:
  assumes "keyed s" "payments_advance s t" "payments_advance t u"
  shows "payments_advance s u"
  unfolding payments_advance_def
proof (intro conjI ballI impI)
  show "t_uuid u = t_uuid s" "t_next s \<le> t_next u" using assms(2,3) by (auto simp: payments_advance_def)
next
  have "U \<subseteq> T \<union> Y \<Longrightarrow> T \<subseteq> S \<union> X \<Longrightarrow> Y \<subseteq> X \<Longrightarrow> U \<subseteq> S \<union> X" for S T U X Y :: "string set"
    by auto
  then show "pd_id ` set (t_payments u) \<subseteq> pd_id ` set (t_payments s) \<union> t_uuid s ` {t_next s..}"
  proof this
    show "pd_id ` set (t_payments u) \<subseteq> pd_id ` set (t_payments t) \<union> t_uuid t ` {t_next t..}"
      "pd_id ` set (t_payments t) \<subseteq> pd_id ` set (t_payments s) \<union> t_uuid s ` {t_next s..}"
      using assms(2,3) by (simp_all only: payments_advance_def)
    show "t_uuid t ` {t_next t..} \<subseteq> t_uuid s ` {t_next s..}"
      using assms(2) by (auto simp: payments_advance_def)
  qed
next
  fix d assume d: "d \<in> set (t_payments s)" "sealed (pd_status d)"
  then obtain e where e: "e \<in> set (t_payments t)" "pd_id e = pd_id d"
    using assms(2) unfolding payments_advance_def by (auto simp: image_iff)
  have "evolves d e" using assms(2) d(1) e by (auto simp: payments_advance_def)
  then have "sealed (pd_status e)" using d(2) sealed_path by (auto simp: evolves_def)
  then have "pd_id e \<in> pd_id ` set (t_payments u)" using assms(3) e(1) by (auto simp: payments_advance_def)
  then show "pd_id d \<in> pd_id ` set (t_payments u)" using e(2) by simp
next
  fix d f assume d: "d \<in> set (t_payments s)" and f: "f \<in> set (t_payments u)" "pd_id f = pd_id d"
  have "pd_id d \<notin> t_uuid s ` {t_next s..}"
  proof
    assume "pd_id d \<in> t_uuid s ` {t_next s..}"
    then obtain n where "pd_id d = t_uuid s n" "t_next s \<le> n" by auto
    moreover have "pd_id d \<in> pd_id ` set (t_payments s)" using d by simp
    ultimately show False using assms(1) by (simp add: keyed_def)
  qed
  then have "pd_id f \<notin> t_uuid t ` {t_next t..}" using assms(2) f(2) by (auto simp: payments_advance_def)
  then have "pd_id f \<in> pd_id ` set (t_payments t)" using assms(3) f(1) unfolding payments_advance_def by blast
  then obtain e where e: "e \<in> set (t_payments t)" "pd_id e = pd_id f" by (metis imageE)
  have "evolves d e" using assms(2) d e f(2) by (simp add: payments_advance_def)
  moreover have "evolves e f" using assms(3) e f(1) by (simp add: payments_advance_def)
  ultimately show "evolves d f" by (rule evolves_trans)
qed

interpretation life: preorder_on_states lives
proof unfold_locales
  show "lives s s" for s using payments_advance_same [of s s] by simp
  show "lives s t \<Longrightarrow> lives t u \<Longrightarrow> lives s u" for s t u using payments_advance_trans by blast
qed

section \<open>Writes away from the documents\<close>

lemma lives_same:
  assumes "t_payments t = t_payments s" "map ap_id (t_payables t) = map ap_id (t_payables s)"
    "t_uuid t = t_uuid s" "t_next t = t_next s" "keeps_ok s t"
  shows "lives s t"
proof
  assume s: "keyed s"
  have ids: "ap_id ` set (t_payables t) = ap_id ` set (t_payables s)"
    using arg_cong [OF assms(2), of set] by simp
  have "keyed t" using s assms(5) unfolding keyed_def assms(1,3,4) ids unfolding assms(2) by blast
  then show "keyed t \<and> payments_advance s t" using payments_advance_same [OF s] assms by simp
qed

lemma life_write:
  "(\<And>s. t_payments (g s) = t_payments s \<and> t_payables (g s) = t_payables s \<and> t_uuid (g s) = t_uuid s \<and>
     t_next (g s) = t_next s) \<Longrightarrow> settled_by lives (emodify g)"
  by (rule life.settles_modify) (rule lives_same; simp add: treasury_ok_def)

lemma life_new_uuid: "settled_by lives new_uuid"
proof (rule settlesI)
  fix s
  have "lives s (s\<lparr>t_next := Suc (t_next s)\<rparr>)"
  proof
    assume s: "keyed s"
    have "keyed (s\<lparr>t_next := Suc (t_next s)\<rparr>)"
      using s by (simp add: keyed_def treasury_ok_def)
    then show "keyed (s\<lparr>t_next := Suc (t_next s)\<rparr>) \<and> payments_advance s (s\<lparr>t_next := Suc (t_next s)\<rparr>)"
      using payments_advance_same [OF s, of "s\<lparr>t_next := Suc (t_next s)\<rparr>"] by simp
  qed
  then show "lives s (snd (new_uuid s))" by (simp add: new_uuid_def)
qed simp

lemma save_by_same_keys: "key r \<in> key ` set xs \<Longrightarrow> map key (save_by key r xs) = map key xs"
  by (induction xs) auto

lemma life_recalculate: "settled_by lives (recalculate i)"
proof (rule settlesI)
  fix s
  show "lives s (snd (recalculate i s))"
  proof (cases "keyed s")
    case True
    then have ok: "treasury_ok s" by (simp add: keyed_def)
    have kept: "keeps_ok s (snd (recalculate i s))" by (rule settlesD [OF ok_recalculate])
    consider e where "recalculate i s = (Inl e, s)"
      | r b where "find_by ap_id i (t_payables s) = Some r" "rebalanced (paid_in s i) r b"
        "recalculate i s = (Inr (), s\<lparr>t_payables := save_by ap_id b (t_payables s)\<rparr>)"
      using recalculate_outcome [OF ok] by blast
    then show ?thesis
    proof cases
      case 1
      then show ?thesis using life.R_refl by simp
    next
      case 2
      have "ap_id b \<in> ap_id ` set (t_payables s)"
        using find_by_SomeD [OF 2(1)] 2(2) by (auto simp: rebalanced_def)
      then show ?thesis
        using 2(3) kept by (intro lives_same) (simp_all add: save_by_same_keys)
    qed
  qed simp
qed simp

lemma map_id_update_where:
  "(\<And>a. ap_id (f a) = ap_id a) \<Longrightarrow> map ap_id (update_where c f xs) = map ap_id xs"
  by (simp add: update_where_def)

lemma life_payable_updates:
  "settled_by lives (markOverdue t)" "settled_by lives (cancelOpenByPurchase po)"
proof -
  have over: "lives s (s\<lparr>t_payables := update_where (is_overdue day)
      (\<lambda>r. r\<lparr>ap_status := PayableOverdue, ap_updatedAt := Some (t_clock s)\<rparr>) (t_payables s)\<rparr>)" for s day
    by (rule lives_same) (simp_all add: map_id_update_where treasury_ok_update_where overdue_payable_ok)
  have canc: "lives s (s\<lparr>t_payables := update_where (is_open po)
      (\<lambda>r. r\<lparr>ap_status := PayableCancelled, ap_amountPending := 0, ap_updatedAt := Some (t_clock s)\<rparr>)
      (t_payables s)\<rparr>)" for s
    by (rule lives_same) (simp_all add: map_id_update_where treasury_ok_update_where cancelled_payable_ok)
  show "settled_by lives (markOverdue t)"
    unfolding markOverdue_def Let_def
    by (intro life.settled_bind life.settles_reads life.settles_then life.settles_return life.settles_modify over TrueI)
  show "settled_by lives (cancelOpenByPurchase po)"
    unfolding cancelOpenByPurchase_def
    by (intro life.settled_bind life.settles_reads life.settles_then life.settles_return life.settles_modify canc TrueI)
qed

section \<open>Writes of documents\<close>

text \<open>A document is replaced by a later stage of itself.\<close>

lemma save_by_in: "key r \<in> key ` set xs \<Longrightarrow> key ` set (save_by key r xs) = key ` set xs"
  by (simp add: save_by_keys insert_absorb)

lemma save_existing:
  assumes d: "find_by pd_id i (t_payments s) = Some d" and id: "pd_id d' = pd_id d"
    and ev: "pay_path (pd_status d) (pd_status d')" and core: "sealed (pd_status d) \<longrightarrow> paid_core d' = paid_core d"
  shows "lives s (snd (save_payment d' s))"
proof (cases "numeric_12_2 (pd_amount d')")
  case (Inl e)
  then show ?thesis using life.R_refl by (simp add: save_payment_def run_simps)
next
  case (Inr x)
  let ?d = "d'\<lparr>pd_amount := x\<rparr>"
  let ?t = "s\<lparr>t_payments := save_by pd_id ?d (t_payments s)\<rparr>"
  have run: "snd (save_payment d' s) = ?t" using Inr by (simp add: save_payment_def run_simps emodify_def)
  have in_d: "d \<in> set (t_payments s)" using find_by_SomeD [OF d] by simp
  have key: "pd_id ?d \<in> pd_id ` set (t_payments s)" using in_d id by force
  show ?thesis unfolding run
  proof
    assume s: "keyed s"
    have dist: "distinct (map pd_id (t_payments s))" using s by (simp add: keyed_def)
    have "keeps_ok s ?t" using settlesD [OF ok_save_payment, of s d'] run by simp
    then have t: "keyed ?t"
      using s save_by_same_keys [OF key] save_by_in [OF key] by (simp add: keyed_def)
    have "evolves d ?d"
    proof -
      have "centesimal (pd_amount d)" using s in_d by (auto simp: keyed_def treasury_ok_def list_all_iff)
      then have "sealed (pd_status d) \<Longrightarrow> x = pd_amount d"
        using core numeric_exact [OF _ Inr] by (simp add: paid_core_def)
      then show ?thesis using ev core by (auto simp: evolves_def paid_core_def)
    qed
    have "evolves a b" if a: "a \<in> set (t_payments s)" and b: "b \<in> set (t_payments ?t)" "pd_id b = pd_id a" for a b
    proof (cases "b = ?d")
      case True
      then have "a = d" using unique_row [OF dist a in_d] b(2) id by simp
      then show ?thesis using True \<open>evolves d ?d\<close> by simp
    next
      case False
      then have "b \<in> set (t_payments s)" using b(1) by (simp add: save_by_mem [OF dist])
      then have "a = b" using unique_row [OF dist a] b(2) by simp
      then show ?thesis by (simp add: evolves_refl)
    qed
    moreover have "pd_id ` set (t_payments ?t) = pd_id ` set (t_payments s)" using save_by_in [OF key] by simp
    ultimately have "payments_advance s ?t" by (intro payments_advanceI) simp_all
    then show "keyed ?t \<and> payments_advance s ?t" using t by simp
  qed
qed

text \<open>A new document has an identifier nobody has.\<close>

lemma save_by_new: "key r \<notin> key ` set xs \<Longrightarrow> save_by key r xs = xs @ [r]"
  by (induction xs) auto

lemma save_new:
  "lives s (snd (save_payment (d\<lparr>pd_id := t_uuid s (t_next s)\<rparr>) (s\<lparr>t_next := Suc (t_next s)\<rparr>)))"
proof (cases "numeric_12_2 (pd_amount d)")
  case (Inl e)
  have "lives s (snd (new_uuid s))" by (rule settlesD [OF life_new_uuid])
  then show ?thesis using Inl by (simp add: save_payment_def run_simps new_uuid_def)
next
  case (Inr x)
  let ?d = "d\<lparr>pd_id := t_uuid s (t_next s), pd_amount := x\<rparr>"
  let ?t = "s\<lparr>t_next := Suc (t_next s), t_payments := save_by pd_id ?d (t_payments s)\<rparr>"
  have run: "snd (save_payment (d\<lparr>pd_id := t_uuid s (t_next s)\<rparr>) (s\<lparr>t_next := Suc (t_next s)\<rparr>)) = ?t"
    using Inr by (simp add: save_payment_def run_simps emodify_def)
  show ?thesis unfolding run
  proof
    assume s: "keyed s"
    have fresh: "pd_id ?d \<notin> pd_id ` set (t_payments s)" "pd_id ?d \<notin> ap_id ` set (t_payables s)"
      using s by (auto simp: keyed_def)
    have rows: "save_by pd_id ?d (t_payments s) = t_payments s @ [?d]"
      using fresh(1) by (rule save_by_new)
    have "keeps_ok s ?t"
      using settlesD [OF ok_save_payment, of "s\<lparr>t_next := Suc (t_next s)\<rparr>" "d\<lparr>pd_id := t_uuid s (t_next s)\<rparr>"] run
      by (simp add: treasury_ok_def)
    moreover have "t_uuid s n \<noteq> t_uuid s (t_next s)" if "Suc (t_next s) \<le> n" for n
      using s that by (auto simp: keyed_def dest: injD)
    ultimately have t: "keyed ?t" using s fresh by (auto simp: keyed_def rows)
    have dist: "distinct (map pd_id (t_payments s))" using s by (simp add: keyed_def)
    have "evolves a b" if a: "a \<in> set (t_payments s)" and b: "b \<in> set (t_payments ?t)" "pd_id b = pd_id a" for a b
    proof -
      have "b \<in> set (t_payments s)" using b fresh(1) a by (auto simp: rows)
      then have "a = b" using unique_row [OF dist a] b(2) by simp
      then show ?thesis by (simp add: evolves_refl)
    qed
    then have "payments_advance s ?t" by (intro payments_advanceI) (simp_all add: rows)
    then show "keyed ?t \<and> payments_advance s ?t" using t by simp
  qed
qed

lemma life_payments_create: "settled_by lives (payments_create d)"
proof (rule settlesI)
  fix s :: treasury
  let ?u = "s\<lparr>t_next := Suc (t_next s)\<rparr>" and ?d = "d\<lparr>pd_id := t_uuid s (t_next s)\<rparr>"
  have "payments_create d s = ethen (save_payment ?d) (elift (payment_create ?d)) ?u"
    by (simp add: payments_create_def ebind_def new_uuid_def Let_def)
  moreover have "snd (ethen (save_payment ?d) (elift (payment_create ?d)) ?u) = snd (save_payment ?d ?u)"
    by (simp add: ethen_def ebind_def elift_def split: prod.splits sum.splits)
  ultimately show "lives s (snd (payments_create d s))" using save_new [of s d] by simp
qed simp

text \<open>Only a document that is not sealed is deleted.\<close>

lemma delete_unsealed:
  assumes "\<And>d. d \<in> set (t_payments s) \<Longrightarrow> pd_id d = i \<Longrightarrow> \<not> sealed (pd_status d)"
  shows "lives s (snd (payments_deleteById i s))"
proof
  let ?t = "s\<lparr>t_payments := filter (\<lambda>d. pd_id d \<noteq> i) (t_payments s)\<rparr>"
  have run: "snd (payments_deleteById i s) = ?t" by (simp add: payments_deleteById_def emodify_def)
  assume s: "keyed s"
  have "keeps_ok s ?t" using settlesD [OF ok_payments_deleteById, of s i] run by simp
  then have t: "keyed ?t" using s by (auto simp: keyed_def distinct_map_filter)
  have dist: "distinct (map pd_id (t_payments s))" using s by (simp add: keyed_def)
  have "evolves a b" if a: "a \<in> set (t_payments s)" and b: "b \<in> set (t_payments ?t)" "pd_id b = pd_id a" for a b
    using unique_row [OF dist a, of b] b by (simp add: evolves_refl)
  moreover have "pd_id d \<in> pd_id ` set (t_payments ?t)"
    if "d \<in> set (t_payments s)" "sealed (pd_status d)" for d
    using that assms by auto
  ultimately have "payments_advance s ?t" by (intro payments_advanceI) auto
  then show "keyed (snd (payments_deleteById i s)) \<and> payments_advance s (snd (payments_deleteById i s))"
    using t run by simp
qed

section \<open>The parts of the operations\<close>

lemmas life_rules = life.settles_throw life.settles_return life.settles_reads life.settles_guard
  life.settles_lift life.settles_then life.settles_when life.settles_map_error
  life.settles_transaction life.settles_for life.settled_bind settles_cases
  life_new_uuid life_recalculate

lemma life_payable_reads:
  "settled_by lives (payables_findById i)" "settled_by lives (findByPurchaseAndQuota po q)"
  "settled_by lives (findApprovedByAccountPayableId i)" "settled_by lives clock_now"
  unfolding payables_findById_def findByPurchaseAndQuota_def payable_found_def
    findApprovedByAccountPayableId_def clock_now_def
  by (intro life_rules TrueI)+

lemma life_payment_reads:
  "settled_by lives (payment_row i)" "settled_by lives (payments_findById i)"
  "settled_by lives (findLatestByQuotaId q i)" "settled_by lives (quotas_findById q)"
  unfolding payments_findById_def payment_row_def findLatestByQuotaId_def quotas_findById_def
  by (intro life_rules TrueI)+

lemma life_other_tables:
  "settled_by lives (recordPayment po ty u v a)" "settled_by lives (createNotificationForUsers us t o')"
  "settled_by lives (updateTotalPaid q x)" "settled_by lives (updatePaymentDate q dt)"
  "settled_by lives (save_allocation i j x cur)" "settled_by lives (quotas_deleteById q)"
  "settled_by lives (quotas_create cq)"
  unfolding recordPayment_def createNotificationForUsers_def updateTotalPaid_def updatePaymentDate_def
    save_allocation_def quotas_deleteById_def quotas_create_def Let_def
  by (intro life_rules life_write TrueI; simp)+

lemmas life_parts = life_rules life_payable_reads life_payment_reads life_other_tables life_payments_create

lemma life_approve_creation: "settled_by lives (approve_creation po u)"
  unfolding approve_creation_def by (intro life_parts life_write TrueI; simp)

lemma life_quota_effects: "settled_by lives (pay_quota d)" "settled_by lives (unpay_quota d)"
  unfolding pay_quota_def unpay_quota_def by (intro life_parts TrueI)+

lemma life_post_effects: "settled_by lives (post_effects u d)"
  unfolding post_effects_def by (intro life_parts life_approve_creation life_quota_effects TrueI)

lemma life_register:
  "settled_by lives (check_open_balance i x)" "settled_by lives (check_quota q po)"
  "settled_by lives (store_payment input opt po i d)" "settled_by lives (link_payment input opt i cq dt)"
  "settled_by lives (payable_for input po)"
  unfolding check_open_balance_def check_quota_def store_payment_def link_payment_def payable_for_def Let_def
  by (intro life_parts TrueI)+

lemma life_create_payment: "settled_by lives (create_payment pd input po opt)"
  unfolding create_payment_def register_payment_def Let_def by (intro life_parts life_register TrueI)

lemma life_request_approval: "settled_by lives (request_approval u input us)"
  unfolding request_approval_def Let_def by (intro life_parts life_write TrueI; simp)

lemma life_request_payment: "settled_by lives (request_payment pd input u can us)"
  unfolding request_payment_def by (intro life_parts life_create_payment life_request_approval TrueI)

lemma life_quotas:
  "settled_by lives (create_credit_quota pd input' po)" "settled_by lives (delete_credit_quota q)"
  unfolding create_credit_quota_def delete_credit_quota_def by (intro life_parts TrueI)+

section \<open>Operations that replace a document\<close>

text \<open>A found document is saved in a later stage, and other writes follow.\<close>

lemma save_and_go_on:
  assumes "find_by pd_id i (t_payments s) = Some d" and "pd_id d' = pd_id d"
    and "pay_edge (pd_status d) (pd_status d') \<or> pd_status d' = pd_status d"
    and "sealed (pd_status d) \<longrightarrow> paid_core d' = paid_core d" and "settled_by lives k"
  shows "lives s (snd (ethen (save_payment d') k s))"
proof (rule life.at_then)
  have "pay_path (pd_status d) (pd_status d')" using assms(3) by auto
  then show "lives s (snd (save_payment d' s))" using save_existing [OF assms(1,2) _ assms(4)] by blast
  show "lives t (snd (k t))" for t using settlesD [OF assms(5)] .
qed

lemma settled_byI: "(\<And>s. R s (snd (m s))) \<Longrightarrow> settled_by R m"
  by (rule settlesI) simp_all

lemma life_approve_payment: "settled_by lives (approve_payment i u)"
proof (rule settled_byI)
  fix s :: treasury
  show "lives s (snd (approve_payment i u s))"
  proof (cases "find_by pd_id i (t_payments s)")
    case (Some d)
    have saved: "lives s (snd (ethen (save_payment (approved_row u (t_clock s) d))
        (ethen (post_effects u (approved_row u (t_clock s) d)) (ereturn a)) s))"
      if "pd_status d \<in> {PENDING_APPROVAL, SCHEDULED}" for a :: answer
      using that
      by (intro save_and_go_on [OF Some] life_rules life_post_effects)
         (auto simp: approved_row_def sealed_def)
    show ?thesis
      using saved life.R_refl
      by (simp add: approve_payment_def run_simps Some ereturn_def split: option.split)
  qed (simp add: approve_payment_def run_simps ereturn_def life.R_refl del: imp_conjL)
qed

lemma life_submit_payment: "settled_by lives (submit_payment i v)"
proof (rule settled_byI)
  fix s :: treasury
  show "lives s (snd (submit_payment i v s))"
  proof (cases "find_by pd_id i (t_payments s)")
    case (Some d)
    have saved: "lives s (snd (ethen (save_payment (submitted_row v d)) (ereturn a) s))"
      if "pd_status d = DRAFT" for a :: answer
      using that by (intro save_and_go_on [OF Some] life_rules) (auto simp: sealed_def submitted_row_def)
    show ?thesis
      using saved life.R_refl
      by (simp add: submit_payment_def run_simps Some ethrow_def split: option.split)
  qed (simp add: submit_payment_def run_simps ethrow_def life.R_refl del: imp_conjL)
qed

lemma life_answers:
  "settled_by lives (case v of None \<Rightarrow> ereturn () | Some u \<Rightarrow> createNotificationForUsers [u] m o')"
  "settled_by lives (case po of None \<Rightarrow> ereturn () | Some p \<Rightarrow> recordPayment p ty a b c)"
  "settled_by lives (case q of None \<Rightarrow> ereturn () | Some j \<Rightarrow> recalculate j)"
  by (intro life_parts TrueI)+

lemma life_reject_payment: "settled_by lives (reject_payment i u r)"
proof (rule settled_byI)
  fix s :: treasury
  show "lives s (snd (reject_payment i u r s))"
  proof (cases "find_by pd_id i (t_payments s)")
    case (Some d)
    have saved: "lives s (snd (ethen (save_payment (closed_row REJECTED u (t_clock s) r d)) k s))"
      if "pd_status d = PENDING_APPROVAL" "settled_by lives k" for k :: "answer call"
      using that by (intro save_and_go_on [OF Some]) (auto simp: sealed_def closed_row_def)
    show ?thesis
    proof (cases "pd_status d = PENDING_APPROVAL")
      case True
      show ?thesis
        unfolding reject_payment_def run_simps Some option.case True
        by (simp add: run_simps del: imp_conjL)
           (intro saved [OF True] life.settles_then life_answers life_rules TrueI)
    qed (simp add: reject_payment_def run_simps Some ereturn_def life.R_refl del: imp_conjL)
  qed (simp add: reject_payment_def run_simps ereturn_def life.R_refl del: imp_conjL)
qed

lemma life_void_payment: "settled_by lives (void_payment i u r)"
proof (rule settled_byI)
  fix s :: treasury
  show "lives s (snd (void_payment i u r s))"
  proof (cases "find_by pd_id i (t_payments s)")
    case (Some d)
    have saved: "lives s (snd (ethen (save_payment (closed_row VOIDED u (t_clock s) r d)) k s))"
      if "counted (pd_status d)" "settled_by lives k" for k :: "answer call"
      using that by (intro save_and_go_on [OF Some]) (auto simp: counted_def paid_core_def closed_row_def)
    show ?thesis
    proof (cases "counted (pd_status d) \<and> trimmed r \<noteq> None")
      case True
      have "lives s (snd (ethen (save_payment (closed_row VOIDED u (t_clock s) r d))
          (ethen (case pd_accountPayableId d of None \<Rightarrow> ereturn () | Some j \<Rightarrow> recalculate j) (ereturn a)) s))"
        for a :: answer
        using True by (intro saved life.settles_then life_answers life_rules TrueI) simp
      moreover obtain y where "trimmed r = Some y" using True by blast
      ultimately show ?thesis using True by (simp add: void_payment_def run_simps Some del: imp_conjL)
    next
      case False
      then obtain e where "void_payment i u r s = (Inl e, s)"
        by (cases "counted (pd_status d)") (auto simp: void_payment_def run_simps Some ethrow_def)
      then show ?thesis by (simp add: life.R_refl del: imp_conjL)
    qed
  qed (simp add: void_payment_def run_simps ethrow_def life.R_refl del: imp_conjL)
qed

lemma life_update_draft: "settled_by lives (update_draft i patch)"
proof (rule settled_byI)
  fix s :: treasury
  show "lives s (snd (update_draft i patch s))"
  proof (cases "find_by pd_id i (t_payments s)")
    case (Some d)
    have saved: "lives s (snd (ethen (save_payment (apply_patch patch d)) (ereturn a) s))"
      if "pd_status d = DRAFT" for a :: answer
      using that by (intro save_and_go_on [OF Some] life_rules) (auto simp: sealed_def apply_patch_def)
    show ?thesis
      using saved life.R_refl by (simp add: update_draft_def run_simps Some ereturn_def)
  qed (simp add: update_draft_def run_simps ereturn_def life.R_refl del: imp_conjL)
qed

section \<open>Deletion and release\<close>

interpretation documents: preorder_on_states "\<lambda>s t. t_payments t = t_payments s"
  by unfold_locales auto

lemma unpay_quota_documents: "settled_by (\<lambda>s t. t_payments t = t_payments s) (unpay_quota d)"
  unfolding unpay_quota_def quotas_findById_def updateTotalPaid_def updatePaymentDate_def findLatestByQuotaId_def
  by (intro documents.effect_rules documents.settled_bind documents.settles_modify settles_cases TrueI; simp)

definition deletion :: "string \<Rightarrow> string option \<Rightarrow> payment_document \<Rightarrow> answer call" where
  "deletion i v d = ethen (unpay_quota d)
     (ethen (emap_error (\<lambda>_. BadRequestException ''No se pudo eliminar el pago'')
        (ethen (payments_deleteById i)
        (ethen (case pd_accountPayableId d of None \<Rightarrow> ereturn () | Some j \<Rightarrow> recalculate j)
          (case pd_poId d of None \<Rightarrow> ereturn ()
           | Some po \<Rightarrow> recordPayment po ''PAYMENT_DELETED'' v None None))))
        (ereturn (Success ''Pago eliminado con exito'')))"

text \<open>The deletion throws and changes nothing, or it deletes a document that is not sealed.\<close>

lemma delete_payment_cases:
  obtains e where "delete_payment i v s = (Inl e, s)"
  | r d where "find_by pd_id i (t_payments s) = Some r" "payment_create r = Inr d" "\<not> sealed (pd_status r)"
      "delete_payment i v s = transaction (deletion i v d) s"
proof (cases "find_by pd_id i (t_payments s)")
  case None
  then have "\<exists>e. delete_payment i v s = (Inl e, s)"
    by (simp add: delete_payment_def payments_findById_def transaction_def ebind_def payment_row_def ereads_def
        ereturn_def ethrow_def)
  then show ?thesis using that(1) by blast
next
  case (Some r)
  show ?thesis
  proof (cases "payment_create r")
    case (Inl e)
    then have "delete_payment i v s = (Inl e, s)" using Some
      by (simp add: delete_payment_def payments_findById_def transaction_def ebind_def payment_row_def ereads_def elift_def)
    then show ?thesis by (rule that(1))
  next
    case (Inr d)
    have st: "pd_status d = pd_status r" using payment_create_Inr [OF Inr] by simp
    show ?thesis
    proof (cases "sealed (pd_status r)")
      case True
      then have "\<exists>e. delete_payment i v s = (Inl e, s)" using Some Inr st
        by (auto simp: delete_payment_def payments_findById_def transaction_def ebind_def payment_row_def
            ereads_def elift_def ereturn_def ethrow_def sealed_def)
      then show ?thesis using that(1) by blast
    next
      case False
      then have "delete_payment i v s = transaction (deletion i v d) s" using Some Inr st
        by (simp add: delete_payment_def payments_findById_def transaction_def ebind_def payment_row_def
            ereads_def elift_def ereturn_def sealed_def deletion_def)
      then show ?thesis using that(2) [OF Some Inr False] by blast
    qed
  qed
qed

lemma life_deletion:
  assumes "find_by pd_id i (t_payments s) = Some r" "\<not> sealed (pd_status r)" "keyed s"
  shows "lives s (snd (deletion i v d s))"
  unfolding deletion_def
proof (rule life.at_then)
  show "lives s (snd (unpay_quota d s))" by (rule settlesD [OF life_quota_effects(2)])
  fix x u assume "unpay_quota d s = (Inr x, u)"
  then have u: "t_payments u = t_payments s" using settles_state [OF unpay_quota_documents] by blast
  have dist: "distinct (map pd_id (t_payments s))" using assms(3) by (simp add: keyed_def)
  have del: "lives u (snd (payments_deleteById i u))"
  proof (rule delete_unsealed)
    fix y assume "y \<in> set (t_payments u)" "pd_id y = i"
    then have "y = r" using unique_row [OF dist, of y r] find_by_SomeD [OF assms(1)] u by simp
    then show "\<not> sealed (pd_status y)" using assms(2) by simp
  qed
  have rest: "settled_by lives
      (ethen (case pd_accountPayableId d of None \<Rightarrow> ereturn () | Some j \<Rightarrow> recalculate j)
        (case pd_poId d of None \<Rightarrow> ereturn () | Some po \<Rightarrow> recordPayment po ''PAYMENT_DELETED'' v None None))"
    by (intro life.settles_then life_answers)
  show "lives u (snd (ethen (emap_error (\<lambda>_. BadRequestException ''No se pudo eliminar el pago'')
      (ethen (payments_deleteById i)
      (ethen (case pd_accountPayableId d of None \<Rightarrow> ereturn () | Some j \<Rightarrow> recalculate j)
        (case pd_poId d of None \<Rightarrow> ereturn ()
         | Some po \<Rightarrow> recordPayment po ''PAYMENT_DELETED'' v None None))))
      (ereturn (Success ''Pago eliminado con exito'')) u))"
    by (rule life.at_then, rule life.at_map_error, rule life.at_then, rule del, rule settlesD [OF rest])
       (simp add: ereturn_def life.R_refl del: imp_conjL)
qed

lemma life_delete_payment: "settled_by lives (delete_payment i v)"
proof (rule settled_byI)
  fix s :: treasury
  show "lives s (snd (delete_payment i v s))"
  proof (cases rule: delete_payment_cases [of i v s])
    case (1 e)
    then show ?thesis by (simp add: life.R_refl del: imp_conjL)
  next
    case (2 r d)
    show ?thesis
    proof (cases "keyed s")
      case True
      show ?thesis unfolding 2(4) by (rule life.at_transaction) (rule life_deletion [OF 2(1,3) True])
    qed simp
  qed
qed

text \<open>The job moves due documents one edge on.\<close>

lemma life_release_write:
  "lives s (s\<lparr>t_payments := update_where (\<lambda>d. pd_id d \<in> ids \<and> pd_status d = SCHEDULED)
     (\<lambda>d. d\<lparr>pd_status := PENDING_APPROVAL\<rparr>) (t_payments s)\<rparr>)"
proof
  let ?f = "\<lambda>d. if pd_id d \<in> ids \<and> pd_status d = SCHEDULED then d\<lparr>pd_status := PENDING_APPROVAL\<rparr> else d"
  let ?t = "s\<lparr>t_payments := update_where (\<lambda>d. pd_id d \<in> ids \<and> pd_status d = SCHEDULED)
     (\<lambda>d. d\<lparr>pd_status := PENDING_APPROVAL\<rparr>) (t_payments s)\<rparr>"
  assume s: "keyed s"
  have ids: "map pd_id (t_payments ?t) = map pd_id (t_payments s)" by (simp add: update_where_def)
  have ids_set: "pd_id ` set (t_payments ?t) = pd_id ` set (t_payments s)"
    using arg_cong [OF ids, of set] by simp
  have "treasury_ok ?t" using s by (auto simp: keyed_def treasury_ok_def list_all_iff update_where_def)
  then have t: "keyed ?t" using s ids ids_set unfolding keyed_def by simp
  have dist: "distinct (map pd_id (t_payments s))" using s by (simp add: keyed_def)
  have step: "evolves d (?f d)" for d
    by (auto simp: evolves_def paid_core_def sealed_def)
  have "evolves a b" if a: "a \<in> set (t_payments s)" and b: "b \<in> set (t_payments ?t)" "pd_id b = pd_id a" for a b
  proof -
    obtain c where c: "c \<in> set (t_payments s)" "b = ?f c" using b(1) by (auto simp: set_update_where)
    then have "a = c" using unique_row [OF dist a] b(2) by (auto split: if_splits)
    then show ?thesis using step c(2) by simp
  qed
  then have "payments_advance s ?t" using ids_set by (intro payments_advanceI) auto
  then show "keyed ?t \<and> payments_advance s ?t" using t by simp
qed

lemma life_release_scheduled: "settled_by lives (release_scheduled n)"
  unfolding release_scheduled_def
  by (intro life_parts life.settles_modify life_release_write TrueI)

section \<open>New payables\<close>

lemma save_payable_outcome:
  "(\<exists>e. save_payable a s = (Inl e, s)) \<or>
   (\<exists>b. ap_id b = ap_id a \<and> save_payable a s = (Inr (), s\<lparr>t_payables := save_by ap_id b (t_payables s)\<rparr>))"
proof (cases "numeric_12_2 (ap_amountTotal a)")
  case (Inr x)
  then show ?thesis
  proof (cases "numeric_12_2 (ap_amountPaid a)")
    case Inr_paid: (Inr y)
    show ?thesis
    proof (cases "numeric_12_2 (ap_amountPending a)")
      case (Inr z)
      let ?b = "a\<lparr>ap_amountTotal := x, ap_amountPaid := y, ap_amountPending := z,
        ap_dueDate := map_option (date_column s) (ap_dueDate a)\<rparr>"
      have "save_payable a s = (Inr (), s\<lparr>t_payables := save_by ap_id ?b (t_payables s)\<rparr>)"
        using Inr Inr_paid \<open>numeric_12_2 (ap_amountTotal a) = Inr x\<close>
        by (simp add: save_payable_def run_simps emodify_def)
      moreover have "ap_id ?b = ap_id a" by simp
      ultimately show ?thesis by blast
    qed (simp add: save_payable_def run_simps Inr Inr_paid)
  qed (simp add: save_payable_def run_simps)
qed (simp add: save_payable_def run_simps)

lemma lives_new_payable_row:
  assumes s: "keyed s" and ok: "treasury_ok (s\<lparr>t_next := Suc (t_next s), t_payables := save_by ap_id b (t_payables s)\<rparr>)"
    and id: "ap_id b = t_uuid s (t_next s)"
  shows "keyed (s\<lparr>t_next := Suc (t_next s), t_payables := save_by ap_id b (t_payables s)\<rparr>)"
proof -
  have "ap_id b \<notin> ap_id ` set (t_payables s)" using s id by (auto simp: keyed_def)
  then have rows: "save_by ap_id b (t_payables s) = t_payables s @ [b]" by (rule save_by_new)
  have "ap_id b \<notin> ap_id ` set (t_payables s)" by fact
  moreover have "t_uuid s n \<noteq> t_uuid s (t_next s)" if "Suc (t_next s) \<le> n" for n
    using s that by (auto simp: keyed_def dest: injD)
  ultimately show ?thesis using s id ok unfolding keyed_def rows by auto
qed

lemma life_new_payable:
  assumes "payable_create (t_uuid s (t_next s)) (new_payable_params input) = Inr a"
  shows "lives s (snd (payables_create a (s\<lparr>t_next := Suc (t_next s)\<rparr>)))"
proof
  let ?u = "s\<lparr>t_next := Suc (t_next s)\<rparr>"
  let ?a = "a\<lparr>ap_createdAt := Some (t_clock s), ap_updatedAt := Some (t_clock s)\<rparr>"
  let ?t = "snd (payables_create a ?u)"
  assume s: "keyed s"
  have "lives s ?u" using settlesD [OF life_new_uuid, of s] by (simp add: new_uuid_def)
  then have u: "keyed ?u \<and> payments_advance s ?u" using s by blast
  have ok: "treasury_ok ?t"
    using settlesD [OF ok_payables_create [OF assms], of ?u] u by (simp add: keyed_def)
  have id: "ap_id a = t_uuid s (t_next s)"
    using payable_create_Inr [OF assms] by (simp add: new_payable_params_def given_or_def)
  have run: "?t = snd (save_payable ?a ?u)"
    by (simp add: payables_create_def Let_def ethen_def ebind_def elift_def clock_now_def ereads_def
        split: prod.split sum.split)
  show "keyed ?t \<and> payments_advance s ?t"
  proof (cases "\<exists>e. save_payable ?a ?u = (Inl e, ?u)")
    case True
    then have "?t = ?u" using run by auto
    then show ?thesis using u by simp
  next
    case False
    then obtain b where b: "ap_id b = ap_id ?a"
        "save_payable ?a ?u = (Inr (), ?u\<lparr>t_payables := save_by ap_id b (t_payables ?u)\<rparr>)"
      using save_payable_outcome [of ?a ?u] by blast
    then have t: "?t = s\<lparr>t_next := Suc (t_next s), t_payables := save_by ap_id b (t_payables s)\<rparr>"
      using run by simp
    have "keyed ?t" unfolding t using lives_new_payable_row [OF s, of b] ok b(1) id t by simp
    moreover have "payments_advance s ?t" by (rule payments_advance_same [OF s]) (simp_all add: t)
    ultimately show ?thesis by simp
  qed
qed

lemma life_draw_payable: "settled_by lives (ebind new_uuid (\<lambda>uuid.
    ebind (elift (payable_create uuid (new_payable_params input))) payables_create))"
proof (rule settled_byI)
  fix s :: treasury
  show "lives s (snd (ebind new_uuid (\<lambda>uuid.
      ebind (elift (payable_create uuid (new_payable_params input))) payables_create) s))"
  proof (cases "payable_create (t_uuid s (t_next s)) (new_payable_params input)")
    case (Inl e)
    then show ?thesis using settlesD [OF life_new_uuid, of s] by (simp add: ebind_def new_uuid_def elift_def)
  next
    case (Inr a)
    then show ?thesis using life_new_payable [OF Inr] by (simp add: ebind_def new_uuid_def elift_def)
  qed
qed

lemma life_create_account_payable: "settled_by lives (create_account_payable input)"
  unfolding create_account_payable_def
  by (rule life.settled_bind [OF life_payable_reads(2)])
     (intro settles_cases life.settles_return life_draw_payable TrueI)

section \<open>Every sequence of operations\<close>

lemma life_discard: "settled_by lives m \<Longrightarrow> settled_by lives (discard m)"
  unfolding discard_def by (intro life.settles_then life.settles_return TrueI)

lemma life_run_op: "settled_by lives (run_op pd c)"
proof (cases c)
  case MarkOverdue
  then show ?thesis
    unfolding MarkOverdue run_op.simps mark_overdue_account_payables_def
    by (intro life_discard life.settled_bind life_payable_reads life_payable_updates)
next
  case (Wait n)
  then show ?thesis by (auto intro: life_write)
next
  case (CreateDraft input user)
  then show ?thesis by (simp only: run_op.simps create_draft_def life_discard [OF life_create_payment])
qed (simp_all only: run_op.simps life_discard [OF life_create_account_payable] life_recalculate
    life_discard [OF life_payable_updates(2)] life_discard [OF life_update_draft]
    life_discard [OF life_request_payment] life_discard [OF life_create_payment]
    life_discard [OF life_submit_payment] life_discard [OF life_approve_payment]
    life_discard [OF life_reject_payment] life_discard [OF life_void_payment]
    life_discard [OF life_delete_payment] life_discard [OF life_release_scheduled] life_quotas)

lemma run_ops_live: "lives s (run_ops pd cs s)"
  by (rule run_ops_related [OF life.preorder_on_states_axioms life_run_op])

end
