(* ===== verification/PaymentBooks.thy ===== *)
theory PaymentBooks
  imports PaymentLife
begin

text \<open>
  What a payable says is paid is what the counted payments against it add up to, capped at its
  total. A step that throws half-way may leave one payable behind; every operation that
  returns leaves none. The proofs follow the operations with \<open>gives P m Q\<close>: whenever
  \<open>m\<close> returns from a state with \<open>P\<close>, its result and end state satisfy \<open>Q\<close>.
\<close>

section \<open>Outcomes of returning effects\<close>

definition gives :: "('s \<Rightarrow> bool) \<Rightarrow> ('s, 'e, 'a) effect \<Rightarrow> ('a \<Rightarrow> 's \<Rightarrow> bool) \<Rightarrow> bool" where
  "gives P m Q \<longleftrightarrow> (\<forall>s a t. P s \<longrightarrow> m s = (Inr a, t) \<longrightarrow> Q a t)"

lemma givesI: "(\<And>s a t. P s \<Longrightarrow> m s = (Inr a, t) \<Longrightarrow> Q a t) \<Longrightarrow> gives P m Q"
  by (simp add: gives_def)

lemma givesD: "gives P m Q \<Longrightarrow> P s \<Longrightarrow> m s = (Inr a, t) \<Longrightarrow> Q a t"
  by (simp add: gives_def)

lemma gives_run: "gives P m (\<lambda>_. Q) \<Longrightarrow> P s \<Longrightarrow> m s = (Inr a, t) \<Longrightarrow> Q t"
  by (simp add: gives_def)

lemma gives_weaken: "gives P m Q \<Longrightarrow> (\<And>s. P' s \<Longrightarrow> P s) \<Longrightarrow> (\<And>a s. Q a s \<Longrightarrow> Q' a s) \<Longrightarrow> gives P' m Q'"
  by (simp add: gives_def) blast

lemma gives_bind: "gives P m R \<Longrightarrow> (\<And>a. gives (R a) (f a) Q) \<Longrightarrow> gives P (ebind m f) Q"
  by (simp add: gives_def ebind_Inr) blast

lemma gives_then: "gives P m (\<lambda>_. R) \<Longrightarrow> gives R k Q \<Longrightarrow> gives P (ethen m k) Q"
  unfolding ethen_def by (rule gives_bind)

text \<open>Steps that keep what holds.\<close>

lemma gives_then_keep: "gives P m (\<lambda>_. P) \<Longrightarrow> gives P k Q \<Longrightarrow> gives P (ethen m k) Q"
  by (rule gives_then)

lemma gives_bind_keep: "gives P m (\<lambda>_. P) \<Longrightarrow> (\<And>a. gives P (f a) Q) \<Longrightarrow> gives P (ebind m f) Q"
  by (rule gives_bind)

lemma gives_return: "(\<And>s. P s \<Longrightarrow> Q a s) \<Longrightarrow> gives P (ereturn a) Q"
  by (simp add: gives_def ereturn_Inr)

lemma gives_throw: "gives P (ethrow e) Q"
  by (simp add: gives_def ethrow_Inr)

lemma gives_map_error: "gives P m Q \<Longrightarrow> gives P (emap_error h m) Q"
  by (simp add: gives_def emap_error_Inr)

lemma gives_transaction: "gives P m Q \<Longrightarrow> gives P (transaction m) Q"
  by (simp add: gives_def transaction_Inr)

lemma gives_lift: "(\<And>a s. P s \<Longrightarrow> r = Inr a \<Longrightarrow> Q a s) \<Longrightarrow> gives P (elift r) Q"
  by (simp add: gives_def elift_Inr)

lemma gives_when: "(b \<Longrightarrow> gives P m (\<lambda>_. Q)) \<Longrightarrow> (\<not> b \<Longrightarrow> (\<And>s. P s \<Longrightarrow> Q s)) \<Longrightarrow> gives P (ewhen b m) (\<lambda>_. Q)"
  by (cases b) (simp_all add: ewhen_def gives_return)

lemma gives_option:
  "(x = None \<Longrightarrow> gives P m Q) \<Longrightarrow> (\<And>a. x = Some a \<Longrightarrow> gives P (f a) Q) \<Longrightarrow>
   gives P (case x of None \<Rightarrow> m | Some a \<Rightarrow> f a) Q"
  by (cases x) simp_all

lemma gives_if: "(c \<Longrightarrow> gives P m Q) \<Longrightarrow> (\<not> c \<Longrightarrow> gives P k Q) \<Longrightarrow> gives P (if c then m else k) Q"
  by simp

lemma gives_pair: "(\<And>a b. x = (a, b) \<Longrightarrow> gives P (f a b) Q) \<Longrightarrow> gives P (case x of (a, b) \<Rightarrow> f a b) Q"
  by (cases x) simp

section \<open>The books\<close>

definition contribution :: "string \<Rightarrow> payment_document \<Rightarrow> rat" where
  "contribution i d = (if counted_for i d then pd_amount d else 0)"

text \<open>
  Every payable but \<open>X\<close> says what is paid, and no more than a cent above its total is paid;
  cancelled payables are not followed up.
\<close>

definition follows_except :: "string option \<Rightarrow> treasury \<Rightarrow> bool" where
  "follows_except X s \<longleftrightarrow> (\<forall>a \<in> set (t_payables s). Some (ap_id a) \<noteq> X \<longrightarrow> ap_status a \<noteq> PayableCancelled \<longrightarrow>
     ap_amountPaid a = min (ap_amountTotal a) (paid_in s (ap_id a)) \<and>
     paid_in s (ap_id a) \<le> ap_amountTotal a + 1/100)"

abbreviation payable_ids :: "treasury \<Rightarrow> string set" where
  "payable_ids s \<equiv> ap_id ` set (t_payables s)"

definition refs_ok :: "treasury \<Rightarrow> bool" where
  "refs_ok s \<longleftrightarrow> (\<forall>d \<in> set (t_payments s). \<forall>i. pd_accountPayableId d = Some i \<longrightarrow> i \<in> payable_ids s)"

text \<open>\<open>N\<close> are payables an input names, all of which exist.\<close>

definition books :: "string option \<Rightarrow> string set \<Rightarrow> treasury \<Rightarrow> bool" where
  "books X N s \<longleftrightarrow> keyed s \<and> refs_ok s \<and> follows_except X s \<and> N \<subseteq> payable_ids s"

lemma paid_in_contributions: "paid_in s i = (\<Sum>d\<leftarrow>t_payments s. contribution i d)"
  unfolding paid_in_def contribution_def by (simp add: sum_list_map_filter')

lemma books_fewer: "books X N s \<Longrightarrow> M \<subseteq> N \<Longrightarrow> books X M s"
  by (auto simp: books_def)

lemma books_weaker: "books None N s \<Longrightarrow> books X N s"
  by (auto simp: books_def follows_except_def)

text \<open>Steps that touch neither documents nor payables.\<close>

interpretation tables: preorder_on_states
  "\<lambda>s t. t_payments t = t_payments s \<and> t_payables t = t_payables s"
  by unfold_locales auto

abbreviation same_tables :: "treasury \<Rightarrow> treasury \<Rightarrow> bool" where
  "same_tables s t \<equiv> t_payments t = t_payments s \<and> t_payables t = t_payables s"

lemma books_same:
  assumes "same_tables s t" "lives s t" "books X N s"
  shows "books X N t"
proof -
  have "paid_in t = paid_in s" using assms(1) by (simp add: paid_in_def fun_eq_iff)
  then show ?thesis using assms by (simp add: books_def refs_ok_def follows_except_def)
qed

lemma gives_frame:
  assumes "settled_by same_tables m" "settled_by lives m"
  shows "gives (books X N) m (\<lambda>_. books X N)"
proof (rule givesI)
  fix s a t
  assume "books X N s" "m s = (Inr a, t)"
  then show "books X N t"
    using books_same [OF settles_state [OF assms(1)] settles_state [OF assms(2)]] by blast
qed

lemma tables_write:
  "(\<And>s. t_payments (g s) = t_payments s \<and> t_payables (g s) = t_payables s) \<Longrightarrow> settled_by same_tables (emodify g)"
  by (rule tables.settles_modify)

lemmas tables_rules = tables.settles_throw tables.settles_return tables.settles_reads tables.settles_guard
  tables.settles_lift tables.settles_then tables.settles_when tables.settles_map_error
  tables.settles_transaction tables.settles_for tables.settled_bind settles_cases

lemma tables_new_uuid: "settled_by same_tables new_uuid"
  by (simp add: settles_def new_uuid_def)

lemma tables_parts:
  "settled_by same_tables (payables_findById i)" "settled_by same_tables (findByPurchaseAndQuota po q')"
  "settled_by same_tables (findApprovedByAccountPayableId i)" "settled_by same_tables clock_now"
  "settled_by same_tables (quotas_findById q)" "settled_by same_tables (findLatestByQuotaId q i)"
  "settled_by same_tables (recordPayment po ty u v w)"
  "settled_by same_tables (createNotificationForUsers us t o')"
  "settled_by same_tables (updateTotalPaid q x)" "settled_by same_tables (updatePaymentDate q dt)"
  "settled_by same_tables (save_allocation i j x cur)" "settled_by same_tables (quotas_deleteById q)"
  "settled_by same_tables (quotas_create cq)"
  unfolding payables_findById_def findByPurchaseAndQuota_def payable_found_def
    findApprovedByAccountPayableId_def clock_now_def quotas_findById_def findLatestByQuotaId_def
    recordPayment_def createNotificationForUsers_def updateTotalPaid_def updatePaymentDate_def
    save_allocation_def quotas_deleteById_def quotas_create_def Let_def
  by (intro tables_rules tables_new_uuid tables_write TrueI; simp)+

lemma tables_effects:
  "settled_by same_tables (pay_quota d)" "settled_by same_tables (unpay_quota d)"
  "settled_by same_tables (approve_creation po u)" "settled_by same_tables (check_open_balance i' x)"
  "settled_by same_tables (check_quota q' po)" "settled_by same_tables (request_approval u input us)"
  unfolding pay_quota_def unpay_quota_def approve_creation_def check_open_balance_def check_quota_def
    request_approval_def Let_def
  by (intro tables_rules tables_parts tables_new_uuid tables_write TrueI; simp)+

section \<open>Recalculating closes the gap\<close>

lemma books_recalculate:
  assumes "books X N s" "recalculate i s = (Inr (), t)" and "X = Some i \<or> X = None"
  shows "books None N t"
proof -
  have s: "keyed s" "treasury_ok s" using assms(1) by (simp_all add: books_def keyed_def)
  obtain r b where r: "find_by ap_id i (t_payables s) = Some r" "rebalanced (paid_in s i) r b"
      and t: "t = s\<lparr>t_payables := save_by ap_id b (t_payables s)\<rparr>"
    using recalculate_outcome [OF s(2), of i] assms(2) by auto
  have dist: "distinct (map ap_id (t_payables s))" using s(1) by (simp add: keyed_def)
  have b: "ap_id b = i" using r find_by_SomeD [OF r(1)] by (simp add: rebalanced_def)
  have key: "ap_id b \<in> payable_ids s" using b find_by_SomeD [OF r(1)] by (metis imageI)
  have ids: "payable_ids t = payable_ids s" using save_by_in [OF key] t by simp
  have paid: "paid_in t = paid_in s" by (simp add: paid_in_def fun_eq_iff t)
  have "keyed t" using settlesD [OF life_recalculate, of s i] assms(2) s(1) by simp
  moreover have "refs_ok t" using assms(1) ids by (simp add: books_def refs_ok_def t)
  moreover have "follows_except None t"
    unfolding follows_except_def paid
  proof (intro ballI impI)
    fix a assume a: "a \<in> set (t_payables t)" "ap_status a \<noteq> PayableCancelled"
    then consider "a = b" | "a \<in> set (t_payables s)" "ap_id a \<noteq> ap_id b"
      using t by (auto simp: save_by_mem [OF dist])
    then show "ap_amountPaid a = min (ap_amountTotal a) (paid_in s (ap_id a)) \<and>
        paid_in s (ap_id a) \<le> ap_amountTotal a + 1/100"
    proof cases
      case 1
      then show ?thesis using r(2) b by (auto simp: rebalanced_def min.commute)
    next
      case 2
      then show ?thesis using assms(1,3) a(2) b by (auto simp: books_def follows_except_def)
    qed
  qed
  ultimately show ?thesis using assms(1) ids by (simp add: books_def)
qed

lemma gives_recalculate: "gives (books (Some i) N) (recalculate i) (\<lambda>_. books None N)"
  by (rule givesI) (use books_recalculate in fastforce)

section \<open>Documents change\<close>

lemma sum_save_by:
  fixes w :: "'a \<Rightarrow> rat"
  shows "distinct (map key xs) \<Longrightarrow> x \<in> set xs \<Longrightarrow> key r = key x \<Longrightarrow>
     (\<Sum>y\<leftarrow>save_by key r xs. w y) = (\<Sum>y\<leftarrow>xs. w y) - w x + w r"
proof (induction xs)
  case (Cons y ys)
  show ?case
  proof (cases "key y = key r")
    case True
    then have "y = x" using unique_row [of key "y # ys" y x] Cons.prems by simp
    then show ?thesis using True by simp
  next
    case False
    then have "x \<in> set ys" using Cons.prems by auto
    then show ?thesis using False Cons by simp
  qed
qed simp

text \<open>
  A document replaced by one that adds the same to every payable but \<open>X\<close> leaves at most
  the payable \<open>X\<close> behind.
\<close>

lemma books_save:
  assumes s: "books None N s" and d: "find_by pd_id i (t_payments s) = Some d" and id: "pd_id d' = pd_id d"
    and edge: "pay_edge (pd_status d) (pd_status d') \<or> pd_status d' = pd_status d"
    and core: "sealed (pd_status d) \<longrightarrow> paid_core d' = paid_core d"
    and ref: "\<And>j. pd_accountPayableId d' = Some j \<Longrightarrow> j \<in> payable_ids s"
    and part: "\<And>j x. Some j \<noteq> X \<Longrightarrow> numeric_12_2 (pd_amount d') = Inr x \<Longrightarrow>
       contribution j (d'\<lparr>pd_amount := x\<rparr>) = contribution j d"
    and run: "save_payment d' s = (Inr (), t)"
  shows "books X N t"
proof -
  have keys: "keyed s" using s by (simp add: books_def)
  have dist: "distinct (map pd_id (t_payments s))" using keys by (simp add: keyed_def)
  obtain x where x: "numeric_12_2 (pd_amount d') = Inr x"
      and t: "t = s\<lparr>t_payments := save_by pd_id (d'\<lparr>pd_amount := x\<rparr>) (t_payments s)\<rparr>"
    using run by (auto simp: save_payment_def run_simps emodify_def split: sum.splits)
  have "pay_path (pd_status d) (pd_status d')" using edge by auto
  then have "keyed t" using save_existing [OF d id _ core] run keys by fastforce
  moreover have "refs_ok t"
    unfolding refs_ok_def
  proof (intro ballI allI impI)
    fix y j assume "y \<in> set (t_payments t)" "pd_accountPayableId y = Some j"
    then show "j \<in> payable_ids t"
      using s ref set_save_by [of pd_id "d'\<lparr>pd_amount := x\<rparr>" "t_payments s"]
      by (auto simp: t books_def refs_ok_def)
  qed
  moreover have "paid_in t j = paid_in s j" if "Some j \<noteq> X" for j
    using sum_save_by [OF dist, of d "d'\<lparr>pd_amount := x\<rparr>" "contribution j"] part [OF that x]
      find_by_SomeD [OF d] id
    by (simp add: paid_in_contributions t)
  ultimately show ?thesis using s by (auto simp: books_def follows_except_def t)
qed

text \<open>A new document.\<close>

lemma books_new:
  assumes s: "books None N s" and run: "payments_create d s = (Inr d', t)"
    and ref: "\<And>j. pd_accountPayableId d = Some j \<Longrightarrow> j \<in> payable_ids s"
    and part: "\<And>j. counted (pd_status d) \<Longrightarrow> pd_accountPayableId d = Some j \<Longrightarrow> X = Some j"
  shows "books X N t"
proof -
  have keys: "keyed s" using s by (simp add: books_def)
  obtain x where x: "numeric_12_2 (pd_amount d) = Inr x"
      and t: "t = s\<lparr>t_next := Suc (t_next s), t_payments :=
        save_by pd_id (d\<lparr>pd_id := t_uuid s (t_next s), pd_amount := x\<rparr>) (t_payments s)\<rparr>"
    using run by (auto simp: payments_create_def save_payment_def run_simps emodify_def new_uuid_def
        Let_def ethen_def ebind_def elift_def split: sum.splits prod.splits)
  let ?d = "d\<lparr>pd_id := t_uuid s (t_next s), pd_amount := x\<rparr>"
  have "pd_id ?d \<notin> pd_id ` set (t_payments s)" using keys by (auto simp: keyed_def)
  then have rows: "t_payments t = t_payments s @ [?d]" by (simp add: t save_by_new)
  have "keyed t" using settlesD [OF life_payments_create, of s d] run keys by simp
  moreover have "refs_ok t"
    unfolding refs_ok_def rows using s ref by (auto simp: refs_ok_def books_def t)
  moreover have "paid_in t j = paid_in s j" if "Some j \<noteq> X" for j
  proof -
    have "contribution j ?d = 0" using part that by (auto simp: contribution_def counted_for_def)
    then show ?thesis by (simp add: paid_in_contributions rows)
  qed
  moreover have "payable_ids t = payable_ids s" "t_payables t = t_payables s" by (simp_all add: t)
  ultimately show ?thesis using s by (auto simp: books_def follows_except_def)
qed

section \<open>Operations that save a document\<close>

lemma not_counted: "\<not> counted st \<Longrightarrow> pd_status d = st \<Longrightarrow> contribution j d = 0"
  by (simp add: contribution_def counted_for_def)

lemma gives_save_then:
  assumes "find_by pd_id i (t_payments s) = Some d" "books None N s"
    and "\<And>t. save_payment d' s = (Inr (), t) \<Longrightarrow> books X N t" and "gives (books X N) k (\<lambda>_. Q)"
    and "ethen (save_payment d') k s = (Inr a, t)"
  shows "Q t"
  using assms(3-5) by (auto simp: ethen_Inr gives_def)

lemma gives_payable_update:
  "gives (books (pd_accountPayableId d) N)
     (case pd_accountPayableId d of None \<Rightarrow> ereturn () | Some i \<Rightarrow> recalculate i) (\<lambda>_. books None N)"
  by (cases "pd_accountPayableId d") (simp_all add: gives_return gives_recalculate)

lemmas frame_parts = gives_frame [OF tables_parts(1) life_payable_reads(1)]
  gives_frame [OF tables_parts(5) life_payment_reads(4)]
  gives_frame [OF tables_parts(7) life_other_tables(1)]
  gives_frame [OF tables_parts(8) life_other_tables(2)]
  gives_frame [OF tables_parts(9) life_other_tables(3)]
  gives_frame [OF tables_parts(10) life_other_tables(4)]
  gives_frame [OF tables_parts(11) life_other_tables(5)]
  gives_frame [OF tables_effects(1) life_quota_effects(1)]
  gives_frame [OF tables_effects(2) life_quota_effects(2)]
  gives_frame [OF tables_effects(3) life_approve_creation]
  gives_frame [OF tables_effects(4) life_register(1)]
  gives_frame [OF tables_effects(5) life_register(2)]
  gives_frame [OF tables_effects(6) life_request_approval]

lemma gives_same: "gives P (ereturn a) (\<lambda>_. P)"
  by (rule gives_return)

lemma gives_post_effects:
  "gives (books (pd_accountPayableId d) N) (post_effects u d) (\<lambda>_. books None N)"
  unfolding post_effects_def
  by (intro gives_then_keep [OF _ gives_then_keep [OF frame_parts(8)
        gives_then [OF gives_payable_update gives_then_keep]]] gives_option gives_then_keep gives_same frame_parts)

lemma books_approve:
  assumes "books None N s" "approve_payment i u s = (Inr a, t)"
  shows "books None N t"
proof (cases "find_by pd_id i (t_payments s)")
  case (Some d)
  let ?d = "approved_row u (t_clock s) d"
  have "t = s \<or> pd_status d \<in> {PENDING_APPROVAL, SCHEDULED} \<and>
      ethen (save_payment ?d) (ethen (post_effects u ?d) (ereturn (Success ''Pago aprobado correctamente''))) s = (Inr a, t)"
    using assms(2) by (auto simp: approve_payment_def run_simps Some ereturn_Inr split: if_splits option.splits)
  then show ?thesis
  proof
    assume r: "pd_status d \<in> {PENDING_APPROVAL, SCHEDULED} \<and>
      ethen (save_payment ?d) (ethen (post_effects u ?d) (ereturn (Success ''Pago aprobado correctamente''))) s = (Inr a, t)"
    show ?thesis
    proof (rule gives_save_then [OF Some assms(1) _ _ conjunct2 [OF r]])
      show "gives (books (pd_accountPayableId d) N) (ethen (post_effects u ?d)
          (ereturn (Success ''Pago aprobado correctamente''))) (\<lambda>_. books None N)"
        using gives_then [OF gives_post_effects [of ?d] gives_same] by (simp add: approved_row_def)
      fix t assume run: "save_payment ?d s = (Inr (), t)"
      show "books (pd_accountPayableId d) N t"
      proof (rule books_save [OF assms(1) Some _ _ _ _ _ run])
        show "pd_accountPayableId ?d = Some j \<Longrightarrow> j \<in> payable_ids s" for j
          using assms(1) find_by_SomeD [OF Some] by (auto simp: books_def refs_ok_def approved_row_def)
        show "contribution j (?d\<lparr>pd_amount := x\<rparr>) = contribution j d" if "Some j \<noteq> pd_accountPayableId d" for j x
          using that by (auto simp: contribution_def counted_for_def approved_row_def)
      qed (use r in \<open>auto simp: approved_row_def sealed_def\<close>)
    qed
  qed (use assms(1) in simp)
qed (use assms in \<open>auto simp: approve_payment_def run_simps ereturn_Inr\<close>)

text \<open>A document that is not counted, before and after.\<close>

lemma books_save_uncounted:
  assumes "books None N s" "find_by pd_id i (t_payments s) = Some d" "pd_id d' = pd_id d"
    and "pay_edge (pd_status d) (pd_status d') \<or> pd_status d' = pd_status d"
    and "\<not> sealed (pd_status d)" "\<not> counted (pd_status d')"
    and "\<And>j. pd_accountPayableId d' = Some j \<Longrightarrow> j \<in> payable_ids s"
    and "save_payment d' s = (Inr (), t)"
  shows "books None N t"
  by (rule books_save [OF assms(1-4) _ assms(7) _ assms(8)])
     (use assms(5,6) in \<open>auto simp: contribution_def counted_for_def counted_def sealed_def\<close>)

lemma stored_ref:
  "books X N s \<Longrightarrow> find_by pd_id i (t_payments s) = Some d \<Longrightarrow> pd_accountPayableId d = Some j \<Longrightarrow> j \<in> payable_ids s"
  using find_by_SomeD [of pd_id i "t_payments s" d] by (auto simp: books_def refs_ok_def)

lemma books_submit:
  assumes "books None N s" "submit_payment i v s = (Inr a, t)"
  shows "books None N t"
proof (cases "find_by pd_id i (t_payments s)")
  case (Some d)
  obtain x where "pd_status d = DRAFT" "ethen (save_payment (submitted_row v d)) (ereturn x) s = (Inr a, t)"
    using assms(2) by (auto simp: submit_payment_def run_simps Some ethrow_Inr split: if_splits option.splits)
  then show ?thesis
    by (intro gives_save_then [OF Some assms(1) books_save_uncounted [OF assms(1) Some] gives_same])
       (auto simp: submitted_row_def sealed_def counted_def intro: stored_ref [OF assms(1) Some])
qed (use assms in \<open>auto simp: submit_payment_def run_simps ethrow_Inr\<close>)

lemma books_update_draft:
  assumes "books None N s" "update_draft i patch s = (Inr a, t)"
    and "\<And>j. dp_accountPayableId patch = Some (Some j) \<Longrightarrow> j \<in> N"
  shows "books None N t"
proof (cases "find_by pd_id i (t_payments s)")
  case (Some d)
  consider "t = s" | x where "pd_status d = DRAFT" "ethen (save_payment (apply_patch patch d)) (ereturn x) s = (Inr a, t)"
    using assms(2) by (auto simp: update_draft_def run_simps Some ereturn_Inr split: if_splits)
  then show ?thesis
  proof cases
    case 2
    have ref: "j \<in> payable_ids s" if "pd_accountPayableId (apply_patch patch d) = Some j" for j
    proof (cases "dp_accountPayableId patch")
      case None
      then show ?thesis using that stored_ref [OF assms(1) Some] by (simp add: apply_patch_def given_or_def)
    next
      case (Some p)
      then have "j \<in> N" using that assms(3) by (simp add: apply_patch_def given_or_def)
      then show ?thesis using assms(1) by (auto simp: books_def)
    qed
    show ?thesis
      by (rule gives_save_then [OF Some assms(1) books_save_uncounted [OF assms(1) Some _ _ _ _ ref] gives_same 2(2)])
         (use 2(1) in \<open>auto simp: apply_patch_def sealed_def counted_def\<close>)
  qed (use assms(1) in simp)
qed (use assms in \<open>auto simp: update_draft_def run_simps ereturn_Inr\<close>)

lemma books_reject:
  assumes "books None N s" "reject_payment i u r s = (Inr a, t)"
  shows "books None N t"
proof (cases "find_by pd_id i (t_payments s)")
  case (Some d)
  let ?k = "ethen (case pd_poId d of None \<Rightarrow> ereturn ()
              | Some po \<Rightarrow> recordPayment po ''PAYMENT_REJECTED'' (Some u) (pd_requestedByUserId d) None)
           (ethen (case pd_requestedByUserId d of None \<Rightarrow> ereturn ()
              | Some u \<Rightarrow> createNotificationForUsers [u] ''Pago rechazado'' (Some (pd_id d)))
             (ereturn (Success ''Pago rechazado correctamente'')))"
  have k: "gives (books None N) ?k (\<lambda>_. books None N)"
    by (intro gives_then_keep gives_option gives_same frame_parts)
  consider "t = s" | "pd_status d = PENDING_APPROVAL" "ethen (save_payment (closed_row REJECTED u (t_clock s) r d)) ?k s = (Inr a, t)"
    using assms(2) by (auto simp: reject_payment_def run_simps Some ereturn_Inr split: if_splits)
  then show ?thesis
  proof cases
    case 2
    show ?thesis
      by (rule gives_save_then [OF Some assms(1) books_save_uncounted [OF assms(1) Some] k 2(2)])
         (use 2(1) in \<open>auto simp: closed_row_def sealed_def counted_def intro: stored_ref [OF assms(1) Some]\<close>)
  qed (use assms(1) in simp)
qed (use assms in \<open>auto simp: reject_payment_def run_simps ereturn_Inr\<close>)

lemma books_void:
  assumes "books None N s" "void_payment i u r s = (Inr a, t)"
  shows "books None N t"
proof (cases "find_by pd_id i (t_payments s)")
  case (Some d)
  let ?d = "closed_row VOIDED u (t_clock s) r d"
  let ?k = "ethen (case pd_accountPayableId d of None \<Rightarrow> ereturn () | Some i \<Rightarrow> recalculate i)
      (ereturn (Success ''Pago anulado correctamente''))"
  have "counted (pd_status d)" "ethen (save_payment ?d) ?k s = (Inr a, t)"
    using assms(2) by (auto simp: void_payment_def run_simps Some ethrow_Inr split: if_splits)
  note r = this
  show ?thesis
  proof (rule gives_save_then [OF Some assms(1) _ gives_then [OF gives_payable_update gives_same] r(2)])
    fix t assume run: "save_payment ?d s = (Inr (), t)"
    show "books (pd_accountPayableId d) N t"
    proof (rule books_save [OF assms(1) Some _ _ _ _ _ run])
      show "pd_accountPayableId ?d = Some j \<Longrightarrow> j \<in> payable_ids s" for j
        using stored_ref [OF assms(1) Some] by (simp add: closed_row_def)
      show "contribution j (?d\<lparr>pd_amount := x\<rparr>) = contribution j d" if "Some j \<noteq> pd_accountPayableId d" for j x
        using that by (auto simp: contribution_def counted_for_def closed_row_def)
    qed (use r(1) in \<open>auto simp: closed_row_def counted_def paid_core_def\<close>)
  qed
qed (use assms in \<open>auto simp: void_payment_def run_simps ethrow_Inr\<close>)

section \<open>Deleting and releasing\<close>

lemma books_remove:
  assumes "books None N s" "\<And>d. d \<in> set (t_payments s) \<Longrightarrow> pd_id d = i \<Longrightarrow> \<not> sealed (pd_status d)"
    and "payments_deleteById i s = (Inr (), t)"
  shows "books None N t"
proof -
  have t: "t = s\<lparr>t_payments := filter (\<lambda>d. pd_id d \<noteq> i) (t_payments s)\<rparr>"
    using assms(3) by (auto simp: payments_deleteById_def emodify_def)
  have "keyed t" using delete_unsealed [OF assms(2), of s i] assms(1,3) by (simp add: books_def)
  moreover have "paid_in t j = paid_in s j" for j
  proof -
    have "filter (counted_for j) (filter (\<lambda>d. pd_id d \<noteq> i) ds) = filter (counted_for j) ds"
      if "\<And>d. d \<in> set ds \<Longrightarrow> pd_id d = i \<Longrightarrow> \<not> sealed (pd_status d)" for ds
      using that by (induction ds) (auto simp: counted_for_def counted_def sealed_def)
    then show ?thesis using assms(2) by (simp add: paid_in_def t)
  qed
  ultimately show ?thesis using assms(1) by (auto simp: books_def refs_ok_def follows_except_def t)
qed

lemma books_delete:
  assumes "books None N s" "delete_payment i v s = (Inr a, t)"
  shows "books None N t"
proof (cases rule: delete_payment_cases [of i v s])
  case (2 r d)
  have run: "deletion i v d s = (Inr a, t)" using assms(2) 2(4) by (simp add: transaction_Inr)
  then obtain u where u: "unpay_quota d s = (Inr (), u)"
      and k: "ethen (payments_deleteById i)
        (ethen (case pd_accountPayableId d of None \<Rightarrow> ereturn () | Some j \<Rightarrow> recalculate j)
          (case pd_poId d of None \<Rightarrow> ereturn ()
           | Some po \<Rightarrow> recordPayment po ''PAYMENT_DELETED'' v None None)) u = (Inr (), t)"
    unfolding deletion_def by (auto simp: ethen_Inr emap_error_Inr ereturn_Inr)
  have bu: "books None N u" by (rule givesD [OF frame_parts(9) assms(1) u])
  obtain w where w: "payments_deleteById i u = (Inr (), w)"
      and rest: "ethen (case pd_accountPayableId d of None \<Rightarrow> ereturn () | Some j \<Rightarrow> recalculate j)
          (case pd_poId d of None \<Rightarrow> ereturn ()
           | Some po \<Rightarrow> recordPayment po ''PAYMENT_DELETED'' v None None) w = (Inr (), t)"
    using k by (auto simp: ethen_Inr)
  have docs: "t_payments u = t_payments s" by (rule settles_state [OF unpay_quota_documents u])
  have dist: "distinct (map pd_id (t_payments s))" using assms(1) by (simp add: books_def keyed_def)
  have "books None N w"
  proof (rule books_remove [OF bu _ w])
    fix y assume "y \<in> set (t_payments u)" "pd_id y = i"
    then have "y = r" using unique_row [OF dist, of y r] find_by_SomeD [OF 2(1)] docs by simp
    then show "\<not> sealed (pd_status y)" using 2(3) by simp
  qed
  then have bw: "books (pd_accountPayableId d) N w" by (rule books_weaker)
  have "gives (books (pd_accountPayableId d) N)
      (ethen (case pd_accountPayableId d of None \<Rightarrow> ereturn () | Some j \<Rightarrow> recalculate j)
        (case pd_poId d of None \<Rightarrow> ereturn ()
         | Some po \<Rightarrow> recordPayment po ''PAYMENT_DELETED'' v None None)) (\<lambda>_. books None N)"
    by (intro gives_then [OF gives_payable_update] gives_option gives_same frame_parts)
  from this bw rest show ?thesis by (rule gives_run)
qed (use assms(2) in simp)

lemma gives_for: "(\<And>x. gives P (f x) (\<lambda>_. P)) \<Longrightarrow> gives P (efor xs f) (\<lambda>_. P)"
  by (induction xs) (simp_all add: gives_same gives_then_keep)

lemma gives_release: "gives (books None N) (release_scheduled n) (\<lambda>_. books None N)"
  unfolding release_scheduled_def
proof (intro gives_transaction gives_bind_keep gives_then_keep gives_for gives_option gives_same frame_parts)
  show "gives (books None N) (ereads (\<lambda>s. take (safe_batch_size n) (due_payments s))) (\<lambda>_. books None N)"
    by (auto simp: gives_def ereads_Inr)
  fix rows :: "payment_document list"
  show "gives (books None N) (emodify (\<lambda>s. s\<lparr>t_payments := update_where
      (\<lambda>d. pd_id d \<in> pd_id ` set rows \<and> pd_status d = SCHEDULED)
      (\<lambda>d. d\<lparr>pd_status := PENDING_APPROVAL\<rparr>) (t_payments s)\<rparr>)) (\<lambda>_. books None N)"
  proof (rule givesI)
    fix s a t
    assume s: "books None N s" and "emodify (\<lambda>s. s\<lparr>t_payments := update_where
      (\<lambda>d. pd_id d \<in> pd_id ` set rows \<and> pd_status d = SCHEDULED)
      (\<lambda>d. d\<lparr>pd_status := PENDING_APPROVAL\<rparr>) (t_payments s)\<rparr>) s = (Inr a, t)"
    then have t: "t = s\<lparr>t_payments := update_where (\<lambda>d. pd_id d \<in> pd_id ` set rows \<and> pd_status d = SCHEDULED)
      (\<lambda>d. d\<lparr>pd_status := PENDING_APPROVAL\<rparr>) (t_payments s)\<rparr>" by (simp add: emodify_Inr)
    have keys: "keyed t"
      using life_release_write [of s "pd_id ` set rows"] s unfolding t by (simp add: books_def)
    have refs: "refs_ok t"
      using s by (auto simp: books_def refs_ok_def t update_where_def split: if_splits)
    have "contribution j (if c \<and> pd_status d = SCHEDULED then d\<lparr>pd_status := PENDING_APPROVAL\<rparr> else d) = contribution j d" for j c d
      by (auto simp: contribution_def counted_for_def counted_def)
    then have "paid_in t j = paid_in s j" for j
      by (simp add: paid_in_contributions t update_where_def o_def)
    then show "books None N t" using s keys refs by (simp add: books_def follows_except_def t)
  qed
qed

section \<open>Registering a payment\<close>

lemma gives_reads_keep: "gives P (ereads f) (\<lambda>_. P)"
  by (auto simp: gives_def ereads_Inr)

lemma gives_clock_keep: "gives P clock_now (\<lambda>_. P)"
  unfolding clock_now_def by (rule gives_reads_keep)

lemma gives_lift_keep: "gives P (elift r) (\<lambda>_. P)"
  by (rule gives_lift)

lemma gives_guard_keep: "gives P (eguard b e) (\<lambda>_. P)"
  by (auto simp: gives_def eguard_Inr)

lemma gives_when_keep: "gives P m (\<lambda>_. P) \<Longrightarrow> gives P (ewhen b m) (\<lambda>_. P)"
  by (rule gives_when)

lemmas keep_rules = gives_bind_keep gives_then_keep gives_option gives_same gives_reads_keep gives_clock_keep
  gives_lift_keep gives_guard_keep gives_when_keep gives_map_error gives_transaction gives_throw
  gives_if gives_pair frame_parts

text \<open>The payable of a new payment is the one named, or one that was found.\<close>

definition named_payables :: "payment_input \<Rightarrow> string set" where
  "named_payables input = set_option (pi_accountPayableId input)"

lemma gives_payable_for:
  "gives (books None (named_payables input)) (payable_for input po) (\<lambda>p. books None (set_option p))"
proof (rule givesI)
  fix s p t
  assume s: "books None (named_payables input) s" and run: "payable_for input po s = (Inr p, t)"
  show "books None (set_option p) t"
  proof (cases "filled (pi_accountPayableId input)")
    case True
    then show ?thesis using s run by (simp add: payable_for_def ereturn_Inr named_payables_def)
  next
    case False
    let ?found = "List.find (\<lambda>r. ap_purchaseId r = po \<and> null_condition s (pi_quotaId input) (ap_quotaId r)) (t_payables s)"
    have "t = s \<and> (p = None \<or> (\<exists>r a. ?found = Some r \<and> payable_toDomain r = Inr a \<and> p = Some (ap_id a)))"
      using run False
      by (auto simp: payable_for_def findByPurchaseAndQuota_def payable_found_def ebind_Inr ereads_Inr
          ereturn_Inr elift_Inr split: option.splits)
    then show ?thesis
      using s payable_toDomain_Inr
      by (auto simp: books_def find_Some_iff)
  qed
qed

lemma gives_store_payment:
  assumes "counted (given_or (op_status opt) APPROVED) = counted (pd_status d)" "pd_accountPayableId d = p"
  shows "gives (books None (set_option p)) (store_payment input opt po p d)
    (\<lambda>_. books (if counted (pd_status d) then p else None) (set_option p))"
  unfolding store_payment_def Let_def
proof (rule gives_bind)
  show "gives (books None (set_option p)) (payments_create d)
      (\<lambda>_. books (if counted (pd_status d) then p else None) (set_option p))"
  proof (rule givesI)
    fix s d' t
    assume b: "books None (set_option p) s" and "payments_create d s = (Inr d', t)"
    then show "books (if counted (pd_status d) then p else None) (set_option p) t"
      by (rule books_new) (use assms(2) b in \<open>auto simp: books_def\<close>)
  qed
qed (intro keep_rules)

lemma gives_link_payment:
  assumes "counted (given_or (op_status opt) APPROVED) = c"
  shows "gives (books (if c then p else None) N) (link_payment input opt p q dt) (\<lambda>_. books None N)"
  unfolding link_payment_def Let_def assms
  by (cases p; cases c)
     (auto simp: ewhen_def intro!: gives_then_keep gives_recalculate gives_option gives_same frame_parts)

lemma gives_register_payment:
  "gives (books None (named_payables input)) (register_payment input opt po m dt sch paid) (\<lambda>_. books None {})"
  unfolding register_payment_def Let_def
proof (rule gives_bind [OF gives_payable_for])
  fix p
  let ?B = "books None (set_option p)" and ?c = "counted (given_or (op_status opt) APPROVED)"
  show "gives ?B (ethen (ewhen ?c (check_open_balance p (pi_amount input)))
      (ebind (check_quota (pi_quotaId input) po) (\<lambda>quota.
       ebind (elift (payment_create (document_of input opt po
           (canonicalPaymentMethodName (Some (case m of None \<Rightarrow> pi_method input | Some m \<Rightarrow> pm_code m))) p dt sch paid)))
         (\<lambda>document.
       ebind (emap_error (\<lambda>_. BadRequestException ''No se pudo crear el documento de pago'')
          (store_payment input opt po p document)) (\<lambda>created.
       ethen (emap_error (\<lambda>_. BadRequestException ''No se pudo vincular el pago a la orden de compra'')
          (link_payment input opt p quota dt))
         (ereturn created)))))) (\<lambda>_. books None {})"
  proof (rule gives_then_keep [OF gives_when_keep [OF frame_parts(11)]], rule gives_bind_keep [OF frame_parts(12)],
      rule gives_bind [where R = "\<lambda>d s. ?B s \<and> pd_accountPayableId d = p \<and> counted (pd_status d) = ?c"])
    fix quota d
    show "gives (\<lambda>s. ?B s \<and> pd_accountPayableId d = p \<and> counted (pd_status d) = ?c)
       (ebind (emap_error (\<lambda>_. BadRequestException ''No se pudo crear el documento de pago'')
          (store_payment input opt po p d)) (\<lambda>created.
       ethen (emap_error (\<lambda>_. BadRequestException ''No se pudo vincular el pago a la orden de compra'')
          (link_payment input opt p quota dt))
         (ereturn created))) (\<lambda>_. books None {})"
    proof (cases "pd_accountPayableId d = p \<and> counted (pd_status d) = ?c")
      case True
      have link: "gives (books (if counted (pd_status d) then p else None) (set_option p))
          (ethen (emap_error (\<lambda>_. BadRequestException ''No se pudo vincular el pago a la orden de compra'')
             (link_payment input opt p quota dt)) (ereturn created)) (\<lambda>_. books None (set_option p))" for created :: string
        by (rule gives_then [OF gives_map_error [OF gives_link_payment] gives_same]) (use True in simp)
      have "gives ?B (ebind (emap_error (\<lambda>_. BadRequestException ''No se pudo crear el documento de pago'')
          (store_payment input opt po p d)) (\<lambda>created.
       ethen (emap_error (\<lambda>_. BadRequestException ''No se pudo vincular el pago a la orden de compra'')
          (link_payment input opt p quota dt))
         (ereturn created))) (\<lambda>_. books None (set_option p))"
        by (rule gives_bind [OF gives_map_error [OF gives_store_payment] link]) (use True in simp_all)
      then show ?thesis using True by (auto intro: gives_weaken books_fewer)
    qed (auto simp: gives_def)
  next
    fix quota
    show "gives ?B (elift (payment_create (document_of input opt po
           (canonicalPaymentMethodName (Some (case m of None \<Rightarrow> pi_method input | Some m \<Rightarrow> pm_code m))) p dt sch paid)))
      (\<lambda>d s. ?B s \<and> pd_accountPayableId d = p \<and> counted (pd_status d) = ?c)"
      by (rule gives_lift) (auto dest: payment_create_Inr simp: document_of_def)
  qed
qed

lemma gives_create_payment:
  "gives (books None (named_payables input)) (create_payment pd input po opt) (\<lambda>_. books None {})"
  unfolding create_payment_def Let_def
  by (intro keep_rules gives_register_payment)

lemma gives_request_payment:
  "gives (books None (named_payables input)) (request_payment pd input u can us) (\<lambda>_. books None {})"
  unfolding request_payment_def
proof (rule gives_bind_keep [OF gives_reads_keep])
  fix refusal
  have fewer: "gives (books None (named_payables input)) (ereturn a) (\<lambda>_. books None {})" for a :: answer
    by (rule gives_return) (auto elim: books_fewer)
  show "gives (books None (named_payables input)) (case refusal of
       Some message \<Rightarrow> ereturn (Refused message)
     | None \<Rightarrow> ebind clock_now (\<lambda>t.
         ethen (create_payment pd input None (request_options u can input t))
         (ethen (ewhen (\<not> can \<and> filled (pi_poId input)) (request_approval u input us))
           (ereturn (Success ''Pago registrado con exito''))))) (\<lambda>_. books None {})"
    by (intro gives_option fewer gives_bind_keep [OF gives_clock_keep] gives_then [OF gives_create_payment]
        gives_then_keep gives_when_keep gives_same frame_parts)
qed

section \<open>Payables come, fall due and are cancelled\<close>

lemma books_payable_update:
  assumes "books None N s" and "\<And>a. ap_id (f a) = ap_id a \<and> ap_amountPaid (f a) = ap_amountPaid a \<and>
      ap_amountTotal (f a) = ap_amountTotal a"
    and "\<And>a. c a \<Longrightarrow> ap_status a \<noteq> PayableCancelled"
    and "\<And>a. payable_ok a \<Longrightarrow> c a \<Longrightarrow> payable_ok (f a)"
  shows "books None N (s\<lparr>t_payables := update_where c f (t_payables s)\<rparr>)"
proof -
  let ?t = "s\<lparr>t_payables := update_where c f (t_payables s)\<rparr>"
  have ids: "map ap_id (t_payables ?t) = map ap_id (t_payables s)" using assms(2) by (simp add: map_id_update_where)
  have "lives s ?t" by (rule lives_same) (use ids assms(4) treasury_ok_update_where in simp_all)
  then have "keyed ?t" using assms(1) by (simp add: books_def)
  moreover have "payable_ids ?t = payable_ids s" using arg_cong [OF ids, of set] by simp
  moreover have "follows_except None ?t"
    using assms(1-3) by (auto simp: books_def follows_except_def paid_in_def set_update_where)
  ultimately show ?thesis using assms(1) by (simp add: books_def refs_ok_def)
qed

lemma gives_mark_overdue: "gives (books None N) mark_overdue_account_payables (\<lambda>_. books None N)"
  unfolding mark_overdue_account_payables_def markOverdue_def Let_def
proof (intro keep_rules)
  fix t :: int
  show "gives (books None N) (emodify (\<lambda>s. s\<lparr>t_payables := update_where (is_overdue (day_of_instant t))
      (\<lambda>r. r\<lparr>ap_status := PayableOverdue, ap_updatedAt := Some (t_clock s)\<rparr>) (t_payables s)\<rparr>)) (\<lambda>_. books None N)"
    by (rule givesI)
       (auto simp: emodify_Inr is_overdue_def intro!: books_payable_update overdue_payable_ok [unfolded is_overdue_def])
qed

lemma gives_cancel: "gives (books None N) (cancelOpenByPurchase po) (\<lambda>_. books None N)"
  unfolding cancelOpenByPurchase_def
proof (intro keep_rules)
  show "gives (books None N) (emodify (\<lambda>s. s\<lparr>t_payables := update_where (is_open po)
      (\<lambda>r. r\<lparr>ap_status := PayableCancelled, ap_amountPending := 0, ap_updatedAt := Some (t_clock s)\<rparr>)
      (t_payables s)\<rparr>)) (\<lambda>_. books None N)"
    by (rule givesI)
       (auto simp: emodify_Inr is_open_def intro!: books_payable_update cancelled_payable_ok [unfolded is_open_def])
qed

text \<open>A new payable has no payments and says so.\<close>

lemma books_new_payable:
  assumes s: "books None N s" and a: "payable_create (t_uuid s (t_next s)) (new_payable_params input) = Inr a"
    and run: "payables_create a (s\<lparr>t_next := Suc (t_next s)\<rparr>) = (Inr x, t)"
  shows "books None N t"
proof -
  let ?u = "s\<lparr>t_next := Suc (t_next s)\<rparr>"
  have keys: "keyed s" using s by (simp add: books_def)
  have amounts: "ap_amountPaid a = 0" "ap_id a = t_uuid s (t_next s)" "0 < ap_amountTotal a"
    using payable_create_Inr [OF a] by (simp_all add: new_payable_params_def given_or_def)
  obtain whole paid pending where n: "numeric_12_2 (ap_amountTotal a) = Inr whole"
      "numeric_12_2 (ap_amountPaid a) = Inr paid" "numeric_12_2 (ap_amountPending a) = Inr pending"
    and t: "t = ?u\<lparr>t_payables := save_by ap_id (a\<lparr>ap_createdAt := Some (t_clock s), ap_updatedAt := Some (t_clock s),
        ap_amountTotal := whole, ap_amountPaid := paid, ap_amountPending := pending,
        ap_dueDate := map_option (date_column ?u) (ap_dueDate a)\<rparr>) (t_payables s)\<rparr>"
    using run by (auto simp: payables_create_def run_simps Let_def ethen_Inr save_payable_def elift_Inr emodify_Inr
        split: sum.splits)
  let ?b = "a\<lparr>ap_createdAt := Some (t_clock s), ap_updatedAt := Some (t_clock s),
        ap_amountTotal := whole, ap_amountPaid := paid, ap_amountPending := pending,
        ap_dueDate := map_option (date_column ?u) (ap_dueDate a)\<rparr>"
  have fresh: "ap_id ?b \<notin> payable_ids s" using keys amounts(2) by (auto simp: keyed_def)
  then have rows: "t_payables t = t_payables s @ [?b]" using t by (simp add: save_by_new)
  have b: "paid = 0" "0 \<le> whole"
    using n amounts numeric_exact [OF centesimal_0, of paid] numeric_nonneg [of "ap_amountTotal a" whole] by simp_all
  have keys_t: "keyed t" using life_new_payable [OF a] keys run by simp
  have docs: "t_payments t = t_payments s" by (simp add: t)
  have paid: "paid_in t = paid_in s" by (simp add: paid_in_def fun_eq_iff docs)
  have new: "paid_in s (ap_id ?b) = 0"
  proof -
    have "contribution (ap_id ?b) d = 0" if "d \<in> set (t_payments s)" for d
      using that s fresh by (auto simp: contribution_def counted_for_def books_def refs_ok_def)
    then have none: "map (contribution (ap_id ?b)) (t_payments s) = map (\<lambda>_. 0) (t_payments s)" by simp
    show ?thesis unfolding paid_in_contributions none by simp
  qed
  have ids: "payable_ids t = insert (ap_id ?b) (payable_ids s)" unfolding rows by simp
  have "refs_ok t" using s unfolding refs_ok_def docs ids by (auto simp: books_def refs_ok_def)
  moreover have "follows_except None t"
    unfolding follows_except_def rows paid using s b new by (auto simp: books_def follows_except_def)
  ultimately show ?thesis using s keys_t ids by (auto simp: books_def)
qed

lemma gives_create_account_payable: "gives (books None N) (create_account_payable input) (\<lambda>_. books None N)"
  unfolding create_account_payable_def
proof (rule gives_bind_keep [OF gives_frame [OF tables_parts(2) life_payable_reads(2)]], intro gives_option gives_same givesI)
  fix s x t
  assume s: "books None N s" and run: "ebind new_uuid (\<lambda>uuid.
      ebind (elift (payable_create uuid (new_payable_params input))) payables_create) s = (Inr x, t)"
  then obtain a where "payable_create (t_uuid s (t_next s)) (new_payable_params input) = Inr a"
      "payables_create a (s\<lparr>t_next := Suc (t_next s)\<rparr>) = (Inr x, t)"
    by (auto simp: ebind_Inr new_uuid_def elift_Inr)
  then show "books None N t" by (rule books_new_payable [OF s])
qed

section \<open>Every orderly sequence\<close>

text \<open>
  The payables an operation names, and the operations that change nothing when they throw. A
  sequence is orderly when the payables it names exist and only such operations throw.
\<close>

fun names_payables :: "treasury_op \<Rightarrow> string set" where
  "names_payables (CreateDraft input user) = named_payables input"
| "names_payables (RequestPayment input user can approvers) = named_payables input"
| "names_payables (CreatePayment input po opt) = named_payables input"
| "names_payables (UpdateDraft i patch) = (case dp_accountPayableId patch of Some (Some j) \<Rightarrow> {j} | _ \<Rightarrow> {})"
| "names_payables c = {}"

fun rolls_back :: "treasury_op \<Rightarrow> bool" where
  "rolls_back (CreateDraft input user) = True"
| "rolls_back (CreatePayment input po opt) = True"
| "rolls_back (DeletePayment i user) = True"
| "rolls_back (ReleaseScheduled n) = True"
| "rolls_back (CreateQuota input po) = True"
| "rolls_back c = False"

fun orderly :: "(string \<Rightarrow> int option) \<Rightarrow> treasury_op list \<Rightarrow> treasury \<Rightarrow> bool" where
  "orderly pd [] s = True"
| "orderly pd (c # cs) s \<longleftrightarrow> names_payables c \<subseteq> payable_ids s \<and>
     (rolls_back c \<or> \<not> isl (fst (run_op pd c s))) \<and> orderly pd cs (snd (run_op pd c s))"

lemma transaction_unchanged: "isl (fst (transaction m s)) \<Longrightarrow> snd (transaction m s) = s"
  by (cases "m s") (auto simp: transaction_def split: sum.splits)

lemma discard_unchanged: "isl (fst (discard (transaction m) s)) \<Longrightarrow> snd (discard (transaction m) s) = s"
  by (cases "m s") (auto simp: discard_def ethen_def ebind_def transaction_def ereturn_def split: sum.splits)

lemma rolled_back: "rolls_back c \<Longrightarrow> isl (fst (run_op pd c s)) \<Longrightarrow> snd (run_op pd c s) = s"
  by (cases c)
     (simp_all only: rolls_back.simps run_op.simps create_draft_def create_payment_def delete_payment_def
        release_scheduled_def create_credit_quota_def discard_unchanged transaction_unchanged)

lemma gives_discard: "gives P m (\<lambda>_. Q) \<Longrightarrow> gives P (discard m) (\<lambda>_. Q)"
  unfolding discard_def by (rule gives_then) (auto intro: gives_same)

lemma tables_quotas:
  "settled_by same_tables (create_credit_quota pd input' po)" "settled_by same_tables (delete_credit_quota q)"
  unfolding create_credit_quota_def delete_credit_quota_def by (intro tables_rules tables_parts TrueI)+

lemma gives_documents:
  "gives (books None N) (submit_payment i v) (\<lambda>_. books None N)"
  "gives (books None N) (approve_payment i u) (\<lambda>_. books None N)"
  "gives (books None N) (reject_payment i u r) (\<lambda>_. books None N)"
  "gives (books None N) (void_payment i u r) (\<lambda>_. books None N)"
  "gives (books None N) (delete_payment i v) (\<lambda>_. books None N)"
  unfolding gives_def
  by (intro allI impI, erule (1) books_submit books_approve books_reject books_void books_delete)+

lemma gives_update_draft:
  "gives (books None (case dp_accountPayableId patch of Some (Some j) \<Rightarrow> {j} | _ \<Rightarrow> {})) (update_draft i patch)
     (\<lambda>_. books None {})"
  unfolding gives_def
proof (intro allI impI)
  fix s a t
  assume b: "books None (case dp_accountPayableId patch of Some (Some j) \<Rightarrow> {j} | _ \<Rightarrow> {}) s"
    and run: "update_draft i patch s = (Inr a, t)"
  have "books None (case dp_accountPayableId patch of Some (Some j) \<Rightarrow> {j} | _ \<Rightarrow> {}) t"
    by (rule books_update_draft [OF b run]) simp
  then show "books None {} t" by (rule books_fewer) simp
qed

lemma gives_run_op: "gives (books None (names_payables c)) (run_op pd c) (\<lambda>_. books None {})"
proof (cases c)
  case (RecalculatePayable i)
  have "gives (books None {}) (recalculate i) (\<lambda>_. books None {})"
    by (rule givesI) (use books_recalculate in fastforce)
  then show ?thesis using RecalculatePayable by simp
next
  case (Wait n)
  have same: "settled_by same_tables (run_op pd c)" unfolding Wait run_op.simps by (rule tables_write) simp
  have none: "names_payables c = {}" by (simp add: Wait)
  show ?thesis unfolding none by (rule gives_frame [OF same life_run_op])
next
  case (CreateQuota input po)
  then show ?thesis
    by (simp only: run_op.simps names_payables.simps gives_frame [OF tables_quotas(1) life_quotas(1)])
next
  case (DeleteQuota q)
  then show ?thesis
    by (simp only: run_op.simps names_payables.simps gives_frame [OF tables_quotas(2) life_quotas(2)])
qed (simp_all only: run_op.simps names_payables.simps create_draft_def gives_discard [OF gives_create_payment]
    gives_discard [OF gives_create_account_payable] gives_discard [OF gives_mark_overdue]
    gives_discard [OF gives_cancel] gives_discard [OF gives_release] gives_discard [OF gives_request_payment]
    gives_discard [OF gives_update_draft] gives_discard [OF gives_documents(1)]
    gives_discard [OF gives_documents(2)] gives_discard [OF gives_documents(3)]
    gives_discard [OF gives_documents(4)] gives_discard [OF gives_documents(5)])

lemma books_step:
  assumes "books None {} s" "names_payables c \<subseteq> payable_ids s" "run_op pd c s = (Inr (), t)"
  shows "books None {} t"
proof -
  have s: "books None (names_payables c) s" using assms(1,2) by (simp add: books_def)
  show ?thesis by (rule gives_run [OF gives_run_op s assms(3)])
qed

lemma books_run_ops: "books None {} s \<Longrightarrow> orderly pd cs s \<Longrightarrow> books None {} (run_ops pd cs s)"
proof (induction cs arbitrary: s)
  case (Cons c cs)
  have "books None {} (snd (run_op pd c s))"
  proof (cases "run_op pd c s")
    case (Pair r t)
    show ?thesis
    proof (cases r)
      case (Inl e)
      then have "snd (run_op pd c s) = s" using Cons.prems(2) rolled_back [of c pd s] Pair by simp
      then show ?thesis using Cons.prems(1) by simp
    next
      case (Inr u)
      then show ?thesis using books_step [OF Cons.prems(1), of c pd t] Cons.prems(2) Pair by simp
    qed
  qed
  then show ?case using Cons by simp
qed simp

end
