(* ===== verification/PaymentProperties.thy ===== *)
theory PaymentProperties
  imports PaymentBooks "HOL-Library.Multiset"
begin

text \<open>
  The properties of accounts payable and payments, each with a run on a small treasury: a
  payable of 100 with one payment waiting for approval, one scheduled and one draft.
\<close>

section \<open>A treasury\<close>

definition blank_document :: payment_document where
  "blank_document = \<lparr>pd_id = '''', pd_method = ''Efectivo'', pd_date = 0, pd_operationNumber = None,
     pd_currency = PEN, pd_amount = 60, pd_note = None, pd_fromDocumentType = PayDocPurchase,
     pd_poId = None, pd_quotaId = None, pd_accountPayableId = None, pd_companyPaymentAccountId = None,
     pd_paymentMethodId = Some ''m'', pd_supplierPaymentDestinationId = None,
     pd_status = PENDING_APPROVAL, pd_requestedByUserId = None, pd_approvedByUserId = None,
     pd_rejectedByUserId = None, pd_approvedAt = None, pd_rejectedAt = None, pd_rejectionReason = None,
     pd_paidByUserId = None, pd_scheduledByUserId = None, pd_scheduledAt = None, pd_paidAt = None,
     pd_paymentEvidenceFileId = None, pd_bankName = None, pd_cardLastFour = None,
     pd_operationCode = None, pd_isPartial = False\<rparr>"

definition waiting_payment :: payment_document where
  "waiting_payment = blank_document\<lparr>pd_id := ''p1'', pd_accountPayableId := Some ''a1''\<rparr>"

definition scheduled_payment :: payment_document where
  "scheduled_payment = blank_document\<lparr>pd_id := ''p2'', pd_accountPayableId := Some ''a1'',
     pd_amount := 50, pd_status := SCHEDULED, pd_scheduledAt := Some 5\<rparr>"

definition quota_draft :: payment_document where
  "quota_draft = blank_document\<lparr>pd_id := ''p3'', pd_quotaId := Some ''q1'', pd_amount := 30, pd_status := DRAFT\<rparr>"

definition hundred :: account_payable where
  "hundred = \<lparr>ap_id = ''a1'', ap_purchaseId = ''o1'', ap_quotaId = None, ap_supplierId = None,
     ap_description = None, ap_currency = PEN, ap_amountTotal = 100, ap_amountPaid = 0,
     ap_amountPending = 100, ap_dueDate = None, ap_status = PayablePending,
     ap_requiresManualReview = False, ap_reconciliationNote = None, ap_createdByUserId = None,
     ap_createdAt = Some 0, ap_updatedAt = Some 0\<rparr>"

definition half_paid_quota :: credit_quota where
  "half_paid_quota = \<lparr>cq_id = ''q1'', cq_number = 1, cq_expirationDate = DateOnly 0, cq_paymentDate = None,
     cq_totalToPay = 80, cq_totalPaid = 40, cq_fromDocumentType = PayDocPurchase, cq_poId = None,
     cq_createdAt = 0\<rparr>"

definition cash_method :: payment_method where
  "cash_method = \<lparr>pm_id = ''m'', pm_name = ''Efectivo'', pm_code = ''CASH'', pm_isActive = True,
     pm_requiresVoucher = False, pm_requiresSourceAccount = False, pm_requiresDestination = False,
     pm_requiresOperationReference = False\<rparr>"

definition till :: treasury where
  "till = \<lparr>t_payables = [hundred], t_payments = [waiting_payment, scheduled_payment, quota_draft],
     t_allocations = [], t_quotas = [half_paid_quota], t_methods = [cash_method], t_companyMethods = [],
     t_accounts = [], t_destinations = [], t_purchases = [], t_attachments = [], t_approvals = [],
     t_history = [], t_notifications = [], t_clock = 10, t_uuid = (\<lambda>n. ''u'' @ nat_string n),
     t_next = 0, t_localDay = day_of_instant, t_dropsNull = True\<rparr>"

lemmas till_fixture = till_def blank_document_def waiting_payment_def scheduled_payment_def quota_draft_def
  hundred_def half_paid_quota_def cash_method_def

lemma inj_uuids: "inj (\<lambda>n. ''u'' @ nat_string n)"
proof (rule injI)
  fix a b
  assume "''u'' @ nat_string a = ''u'' @ nat_string b"
  then have "digits_value (nat_string a) = digits_value (nat_string b)" by simp
  then show "a = b" by simp
qed

lemma till_books: "books None {} till"
proof -
  have "centesimal (of_int n)" for n by (simp add: centesimal_def)
  from this [of 100] this [of 60] this [of 50] this [of 30] have c: "centesimal 100" "centesimal 60" "centesimal 50" "centesimal 30" by simp_all
  then show ?thesis
    using inj_uuids
    by (simp add: books_def keyed_def treasury_ok_def payable_ok_def refs_ok_def follows_except_def
        paid_in_def counted_for_def counted_def till_fixture)
qed

lemma till_keyed: "keyed till" "treasury_ok till"
  using till_books by (simp_all add: books_def keyed_def)

section \<open>Payables\<close>



text \<open>
  C4. Over an orderly sequence of operations every payable that is not cancelled says that
  exactly the payments posted against it are paid, capped at its total; the rest is pending, and
  the posted payments exceed the total by at most one cent.
\<close>

theorem balances_follow_payments:
  assumes "books None {} s" "orderly pd cs s"
    and "a \<in> set (t_payables (run_ops pd cs s))" "ap_status a \<noteq> PayableCancelled"
  shows "ap_amountPaid a = min (ap_amountTotal a) (paid_in (run_ops pd cs s) (ap_id a)) \<and>
    ap_amountPending a = ap_amountTotal a - ap_amountPaid a \<and>
    paid_in (run_ops pd cs s) (ap_id a) \<le> ap_amountTotal a + 1/100"
proof -
  have b: "books None {} (run_ops pd cs s)" by (rule books_run_ops [OF assms(1,2)])
  then have "payable_ok a" using assms(3) by (auto simp: books_def keyed_def treasury_ok_def list_all_iff)
  then show ?thesis using b assms(3,4) by (auto simp: books_def follows_except_def payable_ok_def)
qed

definition till_day :: "treasury_op list" where
  "till_day = [ApprovePayment ''p1'' ''boss'', ReleaseScheduled 10, VoidPayment ''p1'' ''boss'' (Some ''error''),
     ApprovePayment ''p2'' ''boss'']"

lemma till_day_run:
  "orderly (\<lambda>_. None) till_day till"
  "map (\<lambda>a. (ap_id a, ap_amountPaid a, ap_status a)) (t_payables (run_ops (\<lambda>_. None) till_day till)) =
     [(''a1'', 50, PayablePartial)]"
  by code_simp+

theorem balances_follow_payments_witness:
  "\<exists>a \<in> set (t_payables (run_ops (\<lambda>_. None) till_day till)). ap_id a = ''a1'' \<and> ap_amountPaid a = 50 \<and>
     ap_amountPaid a = min (ap_amountTotal a) (paid_in (run_ops (\<lambda>_. None) till_day till) ''a1'')"
proof -
  obtain a where a: "a \<in> set (t_payables (run_ops (\<lambda>_. None) till_day till))"
      "ap_id a = ''a1''" "ap_amountPaid a = 50" "ap_status a = PayablePartial"
    using till_day_run(2) by (auto simp: map_eq_Cons_conv)
  then show ?thesis using balances_follow_payments [OF till_books till_day_run(1) a(1)] by (intro bexI [of _ a]) simp_all
qed

section \<open>Documents\<close>




section \<open>Approval\<close>

lemma run_then_Inr: "m s = (Inr a, t) \<Longrightarrow> ethen m k s = k t"
  by (simp add: ethen_def ebind_def)







section \<open>The financial policy\<close>

text \<open>What the policy asks of a payment, in one formula.\<close>

definition policy_satisfied :: "policy_input \<Rightarrow> bool" where
  "policy_satisfied i \<longleftrightarrow> mp_isActive (in_method i) \<and>
     (mp_requiresSourceAccount (in_method i) \<longrightarrow> filled (map_option ta_id (in_account i))) \<and>
     (case in_account i of None \<Rightarrow> True
      | Some a \<Rightarrow> ta_isActive a \<and> ta_currency a = in_currency i \<and> ta_usage a \<in> {''OUTFLOW'', ''BOTH''} \<and>
          isCompanyPaymentAccountCompatible (js_toUpperCase (js_trim (mp_code (in_method i)))) (ta_type a)) \<and>
     (mp_requiresDestination (in_method i) \<longrightarrow> filled (map_option sd_id (in_destination i))) \<and>
     (case in_destination i of None \<Rightarrow> True
      | Some d \<Rightarrow> sd_isActive d \<and> \<not> sd_requiresManualReview d \<and> sd_currency d = in_currency i \<and>
          (filled (in_paymentMethodId i) \<longrightarrow> filled (sd_methodId d) \<longrightarrow> sd_methodId d = in_paymentMethodId i)) \<and>
     (mp_requiresOperationReference (in_method i) \<longrightarrow> trimmed (in_operationNumber i) \<noteq> None) \<and>
     (in_validateEvidence i \<longrightarrow> mp_requiresVoucher (in_method i) \<longrightarrow> in_hasEvidence i)"

lemma first_violation_None: "first_violation vs = None \<longleftrightarrow> list_all (\<lambda>v. v = None) vs"
  by (induction vs) (auto simp: first_violation_def split: option.splits)

text \<open>
  C26. The financial policy lets a payment pass exactly when its method is active, a required
  account or destination is given, the account and the destination that are given are usable,
  in the currency of the payment and compatible with its method, and a required reference and
  a required voucher are there.
\<close>

theorem policy_passes_iff: "validate_policy i = None \<longleftrightarrow> policy_satisfied i"
  unfolding validate_policy_def Let_def first_violation_None policy_satisfied_def
  by (auto simp: required_def account_violation_def destination_violation_def split: option.splits)

section \<open>Scheduled payments\<close>

lemma history_loop:
  "\<exists>h. efor ds (\<lambda>d. case pd_poId d of None \<Rightarrow> ereturn ()
      | Some po \<Rightarrow> recordPayment po ''PAYMENT_REQUESTED'' (pd_scheduledByUserId d) None None) s =
     (Inr (), s\<lparr>t_history := h\<rparr>)"
proof (induction ds arbitrary: s)
  case Nil
  show ?case by (rule exI [of _ "t_history s"]) (simp add: ereturn_def)
next
  case (Cons d ds)
  obtain h where h: "(case pd_poId d of None \<Rightarrow> ereturn ()
      | Some po \<Rightarrow> recordPayment po ''PAYMENT_REQUESTED'' (pd_scheduledByUserId d) None None) s =
        (Inr (), s\<lparr>t_history := h\<rparr>)"
  proof (cases "pd_poId d")
    case None
    then show ?thesis using that [of "t_history s"] by (simp add: ereturn_def)
  next
    case (Some po)
    then show ?thesis using that by (simp add: recordPayment_def emodify_def)
  qed
  obtain h' where "efor ds (\<lambda>d. case pd_poId d of None \<Rightarrow> ereturn ()
      | Some po \<Rightarrow> recordPayment po ''PAYMENT_REQUESTED'' (pd_scheduledByUserId d) None None) (s\<lparr>t_history := h\<rparr>) =
        (Inr (), s\<lparr>t_history := h\<rparr>\<lparr>t_history := h'\<rparr>)" using Cons by blast
  then show ?case by (intro exI [of _ h']) (simp add: run_then_Inr [where m = "case_option _ _ _", OF h])
qed

lemma filter_take_drop:
  assumes "distinct (map key xs)"
  shows "filter (\<lambda>x. key x \<notin> key ` set (take n xs)) xs = drop n xs"
proof -
  have "distinct (map key (take n xs @ drop n xs))" using assms by simp
  then have "key ` set (take n xs) \<inter> key ` set (drop n xs) = {}"
    unfolding map_append distinct_append by simp
  then have "filter (\<lambda>x. key x \<notin> key ` set (take n xs)) (take n xs @ drop n xs) = drop n xs"
    unfolding filter_append by (auto simp: filter_empty_conv filter_id_conv)
  then show ?thesis by simp
qed

lemma release_state:
  obtains h where "snd (run_op pd (ReleaseScheduled n) s) =
    s\<lparr>t_payments := update_where (\<lambda>d. pd_id d \<in> pd_id ` set (take (safe_batch_size n) (due_payments s)) \<and>
        pd_status d = SCHEDULED) (\<lambda>d. d\<lparr>pd_status := PENDING_APPROVAL\<rparr>) (t_payments s), t_history := h\<rparr>"
proof -
  let ?rows = "take (safe_batch_size n) (due_payments s)"
  let ?s = "s\<lparr>t_payments := update_where (\<lambda>d. pd_id d \<in> pd_id ` set ?rows \<and> pd_status d = SCHEDULED)
    (\<lambda>d. d\<lparr>pd_status := PENDING_APPROVAL\<rparr>) (t_payments s)\<rparr>"
  obtain h where h: "efor ?rows (\<lambda>d. case pd_poId d of None \<Rightarrow> ereturn ()
      | Some po \<Rightarrow> recordPayment po ''PAYMENT_REQUESTED'' (pd_scheduledByUserId d) None None) ?s =
        (Inr (), ?s\<lparr>t_history := h\<rparr>)" using history_loop by blast
  have m: "emodify (\<lambda>s. s\<lparr>t_payments := update_where (\<lambda>d. pd_id d \<in> pd_id ` set ?rows \<and> pd_status d = SCHEDULED)
      (\<lambda>d. d\<lparr>pd_status := PENDING_APPROVAL\<rparr>) (t_payments s)\<rparr>) s = (Inr (), ?s)" by (simp add: emodify_def)
  have "release_scheduled n s = (Inr (length ?rows), ?s\<lparr>t_history := h\<rparr>)"
    unfolding release_scheduled_def transaction_def run_reads Let_def
    by (subst run_then_Inr [where s = s and t = ?s and a = "()"], rule m, 
        subst run_then_Inr [where s = ?s and t = "?s\<lparr>t_history := h\<rparr>" and a = "()"], rule h) (simp add: ereturn_def)
  then have "run_op pd (ReleaseScheduled n) s = (Inr (), ?s\<lparr>t_history := h\<rparr>)"
    by (simp add: discard_def run_then_Inr ereturn_def)
  then have "snd (run_op pd (ReleaseScheduled n) s) = ?s\<lparr>t_history := h\<rparr>" by (simp only: snd_conv)
  then show thesis by (intro that) simp
qed

lemma release_run:
  assumes "distinct (map pd_id (t_payments s))"
  shows "length (due_payments (snd (run_op pd (ReleaseScheduled n) s))) =
    length (due_payments s) - safe_batch_size n"
proof -
  let ?due = "is_due (t_clock s)" and ?L = "due_payments s"
  let ?ids = "pd_id ` set (take (safe_batch_size n) ?L)"
  obtain h where t: "snd (run_op pd (ReleaseScheduled n) s) = s\<lparr>t_payments :=
      update_where (\<lambda>d. pd_id d \<in> ?ids \<and> pd_status d = SCHEDULED) (\<lambda>d. d\<lparr>pd_status := PENDING_APPROVAL\<rparr>)
        (t_payments s), t_history := h\<rparr>" by (rule release_state)
  have "length (due_payments (snd (run_op pd (ReleaseScheduled n) s))) =
      length (filter (\<lambda>d. ?due d \<and> pd_id d \<notin> ?ids) (t_payments s))"
    
    unfolding t by (auto simp: due_payments_def update_where_def filter_map o_def is_due_def
      intro!: arg_cong [where f = length] filter_cong)
  also have "\<dots> = length (filter (\<lambda>d. pd_id d \<notin> ?ids) (filter ?due (t_payments s)))"
    by (simp add: conj_commute)
  also have "\<dots> = length (filter (\<lambda>d. pd_id d \<notin> ?ids) ?L)"
    by (metis (no_types, lifting) due_payments_def mset_filter mset_sort size_mset)
  also have "\<dots> = length (drop (safe_batch_size n) ?L)"
  proof -
    have "distinct (map pd_id ?L)"
      using assms distinct_map_filter [of pd_id "t_payments s" ?due]
      by (simp add: due_payments_def distinct_map)
    then show ?thesis by (simp add: filter_take_drop)
  qed
  finally show ?thesis by simp
qed

lemma release_runs:
  assumes "keyed s" "length (due_payments s) \<le> k * safe_batch_size n"
  shows "due_payments (run_ops pd (replicate k (ReleaseScheduled n)) s) = []"
  using assms
proof (induction k arbitrary: s)
  case (Suc k)
  have "distinct (map pd_id (t_payments s))" using Suc.prems(1) by (simp add: keyed_def)
  then have "length (due_payments (snd (run_op pd (ReleaseScheduled n) s))) \<le> k * safe_batch_size n"
    using release_run [of s pd n] Suc.prems(2) by simp
  moreover have "keyed (snd (run_op pd (ReleaseScheduled n) s))"
    using settlesD [OF life_run_op, of s] Suc.prems(1) by blast
  ultimately show ?case using Suc.IH by simp
qed simp

text \<open>
  C21. Scheduled payments do not wait for ever: as long as the job that releases them keeps
  running, in batches of any size, zero and negative ones included, no due payment is left
  scheduled after as many runs as there are due payments.
\<close>

theorem scheduled_payments_are_released:
  assumes "keyed s"
  shows "due_payments (run_ops pd (replicate (length (due_payments s)) (ReleaseScheduled n)) s) = []"
proof -
  have "1 \<le> safe_batch_size n" by (simp add: safe_batch_size_def)
  then have "length (due_payments s) \<le> length (due_payments s) * safe_batch_size n" by simp
  then show ?thesis by (rule release_runs [OF assms])
qed

theorem scheduled_payments_are_released_witness:
  "length (due_payments till) = 1 \<and> due_payments (run_ops (\<lambda>_. None) [ReleaseScheduled 0] till) = []"
proof -
  have "length (due_payments till) = 1" by code_simp
  then show ?thesis
    using scheduled_payments_are_released [OF till_keyed(1), of "\<lambda>_. None" 0] by simp
qed

section \<open>What the balances do not say\<close>

text \<open>The same treasury, had every payment been made in the given currency.\<close>

definition in_currency_of :: "currency_type \<Rightarrow> treasury \<Rightarrow> treasury" where
  "in_currency_of c s = s\<lparr>t_payments := map (\<lambda>d. d\<lparr>pd_currency := c\<rparr>) (t_payments s)\<rparr>"

lemma payment_create_currency:
  "payment_create (d\<lparr>pd_currency := c\<rparr>) =
     (case payment_create d of Inl e \<Rightarrow> Inl e | Inr d' \<Rightarrow> Inr (d'\<lparr>pd_currency := c\<rparr>))"
  by (simp add: payment_create_def Let_def)

lemma traverse_currency:
  "traverse payment_create (map (\<lambda>d. d\<lparr>pd_currency := c\<rparr>) ds) =
     (case traverse payment_create ds of Inl e \<Rightarrow> Inl e | Inr ds' \<Rightarrow> Inr (map (\<lambda>d. d\<lparr>pd_currency := c\<rparr>) ds'))"
  by (induction ds) (simp_all add: payment_create_currency split: sum.splits)

lemma counted_currency:
  "filter (counted_for i) (map (\<lambda>d. d\<lparr>pd_currency := c\<rparr>) ds) = map (\<lambda>d. d\<lparr>pd_currency := c\<rparr>) (filter (counted_for i) ds)"
  by (induction ds) (simp_all add: counted_for_def)

lemma date_column_payments: "date_column (s\<lparr>t_payments := ps\<rparr>) = date_column s"
  by (rule ext) (simp add: date_column_def split: js_date.splits)

text \<open>
  The recalculation of a payable does not look at currencies: were all payments in another
  currency, it would give the same answer and the same payables.
\<close>

theorem recalculation_ignores_currency:
  "fst (recalculate i (in_currency_of c s)) = fst (recalculate i s) \<and>
   t_payables (snd (recalculate i (in_currency_of c s))) = t_payables (snd (recalculate i s))"
  by (simp add: recalculate_def recalculate_account_payable_def payables_findById_def payable_found_def
      findApprovedByAccountPayableId_def in_currency_of_def counted_currency traverse_currency
      payables_update_def save_payable_def clock_now_def ethen_def ebind_def ereads_def ereturn_def ethrow_def elift_def
      emodify_def o_def date_column_payments split: option.splits sum.splits)



text \<open>
  C40. A payable that is cancelled with its purchase can never be read again: the update clears what
  is pending and leaves the total, and the entity refuses amounts that do not add up.
\<close>

theorem cancelled_payables_unreadable:
  assumes "distinct (map ap_id (t_payables s))" "a \<in> set (t_payables s)" "is_open p a" "ap_amountTotal a > 1/100"
  shows "\<exists>r. find_by ap_id (ap_id a) (t_payables (snd (cancelOpenByPurchase p s))) = Some r \<and>
      ap_status r = PayableCancelled \<and>
      isl (fst (payables_findById (ap_id a) (snd (cancelOpenByPurchase p s))))"
proof -
  let ?f = "\<lambda>r. r\<lparr>ap_status := PayableCancelled, ap_amountPending := 0, ap_updatedAt := Some (t_clock s)\<rparr>"
  let ?s = "s\<lparr>t_payables := update_where (is_open p) ?f (t_payables s)\<rparr>"
  have run: "snd (cancelOpenByPurchase p s) = ?s"
    by (simp add: cancelOpenByPurchase_def ereads_def ethen_def ebind_def emodify_def ereturn_def)
  have found: "find_by ap_id (ap_id a) (t_payables ?s) = Some (?f a)"
    using assms(3) by (simp add: find_by_update_where find_by_distinct [OF assms(1,2)])
  have "isl (payable_toDomain (?f a))"
    using assms(3,4) by (auto simp: payable_toDomain_def payable_create_def payable_params_of_def given_or_def is_open_def)
  then have "isl (fst (payables_findById (ap_id a) ?s))"
    using found
    by (auto simp: payables_findById_def payable_found_def run_reads run_lift split: sum.splits)
  then show ?thesis unfolding run using found by (intro exI [of _ "?f a"]) simp
qed

theorem cancelled_payables_unreadable_witness:
  "isl (fst (payables_findById ''a1'' (snd (cancelOpenByPurchase ''o1'' till))))"
proof -
  have "distinct (map ap_id (t_payables till))" "hundred \<in> set (t_payables till)" "is_open ''o1'' hundred"
    "ap_amountTotal hundred > 1/100" "ap_id hundred = ''a1''"
    by (simp_all add: till_def hundred_def is_open_def)
  then show ?thesis using cancelled_payables_unreadable [of till hundred "''o1''"] by auto
qed

end
