(* ===== verification/RecurringDates.thy ===== *)
theory RecurringDates
  imports Calendar
begin

text \<open>
  The calendar of recurring purchases: the next due date of a template
  (\<open>recurring-purchases/domain/services/recurring-due-date-calculator.ts\<close>) and the key of the
  period a due date belongs to (\<open>recurring-purchases/domain/entity/recurring-purchase-template.ts\<close>),
  with the facts that due dates do not drift and that keys tell periods apart.
\<close>

section \<open>Due dates\<close>

datatype recurring_frequency = MonthlyFrequency | AnnualFrequency

definition getBillingAnchorDay :: "int \<Rightarrow> int" where
  "getBillingAnchorDay date = date_of_day (day_of_instant date)"

definition utc_year :: "int \<Rightarrow> int" where
  "utc_year t = year_from_day (day_of_instant t)"

definition utc_month :: "int \<Rightarrow> int" where
  "utc_month t = month_of_day (day_of_instant t)"

definition daysInUtcMonth :: "int \<Rightarrow> int \<Rightarrow> int" where
  "daysInUtcMonth year monthIndex = date_of_day (day_of_instant (date_utc year (monthIndex + 1) 0 0))"

definition buildClampedUtcDate :: "int \<Rightarrow> int \<Rightarrow> int \<Rightarrow> int \<Rightarrow> int" where
  "buildClampedUtcDate year monthIndex anchorDay source =
     (let day = min anchorDay (daysInUtcMonth year monthIndex)
      in date_utc year monthIndex day (time_in_day source))"

definition month_offset :: "recurring_frequency \<Rightarrow> int" where
  "month_offset frequency = (if frequency = AnnualFrequency then 12 else 1)"

definition calculateNextRecurringDueDate :: "int \<Rightarrow> recurring_frequency \<Rightarrow> int \<Rightarrow> int" where
  "calculateNextRecurringDueDate currentDueDate frequency billingAnchorDay =
     (let target = date_utc (utc_year currentDueDate) (utc_month currentDueDate + month_offset frequency) 1
            (time_in_day currentDueDate)
      in buildClampedUtcDate (utc_year target) (utc_month target) billingAnchorDay currentDueDate)"

definition calculateFirstRecurringDueDate :: "int \<Rightarrow> recurring_frequency \<Rightarrow> int" where
  "calculateFirstRecurringDueDate startDate frequency =
     calculateNextRecurringDueDate startDate frequency (getBillingAnchorDay startDate)"

section \<open>Periods\<close>

definition getRecurringPeriodKey :: "int \<Rightarrow> recurring_frequency \<Rightarrow> string" where
  "getRecurringPeriodKey date frequency =
     (if frequency = AnnualFrequency then int_string (utc_year date)
      else int_string (utc_year date) @ ''-'' @ pad_digits 2 (int_string (utc_month date + 1)))"

text \<open>The months since the year 0, a number that tells months apart.\<close>

definition month_number :: "int \<Rightarrow> int" where
  "month_number t = 12 * utc_year t + utc_month t"

definition period_number :: "int \<Rightarrow> recurring_frequency \<Rightarrow> int" where
  "period_number t f = (if f = AnnualFrequency then utc_year t else month_number t)"

lemma month_range: "0 \<le> utc_month t" "utc_month t < 12"
  using valid_civil [of "day_of_instant t"] by (simp_all add: utc_month_def valid_date_def)

lemma month_number_parts: "month_number t div 12 = utc_year t" "month_number t mod 12 = utc_month t"
  using month_range [of t] by (simp_all add: month_number_def)

section \<open>Due dates do not drift\<close>

lemma make_day_carry: "make_day y m d = make_day (y + m div 12) (m mod 12) d"
  by (simp add: make_day_def Let_def)

lemma make_day_month_end:
  assumes "0 \<le> m" "m < 12"
  shows "make_day y (m + 1) 0 = make_day y m (days_in_month (is_leap y) m)"
proof (cases "m = 11")
  case True
  then show ?thesis
    by (simp add: make_day_def days_in_month_def day_from_year_Suc days_in_year_month_start month_start_values)
next
  case False
  then have "(m + 1) div 12 = 0" "(m + 1) mod 12 = m + 1" using assms by auto
  then show ?thesis using assms by (simp add: make_day_def days_in_month_def)
qed

lemma daysInUtcMonth_days:
  assumes "100 \<le> y" "0 \<le> m" "m < 12"
  shows "daysInUtcMonth y m = days_in_month (is_leap y) m"
proof -
  have "valid_date y m (days_in_month (is_leap y) m)"
    using days_in_month_bounds [OF assms(2,3), of "is_leap y"] assms by (simp add: valid_date_def)
  moreover have "day_of_instant (date_utc y (m + 1) 0 0) = make_day y m (days_in_month (is_leap y) m)"
    using assms by (simp add: date_utc_def utc_full_year_def day_of_instant_def ms_per_day_def make_day_month_end)
  ultimately show ?thesis by (simp add: daysInUtcMonth_def civil_of_make_day)
qed

lemma utc_of_date:
  assumes "100 \<le> y" "valid_date y m d" "0 \<le> r" "r < ms_per_day"
  shows "utc_year (date_utc y m d r) = y" "utc_month (date_utc y m d r) = m"
    "getBillingAnchorDay (date_utc y m d r) = d" "time_in_day (date_utc y m d r) = r"
  using assms by (simp_all add: utc_year_def utc_month_def getBillingAnchorDay_def date_utc_def
      utc_full_year_def civil_of_make_day)

lemma next_due_date:
  fixes f :: recurring_frequency
  assumes year: "100 \<le> utc_year t" and anchor: "1 \<le> a"
  defines "u \<equiv> calculateNextRecurringDueDate t f a"
  shows "month_number u = month_number t + month_offset f"
    and "getBillingAnchorDay u = min a (days_in_month (is_leap (utc_year u)) (utc_month u))"
    and "time_in_day u = time_in_day t"
proof -
  let ?n = "utc_month t + month_offset f" and ?r = "time_in_day t"
  let ?y = "utc_year t + ?n div 12" and ?m = "?n mod 12"
  have r: "0 \<le> ?r" "?r < ms_per_day" by (rule time_in_day_bounds)+
  have m: "0 \<le> ?m" "?m < 12" by simp_all
  have "0 \<le> ?n" using month_range(1) [of t] by (simp add: month_offset_def)
  then have y: "100 \<le> ?y" using year by (simp add: pos_imp_zdiv_nonneg_iff)
  have v: "valid_date ?y ?m d" if "1 \<le> d" "d \<le> days_in_month (is_leap ?y) ?m" for d
    using m that by (simp add: valid_date_def)
  have "date_utc (utc_year t) ?n 1 ?r = date_utc ?y ?m 1 ?r"
    using year y make_day_carry [of "utc_year t" ?n 1] by (simp add: date_utc_def utc_full_year_def)
  then have target: "utc_year (date_utc (utc_year t) ?n 1 ?r) = ?y" "utc_month (date_utc (utc_year t) ?n 1 ?r) = ?m"
    using utc_of_date [OF y v r, of 1] days_in_month_bounds [OF m, of "is_leap ?y"] by simp_all
  let ?d = "min a (days_in_month (is_leap ?y) ?m)"
  have u: "u = date_utc ?y ?m ?d ?r"
    unfolding u_def calculateNextRecurringDueDate_def Let_def target buildClampedUtcDate_def
    by (simp only: daysInUtcMonth_days [OF y m])
  have d: "1 \<le> ?d" "?d \<le> days_in_month (is_leap ?y) ?m"
    using anchor days_in_month_bounds [OF m, of "is_leap ?y"] by simp_all
  note civil = utc_of_date [OF y v [OF d] r]
  show "month_number u = month_number t + month_offset f"
    unfolding month_number_def u civil by simp
  show "getBillingAnchorDay u = min a (days_in_month (is_leap (utc_year u)) (utc_month u))"
    unfolding u civil by simp
  show "time_in_day u = time_in_day t" unfolding u civil by simp
qed

lemma next_due_year:
  assumes "100 \<le> utc_year t" "1 \<le> a"
  shows "100 \<le> utc_year (calculateNextRecurringDueDate t f a)"
proof -
  have "utc_year t \<le> utc_year (calculateNextRecurringDueDate t f a)"
    using next_due_date(1) [OF assms, of f] month_number_parts(1) [of t]
      month_number_parts(1) [of "calculateNextRecurringDueDate t f a"]
    by (metis add_increasing2 month_offset_def order_refl zdiv_mono1 zero_le_numeral zero_le_one zero_less_numeral)
  then show ?thesis using assms(1) by simp
qed

text \<open>The due date after a number of periods.\<close>

definition due_after :: "recurring_frequency \<Rightarrow> int \<Rightarrow> nat \<Rightarrow> int \<Rightarrow> int" where
  "due_after f a n = (\<lambda>t. calculateNextRecurringDueDate t f a) ^^ n"

lemma due_after_Suc: "due_after f a (Suc n) t = calculateNextRecurringDueDate (due_after f a n t) f a"
  by (simp add: due_after_def)

lemma due_after_month:
  assumes "100 \<le> utc_year t" "1 \<le> a"
  shows "month_number (due_after f a n t) = month_number t + int n * month_offset f \<and>
    time_in_day (due_after f a n t) = time_in_day t \<and> 100 \<le> utc_year (due_after f a n t)"
proof (induction n)
  case 0
  then show ?case using assms(1) by (simp add: due_after_def)
next
  case (Suc n)
  then show ?case
    using next_due_date(1,3) [of "due_after f a n t" a f] next_due_year [of "due_after f a n t" a f] assms(2)
    by (simp add: due_after_Suc algebra_simps)
qed

section \<open>Keys tell periods apart\<close>

lemma int_string_nat: "0 \<le> n \<Longrightarrow> int_string n = nat_string (nat n)"
  by (simp add: int_string_def)

lemma int_string_inj: "0 \<le> m \<Longrightarrow> 0 \<le> n \<Longrightarrow> int_string m = int_string n \<longleftrightarrow> m = n"
  by (metis digits_value_nat_string int_string_nat nat_0_le)

lemma digits_value_padded:
  assumes "n < 100"
  shows "digits_value (pad_digits 2 (nat_string n)) = int n"
proof -
  have "n div 10 < 10" using assms by (simp add: less_mult_imp_div_less)
  then have "digits_value (pad_digits 2 (nat_string n)) = 10 * int (n div 10) + int (n mod 10)"
    by (simp add: pad_two_digits [OF assms] digits_value_two digit_value_digit_char)
  also have "\<dots> = int (10 * (n div 10) + n mod 10)" by (simp only: of_nat_add of_nat_mult of_nat_numeral)
  finally show ?thesis by simp
qed

lemma month_digits:
  "length (pad_digits 2 (int_string (utc_month t + 1))) = 2"
  "digits_value (pad_digits 2 (int_string (utc_month t + 1))) = utc_month t + 1"
proof -
  have n: "nat (utc_month t + 1) < 100" using month_range [of t] by simp
  show "length (pad_digits 2 (int_string (utc_month t + 1))) = 2"
    "digits_value (pad_digits 2 (int_string (utc_month t + 1))) = utc_month t + 1"
    using month_range [of t] pad_two_digits [OF n] digits_value_padded [OF n] by (simp_all add: int_string_nat)
qed

lemma period_key_iff:
  assumes "0 \<le> utc_year t" "0 \<le> utc_year u"
  shows "getRecurringPeriodKey t f = getRecurringPeriodKey u f \<longleftrightarrow> period_number t f = period_number u f"
proof (cases "f = AnnualFrequency")
  case True
  then show ?thesis using assms by (simp add: getRecurringPeriodKey_def period_number_def int_string_inj)
next
  case False
  have "getRecurringPeriodKey t f = getRecurringPeriodKey u f \<longleftrightarrow>
      int_string (utc_year t) = int_string (utc_year u) \<and>
      pad_digits 2 (int_string (utc_month t + 1)) = pad_digits 2 (int_string (utc_month u + 1))"
    using False month_digits(1) [of t] month_digits(1) [of u]
    by (auto simp: getRecurringPeriodKey_def append_eq_append_conv)
  also have "\<dots> \<longleftrightarrow> utc_year t = utc_year u \<and> utc_month t = utc_month u"
    using int_string_inj [OF assms] month_digits(2) [of t] month_digits(2) [of u] by (metis add_right_cancel)
  also have "\<dots> \<longleftrightarrow> month_number t = month_number u"
    by (metis month_number_parts month_number_def)
  finally show ?thesis using False by (simp add: period_number_def)
qed

lemma next_period:
  assumes "100 \<le> utc_year t" "1 \<le> a"
  shows "period_number (calculateNextRecurringDueDate t f a) f = period_number t f + 1"
proof (cases "f = AnnualFrequency")
  case True
  have "month_number (calculateNextRecurringDueDate t f a) = month_number t + 12"
    using next_due_date(1) [OF assms, of f] True by (simp add: month_offset_def)
  then show ?thesis using True month_number_parts(1) [of t]
      month_number_parts(1) [of "calculateNextRecurringDueDate t f a"] by (simp add: period_number_def)
next
  case False
  then show ?thesis using next_due_date(1) [OF assms, of f] by (simp add: period_number_def month_offset_def)
qed

lemma due_after_period:
  assumes "100 \<le> utc_year t" "1 \<le> a"
  shows "period_number (due_after f a n t) f = period_number t f + int n"
proof (induction n)
  case (Suc n)
  then show ?case
    using next_period [of "due_after f a n t" a f] due_after_month [OF assms, of f n] assms(2) by (simp add: due_after_Suc)
qed (simp add: due_after_def)

text \<open>The month after the last day of a month begins on the day after.\<close>

lemma next_due_last_day:
  assumes year: "100 \<le> utc_year t" and midnight: "time_in_day t = 0"
    and last: "date_of_day (day_of_instant t + 1) = 1"
  shows "calculateNextRecurringDueDate t MonthlyFrequency 1 = t + ms_per_day"
proof -
  let ?u = "calculateNextRecurringDueDate t MonthlyFrequency 1" and ?d = "day_of_instant t"
  let ?y = "utc_year t" and ?m = "utc_month t"
  have m: "0 \<le> ?m" "?m < 12" by (rule month_range)+
  have civil: "make_day ?y ?m (date_of_day ?d) = ?d" "valid_date ?y ?m (date_of_day ?d)"
    using make_day_of_civil [of ?d] valid_civil [of ?d] by (simp_all add: utc_year_def utc_month_def)
  have "make_day ?y ?m (date_of_day ?d + 1) = ?d + 1" using civil(1) by (simp add: make_day_def Let_def)
  then have "\<not> valid_date ?y ?m (date_of_day ?d + 1)"
    using civil_of_make_day(3) [of ?y ?m "date_of_day ?d + 1"] civil(2) last by (auto simp: valid_date_def)
  then have "date_of_day ?d = days_in_month (is_leap ?y) ?m" using civil(2) by (auto simp: valid_date_def)
  then have "?d = make_day ?y (?m + 1) 0" using civil(1) make_day_month_end [OF m, of ?y] by simp
  then have "?d + 1 = make_day ?y (?m + 1) 1" by (simp add: make_day_def Let_def)
  then have next_day: "?d + 1 = make_day (?y + (?m + 1) div 12) ((?m + 1) mod 12) 1" by (subst (asm) make_day_carry)
  have u: "month_number ?u = month_number t + 1" "getBillingAnchorDay ?u = 1" "time_in_day ?u = 0"
    using next_due_date [OF year, of 1 MonthlyFrequency] days_in_month_bounds [OF month_range [of ?u], of "is_leap (utc_year ?u)"]
      midnight by (simp_all add: month_offset_def)
  have "utc_year ?u = ?y + (?m + 1) div 12"
    using month_number_parts(1) [of ?u] unfolding u(1) by (simp add: month_number_def add.assoc)
  moreover have "utc_month ?u = (?m + 1) mod 12"
    using month_number_parts(2) [of ?u] unfolding u(1) by (simp add: month_number_def add.assoc)
  ultimately have "day_of_instant ?u = ?d + 1"
    using make_day_of_civil [of "day_of_instant ?u"] u(2) next_day
    by (simp add: utc_year_def utc_month_def getBillingAnchorDay_def)
  then show ?thesis using instant_split [of ?u] instant_split [of t] u(3) midnight by (simp add: algebra_simps)
qed

text \<open>An equation for evaluation, which computes each part of the date once.\<close>

definition clamp_date :: "int \<Rightarrow> int \<Rightarrow> int \<Rightarrow> int \<Rightarrow> int" where
  "clamp_date y m a r = date_utc y m (min a (daysInUtcMonth y m)) r"

definition clamp_from :: "int \<Rightarrow> int \<Rightarrow> int \<Rightarrow> int" where
  "clamp_from target a r = clamp_date (utc_year target) (utc_month target) a r"

lemma next_due_code [code]:
  "calculateNextRecurringDueDate t f a =
   clamp_from (date_utc (utc_year t) (utc_month t + month_offset f) 1 (time_in_day t)) a (time_in_day t)"
  by (simp add: calculateNextRecurringDueDate_def clamp_from_def clamp_date_def buildClampedUtcDate_def Let_def)

end
