(* ===== verification/Purchases.thy ===== *)
theory Purchases
  imports Payables
begin

text \<open>
  The creation of a purchase order: the value objects and the factory of
  \<open>purchases/domain\<close> and the amounts of \<open>shared/value-objets/money.vo.ts\<close>. Dates are those of
  \<open>Date\<close> objects; a caller that passes text has no counterpart here.
\<close>

section \<open>Amounts\<close>

text \<open>\<open>Math.round\<close> rounds halves up.\<close>

definition purchase_money :: "rat \<Rightarrow> app_error + rat" where
  "purchase_money amount =
     (if amount < 0 then Inl (PlainError ''Money amount cannot be negative'')
      else Inr (of_int \<lfloor>amount * 100 + 1/2\<rfloor> / 100))"

section \<open>The purchase order\<close>

datatype purchase_status =
  PurchaseDraft | PurchaseSent | PurchasePartial | PurchasePendingReceipt | PurchaseReceived | PurchaseCancelled

datatype payment_form = Contado | Credito

datatype purchase_type =
  InventoryPurchase | RawMaterialPurchase | SupplyPurchase | InternalMaterialPurchase
  | FixedAssetPurchase | ServicePurchase | SubscriptionPurchase | MixedPurchase

datatype reception_status =
  ReceptionNotRequired | ReceptionPending | ReceptionPartial | ReceptionReceived

datatype purchase_payment_status =
  PurchaseUnpaid | PurchasePartlyPaid | PurchasePaid | PurchaseOverdue | PurchasePaymentCancelled

datatype voucher_type = VoucherFactura | VoucherBoleta | VoucherNotaVenta

record purchase_order =
  pu_id :: string
  pu_supplierId :: string
  pu_warehouseId :: "string option"
  pu_creditDays :: int
  pu_numQuotas :: int
  pu_totalTaxed :: rat
  pu_totalExempted :: rat
  pu_totalIgv :: rat
  pu_purchaseValue :: rat
  pu_total :: rat
  pu_document :: "(voucher_type \<times> string \<times> int) option"
  pu_currency :: currency_type
  pu_paymentForm :: "payment_form option"
  pu_note :: "string option"
  pu_description :: "string option"
  pu_status :: purchase_status
  pu_purchaseType :: purchase_type
  pu_receptionStatus :: reception_status
  pu_paymentStatus :: purchase_payment_status
  pu_requestedByUserId :: "string option"
  pu_approvedByUserId :: "string option"
  pu_approvedAt :: "int option"
  pu_rejectedByUserId :: "string option"
  pu_rejectedAt :: "int option"
  pu_rejectionReason :: "string option"
  pu_isRecurringSource :: bool
  pu_recurringTemplateId :: "string option"
  pu_requiresReceipt :: bool
  pu_requiresStockEntry :: bool
  pu_requiresAssetCreation :: bool
  pu_isActive :: bool
  pu_expectedAt :: "int option"
  pu_dateIssue :: "int option"
  pu_dateExpiration :: "int option"
  pu_createdAt :: "int option"
  pu_createdBy :: "string option"
  pu_imageProdution :: "string list"
  pu_receivedAt :: "int option"

text \<open>The parameters of a new purchase; what is left out is \<open>None\<close>.\<close>

record purchase_params =
  pn_supplierId :: string
  pn_warehouseId :: "string option"
  pn_creditDays :: "rat option"
  pn_numQuotas :: "rat option"
  pn_totalTaxed :: "rat option"
  pn_totalExempted :: "rat option"
  pn_totalIgv :: "rat option"
  pn_purchaseValue :: "rat option"
  pn_total :: "rat option"
  pn_documentType :: "voucher_type option"
  pn_serie :: "string option"
  pn_correlative :: "rat option"
  pn_currency :: "currency_type option"
  pn_paymentForm :: "payment_form option"
  pn_note :: "string option"
  pn_description :: "string option"
  pn_status :: "purchase_status option"
  pn_purchaseType :: "purchase_type option"
  pn_receptionStatus :: "reception_status option"
  pn_paymentStatus :: "purchase_payment_status option"
  pn_requestedByUserId :: "string option"
  pn_approvedByUserId :: "string option"
  pn_approvedAt :: "int option"
  pn_rejectedByUserId :: "string option"
  pn_rejectedAt :: "int option"
  pn_rejectionReason :: "string option"
  pn_isRecurringSource :: "bool option"
  pn_recurringTemplateId :: "string option"
  pn_requiresReceipt :: "bool option"
  pn_requiresStockEntry :: "bool option"
  pn_requiresAssetCreation :: "bool option"
  pn_isActive :: "bool option"
  pn_expectedAt :: "int option"
  pn_dateIssue :: "int option"
  pn_dateExpiration :: "int option"
  pn_createdAt :: "int option"
  pn_createdBy :: "string option"
  pn_imageProdution :: "string list option"
  pn_receivedAt :: "int option"

section \<open>The value objects\<close>

definition purchase_identifier :: "string \<Rightarrow> string \<Rightarrow> app_error + string" where
  "purchase_identifier message value =
     (let normalized = js_trim value
      in if normalized = '''' then Inl (PlainError message) else Inr normalized)"

definition purchase_count :: "string \<Rightarrow> rat \<Rightarrow> app_error + int" where
  "purchase_count message value =
     (if \<not> js_is_integer value \<or> value < 0 then Inl (PlainError message) else Inr \<lfloor>value\<rfloor>)"

definition purchase_document ::
  "voucher_type option \<Rightarrow> string option \<Rightarrow> rat option \<Rightarrow> app_error + (voucher_type \<times> string \<times> int) option" where
  "purchase_document documentType serie correlative =
     (let hasSerie = (trimmed serie \<noteq> None)
      in if documentType = None \<and> \<not> hasSerie \<and> correlative = None then Inr None
         else (case (documentType, trimmed serie, correlative) of
           (Some d, Some se, Some c) \<Rightarrow>
             if \<not> js_is_integer c \<or> c \<le> 0 then Inl (PlainError ''Correlativo invalido'')
             else Inr (Some (d, se, \<lfloor>c\<rfloor>))
         | _ \<Rightarrow> Inl (PlainError ''Documento de compra invalido'')))"

text \<open>The checks in the order in which the factory makes them.\<close>

definition and_then :: "'e + 'a \<Rightarrow> ('a \<Rightarrow> 'e + 'b) \<Rightarrow> 'e + 'b" where
  "and_then r f = (case r of Inl e \<Rightarrow> Inl e | Inr a \<Rightarrow> f a)"

lemma and_then_simps [simp]: "and_then (Inl e) f = Inl e" "and_then (Inr a) f = f a"
  by (simp_all add: and_then_def)

lemma and_then_Inr: "and_then r f = Inr b \<longleftrightarrow> (\<exists>a. r = Inr a \<and> f a = Inr b)"
  by (cases r) simp_all

definition createNew :: "purchase_params \<Rightarrow> app_error + purchase_order" where
  "createNew p =
     and_then (purchase_identifier ''Id de proveedor invalido'' (pn_supplierId p)) (\<lambda>supplierId.
     and_then (if filled (pn_warehouseId p) then
         and_then (purchase_identifier ''Id de almacen invalido'' (the (pn_warehouseId p))) (\<lambda>w. Inr (Some w))
       else Inr None) (\<lambda>warehouseId.
     and_then (purchase_count ''Dias de credito invalidos'' (given_or (pn_creditDays p) 0)) (\<lambda>creditDays.
     and_then (purchase_count ''Numero de cuotas invalido'' (given_or (pn_numQuotas p) 0)) (\<lambda>numQuotas.
     and_then (purchase_document (pn_documentType p) (pn_serie p) (pn_correlative p)) (\<lambda>document.
     and_then (purchase_money (given_or (pn_totalTaxed p) 0)) (\<lambda>taxed.
     and_then (purchase_money (given_or (pn_totalExempted p) 0)) (\<lambda>exempted.
     and_then (purchase_money (given_or (pn_totalIgv p) 0)) (\<lambda>igv.
     and_then (purchase_money (given_or (pn_purchaseValue p) 0)) (\<lambda>purchaseValue.
     and_then (purchase_money (given_or (pn_total p) 0)) (\<lambda>total.
       Inr \<lparr>pu_id = '''', pu_supplierId = supplierId, pu_warehouseId = warehouseId,
         pu_creditDays = creditDays, pu_numQuotas = numQuotas, pu_totalTaxed = taxed,
         pu_totalExempted = exempted, pu_totalIgv = igv, pu_purchaseValue = purchaseValue,
         pu_total = total, pu_document = document, pu_currency = given_or (pn_currency p) PEN,
         pu_paymentForm = pn_paymentForm p, pu_note = pn_note p, pu_description = pn_description p,
         pu_status = given_or (pn_status p) PurchaseDraft,
         pu_purchaseType = given_or (pn_purchaseType p) InventoryPurchase,
         pu_receptionStatus = given_or (pn_receptionStatus p) ReceptionPending,
         pu_paymentStatus = given_or (pn_paymentStatus p) PurchaseUnpaid,
         pu_requestedByUserId = pn_requestedByUserId p, pu_approvedByUserId = pn_approvedByUserId p,
         pu_approvedAt = pn_approvedAt p, pu_rejectedByUserId = pn_rejectedByUserId p,
         pu_rejectedAt = pn_rejectedAt p, pu_rejectionReason = pn_rejectionReason p,
         pu_isRecurringSource = given_or (pn_isRecurringSource p) False,
         pu_recurringTemplateId = pn_recurringTemplateId p,
         pu_requiresReceipt = given_or (pn_requiresReceipt p) True,
         pu_requiresStockEntry = given_or (pn_requiresStockEntry p) True,
         pu_requiresAssetCreation = given_or (pn_requiresAssetCreation p) False,
         pu_isActive = given_or (pn_isActive p) True, pu_expectedAt = pn_expectedAt p,
         pu_dateIssue = pn_dateIssue p, pu_dateExpiration = pn_dateExpiration p,
         pu_createdAt = pn_createdAt p, pu_createdBy = pn_createdBy p,
         pu_imageProdution = given_or (pn_imageProdution p) [], pu_receivedAt = pn_receivedAt p\<rparr>))))))))))"

end
