(* ===== verification/RecurringPurchases.thy ===== *)
theory RecurringPurchases
  imports RecurringDates Purchases PaymentCreation
begin

text \<open>
  Recurring purchases: the template of
  \<open>recurring-purchases/domain/entity/recurring-purchase-template.ts\<close>, its repository, the use
  cases that edit a template, bill its current period and register a payment for it, and the
  daily job with its reminders. Users with a permission are an argument of the operations.
\<close>

section \<open>The template\<close>

datatype recurring_status = RecurringActive | RecurringPaused | RecurringCancelled

record recurring_template =
  rc_id :: string
  rc_supplierId :: string
  rc_name :: string
  rc_description :: "string option"
  rc_frequency :: recurring_frequency
  rc_purchaseType :: purchase_type
  rc_currency :: currency_type
  rc_amount :: rat
  rc_startDate :: int
  rc_nextDueDate :: int
  rc_billingAnchorDay :: rat
  rc_status :: recurring_status
  rc_reminderDaysBefore :: "rat list"
  rc_createdByUserId :: "string option"
  rc_lastGeneratedAt :: "int option"
  rc_lastGeneratedPeriodKey :: "string option"
  rc_lastGeneratedPurchaseId :: "string option"
  rc_lastGeneratedAccountPayableId :: "string option"
  rc_createdAt :: "int option"
  rc_updatedAt :: "int option"

record template_params =
  rq_recurringPurchaseTemplateId :: "string option"
  rq_supplierId :: string
  rq_name :: string
  rq_description :: "string option"
  rq_frequency :: recurring_frequency
  rq_purchaseType :: "purchase_type option"
  rq_currency :: currency_type
  rq_amount :: rat
  rq_startDate :: int
  rq_nextDueDate :: "int option"
  rq_billingAnchorDay :: "rat option"
  rq_status :: "recurring_status option"
  rq_reminderDaysBefore :: "rat list option"
  rq_createdByUserId :: "string option"
  rq_lastGeneratedAt :: "int option"
  rq_lastGeneratedPeriodKey :: "string option"
  rq_lastGeneratedPurchaseId :: "string option"
  rq_lastGeneratedAccountPayableId :: "string option"
  rq_createdAt :: "int option"
  rq_updatedAt :: "int option"

definition DEFAULT_REMINDER_DAYS :: "rat list" where
  "DEFAULT_REMINDER_DAYS = [7, 3, 1, 0]"

definition reminder_days :: "rat list option \<Rightarrow> rat list" where
  "reminder_days given =
     (let days = (case given of Some (d # ds) \<Rightarrow> d # ds | _ \<Rightarrow> DEFAULT_REMINDER_DAYS)
      in sort_key (\<lambda>d. - d) (filter (\<lambda>d. js_is_integer d \<and> 0 \<le> d) days))"

definition template_create :: "string \<Rightarrow> template_params \<Rightarrow> app_error + recurring_template" where
  "template_create uuid p =
     (if js_trim (rq_supplierId p) = '''' then Inl (PlainError ''La recurrencia debe tener proveedor'')
      else if js_trim (rq_name p) = '''' then Inl (PlainError ''La recurrencia debe tener nombre'')
      else if rq_amount p \<le> 0 then Inl (PlainError ''El monto recurrente debe ser mayor a cero'')
      else
        let anchor = given_or (rq_billingAnchorDay p) (of_int (getBillingAnchorDay (rq_startDate p)))
        in if \<not> js_is_integer anchor \<or> anchor < 1 \<or> anchor > 31 then
             Inl (PlainError ''El dia ancla de facturacion no es valido'')
           else Inr \<lparr>rc_id = given_or (rq_recurringPurchaseTemplateId p) uuid,
             rc_supplierId = rq_supplierId p, rc_name = js_trim (rq_name p),
             rc_description = trimmed (rq_description p), rc_frequency = rq_frequency p,
             rc_purchaseType = given_or (rq_purchaseType p) SubscriptionPurchase,
             rc_currency = rq_currency p, rc_amount = rq_amount p, rc_startDate = rq_startDate p,
             rc_nextDueDate = given_or (rq_nextDueDate p)
               (calculateFirstRecurringDueDate (rq_startDate p) (rq_frequency p)),
             rc_billingAnchorDay = anchor, rc_status = given_or (rq_status p) RecurringActive,
             rc_reminderDaysBefore = reminder_days (rq_reminderDaysBefore p),
             rc_createdByUserId = rq_createdByUserId p, rc_lastGeneratedAt = rq_lastGeneratedAt p,
             rc_lastGeneratedPeriodKey = rq_lastGeneratedPeriodKey p,
             rc_lastGeneratedPurchaseId = rq_lastGeneratedPurchaseId p,
             rc_lastGeneratedAccountPayableId = rq_lastGeneratedAccountPayableId p,
             rc_createdAt = rq_createdAt p, rc_updatedAt = rq_updatedAt p\<rparr>)"

definition template_params_of :: "recurring_template \<Rightarrow> template_params" where
  "template_params_of t = \<lparr>rq_recurringPurchaseTemplateId = Some (rc_id t), rq_supplierId = rc_supplierId t,
     rq_name = rc_name t, rq_description = rc_description t, rq_frequency = rc_frequency t,
     rq_purchaseType = Some (rc_purchaseType t), rq_currency = rc_currency t, rq_amount = rc_amount t,
     rq_startDate = rc_startDate t, rq_nextDueDate = Some (rc_nextDueDate t),
     rq_billingAnchorDay = Some (rc_billingAnchorDay t), rq_status = Some (rc_status t),
     rq_reminderDaysBefore = Some (rc_reminderDaysBefore t), rq_createdByUserId = rc_createdByUserId t,
     rq_lastGeneratedAt = rc_lastGeneratedAt t, rq_lastGeneratedPeriodKey = rc_lastGeneratedPeriodKey t,
     rq_lastGeneratedPurchaseId = rc_lastGeneratedPurchaseId t,
     rq_lastGeneratedAccountPayableId = rc_lastGeneratedAccountPayableId t,
     rq_createdAt = rc_createdAt t, rq_updatedAt = rc_updatedAt t\<rparr>"

definition withState :: "recurring_status \<Rightarrow> int \<Rightarrow> recurring_template \<Rightarrow> app_error + recurring_template" where
  "withState st updatedAt t = template_create '''' (template_params_of (t\<lparr>rc_status := st, rc_updatedAt := Some updatedAt\<rparr>))"

definition pause_template :: "int \<Rightarrow> recurring_template \<Rightarrow> app_error + recurring_template" where
  "pause_template instant t =
     (if rc_status t = RecurringCancelled then Inl (PlainError ''No se puede pausar una recurrencia cancelada'')
      else withState RecurringPaused instant t)"

definition resume_template :: "int \<Rightarrow> recurring_template \<Rightarrow> app_error + recurring_template" where
  "resume_template instant t =
     (if rc_status t = RecurringCancelled then Inl (PlainError ''No se puede reanudar una recurrencia cancelada'')
      else withState RecurringActive instant t)"

definition cancel_template :: "int \<Rightarrow> recurring_template \<Rightarrow> app_error + recurring_template" where
  "cancel_template instant t = withState RecurringCancelled instant t"

definition isDue :: "int \<Rightarrow> recurring_template \<Rightarrow> bool" where
  "isDue instant t \<longleftrightarrow> rc_status t = RecurringActive \<and> rc_nextDueDate t \<le> instant"

definition currentPeriodKey :: "recurring_template \<Rightarrow> string" where
  "currentPeriodKey t = getRecurringPeriodKey (rc_nextDueDate t) (rc_frequency t)"

definition markGenerated ::
  "string \<Rightarrow> string \<Rightarrow> int \<Rightarrow> recurring_template \<Rightarrow> app_error + recurring_template" where
  "markGenerated purchaseId accountPayableId generatedAt t = template_create '''' (template_params_of
     (t\<lparr>rc_nextDueDate := calculateNextRecurringDueDate (rc_nextDueDate t) (rc_frequency t) \<lfloor>rc_billingAnchorDay t\<rfloor>,
        rc_lastGeneratedAt := Some generatedAt, rc_lastGeneratedPeriodKey := Some (currentPeriodKey t),
        rc_lastGeneratedPurchaseId := Some purchaseId,
        rc_lastGeneratedAccountPayableId := Some accountPayableId, rc_updatedAt := Some generatedAt\<rparr>))"

section \<open>The state\<close>

record reminder_delivery =
  rv_templateId :: string
  rv_periodKey :: string
  rv_dueDate :: int
  rv_daysBefore :: int
  rv_sentAt :: int

record billing =
  b_treasury :: treasury
  b_templates :: "recurring_template list"
  b_orders :: "purchase_order list"
  b_deliveries :: "reminder_delivery list"

type_synonym 'a billing_call = "(billing, app_error, 'a) effect"

definition on_treasury :: "'a call \<Rightarrow> 'a billing_call" where
  "on_treasury m s = (case m (b_treasury s) of (r, t) \<Rightarrow> (r, s\<lparr>b_treasury := t\<rparr>))"

section \<open>The repositories\<close>

text \<open>
  A \<open>date\<close> column keeps the calendar day that the process sees in its own time zone; the
  repository reads that day back as its midnight in UTC.
\<close>

definition stored_date :: "treasury \<Rightarrow> int \<Rightarrow> int" where
  "stored_date s t = t_localDay s t * ms_per_day"

definition template_toDomain :: "recurring_template \<Rightarrow> app_error + recurring_template" where
  "template_toDomain row = template_create '''' (template_params_of row)"

definition templates_save :: "recurring_template \<Rightarrow> recurring_template billing_call" where
  "templates_save t =
     ebind (elift (numeric_12_2 (rc_amount t))) (\<lambda>amount.
     ethen (emodify (\<lambda>s. s\<lparr>b_templates := save_by rc_id
         (t\<lparr>rc_amount := amount, rc_startDate := stored_date (b_treasury s) (rc_startDate t),
            rc_nextDueDate := stored_date (b_treasury s) (rc_nextDueDate t)\<rparr>) (b_templates s)\<rparr>))
       (elift (template_toDomain t)))"

definition templates_create :: "recurring_template \<Rightarrow> recurring_template billing_call" where
  "templates_create t =
     ebind (on_treasury clock_now) (\<lambda>instant.
       templates_save (t\<lparr>rc_createdAt := Some (given_or (rc_createdAt t) instant),
         rc_updatedAt := Some (given_or (rc_updatedAt t) instant)\<rparr>))"

definition templates_findById :: "string \<Rightarrow> recurring_template option billing_call" where
  "templates_findById i = ebind (ereads (\<lambda>s. find_by rc_id i (b_templates s))) (\<lambda>row.
     case row of None \<Rightarrow> ereturn None
     | Some r \<Rightarrow> ebind (elift (template_toDomain r)) (\<lambda>t. ereturn (Some t)))"

definition active_templates :: "(int \<Rightarrow> bool) \<Rightarrow> billing \<Rightarrow> recurring_template list" where
  "active_templates due s = sort_key rc_nextDueDate
     (filter (\<lambda>t. rc_status t = RecurringActive \<and> due (day_of_instant (rc_nextDueDate t))) (b_templates s))"

definition findDueForGeneration :: "int \<Rightarrow> recurring_template list billing_call" where
  "findDueForGeneration instant =
     ebind (ereads (active_templates (\<lambda>d. d \<le> day_of_instant instant))) (\<lambda>rows.
       elift (traverse template_toDomain rows))"

definition findDueForReminderWindows :: "int \<Rightarrow> int list \<Rightarrow> recurring_template list billing_call" where
  "findDueForReminderWindows instant windowsDaysBefore =
     (let maxWindow = Max (set (0 # filter (\<lambda>v. 0 \<le> v) windowsDaysBefore));
          today = day_of_instant instant
      in ebind (ereads (active_templates (\<lambda>d. today \<le> d \<and> d \<le> today + maxWindow))) (\<lambda>rows.
           elift (traverse template_toDomain rows)))"

definition purchases_create :: "purchase_order \<Rightarrow> purchase_order billing_call" where
  "purchases_create p =
     ebind (on_treasury new_uuid) (\<lambda>uuid.
     ebind (on_treasury clock_now) (\<lambda>instant.
     ebind (elift (traverse numeric_12_2 [pu_totalTaxed p, pu_totalExempted p, pu_totalIgv p,
       pu_purchaseValue p, pu_total p])) (\<lambda>_.
     ebind (elift (traverse int_column [of_int (pu_creditDays p), of_int (pu_numQuotas p),
       of_int (case pu_document p of None \<Rightarrow> 0 | Some (_, _, c) \<Rightarrow> c)])) (\<lambda>_.
     ebind (ereads (\<lambda>s. pu_document p \<noteq> None \<and> pu_document p \<in> pu_document ` set (b_orders s))) (\<lambda>duplicate.
     let row = p\<lparr>pu_id := uuid, pu_createdAt := Some (given_or (pu_createdAt p) instant)\<rparr>
     in ethen (eguard (\<not> duplicate) QueryFailed)
        (ethen (emodify (\<lambda>s. s\<lparr>b_orders := b_orders s @ [row], b_treasury := (b_treasury s)\<lparr>t_purchases :=
            t_purchases (b_treasury s) @ [\<lparr>ph_id = uuid, ph_supplierId = Some (pu_supplierId p),
              ph_approvalStatus = ApprovalNotRequired\<rparr>]\<rparr>\<rparr>))
          (ereturn row)))))))"

definition hasDelivery :: "reminder_delivery \<Rightarrow> bool billing_call" where
  "hasDelivery key = ereads (\<lambda>s. \<exists>d \<in> set (b_deliveries s). rv_templateId d = rv_templateId key \<and>
     rv_periodKey d = rv_periodKey key \<and> rv_dueDate d = rv_dueDate key \<and> rv_daysBefore d = rv_daysBefore key)"

text \<open>\<open>ON CONFLICT DO NOTHING\<close> on the unique key of a delivery.\<close>

definition recordDelivery :: "reminder_delivery \<Rightarrow> unit billing_call" where
  "recordDelivery d = ebind (hasDelivery d) (\<lambda>known.
     ewhen (\<not> known) (emodify (\<lambda>s. s\<lparr>b_deliveries := b_deliveries s @ [d]\<rparr>)))"

section \<open>Editing templates\<close>

definition create_recurring_purchase :: "template_params \<Rightarrow> recurring_template billing_call" where
  "create_recurring_purchase input =
     ebind (on_treasury new_uuid) (\<lambda>uuid. ebind (elift (template_create uuid input)) templates_create)"

definition with_template ::
  "string \<Rightarrow> string \<Rightarrow> (recurring_template \<Rightarrow> 'a billing_call) \<Rightarrow> 'a billing_call" where
  "with_template i message f = ebind (templates_findById i) (\<lambda>found. case found of
     None \<Rightarrow> ethrow (NotFoundException message) | Some t \<Rightarrow> f t)"

text \<open>The anchor day is taken from the start date again, and a missing due date is the first one.\<close>

definition update_recurring_purchase :: "string \<Rightarrow> template_params \<Rightarrow> recurring_template billing_call" where
  "update_recurring_purchase i input = with_template i ''Compra recurrente no encontrada'' (\<lambda>existing.
     ebind (on_treasury clock_now) (\<lambda>instant.
     ebind (elift (template_create '''' (input\<lparr>rq_recurringPurchaseTemplateId := Some (rc_id existing),
         rq_billingAnchorDay := None, rq_status := Some (rc_status existing),
         rq_createdByUserId := rc_createdByUserId existing, rq_lastGeneratedAt := rc_lastGeneratedAt existing,
         rq_lastGeneratedPeriodKey := rc_lastGeneratedPeriodKey existing,
         rq_lastGeneratedPurchaseId := rc_lastGeneratedPurchaseId existing,
         rq_lastGeneratedAccountPayableId := rc_lastGeneratedAccountPayableId existing,
         rq_createdAt := rc_createdAt existing, rq_updatedAt := Some instant\<rparr>))) templates_save))"

definition change_template ::
  "(int \<Rightarrow> recurring_template \<Rightarrow> app_error + recurring_template) \<Rightarrow> string \<Rightarrow> recurring_template billing_call" where
  "change_template change i = with_template i ''Recurrencia no encontrada'' (\<lambda>t.
     ebind (on_treasury clock_now) (\<lambda>instant. ebind (elift (change instant t)) templates_save))"

definition pause_recurring_purchase :: "string \<Rightarrow> recurring_template billing_call" where
  "pause_recurring_purchase = change_template pause_template"

definition resume_recurring_purchase :: "string \<Rightarrow> recurring_template billing_call" where
  "resume_recurring_purchase = change_template resume_template"

definition cancel_recurring_purchase :: "string \<Rightarrow> recurring_template billing_call" where
  "cancel_recurring_purchase = change_template cancel_template"

section \<open>Billing the current period\<close>

datatype generation =
    NotGenerated string "string option" "string option"
  | Generated string string recurring_template

definition recurring_purchase_params :: "recurring_template \<Rightarrow> string option \<Rightarrow> int \<Rightarrow> purchase_params" where
  "recurring_purchase_params t createdBy instant = \<lparr>pn_supplierId = rc_supplierId t, pn_warehouseId = None,
     pn_creditDays = None, pn_numQuotas = None, pn_totalTaxed = Some (rc_amount t),
     pn_totalExempted = None, pn_totalIgv = None, pn_purchaseValue = Some (rc_amount t),
     pn_total = Some (rc_amount t), pn_documentType = None, pn_serie = None, pn_correlative = None,
     pn_currency = Some (rc_currency t), pn_paymentForm = Some Credito,
     pn_note = Some (given_or (rc_description t) (rc_name t)), pn_description = None, pn_status = None,
     pn_purchaseType = Some (rc_purchaseType t), pn_receptionStatus = Some ReceptionNotRequired,
     pn_paymentStatus = Some PurchaseUnpaid, pn_requestedByUserId = None, pn_approvedByUserId = None,
     pn_approvedAt = None, pn_rejectedByUserId = None, pn_rejectedAt = None, pn_rejectionReason = None,
     pn_isRecurringSource = Some True, pn_recurringTemplateId = Some (rc_id t),
     pn_requiresReceipt = Some False, pn_requiresStockEntry = Some False,
     pn_requiresAssetCreation = None, pn_isActive = None, pn_expectedAt = None,
     pn_dateIssue = Some instant, pn_dateExpiration = Some (rc_nextDueDate t), pn_createdAt = None,
     pn_createdBy = createdBy, pn_imageProdution = None, pn_receivedAt = None\<rparr>"

definition recurring_payable_input :: "recurring_template \<Rightarrow> string option \<Rightarrow> string \<Rightarrow> create_payable_input" where
  "recurring_payable_input t createdBy purchaseId = \<lparr>ci_purchaseId = purchaseId, ci_quotaId = None,
     ci_supplierId = Some (rc_supplierId t),
     ci_description = Some (rc_name t @ '' - periodo '' @ currentPeriodKey t),
     ci_currency = rc_currency t, ci_amountTotal = rc_amount t,
     ci_dueDate = Some (Instant (rc_nextDueDate t)), ci_createdByUserId = createdBy\<rparr>"

text \<open>
  What happens once a template is found to be due: the purchase, its payable, the template moved
  to its next due date, the row of history and the notification. The code writes the last two
  on connections of their own, outside the transaction; in the model nothing after them throws, so
  that they stay exactly when the rest is committed.
\<close>

definition bill_period ::
  "recurring_template \<Rightarrow> string option \<Rightarrow> int \<Rightarrow> string list \<Rightarrow> generation billing_call" where
  "bill_period t generatedBy instant recipients =
     (let createdBy = (if generatedBy = None then rc_createdByUserId t else generatedBy)
      in ebind (elift (createNew (recurring_purchase_params t createdBy instant))) (\<lambda>order.
         ebind (purchases_create order) (\<lambda>purchase.
         ebind (on_treasury (create_account_payable (recurring_payable_input t createdBy (pu_id purchase)))) (\<lambda>payable.
         ebind (elift (markGenerated (pu_id purchase) (ap_id payable) instant t)) (\<lambda>next.
         ebind (templates_save next) (\<lambda>updated.
         ethen (on_treasury (recordPayment (pu_id purchase) ''PAYABLE_CREATED'' createdBy None None))
         (ethen (ewhen (recipients \<noteq> []) (on_treasury (createNotificationForUsers recipients
             ''Cuenta por pagar recurrente generada'' (Some (rc_id t)))))
           (ereturn (Generated (pu_id purchase) (ap_id payable) updated)))))))))"

definition generate_current_payable ::
  "string \<Rightarrow> string option \<Rightarrow> int \<Rightarrow> string list \<Rightarrow> generation billing_call" where
  "generate_current_payable templateId generatedBy instant recipients = transaction (
     with_template templateId ''Recurrencia no encontrada'' (\<lambda>t.
       if \<not> isDue instant t then
         ereturn (NotGenerated ''NOT_DUE'' (rc_lastGeneratedPurchaseId t) (rc_lastGeneratedAccountPayableId t))
       else if rc_lastGeneratedPeriodKey t = Some (currentPeriodKey t) then
         ereturn (NotGenerated ''ALREADY_GENERATED'' (rc_lastGeneratedPurchaseId t)
           (rc_lastGeneratedAccountPayableId t))
       else bill_period t generatedBy instant recipients))"

section \<open>Registering a payment\<close>

definition register_recurring_payment ::
  "(string \<Rightarrow> int option) \<Rightarrow> string \<Rightarrow> string \<Rightarrow> bool \<Rightarrow> string list \<Rightarrow> payment_input \<Rightarrow>
   (string \<times> string \<times> string) billing_call" where
  "register_recurring_payment pd templateId userId canApprove recipients payment =
     with_template templateId ''Recurrencia no encontrada'' (\<lambda>t.
     ebind (if \<not> filled (rc_lastGeneratedPurchaseId t) \<or> \<not> filled (rc_lastGeneratedAccountPayableId t) \<or>
          rc_lastGeneratedPeriodKey t \<noteq> Some (currentPeriodKey t)
        then ebind (generate_current_payable templateId (Some userId) (rc_nextDueDate t) recipients) (\<lambda>generated.
          case generated of
            Generated purchaseId payableId _ \<Rightarrow> ereturn (purchaseId, payableId)
          | NotGenerated _ _ _ \<Rightarrow>
              ethrow (BadRequestException ''No se pudo generar la cuenta por pagar recurrente''))
        else ereturn (the (rc_lastGeneratedPurchaseId t), the (rc_lastGeneratedAccountPayableId t)))
       (\<lambda>(purchaseId, payableId).
     ebind (on_treasury clock_now) (\<lambda>instant.
     ebind (on_treasury (create_payment pd
         (payment\<lparr>pi_poId := Some purchaseId, pi_accountPayableId := Some payableId,
            pi_paidByUserId := Some userId,
            pi_paidAt := (if pi_paidAt payment = None then Some (pi_date payment) else pi_paidAt payment)\<rparr>)
         (Some purchaseId)
         \<lparr>op_status = Some (if canApprove then APPROVED else PENDING_APPROVAL),
          op_requestedByUserId = Some userId, op_approvedByUserId = (if canApprove then Some userId else None),
          op_approvedAt = (if canApprove then Some instant else None), op_scheduledByUserId = None\<rparr>)) (\<lambda>paymentId.
     ethen (ewhen canApprove (on_treasury (recalculate payableId)))
       (ereturn (paymentId, purchaseId, payableId))))))"

section \<open>The daily job\<close>

fun generate_all :: "recurring_template list \<Rightarrow> int \<Rightarrow> string list \<Rightarrow> nat billing_call" where
  "generate_all [] instant recipients = ereturn 0"
| "generate_all (t # ts) instant recipients =
     ebind (generate_current_payable (rc_id t) (rc_createdByUserId t) instant recipients) (\<lambda>result.
     ebind (generate_all ts instant recipients) (\<lambda>generated.
       ereturn (case result of Generated _ _ _ \<Rightarrow> Suc generated | NotGenerated _ _ _ \<Rightarrow> generated)))"

definition days_until_due :: "recurring_template \<Rightarrow> int \<Rightarrow> int" where
  "days_until_due t instant = \<lceil>of_int (rc_nextDueDate t - instant) / (of_int ms_per_day :: rat)\<rceil>"

definition reminder_title :: "int \<Rightarrow> string" where
  "reminder_title days =
     (if days \<le> 0 then ''Compra recurrente vence hoy''
      else if days = 1 then ''Compra recurrente urgente'' else ''Compra recurrente por vencer'')"

fun send_reminders :: "recurring_template list \<Rightarrow> int \<Rightarrow> string list \<Rightarrow> nat billing_call" where
  "send_reminders [] instant recipients = ereturn 0"
| "send_reminders (t # ts) instant recipients =
     (let days = days_until_due t instant
      in if rc_lastGeneratedPeriodKey t = Some (currentPeriodKey t) \<or>
            of_int days \<notin> set (rc_reminderDaysBefore t)
         then send_reminders ts instant recipients
         else
           ebind (ereads (\<lambda>s. \<lparr>rv_templateId = rc_id t, rv_periodKey = currentPeriodKey t,
             rv_dueDate = stored_date (b_treasury s) (rc_nextDueDate t), rv_daysBefore = days,
             rv_sentAt = instant\<rparr>)) (\<lambda>key.
           ebind (hasDelivery key) (\<lambda>known.
             if known \<or> recipients = [] then send_reminders ts instant recipients
             else
               ethen (on_treasury (createNotificationForUsers recipients (reminder_title days) (Some (rc_id t))))
               (ethen (recordDelivery key)
               (ebind (send_reminders ts instant recipients) (\<lambda>sent. ereturn (Suc sent)))))))"

definition REMINDER_WINDOWS_DAYS_BEFORE :: "int list" where
  "REMINDER_WINDOWS_DAYS_BEFORE = [7, 3, 1, 0]"

definition recurring_daily_job :: "int \<Rightarrow> string list \<Rightarrow> (nat \<times> nat) billing_call" where
  "recurring_daily_job instant recipients =
     ebind (findDueForGeneration instant) (\<lambda>due.
     ebind (generate_all due instant recipients) (\<lambda>generated.
     ebind (findDueForReminderWindows instant REMINDER_WINDOWS_DAYS_BEFORE) (\<lambda>templates.
     ebind (send_reminders templates instant recipients) (\<lambda>reminders.
       ereturn (generated, reminders)))))"

end
