(* ===== verification/RecurringLaws.thy ===== *)
theory RecurringLaws
  imports RecurringPurchases TreasuryRuns
begin

text \<open>
  The operations on recurring purchases as one machine, and what every sequence of them keeps:
  a template moves along its due dates, one period at a time, and bills each period it leaves
  once. The laws of payables and payments enter through what they do to the treasury inside.
\<close>

section \<open>Payments leave the calendar alone\<close>

abbreviation same_calendar :: "treasury \<Rightarrow> treasury \<Rightarrow> bool" where
  "same_calendar s t \<equiv> t_localDay t = t_localDay s"

interpretation calendar: preorder_on_states same_calendar
  by unfold_locales simp_all

lemma calendar_write: "(\<And>s. t_localDay (g s) = t_localDay s) \<Longrightarrow> settled_by same_calendar (emodify g)"
  by (rule calendar.settles_modify)

lemma calendar_new_uuid: "settled_by same_calendar new_uuid"
  by (simp add: settles_def new_uuid_def)

lemmas calendar_rules = calendar.settles_throw calendar.settles_return calendar.settles_reads calendar.settles_guard
  calendar.settles_lift calendar.settles_then calendar.settles_when calendar.settles_map_error
  calendar.settles_transaction calendar.settles_for calendar.settled_bind settles_cases calendar_new_uuid

lemma calendar_parts:
  "settled_by same_calendar clock_now"
  "settled_by same_calendar (payables_findById i)"
  "settled_by same_calendar (findByPurchaseAndQuota po q)"
  "settled_by same_calendar (findApprovedByAccountPayableId i)"
  "settled_by same_calendar (quotas_findById k)"
  "settled_by same_calendar (save_payable a)"
  "settled_by same_calendar (save_payment d)"
  "settled_by same_calendar (save_allocation i j x cur)"
  "settled_by same_calendar (updateTotalPaid k x)"
  "settled_by same_calendar (updatePaymentDate k dt)"
  "settled_by same_calendar (recordPayment po ty u v w)"
  "settled_by same_calendar (createNotificationForUsers us title src)"
  unfolding clock_now_def payables_findById_def payable_found_def findByPurchaseAndQuota_def
    findApprovedByAccountPayableId_def quotas_findById_def save_payable_def save_payment_def save_allocation_def
    updateTotalPaid_def updatePaymentDate_def recordPayment_def createNotificationForUsers_def
  by (intro calendar_rules calendar_write TrueI; simp)+

lemma calendar_payables:
  "settled_by same_calendar (recalculate i)" "settled_by same_calendar (create_account_payable input)"
  unfolding recalculate_def recalculate_account_payable_def create_account_payable_def payables_update_def
    payables_create_def Let_def
  by (intro calendar_rules calendar_parts TrueI)+

lemma calendar_create_payment: "settled_by same_calendar (create_payment pd input po opt)"
  unfolding create_payment_def register_payment_def check_open_balance_def check_quota_def store_payment_def
    link_payment_def payable_for_def payments_create_def Let_def
  by (intro calendar_rules calendar_parts calendar_payables TrueI)

section \<open>Operations and their sequences\<close>

datatype recurring_op =
    BillPeriod string "string option" int "string list"
  | PayRecurrence string string bool "string list" payment_input
  | PauseTemplate string
  | ResumeTemplate string
  | CancelTemplate string
  | DailyJob int "string list"

definition discarded :: "'a billing_call \<Rightarrow> unit billing_call" where
  "discarded m = ethen m (ereturn ())"

fun recurring_step :: "(string \<Rightarrow> int option) \<Rightarrow> recurring_op \<Rightarrow> unit billing_call" where
  "recurring_step pd (BillPeriod i g instant rs) = discarded (generate_current_payable i g instant rs)"
| "recurring_step pd (PayRecurrence i u can rs p) = discarded (register_recurring_payment pd i u can rs p)"
| "recurring_step pd (PauseTemplate i) = discarded (pause_recurring_purchase i)"
| "recurring_step pd (ResumeTemplate i) = discarded (resume_recurring_purchase i)"
| "recurring_step pd (CancelTemplate i) = discarded (cancel_recurring_purchase i)"
| "recurring_step pd (DailyJob instant rs) = discarded (recurring_daily_job instant rs)"

fun recurring_steps :: "(string \<Rightarrow> int option) \<Rightarrow> recurring_op list \<Rightarrow> billing \<Rightarrow> billing" where
  "recurring_steps pd [] s = s"
| "recurring_steps pd (c # cs) s = recurring_steps pd cs (snd (recurring_step pd c s))"

section \<open>Schedules\<close>

text \<open>The process runs in UTC and the template is due at a midnight of a year of the calendar.\<close>

definition on_schedule :: "string \<Rightarrow> billing \<Rightarrow> bool" where
  "on_schedule i s \<longleftrightarrow> t_localDay (b_treasury s) = day_of_instant \<and>
     (\<exists>r. find_by rc_id i (b_templates s) = Some r \<and> 100 \<le> utc_year (rc_nextDueDate r) \<and>
        time_in_day (rc_nextDueDate r) = 0 \<and> 1 \<le> rc_billingAnchorDay r)"

text \<open>The due dates billed for a template, in order.\<close>

definition billed :: "string \<Rightarrow> billing \<Rightarrow> int list" where
  "billed i s = map (\<lambda>p. the (pu_dateExpiration p))
     (filter (\<lambda>p. pu_recurringTemplateId p = Some i) (b_orders s))"

definition moves_on :: "nat \<Rightarrow> recurring_template \<Rightarrow> recurring_template \<Rightarrow> bool" where
  "moves_on n r r' \<longleftrightarrow> rc_frequency r' = rc_frequency r \<and> rc_billingAnchorDay r' = rc_billingAnchorDay r \<and>
     rc_nextDueDate r' = due_after (rc_frequency r) \<lfloor>rc_billingAnchorDay r\<rfloor> n (rc_nextDueDate r)"

definition dates_left :: "nat \<Rightarrow> recurring_template \<Rightarrow> int list" where
  "dates_left n r = map (\<lambda>k. due_after (rc_frequency r) \<lfloor>rc_billingAnchorDay r\<rfloor> k (rc_nextDueDate r)) [0..<n]"

definition bills_on :: "string \<Rightarrow> billing \<Rightarrow> billing \<Rightarrow> bool" where
  "bills_on i s s' \<longleftrightarrow> (on_schedule i s \<longrightarrow> on_schedule i s' \<and>
     (\<forall>r. find_by rc_id i (b_templates s) = Some r \<longrightarrow>
        (\<exists>r' n. find_by rc_id i (b_templates s') = Some r' \<and> moves_on n r r' \<and>
           billed i s' = billed i s @ dates_left n r)))"

lemma moves_on_0: "moves_on 0 r r" "dates_left 0 r = []"
  by (simp_all add: moves_on_def due_after_def dates_left_def)

lemma due_after_add: "due_after f a (m + n) t = due_after f a n (due_after f a m t)"
  by (simp add: due_after_def funpow_add [of n m] add.commute [of m n])

lemma moves_on_add: "moves_on m r r' \<Longrightarrow> moves_on n r' r'' \<Longrightarrow> moves_on (m + n) r r''"
  by (simp add: moves_on_def due_after_add)

lemma dates_left_add:
  assumes "moves_on m r r'"
  shows "dates_left (m + n) r = dates_left m r @ dates_left n r'"
proof -
  have "[0..<m + n] = [0..<m] @ map (\<lambda>k. m + k) [0..<n]" by (induction n) simp_all
  then show ?thesis using assms by (simp add: dates_left_def moves_on_def due_after_add o_def)
qed

lemma bills_on_refl: "bills_on i s s"
proof -
  have "find_by rc_id i (b_templates s) = Some r' \<and> moves_on 0 r' r' \<and> billed i s = billed i s @ dates_left 0 r'"
    if "find_by rc_id i (b_templates s) = Some r'" for r' using that by (simp add: moves_on_0)
  then show ?thesis unfolding bills_on_def by blast
qed

lemma bills_on_trans:
  assumes "bills_on i s t" "bills_on i t u"
  shows "bills_on i s u"
  unfolding bills_on_def
proof (intro impI conjI allI)
  assume s: "on_schedule i s"
  then have t: "on_schedule i t" using assms(1) by (simp add: bills_on_def)
  then show "on_schedule i u" using assms(2) by (simp add: bills_on_def)
  fix r assume r: "find_by rc_id i (b_templates s) = Some r"
  obtain r1 m where m: "find_by rc_id i (b_templates t) = Some r1" "moves_on m r r1"
      "billed i t = billed i s @ dates_left m r"
    using assms(1) s r unfolding bills_on_def by blast
  obtain r2 n where n: "find_by rc_id i (b_templates u) = Some r2" "moves_on n r1 r2"
      "billed i u = billed i t @ dates_left n r1"
    using assms(2) t m(1) unfolding bills_on_def by blast
  show "\<exists>r' n. find_by rc_id i (b_templates u) = Some r' \<and> moves_on n r r' \<and>
      billed i u = billed i s @ dates_left n r"
    using n m moves_on_add [OF m(2) n(2)] dates_left_add [OF m(2), of n]
    by (intro exI [of _ r2] exI [of _ "m + n"]) simp
qed

interpretation schedule: preorder_on_states "bills_on i" for i
  by unfold_locales (rule bills_on_refl, rule bills_on_trans)

text \<open>A step that leaves the template, its orders and the calendar alone.\<close>

lemma bills_on_same:
  assumes "find_by rc_id i (b_templates s') = find_by rc_id i (b_templates s)"
    and "billed i s' = billed i s" and "t_localDay (b_treasury s') = t_localDay (b_treasury s)"
  shows "bills_on i s s'"
  using assms bills_on_refl [of i s] by (simp add: bills_on_def on_schedule_def)

lemma schedule_on_treasury:
  assumes "settled_by same_calendar m"
  shows "settled_by (bills_on i) (on_treasury m)"
proof (rule settlesI)
  fix s :: billing
  have "same_calendar (b_treasury s) (snd (m (b_treasury s)))" by (rule settlesD [OF assms])
  from this show "bills_on i s (snd (on_treasury m s))"
    by (cases "m (b_treasury s)") (auto intro!: bills_on_same simp: on_treasury_def billed_def)
qed simp

lemmas schedule_rules = schedule.settles_throw schedule.settles_return schedule.settles_reads
  schedule.settles_guard schedule.settles_lift schedule.settles_then schedule.settles_when
  schedule.settles_transaction schedule.settled_bind settles_cases
  calendar_parts calendar_payables calendar_create_payment calendar_new_uuid schedule_on_treasury

section \<open>Templates\<close>

lemma template_create_Inr:
  assumes "template_create u p = Inr t"
  shows "rc_id t = given_or (rq_recurringPurchaseTemplateId p) u \<and> rc_frequency t = rq_frequency p \<and>
    rc_nextDueDate t = given_or (rq_nextDueDate p) (calculateFirstRecurringDueDate (rq_startDate p) (rq_frequency p)) \<and>
    rc_billingAnchorDay t = given_or (rq_billingAnchorDay p) (of_int (getBillingAnchorDay (rq_startDate p))) \<and>
    rc_status t = given_or (rq_status p) RecurringActive \<and> 1 \<le> rc_billingAnchorDay t \<and>
    rc_billingAnchorDay t \<le> 31 \<and> rc_lastGeneratedPeriodKey t = rq_lastGeneratedPeriodKey p \<and>
    rc_lastGeneratedPurchaseId t = rq_lastGeneratedPurchaseId p \<and>
    rc_lastGeneratedAccountPayableId t = rq_lastGeneratedAccountPayableId p \<and>
    rc_amount t = rq_amount p \<and> rc_supplierId t = rq_supplierId p"
  using assms by (auto simp: template_create_def Let_def split: if_splits)

text \<open>What the repository and the changes of status leave alone.\<close>

lemma template_toDomain_Inr:
  assumes "template_toDomain r = Inr t"
  shows "rc_id t = rc_id r \<and> moves_on 0 r t \<and> rc_status t = rc_status r \<and>
    1 \<le> rc_billingAnchorDay t \<and> rc_lastGeneratedPeriodKey t = rc_lastGeneratedPeriodKey r \<and>
    rc_lastGeneratedPurchaseId t = rc_lastGeneratedPurchaseId r \<and>
    rc_lastGeneratedAccountPayableId t = rc_lastGeneratedAccountPayableId r"
  using template_create_Inr [OF assms [unfolded template_toDomain_def]]
  by (simp add: template_params_of_def given_or_def moves_on_def due_after_def)

lemma withState_Inr:
  assumes "withState st instant r = Inr t"
  shows "rc_id t = rc_id r \<and> moves_on 0 r t \<and> 1 \<le> rc_billingAnchorDay t"
  using template_create_Inr [OF assms [unfolded withState_def]]
  by (simp add: template_params_of_def given_or_def moves_on_def due_after_def)

lemma markGenerated_Inr:
  assumes "markGenerated po ap instant r = Inr t"
  shows "rc_id t = rc_id r \<and> moves_on 1 r t \<and> 1 \<le> rc_billingAnchorDay t \<and>
    rc_lastGeneratedPeriodKey t = Some (currentPeriodKey r) \<and> rc_lastGeneratedPurchaseId t = Some po \<and>
    rc_lastGeneratedAccountPayableId t = Some ap \<and> rc_status t = rc_status r"
  using template_create_Inr [OF assms [unfolded markGenerated_def]]
  by (simp add: template_params_of_def given_or_def moves_on_def due_after_def)

text \<open>The row that is stored for a template.\<close>

definition stored_template :: "billing \<Rightarrow> recurring_template \<Rightarrow> rat \<Rightarrow> recurring_template" where
  "stored_template s t amount = t\<lparr>rc_amount := amount, rc_startDate := stored_date (b_treasury s) (rc_startDate t),
     rc_nextDueDate := stored_date (b_treasury s) (rc_nextDueDate t)\<rparr>"

lemma templates_save_state:
  "snd (templates_save t s) = s \<or>
   (\<exists>amount. snd (templates_save t s) = s\<lparr>b_templates := save_by rc_id (stored_template s t amount) (b_templates s)\<rparr>)"
proof (cases "numeric_12_2 (rc_amount t)")
  case (Inr x)
  then have "snd (templates_save t s) = s\<lparr>b_templates := save_by rc_id (stored_template s t x) (b_templates s)\<rparr>"
    by (simp add: templates_save_def ebind_def ethen_def elift_def emodify_def stored_template_def)
  then show ?thesis by blast
qed (simp add: templates_save_def ebind_def elift_def)

lemma templates_save_Inr:
  assumes "templates_save t s = (Inr u, s')"
  shows "template_toDomain t = Inr u \<and>
    (\<exists>amount. s' = s\<lparr>b_templates := save_by rc_id (stored_template s t amount) (b_templates s)\<rparr>)"
  using assms by (cases "numeric_12_2 (rc_amount t)")
     (auto simp: templates_save_def ebind_def ethen_def elift_def emodify_def stored_template_def)

lemma find_by_save_by: "find_by k i (save_by k r xs) = (if k r = i then Some r else find_by k i xs)"
  by (induction xs) (auto simp: find_by_def)

text \<open>In UTC the stored date is the date itself when it is a midnight.\<close>

lemma stored_midnight: "t_localDay s = day_of_instant \<Longrightarrow> time_in_day t = 0 \<Longrightarrow> stored_date s t = t"
  using instant_split [of t] by (simp add: stored_date_def)

text \<open>
  Saving a template that stands on its schedule, after a number of periods, with the orders it
  was billed in the meantime.
\<close>

lemma bills_on_save:
  assumes row: "find_by rc_id i (b_templates s) = Some r" and t: "moves_on n r t" "rc_id t = i" "1 \<le> rc_billingAnchorDay t"
    and s': "b_templates s' = save_by rc_id (stored_template s t amount) (b_templates s)"
      "billed i s' = billed i s @ dates_left n r" "t_localDay (b_treasury s') = t_localDay (b_treasury s)"
  shows "bills_on i s s'"
  unfolding bills_on_def
proof (intro impI)
  assume "on_schedule i s"
  then have u: "t_localDay (b_treasury s) = day_of_instant" and d: "100 \<le> utc_year (rc_nextDueDate r)"
    "time_in_day (rc_nextDueDate r) = 0" "1 \<le> rc_billingAnchorDay r"
    using row by (auto simp: on_schedule_def)
  then have "1 \<le> \<lfloor>rc_billingAnchorDay r\<rfloor>" by simp
  note due = due_after_month [OF d(1) this, of "rc_frequency r" n]
  let ?t = "stored_template s t amount"
  have t': "rc_id ?t = i" "rc_nextDueDate ?t = rc_nextDueDate t" "moves_on n r ?t"
    "rc_billingAnchorDay ?t = rc_billingAnchorDay t"
    using t due d(2) u by (simp_all add: stored_template_def stored_midnight moves_on_def)
  then have "find_by rc_id i (b_templates s') = Some ?t" by (simp add: s'(1) find_by_save_by)
  then show "on_schedule i s' \<and> (\<forall>r. find_by rc_id i (b_templates s) = Some r \<longrightarrow>
      (\<exists>r' n. find_by rc_id i (b_templates s') = Some r' \<and> moves_on n r r' \<and> billed i s' = billed i s @ dates_left n r))"
    using t' t u due d row s'(2,3) by (auto simp: on_schedule_def moves_on_def)
qed

lemma bills_on_save_other:
  assumes "b_templates s' = save_by rc_id t (b_templates s)" "rc_id t \<noteq> i"
    and "billed i s' = billed i s" and "t_localDay (b_treasury s') = t_localDay (b_treasury s)"
  shows "bills_on i s s'"
  using assms by (intro bills_on_same) (simp_all add: find_by_save_by)

section \<open>The operations follow the schedule\<close>

lemma with_template_cases:
  assumes "\<And>r t. find_by rc_id j (b_templates s) = Some r \<Longrightarrow> template_toDomain r = Inr t \<Longrightarrow> bills_on i s (snd (f t s))"
  shows "bills_on i s (snd (with_template j message f s))"
proof (cases "find_by rc_id j (b_templates s)")
  case None
  then show ?thesis
    by (simp add: with_template_def templates_findById_def ebind_def ereads_def ereturn_def ethrow_def bills_on_refl)
next
  case (Some r)
  then show ?thesis using assms [OF Some]
    by (cases "template_toDomain r") (simp_all add: with_template_def templates_findById_def ebind_def ereads_def
        elift_def ereturn_def bills_on_refl)
qed

lemma schedule_change:
  assumes change: "\<And>instant r t. change instant r = Inr t \<Longrightarrow>
    rc_id t = rc_id r \<and> moves_on 0 r t \<and> 1 \<le> rc_billingAnchorDay t"
  shows "settled_by (bills_on i) (change_template change j)"
  unfolding change_template_def
proof (rule settlesI)
  fix s
  show "bills_on i s (snd (with_template j ''Recurrencia no encontrada'' (\<lambda>t. ebind (on_treasury clock_now)
      (\<lambda>instant. ebind (elift (change instant t)) templates_save)) s))"
  proof (rule with_template_cases)
    fix r t assume r: "find_by rc_id j (b_templates s) = Some r" "template_toDomain r = Inr t"
    show "bills_on i s (snd (ebind (on_treasury clock_now) (\<lambda>instant. ebind (elift (change instant t)) templates_save) s))"
    proof (cases "change (t_clock (b_treasury s)) t")
      case (Inl e)
      then show ?thesis by (simp add: ebind_def on_treasury_def clock_now_def ereads_def elift_def bills_on_refl)
    next
      case (Inr u)
      have u: "rc_id u = j" "moves_on 0 r u" "1 \<le> rc_billingAnchorDay u"
        using change [OF Inr] template_toDomain_Inr [OF r(2)] find_by_SomeD [OF r(1)] moves_on_add [of 0 r t 0 u] by auto
      have "bills_on i s (snd (templates_save u s))"
      proof (cases "snd (templates_save u s) = s")
        case True
        then show ?thesis by (simp add: bills_on_refl)
      next
        case False
        then obtain amount where "snd (templates_save u s) =
            s\<lparr>b_templates := save_by rc_id (stored_template s u amount) (b_templates s)\<rparr>"
          using templates_save_state [of u s] by blast
        then show ?thesis
          using bills_on_save [of i s r 0 u _ amount] bills_on_save_other [of _ "stored_template s u amount" s i] r(1) u
          by (cases "i = j") (simp_all add: billed_def moves_on_0 stored_template_def)
      qed
      then show ?thesis using Inr by (simp add: ebind_def on_treasury_def clock_now_def ereads_def elift_def)
    qed
  qed
qed simp

lemma schedule_pause: "settled_by (bills_on i) (pause_recurring_purchase j)"
  unfolding pause_recurring_purchase_def
  by (rule schedule_change) (auto simp: pause_template_def dest: withState_Inr split: if_splits)

lemma schedule_resume: "settled_by (bills_on i) (resume_recurring_purchase j)"
  unfolding resume_recurring_purchase_def
  by (rule schedule_change) (auto simp: resume_template_def dest: withState_Inr split: if_splits)

lemma schedule_cancel: "settled_by (bills_on i) (cancel_recurring_purchase j)"
  unfolding cancel_recurring_purchase_def
  by (rule schedule_change) (auto simp: cancel_template_def dest: withState_Inr)

section \<open>Billing a period\<close>

lemma on_treasury_frame:
  assumes "on_treasury m s = (r, s')" "settled_by same_calendar m"
  shows "b_templates s' = b_templates s \<and> b_orders s' = b_orders s \<and> b_deliveries s' = b_deliveries s \<and>
    t_localDay (b_treasury s') = t_localDay (b_treasury s)"
  using assms(1) settlesD [OF assms(2), of "b_treasury s"]
  by (cases "m (b_treasury s)") (auto simp: on_treasury_def)

lemma createNew_Inr:
  assumes "createNew p = Inr order"
  shows "pu_recurringTemplateId order = pn_recurringTemplateId p \<and> pu_dateExpiration order = pn_dateExpiration p"
  using assms by (auto simp: createNew_def and_then_Inr)

lemma purchases_create_Inr:
  assumes "purchases_create p s = (Inr row, s')"
  shows "b_orders s' = b_orders s @ [row] \<and> pu_recurringTemplateId row = pu_recurringTemplateId p \<and>
    pu_dateExpiration row = pu_dateExpiration p \<and> b_templates s' = b_templates s \<and>
    t_localDay (b_treasury s') = t_localDay (b_treasury s)"
  using assms by (auto simp: purchases_create_def effect_Inr Let_def
      dest!: on_treasury_frame [OF _ calendar_new_uuid] on_treasury_frame [OF _ calendar_parts(1)])

lemma bill_period_Inr:
  assumes "bill_period t g instant rs s = (Inr x, s')"
  shows "\<exists>po ap u p amount. markGenerated po ap instant t = Inr u \<and> b_orders s' = b_orders s @ [p] \<and>
    pu_recurringTemplateId p = Some (rc_id t) \<and> pu_dateExpiration p = Some (rc_nextDueDate t) \<and>
    b_templates s' = save_by rc_id (stored_template s u amount) (b_templates s) \<and>
    t_localDay (b_treasury s') = t_localDay (b_treasury s)"
proof -
  define by' where "by' = (if g = None then rc_createdByUserId t else g)"
  obtain order p s1 ap s2 u v s3 w s4 where
    order: "createNew (recurring_purchase_params t by' instant) = Inr order" and
    p: "purchases_create order s = (Inr p, s1)" and
    ap: "on_treasury (create_account_payable (recurring_payable_input t by' (pu_id p))) s1 = (Inr ap, s2)" and
    u: "markGenerated (pu_id p) (ap_id ap) instant t = Inr u" and
    v: "templates_save u s2 = (Inr v, s3)" and
    w: "on_treasury (recordPayment (pu_id p) ''PAYABLE_CREATED'' by' None None) s3 = (Inr w, s4)" and
    n: "(if rs \<noteq> [] then on_treasury (createNotificationForUsers rs ''Cuenta por pagar recurrente generada''
          (Some (rc_id t))) s4 = (Inr (), s') else s' = s4)"
    using assms unfolding bill_period_def Let_def by'_def [symmetric] by (auto simp: effect_Inr)
  obtain amount where "s3 = s2\<lparr>b_templates := save_by rc_id (stored_template s2 u amount) (b_templates s2)\<rparr>"
    using templates_save_Inr [OF v] by blast
  moreover have "b_templates s' = b_templates s4 \<and> b_orders s' = b_orders s4 \<and>
      t_localDay (b_treasury s') = t_localDay (b_treasury s4)"
    using n by (auto split: if_splits dest: on_treasury_frame [OF _ calendar_parts(12)])
  ultimately show ?thesis
    using createNew_Inr [OF order] purchases_create_Inr [OF p] on_treasury_frame [OF ap calendar_payables(2)]
      on_treasury_frame [OF w calendar_parts(11)] u
    by (intro exI [of _ "pu_id p"] exI [of _ "ap_id ap"] exI [of _ u] exI [of _ p] exI [of _ amount])
      (simp add: recurring_purchase_params_def stored_template_def stored_date_def)
qed

text \<open>A generation that returns: nothing happened, or the period was billed.\<close>

lemma bill_period_Generated:
  assumes "bill_period t g instant rs s = (Inr x, s')"
  shows "\<exists>po ap u. x = Generated po ap u"
  using assms by (auto simp: bill_period_def Let_def effect_Inr split: if_splits)

lemma generate_Inr:
  assumes "generate_current_payable j g instant rs s = (Inr x, s')"
  obtains r t where "find_by rc_id j (b_templates s) = Some r" "template_toDomain r = Inr t"
    "s' = s \<and> (\<forall>po ap u. x \<noteq> Generated po ap u) \<or>
     isDue instant t \<and> rc_lastGeneratedPeriodKey t \<noteq> Some (currentPeriodKey t) \<and> bill_period t g instant rs s = (Inr x, s')"
proof -
  let ?f = "\<lambda>t. if \<not> isDue instant t then ereturn (NotGenerated ''NOT_DUE'' (rc_lastGeneratedPurchaseId t)
        (rc_lastGeneratedAccountPayableId t))
      else if rc_lastGeneratedPeriodKey t = Some (currentPeriodKey t) then
        ereturn (NotGenerated ''ALREADY_GENERATED'' (rc_lastGeneratedPurchaseId t) (rc_lastGeneratedAccountPayableId t))
      else bill_period t g instant rs"
  have "with_template j ''Recurrencia no encontrada'' ?f s = (Inr x, s')"
    using assms unfolding generate_current_payable_def transaction_Inr .
  then obtain r t where r: "find_by rc_id j (b_templates s) = Some r" "template_toDomain r = Inr t"
      and body: "?f t s = (Inr x, s')"
    by (auto simp: with_template_def templates_findById_def effect_Inr split: option.splits)
  show thesis using body by (intro that [OF r]) (auto simp: effect_Inr split: if_splits)
qed

lemma transaction_keeps: "transaction m s = (Inl e, s') \<Longrightarrow> s' = s"
  using transaction_Inl [of m s e] by simp

lemma generate_Inl: "generate_current_payable j g instant rs s = (Inl e, s') \<Longrightarrow> s' = s"
  unfolding generate_current_payable_def by (drule transaction_keeps)

text \<open>The rows of a period that was billed.\<close>

lemma billed_period:
  assumes "generate_current_payable j g instant rs s = (Inr (Generated po ap v), s')"
  obtains r u amount where "find_by rc_id j (b_templates s) = Some r" "moves_on 1 r u" "rc_id u = j"
    "rc_lastGeneratedPeriodKey u = Some (currentPeriodKey r)" "1 \<le> rc_billingAnchorDay u"
    "b_templates s' = save_by rc_id (stored_template s u amount) (b_templates s)"
    "t_localDay (b_treasury s') = t_localDay (b_treasury s)" "rc_status u = rc_status r"
    "billed j s' = billed j s @ dates_left 1 r"
proof -
  obtain r t where r: "find_by rc_id j (b_templates s) = Some r" "template_toDomain r = Inr t"
      and run: "bill_period t g instant rs s = (Inr (Generated po ap v), s')"
    using generate_Inr [OF assms] by (metis (no_types, lifting))
  obtain po' ap' u p amount where u: "markGenerated po' ap' instant t = Inr u" and
    p: "b_orders s' = b_orders s @ [p]" "pu_recurringTemplateId p = Some (rc_id t)"
      "pu_dateExpiration p = Some (rc_nextDueDate t)" and
    t': "b_templates s' = save_by rc_id (stored_template s u amount) (b_templates s)"
      "t_localDay (b_treasury s') = t_localDay (b_treasury s)"
    using bill_period_Inr [OF run] by blast
  have t: "rc_id t = j" "moves_on 0 r t" "rc_status t = rc_status r"
    using template_toDomain_Inr [OF r(2)] find_by_SomeD [OF r(1)] by auto
  have "currentPeriodKey t = currentPeriodKey r" using t(2) by (simp add: currentPeriodKey_def moves_on_def due_after_def)
  moreover have "billed j s' = billed j s @ dates_left 1 r"
    using p t by (simp add: billed_def dates_left_def moves_on_def due_after_def)
  ultimately show thesis
    using that [of r u amount] r(1) t markGenerated_Inr [OF u] t' moves_on_add [OF t(2), of 1 u] by simp
qed

lemma schedule_generate: "settled_by (bills_on i) (generate_current_payable j g instant rs)"
proof (rule settlesI)
  fix s
  show "bills_on i s (snd (generate_current_payable j g instant rs s))"
  proof (cases "fst (generate_current_payable j g instant rs s)")
    case (Inl e)
    then have "snd (generate_current_payable j g instant rs s) = s"
      using generate_Inl by (cases "generate_current_payable j g instant rs s") auto
    then show ?thesis by (simp add: bills_on_refl)
  next
    case (Inr x)
    then obtain s' where run: "generate_current_payable j g instant rs s = (Inr x, s')" by (metis prod.collapse)
    obtain r t where r: "find_by rc_id j (b_templates s) = Some r" "template_toDomain r = Inr t"
        and "s' = s \<or> bill_period t g instant rs s = (Inr x, s')"
      using generate_Inr [OF run] by metis
    then consider "s' = s" | "bill_period t g instant rs s = (Inr x, s')" by blast
    then have "bills_on i s s'"
    proof cases
      case 1
      then show ?thesis by (simp add: bills_on_refl)
    next
      case 2
      obtain po ap u p amount where u: "markGenerated po ap instant t = Inr u" and
        p: "b_orders s' = b_orders s @ [p]" "pu_recurringTemplateId p = Some (rc_id t)"
          "pu_dateExpiration p = Some (rc_nextDueDate t)" and
        t': "b_templates s' = save_by rc_id (stored_template s u amount) (b_templates s)"
          "t_localDay (b_treasury s') = t_localDay (b_treasury s)"
        using bill_period_Inr [OF 2] by blast
      have t: "rc_id t = j" "moves_on 0 r t" using template_toDomain_Inr [OF r(2)] find_by_SomeD [OF r(1)] by auto
      have id: "rc_id u = j" "moves_on 1 r u" "1 \<le> rc_billingAnchorDay u"
        using markGenerated_Inr [OF u] t moves_on_add [OF t(2), of 1 u] by auto
      show ?thesis
      proof (cases "i = j")
        case True
        have "billed i s' = billed i s @ dates_left 1 r"
          using p t True by (simp add: billed_def dates_left_def moves_on_def due_after_def)
        then show ?thesis using bills_on_save [of i s r 1 u s' amount] r(1) id t' True by simp
      next
        case False
        then show ?thesis using bills_on_save_other [OF t'(1), of i] id p t t'(2)
          by (auto simp: billed_def stored_template_def)
      qed
    qed
    then show ?thesis using run by simp
  qed
qed simp

section \<open>Payments, the daily job and sequences\<close>

lemma schedule_with_template:
  assumes "\<And>t. settled_by (bills_on i) (f t)"
  shows "settled_by (bills_on i) (with_template j message f)"
  unfolding with_template_def templates_findById_def
  by (intro schedule_rules assms TrueI)

lemma settles_generation:
  "(\<And>po ap t. x = Generated po ap t \<Longrightarrow> settles R Q (f po ap t)) \<Longrightarrow>
   (\<And>m po ap. x = NotGenerated m po ap \<Longrightarrow> settles R Q (g m po ap)) \<Longrightarrow>
   settles R Q (case x of Generated po ap t \<Rightarrow> f po ap t | NotGenerated m po ap \<Rightarrow> g m po ap)"
  by (cases x) simp_all

lemma schedule_register: "settled_by (bills_on i) (register_recurring_payment pd j u can rs p)"
  unfolding register_recurring_payment_def
  by (intro schedule_with_template schedule_rules schedule_generate settles_generation TrueI)

lemma schedule_generate_all: "settled_by (bills_on i) (generate_all ts instant rs)"
  by (induction ts) (auto intro!: schedule_rules schedule_generate)

lemma schedule_deliveries:
  "settled_by (bills_on i) (emodify (\<lambda>s. s\<lparr>b_deliveries := f s\<rparr>))"
  by (rule schedule.settles_modify) (rule bills_on_same; simp add: billed_def)

lemma schedule_reminders: "settled_by (bills_on i) (send_reminders ts instant rs)"
proof (induction ts)
  case (Cons t ts)
  then show ?case
    unfolding send_reminders.simps hasDelivery_def recordDelivery_def Let_def
    by (intro schedule_rules schedule_deliveries TrueI)
qed (simp add: schedule.settles_return)

lemma schedule_daily_job: "settled_by (bills_on i) (recurring_daily_job instant rs)"
  unfolding recurring_daily_job_def findDueForGeneration_def findDueForReminderWindows_def Let_def
  by (intro schedule_rules schedule_generate_all schedule_reminders TrueI)

lemma schedule_step: "settled_by (bills_on i) (recurring_step pd c)"
  by (cases c) (simp_all add: discarded_def, (intro schedule_rules schedule_generate schedule_register schedule_pause
    schedule_resume schedule_cancel schedule_daily_job TrueI)+)

lemma schedule_steps: "bills_on i s (recurring_steps pd cs s)"
proof (induction cs arbitrary: s)
  case (Cons c cs)
  show ?case using bills_on_trans [OF settlesD [OF schedule_step [of i pd c]] Cons.IH] by simp
qed (simp add: bills_on_refl)

text \<open>A payment that is registered: for the purchase that was billed last, or after billing another one.\<close>

lemma register_Inr:
  assumes "register_recurring_payment pd i u can rs payment s = (Inr (p, po, ap), s')"
  obtains r t where "find_by rc_id i (b_templates s) = Some r" "template_toDomain r = Inr t"
    "rc_lastGeneratedPeriodKey t = Some (currentPeriodKey t) \<and> b_orders s' = b_orders s \<or>
     (\<exists>v s1. generate_current_payable i (Some u) (rc_nextDueDate t) rs s = (Inr (Generated po ap v), s1) \<and>
        b_orders s' = b_orders s1)"
proof -
  obtain r t where r: "find_by rc_id i (b_templates s) = Some r" "template_toDomain r = Inr t"
    using assms by (auto simp: register_recurring_payment_def with_template_def templates_findById_def effect_Inr
        split: option.splits)
  have cases: "(case x of Generated a b c \<Rightarrow> f a b c | NotGenerated m a b \<Rightarrow> g m a b) s1 = (Inr y, s2) \<longleftrightarrow>
      (\<exists>a b c. x = Generated a b c \<and> f a b c s1 = (Inr y, s2)) \<or>
      (\<exists>m a b. x = NotGenerated m a b \<and> g m a b s1 = (Inr y, s2))"
    for x f g s1 s2 and y :: "string \<times> string" by (cases x) auto
  show thesis
    using assms r
    by (intro that [OF r]) (auto simp: register_recurring_payment_def with_template_def templates_findById_def effect_Inr
          cases split: if_splits
        dest!: on_treasury_frame [OF _ calendar_parts(1)]
          on_treasury_frame [OF _ calendar_create_payment] on_treasury_frame [OF _ calendar_payables(1)])
qed

end
