(* ===== verification/RecurringProperties.thy ===== *)
theory RecurringProperties
  imports RecurringLaws
begin

text \<open>
  The properties of recurring purchases, each with a run on an office that pays a rent: what
  every sequence of operations bills when the process runs in UTC, and what becomes of the
  schedule when it runs in the zone of the business.
\<close>

section \<open>An office\<close>

definition cash :: payment_method where
  "cash = \<lparr>pm_id = ''m'', pm_name = ''Efectivo'', pm_code = ''CASH'', pm_isActive = True,
     pm_requiresVoucher = False, pm_requiresSourceAccount = False, pm_requiresDestination = False,
     pm_requiresOperationReference = False\<rparr>"

definition cash_box :: treasury where
  "cash_box = \<lparr>t_payables = [], t_payments = [], t_allocations = [], t_quotas = [], t_methods = [cash],
     t_companyMethods = [], t_accounts = [], t_destinations = [], t_purchases = [], t_attachments = [],
     t_approvals = [], t_history = [], t_notifications = [], t_clock = 1769900000000,
     t_uuid = (\<lambda>n. ''u'' @ nat_string n), t_next = 0, t_localDay = day_of_instant, t_dropsNull = True\<rparr>"

definition in_cash :: payment_input where
  "in_cash = \<lparr>pi_method = ''Efectivo'', pi_date = ''2026-02-01'', pi_operationNumber = None, pi_currency = PEN,
     pi_amount = 200, pi_note = None, pi_quotaId = None, pi_poId = None, pi_accountPayableId = None,
     pi_companyPaymentAccountId = None, pi_paymentMethodId = Some ''m'', pi_supplierPaymentDestinationId = None,
     pi_paidByUserId = None, pi_scheduledByUserId = None, pi_scheduledAt = None, pi_paidAt = None,
     pi_paymentEvidenceFileId = None, pi_bankName = None, pi_cardLastFour = None, pi_operationCode = None,
     pi_isPartial = None\<rparr>"

text \<open>A rent that started on 2025-12-31 and is due on the last day of every month from 2026-01-31.\<close>

definition rent :: recurring_template where
  "rent = \<lparr>rc_id = ''t'', rc_supplierId = ''s'', rc_name = ''Alquiler'', rc_description = None,
     rc_frequency = MonthlyFrequency, rc_purchaseType = ServicePurchase, rc_currency = PEN, rc_amount = 500,
     rc_startDate = 1767139200000, rc_nextDueDate = 1769817600000, rc_billingAnchorDay = 31,
     rc_status = RecurringActive, rc_reminderDaysBefore = [7, 3, 1, 0], rc_createdByUserId = None,
     rc_lastGeneratedAt = None, rc_lastGeneratedPeriodKey = None, rc_lastGeneratedPurchaseId = None,
     rc_lastGeneratedAccountPayableId = None, rc_createdAt = Some 0, rc_updatedAt = Some 0\<rparr>"

definition office :: billing where
  "office = \<lparr>b_treasury = cash_box, b_templates = [rent], b_orders = [], b_deliveries = []\<rparr>"

definition is_generated :: "(app_error + generation) \<times> billing \<Rightarrow> bool" where
  "is_generated x = (case fst x of Inr (Generated _ _ _) \<Rightarrow> True | _ \<Rightarrow> False)"

lemma is_generatedE:
  assumes "is_generated x"
  obtains po ap v where "x = (Inr (Generated po ap v), snd x)"
  using assms by (cases x) (auto simp: is_generated_def split: sum.splits generation.splits)

text \<open>The dates and texts of the first three months.\<close>

lemma rent_dates:
  "calculateNextRecurringDueDate 1769817600000 MonthlyFrequency 31 = 1772236800000"
  "calculateNextRecurringDueDate 1772236800000 MonthlyFrequency 31 = 1774915200000"
  "calculateNextRecurringDueDate 1769817600000 MonthlyFrequency 1 = 1769904000000"
  by code_simp+

lemma rent_months:
  "utc_year 1769817600000 = 2026" "utc_month 1769817600000 = 0" "utc_year 1772236800000 = 2026"
  "utc_month 1772236800000 = 1" "utc_year 1774915200000 = 2026" "utc_month 1774915200000 = 2"
  by code_simp+

lemma rent_numerals:
  "int_string 2026 = ''2026''" "pad_digits 2 (int_string 1) = ''01''" "pad_digits 2 (int_string 2) = ''02''"
  "pad_digits 2 (int_string 3) = ''03''"
  by code_simp+

lemma rent_keys:
  "getRecurringPeriodKey 1769817600000 MonthlyFrequency = ''2026-01''"
  "getRecurringPeriodKey 1772236800000 MonthlyFrequency = ''2026-02''"
  "getRecurringPeriodKey 1774915200000 MonthlyFrequency = ''2026-03''"
  by (simp_all add: getRecurringPeriodKey_def rent_months rent_numerals)

lemma rent_amounts:
  "numeric_12_2 500 = Inr 500" "numeric_12_2 200 = Inr 200" "numeric_12_2 0 = Inr 0" "int_column 0 = Inr 0"
  "purchase_money 500 = Inr 500" "purchase_money 0 = Inr 0"
  by code_simp+

lemma rent_uuids: "nat_string 0 = ''0''" "nat_string (Suc 0) = ''1''" "nat_string (Suc (Suc 0)) = ''2''"
  "nat_string (Suc (Suc (Suc 0))) = ''3''" "nat_string (Suc (Suc (Suc (Suc 0)))) = ''4''"
  by code_simp+

lemmas office_fixture = office_def cash_box_def cash_def rent_def in_cash_def

lemmas billing_eval = effect_simps with_template_def templates_findById_def find_by_def
  template_toDomain_def template_create_def template_params_of_def given_or_def reminder_days_def trimmed_def
  js_is_integer_def js_trim_def js_whitespace_def isDue_def currentPeriodKey_def rent_dates rent_keys rent_amounts
  rent_uuids generate_current_payable_def bill_period_def createNew_def recurring_purchase_params_def
  purchase_identifier_def purchase_count_def purchase_document_def filled_def purchases_create_def on_treasury_def
  new_uuid_def clock_now_def create_account_payable_def recurring_payable_input_def findByPurchaseAndQuota_def
  payable_found_def payable_create_def new_payable_params_def payables_create_def save_payable_def
  payable_toDomain_def payable_params_of_def null_condition_def markGenerated_def templates_save_def stored_date_def
  recordPayment_def createNotificationForUsers_def date_column_def day_of_instant_def ms_per_day_def Let_def

text \<open>The rent of January is billed on the first of February.\<close>

definition january :: "(app_error + generation) \<times> billing" where
  "january = generate_current_payable ''t'' None 1769900000000 [] office"


lemmas january_eval = january_def office_fixture billing_eval



lemma office_template: "find_by rc_id ''t'' (b_templates office) = Some rent"
  by code_simp

lemma office_on_schedule: "on_schedule ''t'' office"
proof -
  have "100 \<le> utc_year (rc_nextDueDate rent)" "time_in_day (rc_nextDueDate rent) = 0" "1 \<le> rc_billingAnchorDay rent"
    by code_simp+
  then show ?thesis unfolding on_schedule_def using office_template by (simp add: office_def cash_box_def)
qed

section \<open>Due dates\<close>

text \<open>
  C22. Due dates do not drift. However many periods have passed, the due date lies that many
  periods after the first one, at the same time of day, on the anchor day of the template, or on
  the last day of a month that is too short for it: a month with 28 days does not pull the days of
  the months after it down.
\<close>

theorem due_dates_never_drift:
  assumes "100 \<le> utc_year t" and "1 \<le> a"
  shows "let due = ((\<lambda>u. calculateNextRecurringDueDate u f a) ^^ Suc n) t
    in month_number due = month_number t + int (Suc n) * month_offset f \<and>
       getBillingAnchorDay due = min a (days_in_month (is_leap (utc_year due)) (utc_month due)) \<and>
       time_in_day due = time_in_day t"
proof -
  have due: "((\<lambda>u. calculateNextRecurringDueDate u f a) ^^ Suc n) t = due_after f a (Suc n) t"
    by (simp add: due_after_def)
  note months = due_after_month [OF assms, of f]
  have "getBillingAnchorDay (due_after f a (Suc n) t) =
      min a (days_in_month (is_leap (utc_year (due_after f a (Suc n) t))) (utc_month (due_after f a (Suc n) t)))"
    unfolding due_after_Suc using next_due_date(2) [OF _ assms(2)] months [of n] by blast
  then show ?thesis using months [of "Suc n"] unfolding due Let_def by blast
qed

text \<open>From 2024-01-31: 29 days in February, and the 31st again in March.\<close>

theorem due_dates_never_drift_witness:
  "let due = ((\<lambda>u. calculateNextRecurringDueDate u MonthlyFrequency 31) ^^ Suc 1) 1706659200000
   in month_number due = month_number 1706659200000 + 2 \<and> getBillingAnchorDay due = 31 \<and>
      getBillingAnchorDay (calculateNextRecurringDueDate 1706659200000 MonthlyFrequency 31) = 29"
proof -
  let ?due = "((\<lambda>u. calculateNextRecurringDueDate u MonthlyFrequency 31) ^^ Suc 1) 1706659200000"
  have "100 \<le> utc_year 1706659200000" by code_simp
  from due_dates_never_drift [OF this, of 31 1 MonthlyFrequency]
  have "month_number ?due = month_number 1706659200000 + 2" by (simp only: Let_def month_offset_def) simp
  moreover have "calculateNextRecurringDueDate 1706659200000 MonthlyFrequency 31 = 1709164800000"
    "calculateNextRecurringDueDate 1709164800000 MonthlyFrequency 31 = 1711843200000"
    "getBillingAnchorDay 1709164800000 = 29" "getBillingAnchorDay 1711843200000 = 31"
    by code_simp+
  ultimately show ?thesis by (simp add: Let_def)
qed

section \<open>Billing\<close>

text \<open>
  C5. No period is billed twice and none is skipped. When the process runs in UTC, every sequence
  of daily jobs, generations by hand, payments, pauses and cancellations, whatever of it
  fails, bills a template for consecutive periods: the due dates of the purchases it
  adds are the due dates of the template from the one it stood at, one for each period, and the template
  ends at the next one.
\<close>

theorem every_period_billed_once:
  assumes "on_schedule i s" and "find_by rc_id i (b_templates s) = Some r"
  shows "\<exists>n r'. let s' = recurring_steps pd ops s;
      dues = map (\<lambda>k. due_after (rc_frequency r) \<lfloor>rc_billingAnchorDay r\<rfloor> k (rc_nextDueDate r)) [0..<n]
    in billed i s' = billed i s @ dues \<and>
       map (\<lambda>d. period_number d (rc_frequency r)) dues =
         map (\<lambda>k. period_number (rc_nextDueDate r) (rc_frequency r) + int k) [0..<n] \<and>
       find_by rc_id i (b_templates s') = Some r' \<and>
       rc_nextDueDate r' = due_after (rc_frequency r) \<lfloor>rc_billingAnchorDay r\<rfloor> n (rc_nextDueDate r)"
proof -
  obtain r' n where run: "find_by rc_id i (b_templates (recurring_steps pd ops s)) = Some r'" "moves_on n r r'"
      "billed i (recurring_steps pd ops s) = billed i s @ dates_left n r"
    using schedule_steps [of i s pd ops] assms unfolding bills_on_def by blast
  have "100 \<le> utc_year (rc_nextDueDate r)" "1 \<le> \<lfloor>rc_billingAnchorDay r\<rfloor>"
    using assms by (auto simp: on_schedule_def)
  note periods = due_after_period [OF this, of "rc_frequency r"]
  show ?thesis using run periods unfolding Let_def
    by (intro exI [of _ n] exI [of _ r']) (simp add: moves_on_def dates_left_def)
qed

text \<open>January is billed by the job, once although the job runs twice, and a cancelled template bills no more.\<close>

definition winter :: "recurring_op list" where
  "winter = [DailyJob 1769900000000 [], DailyJob 1769900000000 [], CancelTemplate ''t'', DailyJob 1785000000000 []]"

theorem every_period_billed_once_witness:
  "\<exists>n r'. let s' = recurring_steps (\<lambda>_. Some 1769900000000) winter office;
      dues = map (\<lambda>k. due_after MonthlyFrequency 31 k 1769817600000) [0..<n]
    in billed ''t'' s' = dues \<and> billed ''t'' s' = [1769817600000] \<and>
       find_by rc_id ''t'' (b_templates s') = Some r' \<and> rc_nextDueDate r' = due_after MonthlyFrequency 31 n 1769817600000"
proof -
  have "billed ''t'' (recurring_steps (\<lambda>_. Some 1769900000000) winter office) = [1769817600000]"
    by (simp add: winter_def discarded_def recurring_daily_job_def findDueForGeneration_def active_templates_def
        findDueForReminderWindows_def REMINDER_WINDOWS_DAYS_BEFORE_def days_until_due_def cancel_recurring_purchase_def
        change_template_def cancel_template_def withState_def billed_def january_eval)
  moreover have "billed ''t'' office = []" by (simp add: billed_def office_def)
  moreover obtain n r' where
    "let s' = recurring_steps (\<lambda>_. Some 1769900000000) winter office;
      dues = map (\<lambda>k. due_after (rc_frequency rent) \<lfloor>rc_billingAnchorDay rent\<rfloor> k (rc_nextDueDate rent)) [0..<n]
     in billed ''t'' s' = billed ''t'' office @ dues \<and>
       map (\<lambda>d. period_number d (rc_frequency rent)) dues =
         map (\<lambda>k. period_number (rc_nextDueDate rent) (rc_frequency rent) + int k) [0..<n] \<and>
       find_by rc_id ''t'' (b_templates s') = Some r' \<and>
       rc_nextDueDate r' = due_after (rc_frequency rent) \<lfloor>rc_billingAnchorDay rent\<rfloor> n (rc_nextDueDate rent)"
    using every_period_billed_once [OF office_on_schedule office_template, of "\<lambda>_. Some 1769900000000" winter] by blast
  ultimately show ?thesis by (intro exI [of _ n] exI [of _ r']) (simp add: Let_def rent_def)
qed

section \<open>Payments of a period that was billed\<close>



section \<open>A process in the zone of the business\<close>

text \<open>The calendar day of an instant in Lima, five hours behind UTC.\<close>

definition lima_day :: "int \<Rightarrow> int" where
  "lima_day t = (t - 5 * 3600000) div ms_per_day"

text \<open>
  C37. A process in Lima bills a monthly template with anchor day 1 a single time. The date column
  keeps the local day of the due date, a midnight in UTC, and that is the day before: the first of the
  month is stored as the last day of the month that was just billed. From then on the template
  stands at a period that it has billed already, and no generation, whenever it runs,
  bills it again or changes anything.
\<close>

theorem lima_first_of_month_stops:
  assumes "t_localDay (b_treasury s) = lima_day"
    and "find_by rc_id i (b_templates s) = Some r" and "rc_frequency r = MonthlyFrequency"
    and "rc_billingAnchorDay r = 1" and "100 \<le> utc_year (rc_nextDueDate r)" and "time_in_day (rc_nextDueDate r) = 0"
    and "date_of_day (day_of_instant (rc_nextDueDate r) + 1) = 1"
    and "generate_current_payable i g instant rs s = (Inr (Generated po ap v), s')"
  shows "snd (generate_current_payable i g' instant' rs' s') = s' \<and>
    (\<forall>po' ap' v'. fst (generate_current_payable i g' instant' rs' s') \<noteq> Inr (Generated po' ap' v'))"
proof -
  obtain w amount where w: "moves_on 1 r w" "rc_id w = i" "rc_lastGeneratedPeriodKey w = Some (currentPeriodKey r)"
      "b_templates s' = save_by rc_id (stored_template s w amount) (b_templates s)"
    using billed_period [OF assms(8)] assms(2) by (metis option.inject)
  let ?w = "stored_template s w amount"
  have stored: "find_by rc_id i (b_templates s') = Some ?w"
    using w(2) by (simp add: w(4) find_by_save_by stored_template_def)
  have "rc_nextDueDate w = rc_nextDueDate r + ms_per_day"
    using w(1) next_due_last_day [OF assms(5,6,7)] assms(3,4) by (simp add: moves_on_def due_after_def)
  moreover have "lima_day (rc_nextDueDate r + ms_per_day) * ms_per_day = rc_nextDueDate r"
  proof -
    define q where "q = day_of_instant (rc_nextDueDate r)"
    have "rc_nextDueDate r = q * ms_per_day" using instant_split [of "rc_nextDueDate r"] assms(6) by (simp add: q_def)
    then show ?thesis by (simp add: lima_day_def ms_per_day_def)
  qed
  ultimately have "rc_nextDueDate ?w = rc_nextDueDate r" by (simp add: stored_template_def stored_date_def assms(1))
  then have key: "rc_lastGeneratedPeriodKey ?w = Some (currentPeriodKey ?w)"
    using w(1,3) by (simp add: stored_template_def currentPeriodKey_def moves_on_def)
  show ?thesis
  proof (cases "generate_current_payable i g' instant' rs' s'")
    case (Pair res s2)
    show ?thesis
    proof (cases res)
      case (Inl e)
      then show ?thesis using Pair generate_Inl [of i g' instant' rs' s' e s2] by simp
    next
      case (Inr x)
      then have "generate_current_payable i g' instant' rs' s' = (Inr x, s2)" using Pair by simp
      then obtain r2 t2 where "find_by rc_id i (b_templates s') = Some r2" "template_toDomain r2 = Inr t2"
        "s2 = s' \<and> (\<forall>po ap u. x \<noteq> Generated po ap u) \<or> rc_lastGeneratedPeriodKey t2 \<noteq> Some (currentPeriodKey t2)"
        using generate_Inr by metis
      then have "s2 = s' \<and> (\<forall>po ap u. x \<noteq> Generated po ap u)"
        using stored key template_toDomain_Inr [of r2 t2] by (auto simp: currentPeriodKey_def moves_on_def due_after_def)
      then show ?thesis using Pair Inr by simp
    qed
  qed
qed

text \<open>The rent with anchor day 1 after the shift of its first due date, 2026-02-01, by one day.\<close>

definition lima_rent :: recurring_template where
  "lima_rent = rent\<lparr>rc_billingAnchorDay := 1\<rparr>"

definition lima_office :: billing where
  "lima_office = office\<lparr>b_treasury := cash_box\<lparr>t_localDay := lima_day\<rparr>, b_templates := [lima_rent]\<rparr>"

definition lima_january :: "(app_error + generation) \<times> billing" where
  "lima_january = generate_current_payable ''t'' None 1769900000000 [] lima_office"

theorem lima_first_of_month_stops_witness:
  "is_generated lima_january \<and>
   snd (generate_current_payable ''t'' None 1785000000000 [] (snd lima_january)) = snd lima_january \<and>
   \<not> is_generated (generate_current_payable ''t'' None 1785000000000 [] (snd lima_january))"
proof -
  let ?again = "generate_current_payable ''t'' None 1785000000000 [] (snd lima_january)"
  have first: "is_generated lima_january" by code_simp
  then obtain po ap v where j: "lima_january = (Inr (Generated po ap v), snd lima_january)" by (rule is_generatedE)
  have u: "t_localDay (b_treasury lima_office) = lima_day" by (simp add: lima_office_def)
  have r: "find_by rc_id ''t'' (b_templates lima_office) = Some lima_rent" "rc_frequency lima_rent = MonthlyFrequency"
    "rc_billingAnchorDay lima_rent = 1" "100 \<le> utc_year (rc_nextDueDate lima_rent)"
    "time_in_day (rc_nextDueDate lima_rent) = 0" "date_of_day (day_of_instant (rc_nextDueDate lima_rent) + 1) = 1"
    by code_simp+
  have "snd ?again = snd lima_january \<and> (\<forall>po ap v. fst ?again \<noteq> Inr (Generated po ap v))"
    by (rule lima_first_of_month_stops [OF u r trans [OF lima_january_def [symmetric] j]])
  then show ?thesis using first by (auto simp: is_generated_def split: sum.splits generation.splits)
qed

end
