(* ===== verification/Revisions.thy ===== *)
theory Revisions
  imports UseCases
begin

text \<open>
  The life of a revision of a workflow: the tests of a draft on real orders, its publication,
  which moves every pending order of the family to it, and the repair of one order
  (\<open>sale-orders/application/services/workflow-revision-lifecycle.service.ts\<close>), with the edit
  policy that reads the stock of an order off its history and the corrections of its stock
  (\<open>sale-order-edit-policy.service.ts\<close>, \<open>sale-order-stock-correction.service.ts\<close>).
  \<open>lc\<close> is \<open>localeCompare\<close> and \<open>pd\<close> parses dates, as in the other services.
\<close>

section \<open>The edit policy\<close>

datatype order_stock_status = NoStock | StockReserved | StockReverted | StockConsumed

fun order_stock_name :: "order_stock_status \<Rightarrow> string" where
  "order_stock_name NoStock = ''NONE''"
| "order_stock_name StockReserved = ''RESERVED''"
| "order_stock_name StockReverted = ''REVERTED''"
| "order_stock_name StockConsumed = ''CONSUMED''"

definition recorded_stock :: "json \<Rightarrow> order_stock_status option" where
  "recorded_stock v =
     List.find (\<lambda>st. v = JStr (order_stock_name st)) [NoStock, StockReserved, StockReverted, StockConsumed]"

fun stock_after :: "workflow_action list \<Rightarrow> order_stock_status \<Rightarrow> order_stock_status" where
  "stock_after [] st = st"
| "stock_after (a # as) st = stock_after as
     (if wa_type a = RESERVE_STOCK then StockReserved
      else if wa_type a = REVERT_STOCK \<or> wa_type a = RESTORE_STOCK then StockReverted
      else if wa_type a = CONSUME_STOCK then StockConsumed else st)"

definition replay_stock :: "state_history \<Rightarrow> order_stock_status \<Rightarrow> order_stock_status service" where
  "replay_stock h st =
     (case recorded_stock (js_get (or_default (sh_metadata h) []) ''stockStatus'') of
        Some r \<Rightarrow> sreturn r
      | None \<Rightarrow>
          (case nonempty (sh_transitionId h) of
             None \<Rightarrow> sreturn st
           | Some t \<Rightarrow>
               sbind (findTransitionDetailed t) (\<lambda>transition.
                 sreturn (stock_after (sort_position wa_position
                   (filter (\<lambda>a. wa_branch a = entry_branch h)
                     (case transition of None \<Rightarrow> [] | Some b \<Rightarrow> tb_actions b))) st))))"

definition resolveStockStatus :: "string \<Rightarrow> order_stock_status service" where
  "resolveStockStatus saleOrderId =
     sbind (listHistory saleOrderId) (\<lambda>history. sfold replay_stock history NoStock)"

definition resolveFinalState :: "sale_order \<Rightarrow> bool service" where
  "resolveFinalState order =
     (case (nonempty (so_workflowId order), nonempty (so_currentStateId order)) of
        (Some f, Some a) \<Rightarrow>
          sbind (findWorkflowDetailed f) (\<lambda>ag.
            sreturn (case Option.bind ag (\<lambda>g. state_in g a) of None \<Rightarrow> False | Some st \<Rightarrow> ws_isFinal st))
      | _ \<Rightarrow> sreturn False)"

record edit_policy =
  ep_stockStatus :: order_stock_status
  ep_productsEditable :: bool
  ep_warehouseEditable :: bool
  ep_isFinal :: bool
  ep_reason :: "string option"

fun join_strings :: "string \<Rightarrow> string list \<Rightarrow> string" where
  "join_strings sep [] = ''''"
| "join_strings sep [x] = x"
| "join_strings sep (x # y # xs) = x @ sep @ join_strings sep (y # xs)"

definition resolve_edit_policy :: "sale_order \<Rightarrow> edit_policy service" where
  "resolve_edit_policy order =
     sbind (resolveStockStatus (so_id order)) (\<lambda>resolved.
     sbind (resolveFinalState order) (\<lambda>isFinal.
       (let st = (if resolved = StockReserved \<and> \<not> so_reserveBool order then NoStock else resolved);
            reasons = (if isFinal then [''Pedido finalizado''] else []) @
                      (if st = StockReserved then [''Stock reservado''] else []) @
                      (if st = StockConsumed then [''Stock consumido''] else [])
        in sreturn \<lparr>ep_stockStatus = st, ep_productsEditable = True,
             ep_warehouseEditable = (\<not> isFinal \<and> st \<noteq> StockReserved \<and> st \<noteq> StockConsumed),
             ep_isFinal = isFinal,
             ep_reason = (if reasons = [] then None
                          else Some (join_strings ('' '' @ [CHR 0xB7] @ '' '') reasons))\<rparr>)))"

section \<open>Corrections of the stock of an order\<close>

definition releasePreviousComposition :: "sale_order \<Rightarrow> order_stock_status \<Rightarrow> string \<Rightarrow> bool service" where
  "releasePreviousComposition order st executedBy =
     (if st \<noteq> StockReserved \<and> st \<noteq> StockConsumed then sreturn False
      else if so_warehouseId order = None then
        sthrow (BadRequestException (''El pedido no tiene almac'' @ [CHR 0xE9] @ ''n para corregir su inventario''))
      else
        sthen (swhen (st = StockConsumed)
            (sbind (restoreAndReserve order executedBy) (\<lambda>restored.
              sguard (restored \<or> so_reserveBool order)
                (BadRequestException ''No se pudo restaurar el consumo anterior del pedido''))))
          (sbind (resolve_requirements (so_id order)) (\<lambda>previous.
           sthen (setReserveBool (so_id order) False)
             (sbind (reconcile order previous) (\<lambda>_.
              sthen (markStockReverted (so_id order)) (sreturn True))))))"

definition reserveCorrectedComposition :: "sale_order \<Rightarrow> reconciliation_result service" where
  "reserveCorrectedComposition order =
     (if so_warehouseId order = None then
        sthrow (BadRequestException (''El pedido no tiene almac'' @ [CHR 0xE9] @
          ''n para reservar la composici'' @ [CHR 0xF3] @ ''n corregida''))
      else
        sbind (resolve_requirements (so_id order)) (\<lambda>corrected.
        sthen (setReserveBool (so_id order) True) (reconcile order corrected)))"

definition reconcileCurrentReservation :: "sale_order \<Rightarrow> reconciliation_result service" where
  "reconcileCurrentReservation order =
     (if \<not> so_reserveBool order then
        sreturn \<lparr>rr_checked = False, rr_adjusted = False, rr_warehouseId = so_warehouseId order, rr_items = []\<rparr>
      else sbind (resolve_requirements (so_id order)) (reconcile order))"

definition releaseCurrentReservation :: "sale_order \<Rightarrow> unit service" where
  "releaseCurrentReservation order =
     swhen (so_reserveBool order)
       (sbind (resolve_requirements (so_id order)) (\<lambda>current.
        sthen (setReserveBool (so_id order) False)
          (sbind (reconcile order current) (\<lambda>_. markStockReverted (so_id order)))))"

definition consumeCorrectedComposition :: "sale_order \<Rightarrow> unit service" where
  "consumeCorrectedComposition order =
     sbind (resolve_requirements (so_id order)) (\<lambda>corrected.
     sbind (reconcile order corrected) (\<lambda>_.
     sthen (consume order corrected None) (setReserveBool (so_id order) False)))"

definition restoreConsumedAsReserved :: "sale_order \<Rightarrow> string \<Rightarrow> unit service" where
  "restoreConsumedAsReserved order executedBy =
     sbind (restoreAndReserve order executedBy) (\<lambda>restored.
     sthen (sguard restored
         (BadRequestException ''No se pudo restaurar el consumo para mantenerlo reservado''))
       (sbind (resolve_requirements (so_id order)) (\<lambda>requirements.
        sbind (reconcile order requirements) (\<lambda>_. sreturn ()))))"

definition consumeCorrectedSaleOrder :: "string \<Rightarrow> unit service" where
  "consumeCorrectedSaleOrder saleOrderId =
     sbind (findByIdForUpdate saleOrderId) (\<lambda>found. case found of
       None \<Rightarrow> sthrow (BadRequestException ''Pedido no encontrado'')
     | Some order \<Rightarrow> consumeCorrectedComposition order)"

section \<open>Where an order stands in a revision\<close>

definition normalizeStockStatus :: "order_stock_status \<Rightarrow> order_stock_status" where
  "normalizeStockStatus st = (if st = StockReverted then NoStock else st)"

definition applyDesiredStock :: "order_stock_status \<Rightarrow> action_type \<Rightarrow> order_stock_status" where
  "applyDesiredStock current ty =
     (if ty = RESERVE_STOCK then StockReserved
      else if ty = CONSUME_STOCK then StockConsumed
      else if ty = REVERT_STOCK \<or> ty = RESTORE_STOCK then NoStock else current)"

text \<open>The walk of an order through a revision, on a copy of it.\<close>

record migration_walk =
  mw_state :: workflow_state
  mw_stock :: order_stock_status
  mw_warehouseId :: "string option"
  mw_transitionIds :: "string list"
  mw_transitionNames :: "string list"
  mw_executed :: "string list"
  mw_tracking :: marker_state
  mw_order :: sale_order

definition assigned_warehouse ::
  "string \<Rightarrow> workflow_context \<Rightarrow> workflow_action \<Rightarrow> string option \<Rightarrow> string option" where
  "assigned_warehouse workflowId cx a warehouseId =
     (case (nonempty warehouseId, js_get (wa_config a) ''warehouseId'') of
        (None, JStr target) \<Rightarrow>
          (if wa_type a = ASSIGN_WAREHOUSE_BY_WORKFLOW \<and>
              js_get (wa_config a) ''workflowId'' = JStr workflowId then Some target
           else if wa_type a = ASSIGN_WAREHOUSE_BY_PROVINCE then
             (case js_get (cx_variables cx) ''client.provinceId'' of
                JStr provinceId \<Rightarrow>
                  (let isListed = (case js_get (wa_config a) ''provinceIds'' of
                         JArr ids \<Rightarrow> JStr provinceId \<in> set ids | _ \<Rightarrow> False);
                       matches = (if js_get (wa_config a) ''mode'' = JStr ''INCLUDE'' then isListed else \<not> isListed)
                   in if provinceId \<noteq> [] \<and> matches then Some target else warehouseId)
              | _ \<Rightarrow> warehouseId)
           else warehouseId)
      | _ \<Rightarrow> warehouseId)"

definition track_marker :: "action_type \<Rightarrow> marker_state \<Rightarrow> marker_state" where
  "track_marker ty m = (case markerFor ty of None \<Rightarrow> m | Some k \<Rightarrow> set_marker k (expectedValue ty) m)"

definition walk_action :: "string \<Rightarrow> workflow_context \<Rightarrow> workflow_action \<Rightarrow> migration_walk \<Rightarrow> migration_walk" where
  "walk_action workflowId cx a w =
     w\<lparr>mw_stock := applyDesiredStock (mw_stock w) (wa_type a),
       mw_warehouseId := assigned_warehouse workflowId cx a (mw_warehouseId w),
       mw_tracking := track_marker (wa_type a) (mw_tracking w)\<rparr>"

fun select_bundle ::
  "(string \<Rightarrow> int option) \<Rightarrow> workflow_context \<Rightarrow> transition_bundle list \<Rightarrow>
   app_error + (transition_bundle \<times> branch \<times> transition_effect \<times> string option) option" where
  "select_bundle pd cx [] = Inr None"
| "select_bundle pd cx (b # bs) =
     (case lift_string (create_conditions pd (tb_conditions b)) of
        Inl e \<Rightarrow> Inl e
      | Inr conditions \<Rightarrow>
          (let t = tb_transition b; passed = list_all ev_passed (evaluateConditions conditions cx)
           in case (if passed then Some (wt_effect t) else wt_elseEffect t) of
                None \<Rightarrow> select_bundle pd cx bs
              | Some effect \<Rightarrow> Inr (Some (b, if passed then THEN_BRANCH else ELSE_BRANCH, effect,
                  if passed then wt_toStateId t else wt_elseToStateId t))))"

text \<open>One turn of the loop; the flag says whether the loop goes on.\<close>

definition walk_on ::
  "workflow_aggregate \<Rightarrow> workflow_context \<Rightarrow> transition_bundle \<Rightarrow> branch \<Rightarrow> transition_effect \<Rightarrow> string option \<Rightarrow>
   migration_walk \<Rightarrow> app_error + bool \<times> migration_walk" where
  "walk_on ag cx b branch effect toStateId w =
     (let t = tb_transition b;
          w1 = fold (walk_action (wf_id (ag_workflow ag)) cx)
                 (sort_position wa_position (actions_of_branch branch b))
                 (w\<lparr>mw_transitionIds := mw_transitionIds w @ [wt_id t],
                    mw_transitionNames := mw_transitionNames w @ [wt_name t]\<rparr>);
          order1 = (mw_order w1)\<lparr>so_invoiceSend := ms_invoiceSent (mw_tracking w1),
            so_prepared := ms_prepared (mw_tracking w1), so_preguide := ms_preguide (mw_tracking w1),
            so_reserveBool := (mw_stock w1 = StockReserved), so_warehouseId := mw_warehouseId w1\<rparr>
      in if effect = RUN_ACTIONS then
           Inr (True, w1\<lparr>mw_order := order1, mw_executed := mw_executed w1 @ [wt_id t]\<rparr>)
         else
           (case Option.bind toStateId (state_in ag) of
              None \<Rightarrow> Inl (BadRequestException ''Ruta automatica con destino invalido'')
            | Some next \<Rightarrow> Inr (\<not> ws_isFinal next,
                w1\<lparr>mw_state := next, mw_order := order1\<lparr>so_currentStateId := Some (ws_id next)\<rparr>\<rparr>)))"

definition migration_step ::
  "(string \<Rightarrow> string \<Rightarrow> int) \<Rightarrow> (string \<Rightarrow> int option) \<Rightarrow> workflow_aggregate \<Rightarrow> migration_walk \<Rightarrow>
   (bool \<times> migration_walk) service" where
  "migration_step lc pd ag w =
     sbind (build_context (mw_order w) (mw_state w)) (\<lambda>cx.
     sbind (listFromState (wf_id (ag_workflow ag)) (ws_id (mw_state w))) (\<lambda>bundles.
     sbind (slift (select_bundle pd cx (automatic_bundles lc
         (filter (\<lambda>b. wt_id (tb_transition b) \<notin> set (mw_executed w)) bundles)))) (\<lambda>selected.
       case selected of
         None \<Rightarrow> sreturn (False, w)
       | Some (b, branch, effect, toStateId) \<Rightarrow> slift (walk_on ag cx b branch effect toStateId w))))"

fun migration_steps ::
  "(string \<Rightarrow> string \<Rightarrow> int) \<Rightarrow> (string \<Rightarrow> int option) \<Rightarrow> workflow_aggregate \<Rightarrow> nat \<Rightarrow> migration_walk \<Rightarrow>
   migration_walk service" where
  "migration_steps lc pd ag 0 w = sreturn w"
| "migration_steps lc pd ag (Suc n) w =
     sbind (migration_step lc pd ag w) (\<lambda>(more, w'). if more then migration_steps lc pd ag n w' else sreturn w')"

definition initial_state :: "workflow_aggregate \<Rightarrow> workflow_state option" where
  "initial_state ag = List.find (\<lambda>st. ws_isInitial st \<and> ws_isActive st) (ag_states ag)"

definition initial_walk :: "sale_order \<Rightarrow> workflow_aggregate \<Rightarrow> workflow_state \<Rightarrow> migration_walk" where
  "initial_walk order ag st = \<lparr>mw_state = st, mw_stock = NoStock, mw_warehouseId = so_warehouseId order,
     mw_transitionIds = [], mw_transitionNames = [], mw_executed = [],
     mw_tracking = \<lparr>ms_invoiceSent = False, ms_preguide = False, ms_prepared = False\<rparr>,
     mw_order = order\<lparr>so_workflowId := Some (wf_id (ag_workflow ag)), so_currentStateId := Some (ws_id st),
       so_invoiceSend := False, so_prepared := False, so_preguide := False, so_reserveBool := False\<rparr>\<rparr>"

definition analyzeTarget ::
  "(string \<Rightarrow> string \<Rightarrow> int) \<Rightarrow> (string \<Rightarrow> int option) \<Rightarrow> sale_order \<Rightarrow> workflow_aggregate \<Rightarrow>
   migration_walk service" where
  "analyzeTarget lc pd order ag =
     (case initial_state ag of
        None \<Rightarrow> sthrow (BadRequestException ''El borrador no tiene estado inicial activo'')
      | Some st \<Rightarrow> migration_steps lc pd ag 100 (initial_walk order ag st))"

section \<open>From one stock status to another\<close>

definition reconcileStock :: "sale_order \<Rightarrow> order_stock_status \<Rightarrow> order_stock_status \<Rightarrow> string \<Rightarrow> unit service" where
  "reconcileStock order from to executedBy =
     (let actual = normalizeStockStatus from
      in if actual = to then sreturn ()
         else if to = NoStock then
           sbind (releasePreviousComposition order actual executedBy) (\<lambda>_. sreturn ())
         else if to = StockReserved then
           (if actual = StockConsumed then restoreConsumedAsReserved order executedBy
            else sbind (reserveCorrectedComposition order) (\<lambda>_. sreturn ()))
         else if actual = StockConsumed then sreturn ()
         else
           sthen (swhen (actual = NoStock) (sbind (reserveCorrectedComposition order) (\<lambda>_. sreturn ())))
             (consumeCorrectedComposition order))"

definition planStockActions :: "order_stock_status \<Rightarrow> order_stock_status \<Rightarrow> action_type list" where
  "planStockActions from to = (case (normalizeStockStatus from, to) of
       (StockReserved, NoStock) \<Rightarrow> [REVERT_STOCK]
     | (StockConsumed, NoStock) \<Rightarrow> [RESTORE_STOCK]
     | (NoStock, StockReserved) \<Rightarrow> [RESERVE_STOCK]
     | (StockReserved, StockConsumed) \<Rightarrow> [CONSUME_STOCK]
     | (StockConsumed, StockReserved) \<Rightarrow> [RESTORE_STOCK, RESERVE_STOCK]
     | (NoStock, StockConsumed) \<Rightarrow> [RESERVE_STOCK, CONSUME_STOCK]
     | _ \<Rightarrow> [])"

definition planMigrationStockActions ::
  "order_stock_status \<Rightarrow> order_stock_status \<Rightarrow> string option \<Rightarrow> string option \<Rightarrow> action_type list" where
  "planMigrationStockActions from to fromWarehouseId toWarehouseId =
     (if fromWarehouseId = toWarehouseId then planStockActions from to
      else planStockActions from NoStock @ planStockActions NoStock to)"

end
