(* ===== verification/RevisionLife.thy ===== *)
theory RevisionLife
  imports Revisions
begin

text \<open>
  The operations of the life of a revision
  (\<open>workflow-revision-lifecycle.service.ts\<close>): a draft is tried on a real order and the trial
  is taken back, its publication is previewed and done, and one order is repaired. The state is
  the world of the workflow services and the table of the trials; each operation is one
  transaction. Repositories of this theory are methods of \<open>workflow.typeorm.repo.ts\<close> and
  queries of the service itself.
\<close>

section \<open>The state\<close>

datatype test_status = TEST_ACTIVE | TEST_REVERTED

record draft_test =
  dt_id :: string
  dt_draftWorkflowId :: string
  dt_saleOrderId :: string
  dt_originalWorkflowId :: "string option"
  dt_originalStateId :: "string option"
  dt_originalStockStatus :: order_stock_status
  dt_originalWarehouseId :: "string option"
  dt_originalInvoiceSend :: bool
  dt_originalPrepared :: bool
  dt_originalPreguide :: bool
  dt_originalReserveBool :: bool
  dt_originalStockRevertedBool :: bool
  dt_status :: test_status
  dt_startedBy :: string
  dt_startedAt :: int
  dt_revertedBy :: "string option"
  dt_revertedAt :: "int option"

record studio =
  st_world :: world
  st_tests :: "draft_test list"

type_synonym 'a studio_service = "(studio, app_error, 'a) action"

text \<open>A step of the workflow services, on the world of the studio.\<close>

definition on_world :: "'a service \<Rightarrow> 'a studio_service" where
  "on_world m u = (case m (st_world u) of Inl e \<Rightarrow> Inl e | Inr (a, s) \<Rightarrow> Inr (a, u\<lparr>st_world := s\<rparr>))"

section \<open>Workflows and their rows\<close>

definition workflow_props_of :: "workflow \<Rightarrow> workflow_props" where
  "workflow_props_of w = \<lparr>wfp_id = wf_id w, wfp_name = wf_name w,
     wfp_normalizedName = wf_normalizedName w, wfp_description = wf_description w,
     wfp_isActive = wf_isActive w, wfp_createdAt = wf_createdAt w, wfp_updatedAt = wf_updatedAt w,
     wfp_familyId = Some (wf_familyId w), wfp_revision = Some (wf_revision w),
     wfp_lifecycleStatus = Some (wf_lifecycleStatus w), wfp_isCurrent = Some (wf_isCurrent w),
     wfp_basedOnWorkflowId = wf_basedOnWorkflowId w, wfp_publishedAt = wf_publishedAt w,
     wfp_publishedBy = wf_publishedBy w\<rparr>"

definition save_row_by :: "('a \<Rightarrow> string) \<Rightarrow> 'a \<Rightarrow> 'a list \<Rightarrow> 'a list" where
  "save_row_by k x xs = (if k x \<in> k ` set xs then update_where (\<lambda>y. k y = k x) (\<lambda>_. x) xs else xs @ [x])"

definition workflows_save :: "workflow \<Rightarrow> workflow service" where
  "workflows_save w =
     sthen (smodify (\<lambda>s. s\<lparr>w_catalog := (w_catalog s)\<lparr>c_workflows :=
              save_row_by wf_id w (c_workflows (w_catalog s))\<rparr>\<rparr>))
       (sreturn (new_workflow (workflow_props_of w)))"

definition listByFamilyId :: "string \<Rightarrow> workflow list service" where
  "listByFamilyId familyId = sreads (\<lambda>s.
     sort_cmp (\<lambda>a b. wf_revision b - wf_revision a)
       (filter (\<lambda>w. wf_familyId w = familyId) (c_workflows (w_catalog s))))"

text \<open>The published workflow in force with the name, when it has an initial state.\<close>

definition findActiveByNormalizedName :: "string \<Rightarrow> (workflow \<times> workflow_state) option service" where
  "findActiveByNormalizedName n = sreads (\<lambda>s.
     Option.bind (List.find (\<lambda>w. wf_normalizedName w = n \<and> wf_isActive w \<and> wf_isCurrent w \<and>
                       wf_lifecycleStatus w = PUBLISHED) (c_workflows (w_catalog s)))
       (\<lambda>w. map_option (Pair w) (List.find (\<lambda>st. ws_isInitial st \<and> ws_isActive st)
          (sort_position ws_position
            (filter (\<lambda>st. ws_workflowId st = wf_id w) (c_states (w_catalog s)))))))"

definition copyWorkflow :: "workflow \<Rightarrow> (workflow_props \<Rightarrow> workflow_props) \<Rightarrow> int \<Rightarrow> workflow" where
  "copyWorkflow w patch t = new_workflow ((patch (workflow_props_of w))\<lparr>wfp_updatedAt := Some t\<rparr>)"

definition getDraft :: "string \<Rightarrow> workflow_aggregate service" where
  "getDraft workflowId =
     sbind (findWorkflowDetailed workflowId) (\<lambda>found. case found of
       None \<Rightarrow> sthrow (NotFoundException ''Workflow no encontrado'')
     | Some ag \<Rightarrow>
         sthen (sguard (wf_lifecycleStatus (ag_workflow ag) = DRAFT)
             (BadRequestException ''La operacion requiere una revision en borrador''))
           (sreturn ag))"

definition assertNoCurrentNameConflict :: "workflow \<Rightarrow> unit service" where
  "assertNoCurrentNameConflict w =
     sbind (findActiveByNormalizedName (wf_normalizedName w)) (\<lambda>found.
       sguard (case found of None \<Rightarrow> True | Some (w', _) \<Rightarrow> wf_familyId w' = wf_familyId w)
         (ConflictException ''Ya existe otro flujo publicado vigente con el mismo nombre''))"

definition pending_order :: "catalog \<Rightarrow> string \<Rightarrow> sale_order \<Rightarrow> bool" where
  "pending_order c familyId x \<longleftrightarrow> so_isActive x \<and>
     list_ex (\<lambda>w. so_workflowId x = Some (wf_id w) \<and> wf_familyId w = familyId) (c_workflows c) \<and>
     list_ex (\<lambda>st. so_currentStateId x = Some (ws_id st) \<and> \<not> ws_isFinal st) (c_states c)"

definition listPendingFamilyOrders :: "string \<Rightarrow> sale_order list service" where
  "listPendingFamilyOrders familyId = sreads (\<lambda>s.
     sort_key so_createdAt (filter (pending_order (w_catalog s) familyId) (w_orders s)))"

definition lifecycle_history ::
  "string \<Rightarrow> string \<Rightarrow> string option \<Rightarrow> string \<Rightarrow> string \<Rightarrow> (string \<times> json) list \<Rightarrow> unit service" where
  "lifecycle_history saleOrderId workflowId fromStateId toStateId executedBy metadata =
     sbind fresh_id (\<lambda>i.
     sbind now (\<lambda>t.
       appendHistory \<lparr>sh_id = i, sh_saleOrderId = saleOrderId, sh_workflowId = workflowId,
         sh_transitionId = None, sh_fromStateId = fromStateId, sh_toStateId = toStateId,
         sh_executedBy = Some executedBy, sh_executedAt = t, sh_metadata = Some metadata\<rparr>))"

definition action_names :: "action_type list \<Rightarrow> json" where
  "action_names as = JArr (map (JStr \<circ> action_type_name) as)"

text \<open>A row that is there, read once more.\<close>

definition reread :: "string \<Rightarrow> app_error \<Rightarrow> sale_order service" where
  "reread i e = sbind (findByIdForUpdate i) (\<lambda>found. case found of None \<Rightarrow> sthrow e | Some x \<Rightarrow> sreturn x)"

definition null_order :: app_error where
  "null_order = PlainError ''Cannot read properties of null''"

section \<open>A trial of a draft\<close>

record start_result =
  sta_sessionId :: string
  sta_saleOrderId :: string
  sta_draftWorkflowId :: string
  sta_currentState :: workflow_state

definition check_test_order ::
  "workflow_aggregate \<Rightarrow> string \<Rightarrow> (sale_order \<times> string \<times> string) studio_service" where
  "check_test_order ag saleOrderId =
     sbind (on_world (findByIdForUpdate saleOrderId)) (\<lambda>found.
     case (Option.bind found (nonempty \<circ> so_workflowId), Option.bind found (nonempty \<circ> so_currentStateId)) of
       (Some f, Some a) \<Rightarrow>
         sbind (on_world (findWorkflowDetailed f)) (\<lambda>current.
         case Option.bind current (\<lambda>g. state_in g a) of
           None \<Rightarrow> sthrow (BadRequestException ''Estado actual del pedido invalido'')
         | Some st \<Rightarrow>
             sthen (sguard (map_option (wf_familyId \<circ> ag_workflow) current = Some (wf_familyId (ag_workflow ag)))
                 (BadRequestException ''El pedido de prueba debe pertenecer a la misma familia del flujo''))
             (sthen (sguard (\<not> ws_isFinal st)
                 (BadRequestException ''No se puede probar con un pedido finalizado''))
             (sbind (sreads (\<lambda>u. list_ex (\<lambda>t. dt_saleOrderId t = so_id (the found) \<and> dt_status t = TEST_ACTIVE)
                 (st_tests u))) (\<lambda>active.
              sthen (sguard (\<not> active)
                  (ConflictException ''El pedido ya participa en una prueba activa''))
                (sreturn (the found, f, a))))))
     | _ \<Rightarrow> sthrow (BadRequestException ''El pedido debe tener un flujo y estado actuales''))"

definition save_test ::
  "workflow_aggregate \<Rightarrow> sale_order \<Rightarrow> order_stock_status \<Rightarrow> string \<Rightarrow> draft_test studio_service" where
  "save_test ag order stock executedBy =
     sbind (on_world fresh_id) (\<lambda>i.
     sbind (on_world now) (\<lambda>t.
       (let test = \<lparr>dt_id = i, dt_draftWorkflowId = wf_id (ag_workflow ag),
              dt_saleOrderId = so_id order, dt_originalWorkflowId = so_workflowId order,
              dt_originalStateId = so_currentStateId order, dt_originalStockStatus = stock,
              dt_originalWarehouseId = so_warehouseId order,
              dt_originalInvoiceSend = so_invoiceSend order, dt_originalPrepared = so_prepared order,
              dt_originalPreguide = so_preguide order, dt_originalReserveBool = so_reserveBool order,
              dt_originalStockRevertedBool = so_stockRevertedBool order, dt_status = TEST_ACTIVE,
              dt_startedBy = executedBy, dt_startedAt = t, dt_revertedBy = None,
              dt_revertedAt = None\<rparr>
        in sthen (smodify (\<lambda>u. u\<lparr>st_tests := st_tests u @ [test]\<rparr>)) (sreturn test))))"

definition enter_draft :: "string \<Rightarrow> string \<Rightarrow> sale_order \<Rightarrow> sale_order" where
  "enter_draft workflowId stateId x = x\<lparr>so_workflowId := Some workflowId,
     so_currentStateId := Some stateId, so_warehouseId := None, so_invoiceSend := False,
     so_prepared := False, so_preguide := False, so_reserveBool := False,
     so_stockRevertedBool := False\<rparr>"

definition start_test :: "string \<Rightarrow> string \<Rightarrow> string \<Rightarrow> start_result studio_service" where
  "start_test draftWorkflowId saleOrderId executedBy =
     sbind (on_world (getDraft draftWorkflowId)) (\<lambda>ag.
     case initial_state ag of
       None \<Rightarrow> sthrow (BadRequestException ''El borrador no tiene estado inicial'')
     | Some initial \<Rightarrow>
         sbind (check_test_order ag saleOrderId) (\<lambda>(order, f, a).
         sbind (on_world (resolve_edit_policy order)) (\<lambda>policy.
         sbind (save_test ag order (ep_stockStatus policy) executedBy) (\<lambda>test.
         sthen (on_world (reconcileStock order (ep_stockStatus policy) NoStock executedBy))
         (sthen (on_world (update_order (so_id order) (enter_draft (wf_id (ag_workflow ag)) (ws_id initial))))
         (sthen (on_world (lifecycle_history (so_id order) (wf_id (ag_workflow ag)) (Some a) (ws_id initial)
             executedBy
             [(''source'', JStr ''workflow-draft-test-start''), (''testSessionId'', JStr (dt_id test)),
              (''originalWorkflowId'', JStr f), (''stockStatus'', JStr ''NONE'')]))
           (sreturn \<lparr>sta_sessionId = dt_id test, sta_saleOrderId = so_id order,
              sta_draftWorkflowId = wf_id (ag_workflow ag), sta_currentState = initial\<rparr>)))))))"

definition restore_original :: "draft_test \<Rightarrow> sale_order \<Rightarrow> sale_order" where
  "restore_original t x = x\<lparr>so_workflowId := dt_originalWorkflowId t,
     so_currentStateId := dt_originalStateId t, so_warehouseId := dt_originalWarehouseId t,
     so_invoiceSend := dt_originalInvoiceSend t, so_prepared := dt_originalPrepared t,
     so_preguide := dt_originalPreguide t, so_reserveBool := dt_originalReserveBool t,
     so_stockRevertedBool := dt_originalStockRevertedBool t\<rparr>"

definition close_test :: "string \<Rightarrow> string \<Rightarrow> int \<Rightarrow> unit studio_service" where
  "close_test i executedBy t = smodify (\<lambda>u. u\<lparr>st_tests := update_where (\<lambda>x. dt_id x = i)
     (\<lambda>x. x\<lparr>dt_status := TEST_REVERTED, dt_revertedBy := Some executedBy, dt_revertedAt := Some t\<rparr>)
     (st_tests u)\<rparr>)"

text \<open>What the draft has written in the history of the order since the trial began.\<close>

definition trial_entry :: "draft_test \<Rightarrow> string \<Rightarrow> state_history \<Rightarrow> bool" where
  "trial_entry t i h \<longleftrightarrow> sh_saleOrderId h = i \<and> sh_workflowId h = dt_draftWorkflowId t \<and>
     dt_startedAt t \<le> sh_executedAt h"

definition delete_trial_history :: "draft_test \<Rightarrow> string \<Rightarrow> unit service" where
  "delete_trial_history t i =
     smodify (\<lambda>s. s\<lparr>w_history := filter (\<lambda>h. \<not> trial_entry t i h) (w_history s)\<rparr>)"

definition restore_order :: "draft_test \<Rightarrow> string \<Rightarrow> unit service" where
  "restore_order test executedBy =
     sbind (reread (dt_saleOrderId test) (NotFoundException ''Pedido de prueba no encontrado'')) (\<lambda>order.
     sbind (resolve_edit_policy order) (\<lambda>policy.
     sthen (reconcileStock order (ep_stockStatus policy) NoStock executedBy)
     (sthen (update_order (so_id order) (\<lambda>x. x\<lparr>so_warehouseId := dt_originalWarehouseId test\<rparr>))
     (sbind (reread (so_id order) null_order) (\<lambda>again.
      sthen (reconcileStock again NoStock (normalizeStockStatus (dt_originalStockStatus test)) executedBy)
        (update_order (so_id again) (restore_original test)))))))"

definition revert_test :: "string \<Rightarrow> string \<Rightarrow> string \<Rightarrow> (string \<times> string) studio_service" where
  "revert_test draftWorkflowId sessionId executedBy =
     sbind (sreads (\<lambda>u. List.find (\<lambda>t. dt_id t = sessionId \<and> dt_draftWorkflowId t = draftWorkflowId \<and>
              dt_status t = TEST_ACTIVE) (st_tests u))) (\<lambda>found.
     case found of
       None \<Rightarrow> sthrow (NotFoundException ''Prueba activa no encontrada'')
     | Some test \<Rightarrow>
         (case (nonempty (dt_originalWorkflowId test), nonempty (dt_originalStateId test)) of
            (Some f, Some a) \<Rightarrow>
              sthen (on_world (restore_order test executedBy))
              (sbind (on_world now) (\<lambda>t.
               sthen (close_test (dt_id test) executedBy t)
               (sthen (on_world (delete_trial_history test (dt_saleOrderId test)))
               (sthen (on_world (lifecycle_history (dt_saleOrderId test) f (Some a) a executedBy
                   [(''source'', JStr ''workflow-draft-test-revert''), (''testSessionId'', JStr (dt_id test)),
                    (''stockStatus'', JStr (order_stock_name (dt_originalStockStatus test)))]))
                 (sreturn (dt_id test, dt_saleOrderId test))))))
          | _ \<Rightarrow> sthrow (BadRequestException ''La prueba no tiene un estado original restaurable'')))"

record test_row =
  tr_id :: string
  tr_saleOrderId :: string
  tr_status :: test_status
  tr_startedAt :: int
  tr_revertedAt :: "int option"
  tr_serie :: "string option"
  tr_correlative :: "int option"
  tr_currentSaleOrderStateId :: "string option"

definition listTests :: "string \<Rightarrow> test_row list studio_service" where
  "listTests draftWorkflowId = sreads (\<lambda>u. let s = st_world u in
     [\<lparr>tr_id = dt_id t, tr_saleOrderId = dt_saleOrderId t, tr_status = dt_status t,
       tr_startedAt = dt_startedAt t, tr_revertedAt = dt_revertedAt t, tr_serie = so_serie x,
       tr_correlative = so_correlative x,
       tr_currentSaleOrderStateId = Option.bind (so_currentStateId x) (\<lambda>a.
         map_option ws_saleOrderStateId (find_by ws_id a (c_states (w_catalog s))))\<rparr>.
      t \<leftarrow> sort_cmp (\<lambda>a b. dt_startedAt b - dt_startedAt a)
             (filter (\<lambda>t. dt_draftWorkflowId t = draftWorkflowId) (st_tests u)),
      x \<leftarrow> w_orders s, so_id x = dt_saleOrderId t])"

section \<open>Publication\<close>

record preview_item =
  pv_saleOrderId :: string
  pv_serie :: "string option"
  pv_correlative :: "int option"
  pv_fromWorkflowId :: "string option"
  pv_fromStateId :: "string option"
  pv_toStateId :: string
  pv_toStateName :: string
  pv_currentStockStatus :: order_stock_status
  pv_desiredStockStatus :: order_stock_status
  pv_fromWarehouseId :: "string option"
  pv_toWarehouseId :: "string option"
  pv_warehouseChanged :: bool
  pv_stockActions :: "action_type list"
  pv_transitionNames :: "string list"

record publish_preview =
  pp_workflowId :: string
  pp_revision :: int
  pp_pendingOrders :: nat
  pp_activeTests :: nat
  pp_inventoryAdjustments :: nat
  pp_items :: "preview_item list"

definition preview_item_of ::
  "(string \<Rightarrow> string \<Rightarrow> int) \<Rightarrow> (string \<Rightarrow> int option) \<Rightarrow> workflow_aggregate \<Rightarrow> sale_order \<Rightarrow>
   preview_item list \<Rightarrow> preview_item list service" where
  "preview_item_of lc pd ag order items =
     sbind (analyzeTarget lc pd order ag) (\<lambda>analysis.
     sbind (resolve_edit_policy order) (\<lambda>policy.
       sreturn (items @ [\<lparr>pv_saleOrderId = so_id order, pv_serie = so_serie order,
         pv_correlative = so_correlative order, pv_fromWorkflowId = so_workflowId order,
         pv_fromStateId = so_currentStateId order, pv_toStateId = ws_id (mw_state analysis),
         pv_toStateName = ws_name (mw_state analysis),
         pv_currentStockStatus = ep_stockStatus policy, pv_desiredStockStatus = mw_stock analysis,
         pv_fromWarehouseId = so_warehouseId order, pv_toWarehouseId = mw_warehouseId analysis,
         pv_warehouseChanged = (so_warehouseId order \<noteq> mw_warehouseId analysis),
         pv_stockActions = planMigrationStockActions (ep_stockStatus policy) (mw_stock analysis)
           (so_warehouseId order) (mw_warehouseId analysis),
         pv_transitionNames = mw_transitionNames analysis\<rparr>])))"

definition preview_publish ::
  "(string \<Rightarrow> string \<Rightarrow> int) \<Rightarrow> (string \<Rightarrow> int option) \<Rightarrow> string \<Rightarrow> publish_preview studio_service" where
  "preview_publish lc pd draftWorkflowId =
     sbind (on_world (getDraft draftWorkflowId)) (\<lambda>ag.
     sthen (on_world (assertNoCurrentNameConflict (ag_workflow ag)))
     (sbind (on_world (listPendingFamilyOrders (wf_familyId (ag_workflow ag)))) (\<lambda>rows.
      sbind (on_world (sfold (preview_item_of lc pd ag) rows [])) (\<lambda>items.
      sbind (sreads (\<lambda>u. length (filter (\<lambda>t. dt_draftWorkflowId t = draftWorkflowId \<and>
               dt_status t = TEST_ACTIVE) (st_tests u)))) (\<lambda>activeTests.
        sreturn \<lparr>pp_workflowId = wf_id (ag_workflow ag), pp_revision = wf_revision (ag_workflow ag),
          pp_pendingOrders = length items, pp_activeTests = activeTests,
          pp_inventoryAdjustments = length (filter (\<lambda>i. pv_stockActions i \<noteq> []) items),
          pp_items = items\<rparr>)))))"

text \<open>Stock and warehouse of an order, from where they are to where the analysis wants them.\<close>

definition migrate_stock ::
  "sale_order \<Rightarrow> order_stock_status \<Rightarrow> migration_walk \<Rightarrow> string \<Rightarrow> app_error \<Rightarrow> unit service" where
  "migrate_stock order stock analysis executedBy missing =
     (if so_warehouseId order \<noteq> mw_warehouseId analysis then
        sthen (reconcileStock order stock NoStock executedBy)
        (sthen (update_order (so_id order) (\<lambda>x. x\<lparr>so_warehouseId := mw_warehouseId analysis\<rparr>))
        (sbind (reread (so_id order) missing) (\<lambda>moved.
          reconcileStock moved NoStock (mw_stock analysis) executedBy)))
      else reconcileStock order stock (mw_stock analysis) executedBy)"

definition land_order :: "workflow_aggregate \<Rightarrow> migration_walk \<Rightarrow> sale_order \<Rightarrow> sale_order" where
  "land_order ag analysis x = x\<lparr>so_workflowId := Some (wf_id (ag_workflow ag)),
     so_currentStateId := Some (ws_id (mw_state analysis)), so_warehouseId := mw_warehouseId analysis,
     so_invoiceSend := ms_invoiceSent (mw_tracking analysis),
     so_prepared := ms_prepared (mw_tracking analysis),
     so_preguide := ms_preguide (mw_tracking analysis)\<rparr>"

record migration =
  mg_saleOrderId :: string
  mg_toState :: workflow_state
  mg_stockActions :: "action_type list"

definition migrate_order ::
  "(string \<Rightarrow> string \<Rightarrow> int) \<Rightarrow> (string \<Rightarrow> int option) \<Rightarrow> workflow_aggregate \<Rightarrow> string \<Rightarrow> string \<Rightarrow>
   migration list \<Rightarrow> migration list service" where
  "migrate_order lc pd ag executedBy saleOrderId migrations =
     sbind (findByIdForUpdate saleOrderId) (\<lambda>found.
     case (found, Option.bind found (nonempty \<circ> so_workflowId), Option.bind found (nonempty \<circ> so_currentStateId)) of
       (Some order, Some f, Some a) \<Rightarrow>
         sbind (analyzeTarget lc pd order ag) (\<lambda>analysis.
         sbind (resolve_edit_policy order) (\<lambda>policy.
           (let actions = planMigrationStockActions (ep_stockStatus policy) (mw_stock analysis)
                  (so_warehouseId order) (mw_warehouseId analysis);
                g = wf_id (ag_workflow ag)
            in sthen (migrate_stock order (ep_stockStatus policy) analysis executedBy
                   (NotFoundException ''Pedido no encontrado durante la migracion''))
               (sthen (update_order (so_id order) (land_order ag analysis))
               (sthen (lifecycle_history (so_id order) g (Some a) (ws_id (mw_state analysis)) executedBy
                   [(''source'', JStr ''workflow-revision-migration''), (''fromWorkflowId'', JStr f),
                    (''toWorkflowId'', JStr g),
                    (''transitionIds'', JArr (map JStr (mw_transitionIds analysis))),
                    (''stockActions'', action_names actions),
                    (''stockStatus'', JStr (order_stock_name (mw_stock analysis))),
                    (''fromWarehouseId'', option_json (so_warehouseId order)),
                    (''toWarehouseId'', option_json (mw_warehouseId analysis))])
                 (sreturn (migrations @ [\<lparr>mg_saleOrderId = so_id order, mg_toState = mw_state analysis,
                    mg_stockActions = actions\<rparr>])))))))
     | _ \<Rightarrow> sreturn migrations)"

definition archive_previous :: "string \<Rightarrow> unit service" where
  "archive_previous familyId =
     sbind (listByFamilyId familyId) (\<lambda>family.
     case List.find (\<lambda>w. wf_isCurrent w \<and> wf_lifecycleStatus w = PUBLISHED) family of
       None \<Rightarrow> sreturn ()
     | Some previous \<Rightarrow>
         sbind now (\<lambda>t.
         sbind (workflows_save (copyWorkflow previous
             (\<lambda>p. p\<lparr>wfp_lifecycleStatus := Some ARCHIVED, wfp_isCurrent := Some False\<rparr>) t))
           (\<lambda>_. sreturn ())))"

definition publish_revision :: "workflow \<Rightarrow> string \<Rightarrow> workflow service" where
  "publish_revision w executedBy =
     sbind now (\<lambda>t.
       workflows_save (copyWorkflow w
         (\<lambda>p. p\<lparr>wfp_lifecycleStatus := Some PUBLISHED, wfp_isCurrent := Some True, wfp_isActive := True,
            wfp_publishedAt := Some t, wfp_publishedBy := Some executedBy\<rparr>) t))"

record publish_result =
  pu_workflow :: workflow
  pu_revertedTests :: nat
  pu_migratedOrders :: nat
  pu_migrations :: "migration list"

definition publish ::
  "(string \<Rightarrow> string \<Rightarrow> int) \<Rightarrow> (string \<Rightarrow> int option) \<Rightarrow> string \<Rightarrow> string \<Rightarrow>
   publish_result studio_service" where
  "publish lc pd draftWorkflowId executedBy =
     sbind (on_world (getDraft draftWorkflowId)) (\<lambda>ag.
     (let w = ag_workflow ag in
     sthen (on_world (assertNoCurrentNameConflict w))
     (sbind (sreads (\<lambda>u. filter (\<lambda>t. dt_draftWorkflowId t = wf_id w \<and> dt_status t = TEST_ACTIVE)
              (st_tests u))) (\<lambda>activeTests.
      sthen (sfor activeTests (\<lambda>t. sbind (revert_test (wf_id w) (dt_id t) executedBy) (\<lambda>_. sreturn ())))
      (sbind (on_world (listPendingFamilyOrders (wf_familyId w))) (\<lambda>pending.
       sbind (on_world (sfold (migrate_order lc pd ag executedBy) (map so_id pending) [])) (\<lambda>migrations.
       sthen (on_world (archive_previous (wf_familyId w)))
       (sbind (on_world (publish_revision w executedBy)) (\<lambda>published.
         sreturn \<lparr>pu_workflow = published, pu_revertedTests = length activeTests,
           pu_migratedOrders = length migrations, pu_migrations = migrations\<rparr>)))))))))"

section \<open>Repair of one order\<close>

record repair_changes =
  rx_workflow :: bool
  rx_state :: bool
  rx_warehouse :: bool
  rx_markers :: bool
  rx_stock :: bool

record repair_result =
  rp_repaired :: bool
  rp_reason :: string
  rp_saleOrderId :: string
  rp_fromWorkflowId :: string
  rp_toWorkflowId :: string
  rp_fromRevision :: "int option"
  rp_revision :: int
  rp_fromState :: "string \<times> string"
  rp_toState :: "string \<times> string"
  rp_stockFrom :: order_stock_status
  rp_stockTo :: order_stock_status
  rp_stockActions :: "action_type list"
  rp_changes :: "repair_changes option"

definition in_force :: "workflow \<Rightarrow> bool" where
  "in_force w \<longleftrightarrow> wf_isCurrent w \<and> wf_isActive w \<and> wf_lifecycleStatus w = PUBLISHED"

definition repair_target :: "workflow_aggregate \<Rightarrow> workflow_aggregate service" where
  "repair_target assigned =
     sbind (listByFamilyId (wf_familyId (ag_workflow assigned))) (\<lambda>family.
       (let current = (case sort_cmp (\<lambda>a b. wf_revision b - wf_revision a) (filter in_force family) of
              w # _ \<Rightarrow> Some w
            | [] \<Rightarrow> if in_force (ag_workflow assigned) then Some (ag_workflow assigned) else None)
        in case current of
             None \<Rightarrow> sthrow (BadRequestException
               ''No existe una revision publicada vigente para el flujo del pedido'')
           | Some w \<Rightarrow>
               if wf_id w = wf_id (ag_workflow assigned) then sreturn assigned
               else sbind (findWorkflowDetailed (wf_id w)) (\<lambda>found. case found of
                   None \<Rightarrow> sthrow (NotFoundException ''Revision vigente del flujo no encontrada'')
                 | Some g \<Rightarrow> sreturn g)))"

text \<open>The order to repair, the state it is in, its workflow and the revision in force.\<close>

definition repair_context ::
  "string \<Rightarrow> (sale_order \<times> workflow_state \<times> workflow_aggregate \<times> workflow_aggregate) service" where
  "repair_context saleOrderId =
     sbind (findByIdForUpdate saleOrderId) (\<lambda>found.
     case found of
       None \<Rightarrow> sthrow (NotFoundException ''Pedido no encontrado'')
     | Some order \<Rightarrow>
         if \<not> so_isActive order then sthrow (NotFoundException ''Pedido no encontrado'')
         else (case (nonempty (so_workflowId order), nonempty (so_currentStateId order)) of
           (Some f, Some a) \<Rightarrow>
             sbind (findWorkflowDetailed f) (\<lambda>assigned.
             case assigned of
               None \<Rightarrow> sthrow (NotFoundException ''Flujo del pedido no encontrado'')
             | Some g \<Rightarrow>
                 (case state_in g a of
                    None \<Rightarrow> sthrow (BadRequestException ''Estado actual del pedido invalido'')
                  | Some st \<Rightarrow>
                      sthen (sguard (\<not> ws_isFinal st)
                          (BadRequestException ''No se puede reparar un pedido finalizado''))
                        (sbind (repair_target g) (\<lambda>target. sreturn (order, st, g, target)))))
         | _ \<Rightarrow> sthrow (BadRequestException ''El pedido no tiene flujo y estado asignados'')))"

definition repair_changes_of ::
  "sale_order \<Rightarrow> order_stock_status \<Rightarrow> workflow_aggregate \<Rightarrow> migration_walk \<Rightarrow> repair_changes" where
  "repair_changes_of order stock target analysis = \<lparr>
     rx_workflow = (so_workflowId order \<noteq> Some (wf_id (ag_workflow target))),
     rx_state = (so_currentStateId order \<noteq> Some (ws_id (mw_state analysis))),
     rx_warehouse = (so_warehouseId order \<noteq> mw_warehouseId analysis),
     rx_markers = (so_invoiceSend order \<noteq> ms_invoiceSent (mw_tracking analysis) \<or>
       so_prepared order \<noteq> ms_prepared (mw_tracking analysis) \<or>
       so_preguide order \<noteq> ms_preguide (mw_tracking analysis) \<or>
       so_reserveBool order \<noteq> (mw_stock analysis = StockReserved)),
     rx_stock = (stock \<noteq> mw_stock analysis)\<rparr>"

definition any_change :: "repair_changes \<Rightarrow> bool" where
  "any_change c \<longleftrightarrow> rx_workflow c \<or> rx_state c \<or> rx_warehouse c \<or> rx_markers c \<or> rx_stock c"

definition write_repair ::
  "sale_order \<Rightarrow> workflow_state \<Rightarrow> workflow_aggregate \<Rightarrow> workflow_aggregate \<Rightarrow> migration_walk \<Rightarrow>
   order_stock_status \<Rightarrow> string \<Rightarrow> unit service" where
  "write_repair order st assigned target analysis stock executedBy =
     (let from = normalizeStockStatus stock; f = wf_id (ag_workflow assigned);
          g = wf_id (ag_workflow target); to = ws_id (mw_state analysis)
      in sthen (migrate_stock order stock analysis executedBy null_order)
         (sthen (update_order (so_id order) (\<lambda>x. (land_order target analysis x)
             \<lparr>so_reserveBool := (mw_stock analysis = StockReserved)\<rparr>))
           (lifecycle_history (so_id order) g (Some (ws_id st)) to executedBy
             [(''source'', JStr ''sale-order-workflow-repair''), (''fromWorkflowId'', JStr f),
              (''toWorkflowId'', JStr g),
              (''fromRevision'', JNum (of_int (wf_revision (ag_workflow assigned)))),
              (''toRevision'', JNum (of_int (wf_revision (ag_workflow target)))),
              (''transitionIds'', JArr (map JStr (mw_transitionIds analysis))),
              (''transitionNames'', JArr (map JStr (mw_transitionNames analysis))),
              (''stockStatus'', JStr (order_stock_name (mw_stock analysis))),
              (''previousStockStatus'', JStr (order_stock_name from)),
              (''stockActions'', action_names (planMigrationStockActions stock (mw_stock analysis)
                 (so_warehouseId order) (mw_warehouseId analysis))),
              (''previousStateId'', JStr (ws_id st)), (''stateId'', JStr to)])))"

definition repair_order ::
  "(string \<Rightarrow> string \<Rightarrow> int) \<Rightarrow> (string \<Rightarrow> int option) \<Rightarrow> string \<Rightarrow> string \<Rightarrow> repair_result service" where
  "repair_order lc pd saleOrderId executedBy =
     sbind (repair_context saleOrderId) (\<lambda>(order, st, assigned, target).
     sbind (analyzeTarget lc pd order target) (\<lambda>analysis.
     sbind (resolve_edit_policy order) (\<lambda>policy.
       (let stock = ep_stockStatus policy;
            changes = repair_changes_of order (normalizeStockStatus stock) target analysis;
            result = \<lparr>rp_repaired = any_change changes,
              rp_reason = (if any_change changes then ''workflow-reconciled'' else ''already-consistent''),
              rp_saleOrderId = so_id order, rp_fromWorkflowId = wf_id (ag_workflow assigned),
              rp_toWorkflowId = wf_id (ag_workflow target),
              rp_fromRevision = (if any_change changes then Some (wf_revision (ag_workflow assigned)) else None),
              rp_revision = wf_revision (ag_workflow target),
              rp_fromState = (ws_id st, ws_name st),
              rp_toState = (ws_id (mw_state analysis), ws_name (mw_state analysis)),
              rp_stockFrom = normalizeStockStatus stock, rp_stockTo = mw_stock analysis,
              rp_stockActions = (if any_change changes then planMigrationStockActions stock (mw_stock analysis)
                 (so_warehouseId order) (mw_warehouseId analysis) else []),
              rp_changes = (if any_change changes then Some changes else None)\<rparr>
        in sthen (swhen (any_change changes)
               (write_repair order st assigned target analysis stock executedBy))
             (sreturn result)))))"

end
