(* ===== verification/RevisionRelations.thy ===== *)
theory RevisionRelations
  imports RevisionLife Steps Conservation
begin

text \<open>
  What the operations on revisions keep. The corrections of the stock keep whatever the stock
  services keep (\<open>stock_relation\<close>); \<open>revision_relation\<close> adds the writes of the life of a
  revision itself and concludes for a trial, its return, the publication and the repair.
\<close>

section \<open>Corrections of the stock\<close>

context order_writes
begin

lemma replays_stock: "relates R (replay_stock h st)"
  unfolding replay_stock_def
  by (intro ensures_option relates_bind reads_any ensures_return TrueI)

lemma resolves_policy: "relates R (resolve_edit_policy order)"
  unfolding resolve_edit_policy_def resolveStockStatus_def resolveFinalState_def Let_def
  by (intro relates_bind relates_fold reads_any replays_stock ensures_cases step_rules TrueI)

lemma migration_steps_read: "relates R (migration_steps lc pd ag n w)"
proof (induction n arbitrary: w)
  case (Suc n)
  then show ?case unfolding migration_steps.simps migration_step_def
    by (intro relates_bind builds_context reads_any ensures_lift ensures_cases step_rules TrueI)
qed (simp add: ensures_return)

lemma analyzes_target: "relates R (analyzeTarget lc pd order ag)"
  unfolding analyzeTarget_def by (intro ensures_option ensures_throw migration_steps_read)

lemma rereads: "ensures R (\<lambda>x. so_id x = i) (reread i e)"
  unfolding reread_def
  by (intro ensures_bind [OF reads_order] ensures_option step_rules) simp

lemma gets_draft: "relates R (getDraft f)"
  unfolding getDraft_def by (intro relates_bind reads_any ensures_cases step_rules TrueI)

lemma revision_reads:
  "relates R (listByFamilyId k)" "relates R (findActiveByNormalizedName n)"
  "relates R (listPendingFamilyOrders k)" "relates R (assertNoCurrentNameConflict w)"
  unfolding listByFamilyId_def findActiveByNormalizedName_def listPendingFamilyOrders_def
    assertNoCurrentNameConflict_def
  by (intro relates_bind ensures_reads ensures_guard)+

lemma repair_contexts: "ensures R (\<lambda>(x, st, f, g). so_id x = i) (repair_context i)"
proof -
  have "relates R (repair_target f)" for f
    unfolding repair_target_def Let_def
    by (intro relates_bind revision_reads reads_any ensures_cases step_rules TrueI)
  then show ?thesis unfolding repair_context_def
    by (auto intro!: ensures_bind [OF reads_order] ensures_option ensures_if ensures_pair relates_bind
        reads_any ensures_then ensures_guard ensures_throw ensures_return)
qed

end

context stock_relation
begin

lemma releases_previous: "writes (so_id order) \<Longrightarrow> relates R (releasePreviousComposition order st e)"
  unfolding releasePreviousComposition_def restoreAndReserve_def
  by (intro ensures_if ensures_throw ensures_return ensures_then ensures_when relates_bind restores
      requirements marks reconciles ensures_guard TrueI)

lemma reserves_corrected: "writes (so_id order) \<Longrightarrow> relates R (reserveCorrectedComposition order)"
  unfolding reserveCorrectedComposition_def
  by (intro ensures_if ensures_throw relates_bind ensures_then requirements marks reconciles)

lemma consumes_corrected: "writes (so_id order) \<Longrightarrow> relates R (consumeCorrectedComposition order)"
  unfolding consumeCorrectedComposition_def
  by (intro relates_bind ensures_then requirements marks reconciles consumption)

lemma restores_as_reserved: "writes (so_id order) \<Longrightarrow> relates R (restoreConsumedAsReserved order e)"
  unfolding restoreConsumedAsReserved_def restoreAndReserve_def
  by (intro relates_bind ensures_then requirements restores reconciles ensures_guard ensures_return TrueI)

lemma reconciles_stock: "writes (so_id order) \<Longrightarrow> relates R (reconcileStock order st st' e)"
  unfolding reconcileStock_def Let_def
  by (intro ensures_if ensures_return relates_bind ensures_then ensures_when releases_previous
      reserves_corrected restores_as_reserved consumes_corrected TrueI)

end

section \<open>The writes of a revision\<close>

text \<open>What no operation on a revision touches of an order.\<close>

definition order_rest :: "sale_order \<Rightarrow> sale_order" where
  "order_rest x = (order_core x)\<lparr>so_workflowId := None\<rparr>"

definition keeps_rest :: "(sale_order \<Rightarrow> sale_order) \<Rightarrow> bool" where
  "keeps_rest f \<longleftrightarrow> (\<forall>x. order_rest (f x) = order_rest x)"

lemma order_rest_id: "order_rest x = order_rest y \<Longrightarrow> so_id x = so_id y"
  unfolding order_rest_def order_core_def by (cases x; cases y) simp

lemma keeps_rest_writes:
  "keeps_rest (enter_draft f a)" "keeps_rest (restore_original t)"
  "keeps_rest (\<lambda>x. x\<lparr>so_warehouseId := w\<rparr>)" "keeps_rest (land_order ag m)"
  "keeps_rest (\<lambda>x. (land_order ag m x)\<lparr>so_reserveBool := b\<rparr>)"
  by (simp_all add: keeps_rest_def order_rest_def order_core_def enter_draft_def restore_original_def
      land_order_def)

definition lifted :: "(world \<Rightarrow> world \<Rightarrow> bool) \<Rightarrow> studio \<Rightarrow> studio \<Rightarrow> bool" where
  "lifted R u u' \<longleftrightarrow> R (st_world u) (st_world u')"

lemma on_world_Inr:
  "on_world m u = Inr (a, u') \<longleftrightarrow> (\<exists>s. m (st_world u) = Inr (a, s) \<and> u' = u\<lparr>st_world := s\<rparr>)"
  by (auto simp: on_world_def split: sum.splits)

lemma lifts: "ensures R Q m \<Longrightarrow> ensures (lifted R) Q (on_world m)"
  by (auto simp: ensures_def on_world_Inr lifted_def)

lemma lifts_tests: "(\<And>s. R s s) \<Longrightarrow> (\<And>u. st_world (g u) = st_world u) \<Longrightarrow> relates (lifted R) (smodify g)"
  by (simp add: ensures_def smodify_Inr lifted_def)

locale revision_relation = stock_relation R "\<lambda>_. True"
  for R :: "world \<Rightarrow> world \<Rightarrow> bool" +
  assumes any_order_write: "keeps_rest f \<Longrightarrow> relates R (update_order i f)"
    and fresh_write: "relates R fresh_id"
    and history_append: "relates R (appendHistory h)"
    and history_cut: "relates R (delete_trial_history t i)"
    and workflow_write: "relates R (workflows_save w)"
begin

sublocale lifting: preorder_on_states "lifted R"
  by unfold_locales (simp_all add: lifted_def R_refl, rule R_trans)

lemma writes_history: "relates R (lifecycle_history i f a b e m)"
  unfolding lifecycle_history_def by (intro relates_bind fresh_write reads_any history_append)

lemma checks_test_order: "relates (lifted R) (check_test_order ag i)"
  unfolding check_test_order_def
  by (auto intro!: lifting.relates_bind lifts reads_any lifting.step_rules lifting.ensures_reads
      ensures_option split: option.splits)

lemma saves_test: "relates (lifted R) (save_test ag order st e)"
  unfolding save_test_def Let_def
  by (intro lifting.relates_bind lifts fresh_write reads_any lifting.ensures_then lifts_tests
      lifting.ensures_return R_refl TrueI) simp

theorem starts_test: "relates (lifted R) (start_test d i e)"
  unfolding start_test_def
  by (intro lifting.relates_bind lifts gets_draft ensures_option ensures_pair checks_test_order
      resolves_policy saves_test lifting.ensures_then reconciles_stock any_order_write
      keeps_rest_writes writes_history lifting.step_rules TrueI)

lemma restores_order: "relates R (restore_order t e)"
  unfolding restore_order_def
  by (intro relates_bind ensures_then relates_ensures [OF rereads] resolves_policy reconciles_stock
      any_order_write keeps_rest_writes TrueI)

theorem reverts_test: "relates (lifted R) (revert_test d k e)"
proof -
  have "relates (lifted R) (close_test i e t)" for i e t
    unfolding close_test_def by (rule lifts_tests) (simp_all add: R_refl)
  then show ?thesis unfolding revert_test_def
    by (auto intro!: lifting.relates_bind lifts restores_order reads_any lifting.ensures_then history_cut
        writes_history lifting.step_rules lifting.ensures_reads ensures_option split: option.splits)
qed

lemma migrates_stock: "relates R (migrate_stock order st m e err)"
  unfolding migrate_stock_def
  by (intro ensures_if ensures_then relates_bind relates_ensures [OF rereads] reconciles_stock
      any_order_write keeps_rest_writes TrueI)

lemma migrates_order: "relates R (migrate_order lc pd ag e i ms)"
  unfolding migrate_order_def Let_def
  by (auto intro!: relates_bind reads_any analyzes_target resolves_policy ensures_then migrates_stock
      any_order_write keeps_rest_writes writes_history ensures_return split: option.splits)

theorem publishes: "relates (lifted R) (publish lc pd d e)"
proof -
  have "relates R (archive_previous k)" "relates R (publish_revision w e)" for k w e
    unfolding archive_previous_def publish_revision_def
    by (intro relates_bind revision_reads reads_any workflow_write ensures_option ensures_return TrueI)+
  then show ?thesis unfolding publish_def Let_def
    by (intro lifting.relates_bind lifts gets_draft revision_reads lifting.ensures_then
        lifting.ensures_reads lifting.relates_for reverts_test relates_fold migrates_order
        lifting.ensures_return TrueI) simp_all
qed

theorem repairs: "relates R (repair_order lc pd i e)"
  unfolding repair_order_def write_repair_def Let_def
  by (intro relates_bind relates_ensures [OF repair_contexts] ensures_pair analyzes_target resolves_policy
      ensures_then ensures_when migrates_stock any_order_write keeps_rest_writes writes_history
      ensures_return TrueI)

end

section \<open>The interface on the model's repositories\<close>

text \<open>The columns outside the reach of a revision stay, order by order.\<close>

definition rest_kept :: "world \<Rightarrow> world \<Rightarrow> bool" where
  "rest_kept s s' \<longleftrightarrow> map order_rest (w_orders s') = map order_rest (w_orders s)"

lemma rest_update: "keeps_rest f \<Longrightarrow> map order_rest (update_where p f xs) = map order_rest xs"
  by (simp add: update_where_def keeps_rest_def)

lemma evolving_rest: "order_evolves x y \<Longrightarrow> order_rest y = order_rest x"
  by (simp add: order_evolves_def order_rest_def)

lemma orders_evolve_rest: "orders_evolve s s' \<Longrightarrow> rest_kept s s'"
  unfolding orders_evolve_def rest_kept_def
  by (induction rule: list_all2_induct) (simp_all add: evolving_rest)

lemma harmless_keeps_rest: "harmless f \<Longrightarrow> keeps_rest f"
  by (simp add: harmless_def keeps_rest_def evolving_rest)

interpretation resting: repository_relation rest_kept "\<lambda>_. True"
  by unfold_locales (auto simp: rest_kept_def ensures_def rest_update harmless_keeps_rest dest!: write_shapes)

lemma workflows_save_Inr:
  "workflows_save w s = Inr (w', s') \<Longrightarrow> w' = new_workflow (workflow_props_of w) \<and>
   s' = s\<lparr>w_catalog := (w_catalog s)\<lparr>c_workflows := save_row_by wf_id w (c_workflows (w_catalog s))\<rparr>\<rparr>"
  by (auto simp: workflows_save_def action_Inr)

lemma delete_trial_history_Inr:
  "delete_trial_history t i s = Inr (u, s') \<Longrightarrow>
   s' = s\<lparr>w_history := filter (\<lambda>h. \<not> trial_entry t i h) (w_history s)\<rparr>"
  by (simp add: delete_trial_history_def action_Inr)

lemmas revision_shapes = write_shapes workflows_save_Inr delete_trial_history_Inr

interpretation resting: revision_relation rest_kept
  by unfold_locales (auto simp: rest_kept_def ensures_def rest_update dest!: revision_shapes)

interpretation balances: revision_relation "\<lambda>s s'. inventory_ok s \<longrightarrow> inventory_ok s'"
  by unfold_locales (auto simp: ensures_def inventory_ok_def dest!: revision_shapes)

interpretation conserving: revision_relation conserved
  by unfold_locales
     (auto simp: ensures_def conserved_def booked_def on_hand_def no_locations_def dest!: revision_shapes)

end
