(* ===== verification/RevisionLaws.thy ===== *)
theory RevisionLaws
  imports RevisionRelations
begin

text \<open>
  The laws of the life of a revision: what a trial records and what its return restores, where
  the publication puts the orders and which revision it leaves in force, how far the analysis
  of an order walks, and what a repair writes.
\<close>

section \<open>Steps that only read\<close>

lemma on_world_reads:
  assumes "relates (=) m"
  shows "on_world m u = Inr (a, u') \<longleftrightarrow> m (st_world u) = Inr (a, st_world u) \<and> u' = u"
proof -
  have "s = st_world u" if "m (st_world u) = Inr (a, s)" for s
    using relatesD [OF assms that] by simp
  then show ?thesis by (auto simp: on_world_Inr)
qed

lemma nonempty_Some: "nonempty v = Some x \<longleftrightarrow> v = Some x \<and> x \<noteq> []"
  by (auto simp: nonempty_def split: option.splits)

lemma getDraft_Inr:
  assumes "getDraft d s = Inr (ag, s')"
  shows "s' = s \<and> findWorkflowDetailed d s = Inr (Some ag, s) \<and> wf_lifecycleStatus (ag_workflow ag) = DRAFT"
  using assms unfolding getDraft_def
  by (auto simp: reads_bind [OF reading.reads_any(15)] option_throw_Inr sthen_Inr sguard_Inr sreturn_Inr)

lemma policy_reads: "resolve_edit_policy x s = Inr (p, s') \<Longrightarrow> s' = s"
  using relatesD [OF reading.resolves_policy] by blast

lemma workflow_of_aggregate:
  assumes "findWorkflowDetailed f s = Inr (Some ag, s')"
  shows "ag_workflow ag \<in> set (c_workflows (w_catalog s)) \<and> wf_id (ag_workflow ag) = f"
proof (cases "find_by wf_id f (c_workflows (w_catalog s))")
  case (Some w)
  with find_by_SomeD [OF Some] show ?thesis
    using assms by (auto simp: findWorkflowDetailed_def action_Inr Let_def)
qed (use assms in \<open>simp add: findWorkflowDetailed_def action_Inr Let_def\<close>)

lemma reread_Inr: "reread i e s = Inr (x, s') \<Longrightarrow> s' = s \<and> find_by so_id i (w_orders s) = Some x"
  by (auto simp: reread_def reads_bind [OF reading.reads_any(1)] findByIdForUpdate_Inr option_throw_Inr
      sreturn_Inr)

section \<open>A trial\<close>

lemma check_test_order_Inr:
  assumes "check_test_order ag i u = Inr ((x, f, a), u')"
  shows "u' = u \<and> find_by so_id i (w_orders (st_world u)) = Some x \<and> so_workflowId x = Some f \<and>
    so_currentStateId x = Some a"
  using assms unfolding check_test_order_def
  by (auto simp: sbind_Inr [of "on_world (findByIdForUpdate i)"] on_world_reads [OF reading.reads_any(1)]
      findByIdForUpdate_Inr nonempty_Some action_Inr on_world_reads [OF reading.reads_any(15)]
      bind_eq_Some_conv split: option.splits)

lemma restore_of_rest:
  assumes "order_rest y = order_rest x"
    and "dt_originalWorkflowId t = so_workflowId x" "dt_originalStateId t = so_currentStateId x"
      "dt_originalWarehouseId t = so_warehouseId x" "dt_originalInvoiceSend t = so_invoiceSend x"
      "dt_originalPrepared t = so_prepared x" "dt_originalPreguide t = so_preguide x"
      "dt_originalReserveBool t = so_reserveBool x"
      "dt_originalStockRevertedBool t = so_stockRevertedBool x"
  shows "restore_original t y = x"
  using assms unfolding order_rest_def order_core_def restore_original_def
  by (cases x; cases y) simp

text \<open>The row of the trial says what the order was, whatever its other columns.\<close>

definition records_order :: "draft_test \<Rightarrow> sale_order \<Rightarrow> bool" where
  "records_order t x \<longleftrightarrow> (\<forall>y. order_rest y = order_rest x \<longrightarrow> restore_original t y = x)"

lemma save_test_Inr:
  assumes "save_test ag x st e u = Inr (t, u')"
  shows "st_tests u' = st_tests u @ [t] \<and> records_order t x \<and> dt_draftWorkflowId t = wf_id (ag_workflow ag) \<and>
    dt_saleOrderId t = so_id x \<and> dt_status t = TEST_ACTIVE \<and>
    dt_originalWorkflowId t = so_workflowId x \<and> dt_originalStateId t = so_currentStateId x \<and>
    dt_startedAt t = c_now (w_catalog (st_world u))"
  using assms unfolding save_test_def Let_def records_order_def
  by (auto simp: action_Inr on_world_Inr now_def intro!: restore_of_rest dest!: fresh_id_Inr)

lemma start_test_Inr:
  assumes "start_test d i e u = Inr (r, u')"
  shows "\<exists>x t. find_by so_id i (w_orders (st_world u)) = Some x \<and> st_tests u' = st_tests u @ [t] \<and>
    dt_id t = sta_sessionId r \<and> dt_draftWorkflowId t = d \<and> dt_saleOrderId t = i \<and>
    dt_status t = TEST_ACTIVE \<and> dt_startedAt t = c_now (w_catalog (st_world u)) \<and> records_order t x"
proof -
  from assms obtain ag x f a st t u0 u1 where
    ag: "getDraft d (st_world u) = Inr (ag, st_world u)" and
    x0: "check_test_order ag i u = Inr ((x, f, a), u0)" and
    t0: "save_test ag x st e u0 = Inr (t, u1)" and
    r: "st_tests u' = st_tests u1" "sta_sessionId r = dt_id t"
    unfolding start_test_def
    by (clarsimp simp: sbind_Inr sthen_Inr on_world_reads [OF reading.gets_draft] option_throw_Inr
        on_world_reads [OF reading.resolves_policy] on_world_Inr [of "reconcileStock _ _ _ _"]
        on_world_Inr [of "update_order _ _"] on_world_Inr [of "lifecycle_history _ _ _ _ _ _"]
        sreturn_Inr)
  have u0: "u0 = u" using check_test_order_Inr [OF x0] by simp
  note x = x0 [unfolded u0] and t = t0 [unfolded u0]
  have "wf_id (ag_workflow ag) = d" using getDraft_Inr [OF ag] workflow_of_aggregate by blast
  moreover have f: "find_by so_id i (w_orders (st_world u)) = Some x" using check_test_order_Inr [OF x] by simp
  moreover have "so_id x = i" using find_by_SomeD [OF f] by simp
  ultimately show ?thesis using save_test_Inr [OF t] by (intro exI [of _ x] exI [of _ t]) (simp add: r)
qed

text \<open>The return of a trial, before its rows are written, moves no order.\<close>

lemma workflow_warehouse: "relates workflow_kept (update_order i (\<lambda>x. x\<lparr>so_warehouseId := w\<rparr>))"
  by (auto simp: ensures_def workflow_kept_def positions_def map_update_where dest!: update_order_Inr)

lemma restore_order_Inr:
  assumes "restore_order t e s = Inr (v, s')"
  shows "\<exists>s1. workflow_kept s s1 \<and> rest_kept s s1 \<and>
    s' = s1\<lparr>w_orders := update_where (\<lambda>x. so_id x = dt_saleOrderId t) (restore_original t) (w_orders s1)\<rparr>"
proof -
  from assms obtain x y st v1 s1 v2 s2 v3 s3 where
    x: "find_by so_id (dt_saleOrderId t) (w_orders s) = Some x" and
    s1: "reconcileStock x st NoStock e s = Inr (v1, s1)" and
    s2: "update_order (so_id x) (\<lambda>x. x\<lparr>so_warehouseId := dt_originalWarehouseId t\<rparr>) s1 = Inr (v2, s2)" and
    y: "find_by so_id (so_id x) (w_orders s2) = Some y" and
    s3: "reconcileStock y NoStock (normalizeStockStatus (dt_originalStockStatus t)) e s2 = Inr (v3, s3)" and
    s': "update_order (so_id y) (restore_original t) s3 = Inr (v, s')"
    unfolding restore_order_def
    by (clarsimp simp: sbind_Inr sthen_Inr dest!: reread_Inr policy_reads)
  have "workflow_kept s s3"
    by (rule workflow.R_trans [OF relatesD [OF workflow.reconciles_stock s1]
        workflow.R_trans [OF relatesD [OF workflow_warehouse s2] relatesD [OF workflow.reconciles_stock s3]]]) simp_all
  moreover have "rest_kept s s3"
    by (rule resting.R_trans [OF relatesD [OF resting.reconciles_stock s1]
        resting.R_trans [OF relatesD [OF resting.any_order_write s2] relatesD [OF resting.reconciles_stock s3]]])
      (simp_all add: keeps_rest_writes)
  moreover have "so_id y = dt_saleOrderId t" using x y by (auto dest!: find_by_SomeD)
  ultimately show ?thesis using update_order_Inr [OF s'] by auto
qed

lemma lifecycle_history_Inr:
  assumes "lifecycle_history i f a b e m s = Inr (v, s')"
  shows "\<exists>h. w_history s' = w_history s @ [h] \<and> sh_saleOrderId h = i \<and> sh_workflowId h = f \<and>
    sh_toStateId h = b \<and> w_orders s' = w_orders s \<and> w_catalog s' = w_catalog s"
  using assms unfolding lifecycle_history_def
  by (auto simp: action_Inr now_def dest!: fresh_id_Inr appendHistory_Inr)

definition reverted :: "string \<Rightarrow> string \<Rightarrow> int \<Rightarrow> draft_test \<Rightarrow> draft_test" where
  "reverted k e m x = (if dt_id x = k then x\<lparr>dt_status := TEST_REVERTED, dt_revertedBy := Some e,
     dt_revertedAt := Some m\<rparr> else x)"

lemma revert_test_Inr:
  assumes "revert_test d k e u = Inr (r, u')"
  shows "\<exists>t h s1. List.find (\<lambda>t. dt_id t = k \<and> dt_draftWorkflowId t = d \<and> dt_status t = TEST_ACTIVE)
      (st_tests u) = Some t \<and> workflow_kept (st_world u) s1 \<and> rest_kept (st_world u) s1 \<and>
    w_orders (st_world u') =
      update_where (\<lambda>x. so_id x = dt_saleOrderId t) (restore_original t) (w_orders s1) \<and>
    w_catalog (st_world u') = w_catalog (st_world u) \<and>
    w_history (st_world u') =
      filter (\<lambda>h. \<not> trial_entry t (dt_saleOrderId t) h) (w_history (st_world u)) @ [h] \<and>
    st_tests u' = map (reverted k e (c_now (w_catalog (st_world u)))) (st_tests u)"
proof -
  from assms obtain t f a v1 s1 v2 s2 v3 s3 where
    t: "List.find (\<lambda>t. dt_id t = k \<and> dt_draftWorkflowId t = d \<and> dt_status t = TEST_ACTIVE)
      (st_tests u) = Some t" and
    s1: "restore_order t e (st_world u) = Inr (v1, s1)" and
    s2: "delete_trial_history t (dt_saleOrderId t) s1 = Inr (v2, s2)" and
    s3: "lifecycle_history (dt_saleOrderId t) f (Some a) a e
         [(''source'', JStr ''workflow-draft-test-revert''), (''testSessionId'', JStr (dt_id t)),
          (''stockStatus'', JStr (order_stock_name (dt_originalStockStatus t)))] s2 = Inr (v3, s3)" and
    w: "st_world u' = s3" and
    ts: "st_tests u' = update_where (\<lambda>x. dt_id x = dt_id t)
      (\<lambda>x. x\<lparr>dt_status := TEST_REVERTED, dt_revertedBy := Some e, dt_revertedAt := Some (c_now (w_catalog s1))\<rparr>)
      (st_tests u)"
    unfolding revert_test_def
    by (clarsimp simp: sbind_Inr sthen_Inr sreads_Inr sreturn_Inr option_throw_Inr on_world_Inr now_def
        close_test_def smodify_Inr sthrow_Inr split: option.splits)
  have k: "dt_id t = k" using t by (auto simp: find_Some_iff)
  from restore_order_Inr [OF s1] obtain s0 where
    s0: "workflow_kept (st_world u) s0" "rest_kept (st_world u) s0" and
    s1': "s1 = s0\<lparr>w_orders := update_where (\<lambda>x. so_id x = dt_saleOrderId t) (restore_original t) (w_orders s0)\<rparr>"
    by blast
  from lifecycle_history_Inr [OF s3] obtain h where
    "w_history s3 = w_history s2 @ [h]" "w_orders s3 = w_orders s2" "w_catalog s3 = w_catalog s2" by blast
  moreover have "update_where (\<lambda>x. dt_id x = k)
      (\<lambda>x. x\<lparr>dt_status := TEST_REVERTED, dt_revertedBy := Some e, dt_revertedAt := Some m\<rparr>) =
      map (reverted k e m)" for m
    by (simp add: update_where_def reverted_def [abs_def])
  ultimately show ?thesis
    using t s0 delete_trial_history_Inr [OF s2] w ts k
    by (intro exI [of _ t] exI [of _ h] exI [of _ s0]) (simp add: s1' workflow_kept_def)
qed

section \<open>Where a publication puts the orders\<close>

lemma migrate_stock_kept: "migrate_stock x st m e err s = Inr (v, s') \<Longrightarrow> workflow_kept s s'"
proof -
  have "relates workflow_kept (migrate_stock x st m e err)"
    unfolding migrate_stock_def
    by (intro ensures_if workflow.ensures_then workflow.relates_bind relates_ensures [OF workflow.rereads]
        workflow.reconciles_stock workflow_warehouse TrueI)
  from relatesD [OF this] show "migrate_stock x st m e err s = Inr (v, s') \<Longrightarrow> workflow_kept s s'" .
qed

definition place ::
  "string \<Rightarrow> string \<Rightarrow> string \<Rightarrow> string \<times> string option \<times> string option \<times> bool \<Rightarrow>
   string \<times> string option \<times> string option \<times> bool" where
  "place i f a q = (case q of (j, f', a', act) \<Rightarrow> if j = i then (j, Some f, Some a, act) else q)"

lemma positions_land:
  "positions (s\<lparr>w_orders := update_where (\<lambda>x. so_id x = i) (land_order ag m) (w_orders s)\<rparr>) =
   map (place i (wf_id (ag_workflow ag)) (ws_id (mw_state m))) (positions s)"
  by (simp add: positions_def update_where_def place_def land_order_def)

text \<open>An order without a workflow or a state is passed over.\<close>

definition unplaced :: "sale_order \<Rightarrow> bool" where
  "unplaced x \<longleftrightarrow> nonempty (so_workflowId x) = None \<or> nonempty (so_currentStateId x) = None"

lemma migrate_order_Inr:
  assumes "migrate_order lc pd ag e i ms s = Inr (ms', s')"
  shows "w_catalog s' = w_catalog s \<and>
    ((\<exists>a. positions s' = map (place i (wf_id (ag_workflow ag)) a) (positions s)) \<or>
     s' = s \<and> (\<forall>x. find_by so_id i (w_orders s) = Some x \<longrightarrow> unplaced x))"
proof (cases "\<exists>x f a. find_by so_id i (w_orders s) = Some x \<and> nonempty (so_workflowId x) = Some f \<and>
    nonempty (so_currentStateId x) = Some a")
  case False
  then show ?thesis
    using assms unfolding migrate_order_def
    by (auto simp: reads_bind [OF reading.reads_any(1)] findByIdForUpdate_Inr sreturn_Inr unplaced_def
        split: option.splits)
next
  case True
  then obtain x f a where x: "find_by so_id i (w_orders s) = Some x" and
    "nonempty (so_workflowId x) = Some f" "nonempty (so_currentStateId x) = Some a" by blast
  with assms obtain m st err v1 s1 v2 s2 f' md v3 where
    s1: "migrate_stock x st m e err s = Inr (v1, s1)" and
    s2: "update_order (so_id x) (land_order ag m) s1 = Inr (v2, s2)" and
    s3: "lifecycle_history (so_id x) (wf_id (ag_workflow ag)) f' (ws_id (mw_state m)) e md s2 = Inr (v3, s')"
    unfolding migrate_order_def Let_def
    by (clarsimp simp: reads_bind [OF reading.reads_any(1)] findByIdForUpdate_Inr
        reads_bind [OF reading.analyzes_target] reads_bind [OF reading.resolves_policy] sthen_Inr sreturn_Inr)
  have k: "workflow_kept s s1" by (rule migrate_stock_kept [OF s1])
  have i: "so_id x = i" using find_by_SomeD [OF x] by simp
  have "positions s' = positions s2 \<and> w_catalog s' = w_catalog s2"
    using lifecycle_history_Inr [OF s3] by (auto simp: positions_def)
  moreover note update_order_Inr [OF s2]
  ultimately show ?thesis
    using k positions_land [where s = s1 and i = i and ag = ag and m = m] by (auto simp: workflow_kept_def i)
qed

text \<open>
  What the loop over the orders does to a position: the orders of the list come to the new
  revision, or they had no position to leave.
\<close>

definition moved ::
  "string list \<Rightarrow> string \<Rightarrow> string \<times> string option \<times> string option \<times> bool \<Rightarrow>
   string \<times> string option \<times> string option \<times> bool \<Rightarrow> bool" where
  "moved ids g p q \<longleftrightarrow> (case (p, q) of ((i, f, a, act), (i', f', a', act')) \<Rightarrow>
     i' = i \<and> act' = act \<and>
     (f' = f \<and> a' = a \<and> (i \<in> set ids \<longrightarrow> nonempty f = None \<or> nonempty a = None) \<or>
      i \<in> set ids \<and> f' = Some g))"

lemma moved_trans: "moved [i] g p q \<Longrightarrow> moved ids g q r \<Longrightarrow> moved (i # ids) g p r"
  by (auto simp: moved_def split: prod.splits if_splits)

lemma moved_all_trans:
  "list_all2 (moved [i] g) ps qs \<Longrightarrow> list_all2 (moved ids g) qs rs \<Longrightarrow> list_all2 (moved (i # ids) g) ps rs"
  unfolding list_all2_conv_all_nth by (metis moved_trans)

lemma moved_ids: "list_all2 (moved ids g) ps qs \<Longrightarrow> map fst qs = map fst ps"
  by (induction rule: list_all2_induct) (auto simp: moved_def)

lemma migrate_order_moves:
  assumes "distinct (map so_id (w_orders s))" "migrate_order lc pd ag e i ms s = Inr (ms', s')"
  shows "w_catalog s' = w_catalog s \<and>
    list_all2 (moved [i] (wf_id (ag_workflow ag))) (positions s) (positions s')"
proof -
  let ?g = "wf_id (ag_workflow ag)"
  have stays: "list_all2 (moved [i] ?g) (positions s) (positions s)"
    if un: "\<forall>x. find_by so_id i (w_orders s) = Some x \<longrightarrow> unplaced x"
  proof -
    have "unplaced x" if "x \<in> set (w_orders s)" "so_id x = i" for x
      using find_by_distinct [OF assms(1) that(1)] that(2) un by simp
    then have "\<forall>p \<in> set (positions s). moved [i] ?g p p"
      by (auto simp: positions_def moved_def unplaced_def)
    then show ?thesis by (simp add: list_all2_conv_all_nth)
  qed
  have "moved [i] ?g p (place i ?g a p)" for p a
    by (auto simp: moved_def place_def split: prod.splits)
  then have "list_all2 (moved [i] ?g) (positions s) (map (place i ?g a) (positions s))" for a
    by (simp add: list_all2_conv_all_nth)
  with stays migrate_order_Inr [OF assms(2)] show ?thesis by metis
qed

lemma migrate_all_moves:
  assumes "sfold (migrate_order lc pd ag e) ids ms s = Inr (ms', s')" "distinct (map so_id (w_orders s))"
  shows "w_catalog s' = w_catalog s \<and>
    list_all2 (moved ids (wf_id (ag_workflow ag))) (positions s) (positions s')"
  using assms
proof (induction ids arbitrary: ms s)
  case Nil
  then show ?case by (auto simp: sreturn_Inr list_all2_conv_all_nth moved_def split: prod.splits)
next
  case (Cons i ids)
  from Cons.prems(1) obtain ms1 s1 where
    1: "migrate_order lc pd ag e i ms s = Inr (ms1, s1)" and
    2: "sfold (migrate_order lc pd ag e) ids ms1 s1 = Inr (ms', s')" by (auto simp: sbind_Inr)
  note m = migrate_order_moves [OF Cons.prems(2) 1]
  then have "distinct (map so_id (w_orders s1))"
    using moved_ids [of "[i]" "wf_id (ag_workflow ag)" "positions s" "positions s1"] Cons.prems(2)
    by (simp add: ids_positions)
  from Cons.IH [OF 2 this] have c: "w_catalog s' = w_catalog s1"
    and n: "list_all2 (moved ids (wf_id (ag_workflow ag))) (positions s1) (positions s')" by simp_all
  from m n have "list_all2 (moved (i # ids) (wf_id (ag_workflow ag))) (positions s) (positions s')"
    by (blast intro: moved_all_trans)
  with m c show ?case by simp
qed

section \<open>Which revision is in force\<close>

definition published_in :: "string \<Rightarrow> catalog \<Rightarrow> workflow list" where
  "published_in k c =
     filter (\<lambda>w. wf_familyId w = k \<and> wf_isCurrent w \<and> wf_lifecycleStatus w = PUBLISHED) (c_workflows c)"

text \<open>Identifiers are keys, and no family has two published revisions in force.\<close>

definition revisions_ok :: "catalog \<Rightarrow> bool" where
  "revisions_ok c \<longleftrightarrow> distinct (map wf_id (c_workflows c)) \<and> (\<forall>k. length (published_in k c) \<le> 1)"

lemma copyWorkflow_archived:
  "copyWorkflow w (\<lambda>p. p\<lparr>wfp_lifecycleStatus := Some ARCHIVED, wfp_isCurrent := Some False\<rparr>) t = w' \<Longrightarrow>
   wf_id w' = wf_id w \<and> wf_familyId w' = wf_familyId w \<and> wf_lifecycleStatus w' = ARCHIVED"
  by (auto simp: copyWorkflow_def new_workflow_def workflow_props_of_def)

lemma copyWorkflow_published:
  "copyWorkflow w (\<lambda>p. p\<lparr>wfp_lifecycleStatus := Some PUBLISHED, wfp_isCurrent := Some True,
     wfp_isActive := True, wfp_publishedAt := Some t, wfp_publishedBy := Some e\<rparr>) t' = w' \<Longrightarrow>
   wf_id w' = wf_id w \<and> wf_familyId w' = wf_familyId w \<and> wf_lifecycleStatus w' = PUBLISHED \<and> wf_isCurrent w'"
  by (auto simp: copyWorkflow_def new_workflow_def workflow_props_of_def)

lemma save_row_by_known:
  "w \<in> set xs \<Longrightarrow> wf_id w' = wf_id w \<Longrightarrow>
   save_row_by wf_id w' xs = update_where (\<lambda>y. wf_id y = wf_id w) (\<lambda>_. w') xs"
  by (auto simp: save_row_by_def)

text \<open>Rewriting a row keeps the identifiers and the families.\<close>

lemma rewritten_families:
  assumes "distinct (map wf_id xs)" "w \<in> set xs" "wf_id w' = wf_id w" "wf_familyId w' = wf_familyId w"
  shows "map (\<lambda>x. (wf_id x, wf_familyId x)) (update_where (\<lambda>y. wf_id y = wf_id w) (\<lambda>_. w') xs) =
    map (\<lambda>x. (wf_id x, wf_familyId x)) xs"
proof -
  have "y = w" if "y \<in> set xs" "wf_id y = wf_id w" for y
    using assms(1,2) that by (metis distinct_map inj_on_def)
  then show ?thesis using assms(3,4) by (auto simp: update_where_def)
qed

lemma filter_rewritten_out:
  assumes "distinct (map wf_id xs)" "w \<in> set xs" "\<not> P w'"
  shows "filter P (update_where (\<lambda>y. wf_id y = wf_id w) (\<lambda>_. w') xs) = filter (\<lambda>x. P x \<and> wf_id x \<noteq> wf_id w) xs"
  using assms(3) by (induction xs) (auto simp: update_where_def)

lemma filter_rewritten_in:
  assumes "distinct (map wf_id xs)" "w \<in> set xs" "P w'" "\<forall>y \<in> set xs. P y \<longrightarrow> y = w"
  shows "filter P (update_where (\<lambda>y. wf_id y = wf_id w) (\<lambda>_. w') xs) = [w']"
  using assms
proof (induction xs)
  case (Cons x xs)
  show ?case
  proof (cases "wf_id x = wf_id w")
    case True
    then have "\<not> P y \<and> wf_id y \<noteq> wf_id w" if "y \<in> set xs" for y using Cons.prems(1,4) that by (metis distinct.simps(2) image_eqI list.simps(9) list.set_intros(2) list.set_map)
    then show ?thesis using True Cons.prems(3) by (auto simp: update_where_def filter_empty_conv)
  next
    case False
    then have "w \<in> set xs" "\<not> P x" using Cons.prems(2,4) by auto
    then show ?thesis using Cons False by (simp add: update_where_def)
  qed
qed simp

section \<open>A publication\<close>

lemma listByFamilyId_Inr:
  "listByFamilyId k s = Inr (ws, s') \<Longrightarrow>
   s' = s \<and> set ws = {w \<in> set (c_workflows (w_catalog s)). wf_familyId w = k}"
  by (auto simp: listByFamilyId_def sreads_Inr)

text \<open>The configuration but for which revisions are in force.\<close>

definition same_graphs :: "world \<Rightarrow> world \<Rightarrow> bool" where
  "same_graphs s s' \<longleftrightarrow> w_orders s' = w_orders s \<and> c_states (w_catalog s') = c_states (w_catalog s) \<and>
     map (\<lambda>w. (wf_id w, wf_familyId w)) (c_workflows (w_catalog s')) =
     map (\<lambda>w. (wf_id w, wf_familyId w)) (c_workflows (w_catalog s))"

lemma families_ids: "map (\<lambda>w. (wf_id w, wf_familyId w)) xs = map (\<lambda>w. (wf_id w, wf_familyId w)) ys \<Longrightarrow>
   map wf_id xs = map wf_id ys"
  by (drule arg_cong [where f = "map fst"]) (simp add: comp_def)

lemma archive_previous_Inr:
  assumes "archive_previous k s = Inr (v, s')" "revisions_ok (w_catalog s)"
  shows "same_graphs s s' \<and> published_in k (w_catalog s') = [] \<and>
    (\<forall>k'. k' \<noteq> k \<longrightarrow> published_in k' (w_catalog s') = published_in k' (w_catalog s)) \<and>
    (\<forall>w \<in> set (c_workflows (w_catalog s)). wf_lifecycleStatus w \<noteq> PUBLISHED \<longrightarrow>
       w \<in> set (c_workflows (w_catalog s')))"
proof -
  let ?ws = "c_workflows (w_catalog s)"
  let ?P = "\<lambda>w. wf_isCurrent w \<and> wf_lifecycleStatus w = PUBLISHED"
  from assms(2) have d: "distinct (map wf_id ?ws)" and one: "length (published_in k (w_catalog s)) \<le> 1"
    by (simp_all add: revisions_ok_def)
  from assms(1) obtain fam where f: "set fam = {w \<in> set ?ws. wf_familyId w = k}" and
    r: "(case List.find ?P fam of None \<Rightarrow> sreturn () | Some w \<Rightarrow> sbind now (\<lambda>t.
         sbind (workflows_save (copyWorkflow w
             (\<lambda>p. p\<lparr>wfp_lifecycleStatus := Some ARCHIVED, wfp_isCurrent := Some False\<rparr>) t))
           (\<lambda>_. sreturn ()))) s = Inr (v, s')"
    unfolding archive_previous_def by (auto simp: sbind_Inr dest!: listByFamilyId_Inr)
  show ?thesis
  proof (cases "List.find ?P fam")
    case None
    then have "published_in k (w_catalog s) = []"
      using f by (auto simp: find_None_iff published_in_def filter_empty_conv)
    then show ?thesis using r None by (simp add: sreturn_Inr same_graphs_def)
  next
    case (Some w)
    then have w: "w \<in> set ?ws" "wf_familyId w = k" "?P w" using f by (auto simp: find_Some_iff)
    define w' where "w' = copyWorkflow w
      (\<lambda>p. p\<lparr>wfp_lifecycleStatus := Some ARCHIVED, wfp_isCurrent := Some False\<rparr>) (c_now (w_catalog s))"
    then have w': "wf_id w' = wf_id w" "wf_familyId w' = wf_familyId w" "wf_lifecycleStatus w' = ARCHIVED"
      using copyWorkflow_archived by blast+
    have s': "s' = s\<lparr>w_catalog := (w_catalog s)\<lparr>c_workflows :=
        update_where (\<lambda>y. wf_id y = wf_id w) (\<lambda>_. w') ?ws\<rparr>\<rparr>"
      using r Some save_row_by_known [OF w(1) w'(1)]
      by (auto simp: w'_def action_Inr now_def dest!: workflows_save_Inr)
    have uniq: "x = w" if "x \<in> set ?ws" "wf_id x = wf_id w" for x
      using d w(1) that by (metis distinct_map inj_on_def)
    have only: "x = w" if "x \<in> set ?ws" "wf_familyId x = k" "?P x" for x
    proof -
      have "x \<in> set (published_in k (w_catalog s))" "w \<in> set (published_in k (w_catalog s))"
        using that w by (auto simp: published_in_def)
      then show ?thesis using one by (cases "published_in k (w_catalog s)") auto
    qed
    have "same_graphs s s'" using rewritten_families [OF d w(1) w'(1,2)] by (simp add: same_graphs_def s')
    moreover have "published_in k (w_catalog s') = []"
      using filter_rewritten_out [OF d w(1), of "\<lambda>x. wf_familyId x = k \<and> ?P x" w'] w'(3) only
      by (auto simp: published_in_def s' filter_empty_conv)
    moreover have "published_in k' (w_catalog s') = published_in k' (w_catalog s)" if "k' \<noteq> k" for k'
      using filter_rewritten_out [OF d w(1), of "\<lambda>x. wf_familyId x = k' \<and> ?P x" w'] w'(3) uniq w(2) that
      by (auto simp: published_in_def s' intro!: filter_cong)
    moreover have "x \<in> set (c_workflows (w_catalog s'))" if "x \<in> set ?ws" "wf_lifecycleStatus x \<noteq> PUBLISHED" for x
      using that uniq w(3) by (force simp: s' set_update_where)
    ultimately show ?thesis by blast
  qed
qed

lemma publish_revision_Inr:
  assumes "publish_revision w e s = Inr (w2, s')" "distinct (map wf_id (c_workflows (w_catalog s)))"
    and "w \<in> set (c_workflows (w_catalog s))"
  shows "same_graphs s s' \<and> wf_id w2 = wf_id w \<and> wf_familyId w2 = wf_familyId w \<and>
    (published_in (wf_familyId w) (w_catalog s) = [] \<longrightarrow>
       map wf_id (published_in (wf_familyId w) (w_catalog s')) = [wf_id w]) \<and>
    (\<forall>k'. k' \<noteq> wf_familyId w \<longrightarrow> published_in k' (w_catalog s') = published_in k' (w_catalog s))"
proof -
  let ?ws = "c_workflows (w_catalog s)"
  let ?P = "\<lambda>w. wf_isCurrent w \<and> wf_lifecycleStatus w = PUBLISHED"
  define w' where "w' = copyWorkflow w (\<lambda>p. p\<lparr>wfp_lifecycleStatus := Some PUBLISHED,
     wfp_isCurrent := Some True, wfp_isActive := True, wfp_publishedAt := Some (c_now (w_catalog s)),
     wfp_publishedBy := Some e\<rparr>) (c_now (w_catalog s))"
  then have w': "wf_id w' = wf_id w" "wf_familyId w' = wf_familyId w" "?P w'"
    using copyWorkflow_published by blast+
  have s': "s' = s\<lparr>w_catalog := (w_catalog s)\<lparr>c_workflows :=
      update_where (\<lambda>y. wf_id y = wf_id w) (\<lambda>_. w') ?ws\<rparr>\<rparr>" and
    w2: "w2 = new_workflow (workflow_props_of w')"
    using assms(1) save_row_by_known [OF assms(3) w'(1)]
    unfolding publish_revision_def by (auto simp: w'_def action_Inr now_def dest!: workflows_save_Inr)
  have uniq: "x = w" if "x \<in> set ?ws" "wf_id x = wf_id w" for x
    using assms(2,3) that by (metis distinct_map inj_on_def)
  have "same_graphs s s'"
    using rewritten_families [OF assms(2,3) w'(1,2)] by (simp add: same_graphs_def s')
  moreover have "map wf_id (published_in (wf_familyId w) (w_catalog s')) = [wf_id w]"
    if "published_in (wf_familyId w) (w_catalog s) = []"
  proof -
    have "filter (\<lambda>x. wf_familyId x = wf_familyId w \<and> ?P x)
        (update_where (\<lambda>y. wf_id y = wf_id w) (\<lambda>_. w') ?ws) = [w']"
      using that w' by (intro filter_rewritten_in assms) (auto simp: published_in_def filter_empty_conv)
    then show ?thesis by (simp add: published_in_def s' w'(1))
  qed
  moreover have "published_in k' (w_catalog s') = published_in k' (w_catalog s)" if "k' \<noteq> wf_familyId w" for k'
    using filter_rewritten_out [OF assms(2,3), of "\<lambda>x. wf_familyId x = k' \<and> ?P x" w'] w'(2) uniq that
    by (auto simp: published_in_def s' intro!: filter_cong)
  moreover have "wf_id w2 = wf_id w" "wf_familyId w2 = wf_familyId w"
    by (simp_all add: w2 new_workflow_def workflow_props_of_def w'(1,2))
  ultimately show ?thesis by blast
qed

text \<open>The trials that are taken back leave the catalogue alone.\<close>

interpretation cataloguing: preorder_on_states "\<lambda>u u'. w_catalog (st_world u') = w_catalog (st_world u)"
  by unfold_locales simp_all

lemma revert_keeps_catalog:
  "relates (\<lambda>u u'. w_catalog (st_world u') = w_catalog (st_world u)) (revert_test d k e)"
  by (auto simp: ensures_def dest!: revert_test_Inr)

lemma publish_Inr:
  assumes "publish lc pd d e u = Inr (r, u')"
  shows "\<exists>ag s1 ms s2 s3. findWorkflowDetailed d (st_world u) = Inr (Some ag, st_world u) \<and>
    wf_lifecycleStatus (ag_workflow ag) = DRAFT \<and> w_catalog s1 = w_catalog (st_world u) \<and> rest_kept (st_world u) s1 \<and>
    sfold (migrate_order lc pd ag e) (map so_id (sort_key so_createdAt
      (filter (pending_order (w_catalog (st_world u)) (wf_familyId (ag_workflow ag))) (w_orders s1)))) []
      s1 = Inr (ms, s2) \<and>
    archive_previous (wf_familyId (ag_workflow ag)) s2 = Inr ((), s3) \<and>
    publish_revision (ag_workflow ag) e s3 = Inr (pu_workflow r, st_world u')"
proof -
  from assms obtain ag u1 v ts rows u2 ms s2 s3 where
    ag: "getDraft d (st_world u) = Inr (ag, st_world u)" and
    u1: "sfor (ts :: draft_test list) (\<lambda>t. sbind (revert_test (wf_id (ag_workflow ag)) (dt_id t) e) (\<lambda>_. sreturn ())) u =
       Inr (v, u1)" and
    p: "listPendingFamilyOrders (wf_familyId (ag_workflow ag)) (st_world u1) = Inr (rows, st_world u1)" and
    m: "sfold (migrate_order lc pd ag e) (map so_id rows) [] (st_world u1) = Inr (ms, s2)" and
    rest: "archive_previous (wf_familyId (ag_workflow ag)) s2 = Inr ((), s3)"
      "publish_revision (ag_workflow ag) e s3 = Inr (pu_workflow r, st_world u')"
    unfolding publish_def Let_def
    by (clarsimp simp: sbind_Inr sthen_Inr sreads_Inr sreturn_Inr on_world_reads [OF reading.gets_draft]
        on_world_reads [OF reading.revision_reads(4)] on_world_reads [OF reading.revision_reads(3)]
        on_world_Inr [of "sfold _ _ _"] on_world_Inr [of "archive_previous _"]
        on_world_Inr [of "publish_revision _ _"])
  have c: "w_catalog (st_world u1) = w_catalog (st_world u)"
    by (rule relatesD [OF cataloguing.relates_for u1], rule cataloguing.relates_bind)
      (rule revert_keeps_catalog, rule cataloguing.ensures_return, rule TrueI)
  have "relates (lifted rest_kept) (sbind (revert_test d' k e) (\<lambda>_. sreturn ()))" for d' k
    by (intro resting.lifting.relates_bind resting.reverts_test resting.lifting.ensures_return TrueI)
  from relatesD [OF resting.lifting.relates_for u1] this
  have k: "rest_kept (st_world u) (st_world u1)" by (simp add: lifted_def)
  have rows: "rows = sort_key so_createdAt
      (filter (pending_order (w_catalog (st_world u)) (wf_familyId (ag_workflow ag))) (w_orders (st_world u1)))"
    using p c by (simp add: listPendingFamilyOrders_def sreads_Inr)
  note m = m [unfolded rows]
  show ?thesis
    by (rule exI [of _ ag], rule exI [of _ "st_world u1"], rule exI [of _ ms], rule exI [of _ s2], rule exI [of _ s3],
        intro conjI) (use getDraft_Inr [OF ag] in blast, use getDraft_Inr [OF ag] in blast, fact+)
qed

lemma rest_kept_distinct:
  assumes "rest_kept s s'" "distinct (map so_id (w_orders s))"
  shows "distinct (map so_id (w_orders s'))"
proof -
  have "map so_id (w_orders s') = map so_id (w_orders s)"
    using assms(1) order_rest_id unfolding rest_kept_def
    by (metis (no_types, lifting) length_map nth_equalityI nth_map)
  then show ?thesis using assms(2) by simp
qed

lemma pending_families:
  "list_ex (\<lambda>w. so_workflowId x = Some (wf_id w) \<and> wf_familyId w = k) ws =
   list_ex (\<lambda>(i, j). so_workflowId x = Some i \<and> j = k) (map (\<lambda>w. (wf_id w, wf_familyId w)) ws)"
  by (induction ws) auto

lemma pending_same: "same_graphs s s' \<Longrightarrow> pending_order (w_catalog s') k x = pending_order (w_catalog s) k x"
  by (simp add: pending_order_def same_graphs_def pending_families)

lemma publish_outcome:
  assumes "publish lc pd d e u = Inr (r, u')"
    and "distinct (map so_id (w_orders (st_world u)))" and "revisions_ok (w_catalog (st_world u))"
  shows "\<exists>s1 s2. w_catalog s2 = w_catalog (st_world u) \<and> same_graphs s2 (st_world u') \<and>
    list_all2 (moved (map so_id (sort_key so_createdAt (filter
      (pending_order (w_catalog (st_world u)) (wf_familyId (pu_workflow r))) (w_orders s1)))) d)
      (positions s1) (positions s2) \<and>
    revisions_ok (w_catalog (st_world u')) \<and>
    map wf_id (published_in (wf_familyId (pu_workflow r)) (w_catalog (st_world u'))) = [d]"
proof -
  let ?c = "w_catalog (st_world u)"
  from publish_Inr [OF assms(1)] obtain ag s1 ms s2 s3 where
    ag: "findWorkflowDetailed d (st_world u) = Inr (Some ag, st_world u)"
      "wf_lifecycleStatus (ag_workflow ag) = DRAFT" and
    s1: "w_catalog s1 = ?c" "rest_kept (st_world u) s1" and
    s2: "sfold (migrate_order lc pd ag e) (map so_id (sort_key so_createdAt
      (filter (pending_order ?c (wf_familyId (ag_workflow ag))) (w_orders s1)))) [] s1 = Inr (ms, s2)" and
    s3: "archive_previous (wf_familyId (ag_workflow ag)) s2 = Inr ((), s3)" and
    s4: "publish_revision (ag_workflow ag) e s3 = Inr (pu_workflow r, st_world u')" by blast
  let ?k = "wf_familyId (ag_workflow ag)"
  have w: "ag_workflow ag \<in> set (c_workflows ?c)" "wf_id (ag_workflow ag) = d"
    using workflow_of_aggregate [OF ag(1)] by simp_all
  from migrate_all_moves [OF s2 rest_kept_distinct [OF s1(2) assms(2)]]
  have c2: "w_catalog s2 = ?c" and mv: "list_all2 (moved (map so_id (sort_key so_createdAt
      (filter (pending_order ?c ?k) (w_orders s1)))) d) (positions s1) (positions s2)"
    by (simp_all add: s1(1) w(2))
  with assms(3) have r2: "revisions_ok (w_catalog s2)" by simp
  note a3 = archive_previous_Inr [OF s3 r2]
  have w3: "ag_workflow ag \<in> set (c_workflows (w_catalog s3))" using a3 w(1) ag(2) by (simp add: c2)
  have "map wf_id (c_workflows (w_catalog s3)) = map wf_id (c_workflows ?c)"
    using a3 by (auto simp: same_graphs_def c2 intro: families_ids)
  then have d3: "distinct (map wf_id (c_workflows (w_catalog s3)))" using assms(3) by (simp add: revisions_ok_def)
  note p4 = publish_revision_Inr [OF s4 d3 w3]
  have one: "map wf_id (published_in ?k (w_catalog (st_world u'))) = [d]" using a3 p4 w(2) by simp
  have "map wf_id (c_workflows (w_catalog (st_world u'))) = map wf_id (c_workflows (w_catalog s3))"
    using p4 by (auto simp: same_graphs_def intro: families_ids)
  then have "distinct (map wf_id (c_workflows (w_catalog (st_world u'))))" using d3 by simp
  moreover have "length (published_in k (w_catalog (st_world u'))) \<le> 1" for k
  proof (cases "k = ?k")
    case True
    then show ?thesis using arg_cong [OF one, of length] by simp
  next
    case False
    then show ?thesis using a3 p4 assms(3) by (simp add: revisions_ok_def c2)
  qed
  ultimately have "revisions_ok (w_catalog (st_world u'))" by (simp add: revisions_ok_def)
  moreover have "same_graphs s2 (st_world u')" using a3 p4 by (simp add: same_graphs_def)
  ultimately show ?thesis
    using mv c2 one p4 w(2) by - (rule exI [of _ s1], rule exI [of _ s2], simp)
qed

section \<open>The analysis of an order\<close>

lemma select_bundle_Inr:
  "select_bundle pd cx bs = Inr (Some (b, br, e, to)) \<Longrightarrow> b \<in> set bs \<and> takes_branch (tb_transition b) br e to"
proof (induction bs)
  case (Cons b' bs)
  obtain conditions where c: "create_conditions pd (tb_conditions b') = Inr conditions"
    using Cons.prems by (auto simp: lift_string_def split: sum.splits)
  show ?case
    using Cons by (auto simp: c lift_string_def Let_def takes_branch_def split: if_splits option.splits)
qed simp

lemma walk_actions_keep:
  "mw_state (fold (walk_action f cx) as w) = mw_state w \<and>
   mw_transitionIds (fold (walk_action f cx) as w) = mw_transitionIds w"
  by (induction as arbitrary: w) (simp_all add: walk_action_def)

text \<open>
  One turn of the analysis. It stays where it is and stops, or it walks one edge and goes on
  unless it has come to a final state.
\<close>

definition walked :: "catalog \<Rightarrow> workflow_aggregate \<Rightarrow> migration_walk \<Rightarrow> migration_walk \<Rightarrow> bool" where
  "walked c ag w w' \<longleftrightarrow>
     edge c (wf_id (ag_workflow ag)) (ws_id (mw_state w)) (Some (ws_id (mw_state w'))) \<and>
     mw_state w' \<in> insert (mw_state w) (set (ag_states ag)) \<and>
     length (mw_transitionIds w') = Suc (length (mw_transitionIds w))"

lemma walk_on_Inr:
  assumes "walk_on ag cx b br e to w = Inr (goes, w')"
    and "edge c (wf_id (ag_workflow ag)) (ws_id (mw_state w)) (target_of (Some e) to (ws_id (mw_state w)))"
  shows "walked c ag w w' \<and> (goes \<or> ws_isFinal (mw_state w'))"
proof (cases "e = RUN_ACTIONS")
  case True
  then show ?thesis
    using assms by (auto simp: walk_on_def Let_def walked_def walk_actions_keep target_of_def)
next
  case False
  then obtain st where st: "Option.bind to (state_in ag) = Some st"
    and goes: "goes = (\<not> ws_isFinal st)" "mw_state w' = st"
      "length (mw_transitionIds w') = Suc (length (mw_transitionIds w))"
    using assms(1) by (auto simp: walk_on_def Let_def walk_actions_keep split: option.splits)
  then have "to = Some (ws_id st)" "st \<in> set (ag_states ag)"
    by (auto simp: bind_eq_Some_conv state_in_def dest: find_by_SomeD)
  then show ?thesis using assms(2) False goes by (simp add: walked_def target_of_def)
qed

lemma migration_step_Inr:
  assumes "migration_step lc pd ag w s = Inr ((goes, w'), s')"
  shows "s' = s \<and> (walked (w_catalog s) ag w w' \<and> (goes \<or> ws_isFinal (mw_state w')) \<or> w' = w \<and> \<not> goes)"
proof -
  from assms obtain cx bundles sel where
    b: "listFromState (wf_id (ag_workflow ag)) (ws_id (mw_state w)) s = Inr (bundles, s)" and
    sel: "select_bundle pd cx (automatic_bundles lc
       (filter (\<lambda>b. wt_id (tb_transition b) \<notin> set (mw_executed w)) bundles)) = Inr sel" and
    r: "(case sel of None \<Rightarrow> sreturn (False, w)
       | Some (b, branch, effect, to) \<Rightarrow> slift (walk_on ag cx b branch effect to w)) s = Inr ((goes, w'), s')"
    unfolding migration_step_def
    by (auto simp: reads_bind [OF reading.builds_context] reads_bind [OF reading.reads_any(17)]
        sbind_Inr [of "slift _"] slift_Inr)
  show ?thesis
  proof (cases sel)
    case None
    then show ?thesis using r by (auto simp: sreturn_Inr)
  next
    case (Some x)
    obtain t br e to where x: "x = (t, br, e, to)" by (cases x)
    with sel Some have t: "t \<in> set bundles" "wt_autoTrigger (tb_transition t)"
      "takes_branch (tb_transition t) br e to"
      by (auto dest!: select_bundle_Inr simp: automatic_bundles_def)
    have "edge (w_catalog s) (wf_id (ag_workflow ag)) (ws_id (mw_state w))
        (target_of (Some e) to (ws_id (mw_state w)))"
      using listFromState_transitions [OF b t(1)] t(2,3)
        leaves_from_listed by (blast intro: takes_branch_edge)
    with r Some x show ?thesis by (auto simp: slift_Inr dest: walk_on_Inr)
  qed
qed

lemma migration_steps_Inr:
  assumes "migration_steps lc pd ag n w s = Inr (w', s')" "mw_state w \<in> set (ag_states ag)"
  shows "s' = s \<and> mw_state w' \<in> set (ag_states ag) \<and>
    path (w_catalog s) (wf_id (ag_workflow ag)) (Some (ws_id (mw_state w))) (Some (ws_id (mw_state w'))) \<and>
    length (mw_transitionIds w') \<le> length (mw_transitionIds w) + n \<and>
    (length (mw_transitionIds w') < length (mw_transitionIds w) + n \<longrightarrow>
       ws_isFinal (mw_state w') \<or> migration_step lc pd ag w' s = Inr ((False, w'), s))"
  using assms
proof (induction n arbitrary: w)
  case 0
  then show ?case by (auto simp: sreturn_Inr intro: path.stays)
next
  case (Suc n)
  from Suc.prems(1) obtain goes w1 s1 where
    1: "migration_step lc pd ag w s = Inr ((goes, w1), s1)" and
    2: "(if goes then migration_steps lc pd ag n w1 else sreturn w1) s1 = Inr (w', s')"
    by (auto simp: sbind_Inr)
  from migration_step_Inr [OF 1] have s1: "s1 = s" by simp
  from migration_step_Inr [OF 1] consider
    "walked (w_catalog s) ag w w1" "goes" | "walked (w_catalog s) ag w w1" "\<not> goes" "ws_isFinal (mw_state w1)"
    | "w1 = w" "\<not> goes" by blast
  then show ?case
  proof cases
    case 1
    then have "mw_state w1 \<in> set (ag_states ag)" using Suc.prems(2) by (auto simp: walked_def)
    from Suc.IH [OF _ this] 2 s1 1 show ?thesis
      by (auto simp: walked_def intro: path_trans edge_path)
  next
    case 2
    then show ?thesis
      using \<open>(if goes then _ else _) s1 = _\<close> s1 Suc.prems(2)
      by (auto simp: walked_def sreturn_Inr intro: edge_path)
  next
    case 3
    then show ?thesis using 1 2 s1 Suc.prems(2) by (auto simp: sreturn_Inr intro: path.stays)
  qed
qed

lemma analyzeTarget_Inr:
  assumes "analyzeTarget lc pd x ag s = Inr (w, s')"
  shows "s' = s \<and> (\<exists>st. initial_state ag = Some st \<and> mw_state w \<in> set (ag_states ag) \<and>
    path (w_catalog s) (wf_id (ag_workflow ag)) (Some (ws_id st)) (Some (ws_id (mw_state w)))) \<and>
    length (mw_transitionIds w) \<le> 100 \<and>
    (length (mw_transitionIds w) < 100 \<longrightarrow>
       ws_isFinal (mw_state w) \<or> migration_step lc pd ag w s = Inr ((False, w), s))"
proof -
  from assms obtain st where st: "initial_state ag = Some st"
    and w: "migration_steps lc pd ag 100 (initial_walk x ag st) s = Inr (w, s')"
    unfolding analyzeTarget_def by (auto simp: option_throw_Inr)
  have "st \<in> set (ag_states ag)" using st by (auto simp: initial_state_def find_Some_iff)
  then show ?thesis using migration_steps_Inr [OF w] st by (simp add: initial_walk_def)
qed

section \<open>A repair\<close>

lemma rest_found:
  assumes "map order_rest xs = map order_rest ys" "find_by so_id i ys = Some y"
  shows "\<exists>x. find_by so_id i xs = Some x \<and> order_rest x = order_rest y"
  using assms
proof (induction xs arbitrary: ys)
  case (Cons x xs)
  then obtain z zs where ys: "ys = z # zs" "order_rest x = order_rest z" "map order_rest xs = map order_rest zs"
    by (cases ys) auto
  then show ?case using Cons order_rest_id [OF ys(2)] by (auto simp: find_by_def split: if_splits)
qed (simp add: find_by_def)

lemma repair_context_Inr:
  assumes "repair_context i s = Inr ((x, st, f, g), s')"
  shows "s' = s \<and> find_by so_id i (w_orders s) = Some x \<and>
    (\<exists>k. findWorkflowDetailed k s = Inr (Some f, s) \<and> repair_target f s = Inr (g, s))"
proof -
  have s: "s' = s" using relatesD [OF reading.repair_contexts assms] by simp
  from assms have "find_by so_id i (w_orders s) = Some x \<and>
    (\<exists>k. findWorkflowDetailed k s = Inr (Some f, s) \<and> repair_target f s = Inr (g, s'))"
    unfolding repair_context_def
    by (auto simp: reads_bind [OF reading.reads_any(1)] reads_bind [OF reading.reads_any(15)]
        findByIdForUpdate_Inr option_throw_Inr sthrow_Inr sbind_Inr [of "repair_target _"] sthen_Inr
        sguard_Inr sreturn_Inr split: if_splits option.splits)
  then show ?thesis by (simp add: s)
qed

text \<open>Where a repair wants the order, and what it does when the order is not there.\<close>

definition aligned :: "workflow_aggregate \<Rightarrow> migration_walk \<Rightarrow> sale_order \<Rightarrow> bool" where
  "aligned ag m x \<longleftrightarrow> so_workflowId x = Some (wf_id (ag_workflow ag)) \<and>
     so_currentStateId x = Some (ws_id (mw_state m)) \<and> so_warehouseId x = mw_warehouseId m \<and>
     so_invoiceSend x = ms_invoiceSent (mw_tracking m) \<and> so_prepared x = ms_prepared (mw_tracking m) \<and>
     so_preguide x = ms_preguide (mw_tracking m) \<and> so_reserveBool x = (mw_stock m = StockReserved)"

lemma no_change_aligned: "\<not> any_change (repair_changes_of x st ag m) \<Longrightarrow> aligned ag m x"
  by (simp add: any_change_def repair_changes_of_def aligned_def)

lemma write_repair_Inr:
  assumes "write_repair x st f g m stock e s = Inr (v, s')" "find_by so_id (so_id x) (w_orders s) = Some x"
  shows "(\<exists>y. find_by so_id (so_id x) (w_orders s') = Some y \<and> aligned g m y) \<and>
    (\<exists>h. w_history s' = w_history s @ [h] \<and> sh_saleOrderId h = so_id x)"
proof -
  from assms(1) obtain err s1 s2 f' md v1 v2 where
    s1: "migrate_stock x stock m e err s = Inr (v1, s1)" and
    s2: "update_order (so_id x) (\<lambda>x. (land_order g m x)\<lparr>so_reserveBool := (mw_stock m = StockReserved)\<rparr>) s1 =
      Inr (v2, s2)" and
    s3: "lifecycle_history (so_id x) (wf_id (ag_workflow g)) f' (ws_id (mw_state m)) e md s2 = Inr (v, s')"
    unfolding write_repair_def Let_def by (clarsimp simp: sthen_Inr)
  have k: "workflow_kept s s1" by (rule migrate_stock_kept [OF s1])
  have "\<exists>y. find_by so_id (so_id x) (w_orders s1) = Some y"
  proof -
    have "rest_kept s s1" by (rule relatesD [OF resting.migrates_stock s1])
    then have "map order_rest (w_orders s1) = map order_rest (w_orders s)" by (simp add: rest_kept_def)
    from rest_found [OF this assms(2)] show ?thesis by blast
  qed
  then obtain y where y: "find_by so_id (so_id x) (w_orders s1) = Some y" by blast
  let ?f = "\<lambda>x. (land_order g m x)\<lparr>so_reserveBool := (mw_stock m = StockReserved)\<rparr>"
  have "so_id (?f z) = so_id z" for z by (simp add: land_order_def)
  then have "find_by so_id (so_id x) (w_orders s') = Some (?f y)"
    using lifecycle_history_Inr [OF s3] update_order_Inr [OF s2] find_by_SomeD [OF y]
    by (auto simp: find_by_update_where y)
  moreover have "aligned g m (?f y)" by (simp add: aligned_def land_order_def)
  ultimately show ?thesis
    using lifecycle_history_Inr [OF s3] update_order_Inr [OF s2] k by (auto simp: workflow_kept_def)
qed

text \<open>The revision a repair turns to is in force.\<close>

lemma repair_target_Inr:
  assumes "repair_target f s = Inr (g, s')" "findWorkflowDetailed k s = Inr (Some f, s)"
  shows "ag_workflow g \<in> set (c_workflows (w_catalog s)) \<and> findWorkflowDetailed (wf_id (ag_workflow g)) s = Inr (Some g, s) \<and>
    (\<exists>w \<in> set (c_workflows (w_catalog s)). in_force w \<and> wf_id w = wf_id (ag_workflow g))"
proof -
  note f = workflow_of_aggregate [OF assms(2)]
  from assms(1) obtain fam where fam: "set fam = {w \<in> set (c_workflows (w_catalog s)). wf_familyId w = wf_familyId (ag_workflow f)}"
    and r: "(case (case sort_cmp (\<lambda>a b. wf_revision b - wf_revision a) (filter in_force fam) of
        w # _ \<Rightarrow> Some w | [] \<Rightarrow> if in_force (ag_workflow f) then Some (ag_workflow f) else None) of
          None \<Rightarrow> sthrow (BadRequestException ''No existe una revision publicada vigente para el flujo del pedido'')
        | Some w \<Rightarrow> if wf_id w = wf_id (ag_workflow f) then sreturn f
             else sbind (findWorkflowDetailed (wf_id w)) (\<lambda>found. case found of
                 None \<Rightarrow> sthrow (NotFoundException ''Revision vigente del flujo no encontrada'')
               | Some g \<Rightarrow> sreturn g)) s = Inr (g, s')"
    unfolding repair_target_def Let_def by (auto simp: sbind_Inr dest!: listByFamilyId_Inr)
  then obtain w where w: "w \<in> set (c_workflows (w_catalog s))" "in_force w" and
    g: "(if wf_id w = wf_id (ag_workflow f) then sreturn f
         else sbind (findWorkflowDetailed (wf_id w)) (\<lambda>found. case found of
                 None \<Rightarrow> sthrow (NotFoundException ''Revision vigente del flujo no encontrada'')
               | Some g \<Rightarrow> sreturn g)) s = Inr (g, s')"
  proof (cases "sort_cmp (\<lambda>a b. wf_revision b - wf_revision a) (filter in_force fam)")
    case Nil
    then show ?thesis using r f that by (auto simp: sthrow_Inr split: if_splits)
  next
    case (Cons w ws)
    then have "w \<in> set (filter in_force fam)" by (metis list.set_intros(1) set_sort_cmp)
    then show ?thesis using r Cons fam that by auto
  qed
  show ?thesis
  proof (cases "wf_id w = wf_id (ag_workflow f)")
    case True
    then show ?thesis using g w f assms(2) by (auto simp: sreturn_Inr)
  next
    case False
    then have d: "findWorkflowDetailed (wf_id w) s = Inr (Some g, s)"
      using g by (auto simp: reads_bind [OF reading.reads_any(15)] option_throw_Inr sreturn_Inr)
    show ?thesis using workflow_of_aggregate [OF d] d w by auto
  qed
qed

lemma repair_order_Inr:
  assumes "repair_order lc pd i e s = Inr (r, s')"
  shows "\<exists>x st f g m. find_by so_id i (w_orders s) = Some x \<and> repair_context i s = Inr ((x, st, f, g), s) \<and>
    analyzeTarget lc pd x g s = Inr (m, s) \<and> rp_toWorkflowId r = wf_id (ag_workflow g) \<and>
    fst (rp_toState r) = ws_id (mw_state m) \<and> rp_stockTo r = mw_stock m \<and>
    (\<exists>y. find_by so_id i (w_orders s') = Some y \<and> aligned g m y) \<and>
    (if rp_repaired r then \<exists>h. w_history s' = w_history s @ [h] \<and> sh_saleOrderId h = i else s' = s)"
proof -
  from assms obtain x st f g m p c where
    x: "repair_context i s = Inr ((x, st, f, g), s)" and
    m: "analyzeTarget lc pd x g s = Inr (m, s)" and
    c: "c = repair_changes_of x (normalizeStockStatus p) g m" and
    w: "swhen (any_change c) (write_repair x st f g m p e) s = Inr ((), s')" and
    r: "rp_toWorkflowId r = wf_id (ag_workflow g)" "fst (rp_toState r) = ws_id (mw_state m)"
      "rp_stockTo r = mw_stock m" "rp_repaired r = any_change c"
    unfolding repair_order_def Let_def
    by (auto simp: reads_bind [OF relates_ensures [OF reading.repair_contexts]]
        reads_bind [OF reading.analyzes_target] reads_bind [OF reading.resolves_policy] sthen_Inr sreturn_Inr)
  have o: "find_by so_id i (w_orders s) = Some x" using repair_context_Inr [OF x] by simp
  have i: "so_id x = i" using find_by_SomeD [OF o] by simp
  show ?thesis
  proof (cases "any_change c")
    case True
    then have "write_repair x st f g m p e s = Inr ((), s')" using w by (simp add: swhen_def)
    from write_repair_Inr [OF this] o x m r True show ?thesis by (auto simp: i)
  next
    case False
    then have "s' = s" using w by (simp add: swhen_def sreturn_Inr)
    moreover have "aligned g m x" using False c no_change_aligned by blast
    ultimately show ?thesis using o x m r False by auto
  qed
qed

end
