(* ===== verification/RevisionProperties.thy ===== *)
theory RevisionProperties
  imports RevisionLaws
begin

text \<open>
  The properties of the life of a revision: a trial leaves no trace in its order, a publication
  leaves no pending order behind and one revision in force, the analysis of an order walks
  automatic edges, a repair puts its order where the revision in force wants it, and the stock
  stays accounted for through all of them. A repair that is repeated is not idempotent.
\<close>

section \<open>A small studio, for the examples\<close>

text \<open>
  An order in a published workflow with a draft of the same family, and an order whose workflow
  moves on and reserves two units while three are on hand.
\<close>

definition draft_flow :: workflow where
  "draft_flow = example_flow\<lparr>wf_id := ''g'', wf_familyId := ''f'', wf_revision := 2,
     wf_lifecycleStatus := DRAFT, wf_isCurrent := False\<rparr>"

definition draft_world :: world where
  "draft_world = plain_world\<lparr>w_catalog := example_catalog\<lparr>c_actions := [],
     c_workflows := [example_flow, draft_flow],
     c_states := [example_state ''a'' 0, example_state ''b'' 1,
       (example_state ''ga'' 0)\<lparr>ws_workflowId := ''g''\<rparr>],
     c_transitions := []\<rparr>\<rparr>"

definition draft_studio :: studio where
  "draft_studio = \<lparr>st_world = draft_world, st_tests = []\<rparr>"

definition has_stock_world :: world where
  "has_stock_world = example_world\<lparr>w_catalog := example_catalog\<lparr>
     c_transitions := [(example_transition ''ab'' ''a'' ''b'')\<lparr>wt_autoTrigger := True\<rparr>],
     c_conditions := [\<lparr>wc_id = ''h'', wc_transitionId = ''ab'', wc_type = HAS_STOCK, wc_config = [],
       wc_position = 0\<rparr>],
     c_actions := [example_action ''r'' ''ab'' RESERVE_STOCK]\<rparr>,
     w_inventory := [\<lparr>in_warehouseId = ''w1'', in_stockItemId = ''x1'', in_locationId = None,
       in_onHand = 3, in_reserved = 0, in_available = Some 3\<rparr>]\<rparr>"



lemma case_returns:
  "(case x of Inl e \<Rightarrow> False | Inr (r, s) \<Rightarrow> P r s) \<longleftrightarrow> (\<exists>r s. x = Inr (r, s) \<and> P r s)"
  by (auto split: sum.splits)


lemma publication_evaluated:
  "case publish (\<lambda>_ _. 0) (\<lambda>_. None) ''g'' ''u1'' draft_studio of Inl e \<Rightarrow> False
   | Inr (r, u') \<Rightarrow> list_ex (pending_order (w_catalog (st_world u')) (wf_familyId (pu_workflow r)))
       (w_orders (st_world u'))"
  by code_simp


lemmas studio_defs = draft_studio_def draft_world_def draft_flow_def has_stock_world_def

section \<open>Trials\<close>

text \<open>What may happen to the world between the start of a trial and its return.\<close>

datatype world_op =
    ByHand advance_input
  | ToTarget string string string
  | AutomaticJob nat "string option"
  | Repair string string
  | Clock int

fun run_op ::
  "(string \<Rightarrow> string \<Rightarrow> int) \<Rightarrow> (string \<Rightarrow> int option) \<Rightarrow> world_op \<Rightarrow> world \<Rightarrow> world" where
  "run_op lc pd (ByHand input) s = snd (advance_order_state pd input s)"
| "run_op lc pd (ToTarget i target e) s = snd (advance_to_target lc pd i target e s)"
| "run_op lc pd (AutomaticJob limit cursor) s = snd (snd (automatic_job lc pd limit cursor s))"
| "run_op lc pd (Repair i e) s = snd (runInTransaction (repair_order lc pd i e) s)"
| "run_op lc pd (Clock t) s = s\<lparr>w_catalog := (w_catalog s)\<lparr>c_now := t\<rparr>\<rparr>"






section \<open>Publication\<close>

text \<open>No workflow and no state has the empty identifier, which counts as missing.\<close>

definition named_rows :: "catalog \<Rightarrow> bool" where
  "named_rows c \<longleftrightarrow> [] \<notin> wf_id ` set (c_workflows c) \<and> [] \<notin> ws_id ` set (c_states c)"

text \<open>
  C9. A publication leaves no pending order behind: every active order whose workflow belongs to
  the family, in a state that is not final, is on the published revision.
\<close>

theorem publication_moves_every_pending_order:
  assumes "publish lc pd d e u = Inr (r, u')"
    and "distinct (map so_id (w_orders (st_world u)))" and "revisions_ok (w_catalog (st_world u))"
    and "named_rows (w_catalog (st_world u))"
    and "x \<in> set (w_orders (st_world u'))"
    and "pending_order (w_catalog (st_world u')) (wf_familyId (pu_workflow r)) x"
  shows "so_workflowId x = Some d"
proof -
  let ?c = "w_catalog (st_world u)" and ?k = "wf_familyId (pu_workflow r)"
  from publish_outcome [OF assms(1-3)] obtain s1 s2 where
    c2: "w_catalog s2 = ?c" and g: "same_graphs s2 (st_world u')" and
    mv: "list_all2 (moved (map so_id (sort_key so_createdAt (filter (pending_order ?c ?k) (w_orders s1)))) d)
      (positions s1) (positions s2)" by blast
  let ?ids = "map so_id (sort_key so_createdAt (filter (pending_order ?c ?k) (w_orders s1)))"
  have pend: "pending_order ?c ?k x" using assms(6) pending_same [OF g] by (simp add: c2)
  have "x \<in> set (w_orders s2)" using assms(5) g by (simp add: same_graphs_def)
  then obtain n where n: "n < length (w_orders s2)" "x = w_orders s2 ! n" by (auto simp: in_set_conv_nth)
  let ?y = "w_orders s1 ! n"
  from mv n have n1: "n < length (w_orders s1)" and
    m: "moved ?ids d (so_id ?y, so_workflowId ?y, so_currentStateId ?y, so_isActive ?y)
      (so_id x, so_workflowId x, so_currentStateId x, so_isActive x)"
    by (auto simp: list_all2_conv_all_nth positions_def)
  show ?thesis
  proof (rule ccontr)
    assume "so_workflowId x \<noteq> Some d"
    with m have same: "so_workflowId x = so_workflowId ?y" "so_currentStateId x = so_currentStateId ?y"
      "so_isActive x = so_isActive ?y"
      and no: "so_id ?y \<in> set ?ids \<longrightarrow> unplaced ?y"
      by (auto simp: moved_def unplaced_def)
    have "pending_order ?c ?k ?y" using pend by (simp add: pending_order_def same)
    then have "so_id ?y \<in> set ?ids" using n1 by simp
    with no have "unplaced x" by (simp add: unplaced_def same)
    then show False using pend assms(4)
      by (auto simp: unplaced_def pending_order_def named_rows_def nonempty_def list_ex_iff image_iff
          split: if_splits)
  qed
qed

theorem publication_moves_every_pending_order_witness:
  "\<exists>r u' x. publish (\<lambda>_ _. 0) (\<lambda>_. None) ''g'' ''u1'' draft_studio = Inr (r, u') \<and>
    x \<in> set (w_orders (st_world u')) \<and> so_workflowId x = Some ''g''"
proof -
  obtain r u' where p: "publish (\<lambda>_ _. 0) (\<lambda>_. None) ''g'' ''u1'' draft_studio = Inr (r, u')"
    and "list_ex (pending_order (w_catalog (st_world u')) (wf_familyId (pu_workflow r)))
      (w_orders (st_world u'))"
    using publication_evaluated unfolding case_returns by blast
  then obtain x where "x \<in> set (w_orders (st_world u'))"
    "pending_order (w_catalog (st_world u')) (wf_familyId (pu_workflow r)) x" by (auto simp: list_ex_iff)
  from publication_moves_every_pending_order [OF p _ _ _ this] p this(1) show ?thesis
    by (auto simp: revisions_ok_def published_in_def named_rows_def studio_defs fixture_defs)
qed

text \<open>
  C10. A publication leaves one revision in force: no family gets a second published revision in
  force, and the family of the draft has the draft as its only one.
\<close>

theorem publication_keeps_one_revision_in_force:
  assumes "publish lc pd d e u = Inr (r, u')"
    and "distinct (map so_id (w_orders (st_world u)))" and "revisions_ok (w_catalog (st_world u))"
  shows "revisions_ok (w_catalog (st_world u')) \<and>
    map wf_id (published_in (wf_familyId (pu_workflow r)) (w_catalog (st_world u'))) = [d]"
  using publish_outcome [OF assms] by blast

theorem publication_keeps_one_revision_in_force_witness:
  "\<exists>r u'. publish (\<lambda>_ _. 0) (\<lambda>_. None) ''g'' ''u1'' draft_studio = Inr (r, u') \<and>
    revisions_ok (w_catalog (st_world u'))"
proof -
  obtain r u' where p: "publish (\<lambda>_ _. 0) (\<lambda>_. None) ''g'' ''u1'' draft_studio = Inr (r, u')"
    using publication_evaluated unfolding case_returns by blast
  from publication_keeps_one_revision_in_force [OF p] p show ?thesis
    by (auto simp: revisions_ok_def published_in_def studio_defs fixture_defs)
qed

section \<open>The analysis and the repair\<close>






section \<open>The stock under all operations\<close>

datatype studio_op =
    OnWorld world_op
  | StartTest string string string
  | RevertTest string string string
  | Publish string string

fun run_studio_op ::
  "(string \<Rightarrow> string \<Rightarrow> int) \<Rightarrow> (string \<Rightarrow> int option) \<Rightarrow> studio_op \<Rightarrow> studio \<Rightarrow> studio" where
  "run_studio_op lc pd (OnWorld op) u = u\<lparr>st_world := run_op lc pd op (st_world u)\<rparr>"
| "run_studio_op lc pd (StartTest d i e) u = snd (runInTransaction (start_test d i e) u)"
| "run_studio_op lc pd (RevertTest d k e) u = snd (runInTransaction (revert_test d k e) u)"
| "run_studio_op lc pd (Publish d e) u = snd (runInTransaction (publish lc pd d e) u)"

text \<open>The clock writes the catalogue only, so a relation that ignores the catalogue lets it run.\<close>

context revision_relation
begin

lemma runs_studio:
  assumes by_hand: "\<And>input s. R s (snd (advance_order_state pd input s))"
    and route: "\<And>i target e s. R s (snd (advance_to_target lc pd i target e s))"
    and job: "\<And>limit cursor s. R s (snd (snd (automatic_job lc pd limit cursor s)))"
    and clock: "\<And>s t. R s (s\<lparr>w_catalog := (w_catalog s)\<lparr>c_now := t\<rparr>\<rparr>)"
  shows "lifted R u (fold (run_studio_op lc pd) ops u)"
proof (induction ops arbitrary: u)
  case (Cons op ops)
  have w: "R s (run_op lc pd x s)" for x s
    by (cases x) (simp_all add: assms in_transaction [OF repairs])
  have "lifted R u (run_studio_op lc pd op u)"
    by (cases op) (simp_all add: lifting.in_transaction starts_test reverts_test publishes,
        simp add: lifted_def w)
  then show ?case using lifting.R_trans [OF _ Cons.IH] by simp
qed (simp add: lifting.R_refl)

end



end
