(* ===== verification/Spec2Isabelle.thy ===== *)
theory Spec2Isabelle
  imports Routes ActionLaws StockLaws TransferProperties PaymentProperties RecurringProperties RevisionProperties
begin

text \<open>
  A verification library of the core of an administrative back end (TypeScript, NestJS and
  TypeORM). Paths of files are relative to \<open>src/src/modules\<close>.

  The program. Sale orders move through workflows that their users draw: states, transitions
  with conditions, and actions that assign warehouses, set marks, and reserve, consume and
  restore stock. An order advances by hand, along a planned route, or by a job. A workflow has
  revisions: a draft is tried on real orders, published, and every pending order moves to it.
  Beside the orders, stock moves by documents (transfers in two steps, adjustments, entries).
  Purchases leave accounts payable with their payments and quotas, and recurring purchases
  bill a payable per period. These parts share the inventory, the documents with their ledger,
  and the payables.

  How the code is modelled. A service method is a function of the state of the database that
  returns an error or a result with the new state (\<open>action\<close> of \<open>Prelude\<close>); a table is the list
  of its rows in the order of creation, a row a record with the columns of its entity
  (\<open>Entities\<close>, \<open>Treasury\<close>), an enumeration a datatype, and every exception a value of
  \<open>app_error\<close> with the text of the code. \<open>runInTransaction\<close> takes the writes back when the body
  throws. Code that runs outside a transaction keeps what it has written (\<open>Effects\<close>).
\<close>

section \<open>The parts of the library\<close>

text \<open>
  Foundations. \<open>Prelude\<close>: the monad, loops, transactions, the judgements \<open>ensures\<close> and
  \<open>relates\<close>, the locale \<open>preorder_on_states\<close>. \<open>Effects\<close>: effects outside a transaction and the
  judgement \<open>settles\<close>. \<open>JsValues\<close> and \<open>Calendar\<close>: what the code uses of JavaScript (JSON values,
  coercions, strings, dates after ECMAScript). \<open>Money\<close>:
  \<open>sale-orders/domain/value-objects/money.ts\<close> and \<open>sale-order-totals.ts\<close>.

  Workflow of an order (\<open>workflow/\<close>). \<open>WorkflowModel\<close> and \<open>WorkflowConditions\<close>: constants,
  entities, conditions, their factory and the engine. \<open>RoutePlanner\<close>: the breadth-first search
  of \<open>domain/services/workflow-route-planner.ts\<close>. \<open>Entities\<close>, \<open>Store\<close> and \<open>Repositories\<close>: the
  tables and the repositories. \<open>StockServices\<close>: requirements, reconciliation, consumption and
  its reversal. \<open>WorkflowActions\<close> and \<open>ActionRunner\<close>: the handlers, the checks of
  \<open>action.factory.ts\<close>, and \<open>sale-order-workflow-action-runner.service.ts\<close>.
  \<open>TransitionService\<close>: one step by hand or automatic
  (\<open>sale-order-workflow-transition.service.ts\<close>). \<open>UseCases\<close>: the step, the route, the open
  transitions and \<open>application/jobs/run-automatic-workflow-transitions.job.ts\<close>, one transaction
  each step. \<open>Fixtures\<close> is the small database of the examples.

  Life of a revision (\<open>sale-orders/application/services\<close>). \<open>Revisions\<close>: the stock status of an
  order, its correction, and the analysis that walks a copy of an order through a draft
  (\<open>sale-order-edit-policy.service.ts\<close>, \<open>sale-order-stock-correction.service.ts\<close>).
  \<open>RevisionLife\<close>: the operations of \<open>workflow-revision-lifecycle.service.ts\<close>, on the state of
  the workflow with the table of the trials.

  Movements of stock (\<open>product-catalog/application/usecases\<close>). \<open>InventoryMovements\<close>: dispatch
  and posting of documents, reception of transfers, registered movements, drafts of transfers.
  \<open>MovementSteps\<close>: these use cases as steps of one machine.

  Payables, payments, recurring purchases. \<open>Treasury\<close> holds the tables, \<open>Payables\<close> the accounts
  payable, \<open>PaymentPolicy\<close> the financial rules, \<open>Payments\<close> and \<open>PaymentCreation\<close> the payment
  documents, quotas and the release job. \<open>RecurringDates\<close>, \<open>Purchases\<close> and \<open>RecurringPurchases\<close>
  are the due dates, the factory of a purchase, and the templates with their billing and job.
\<close>

section \<open>What the lemmas show\<close>

text \<open>
  \<open>Relations\<close> and \<open>RunRelations\<close> are the interfaces: for any relation of the states before and
  after that the repositories promise to keep (\<open>order_writes\<close>, \<open>stock_relation\<close>,
  \<open>repository_relation\<close>, \<open>log_relation\<close>), the stock services, the run of the actions
  (\<open>step_relation\<close>) and the use cases (\<open>use_case_relation\<close>) keep it too. \<open>Invariants\<close>,
  \<open>Conservation\<close> and \<open>Steps\<close> interpret them on the model: balances stay valid, what is on hand
  changes by what the ledger books, records only grow, other orders stay, orders follow edges
  of the graph. \<open>RevisionRelations\<close> extends the interface to revisions (\<open>revision_relation\<close>).

  \<open>ActionLaws\<close>, \<open>StockLaws\<close> and \<open>Routes\<close> hold the functional laws of actions, stock and routes;
  the route planner is proved against the graph of a workflow by the locale \<open>route_graph\<close>.
  \<open>RevisionLaws\<close> and \<open>RevisionProperties\<close> show that a trial leaves no trace, that a publication
  moves every pending order and keeps one revision in force, what a repair does, and that it
  is not idempotent. \<open>MovementLaws\<close>, \<open>DocumentLife\<close>, \<open>TransferLaws\<close> and
  \<open>TransferProperties\<close> show that balances stay valid over any sequence of movements, documents
  live once and a transfer gives what it took, by the locale \<open>stock_mover\<close> on each of the four
  loops over items. \<open>TreasuryLaws\<close>, \<open>TreasuryRuns\<close>, \<open>PaymentLife\<close>, \<open>PaymentBooks\<close> and
  \<open>PaymentProperties\<close> show that payables stay consistent and follow their payments over any
  sequence of operations, failing ones included, and that posted payments are sealed.
  \<open>RecurringLaws\<close> and \<open>RecurringProperties\<close> show that each period is billed once when the
  process runs in UTC, and what happens when it runs in Lima.

  The theorems labelled C1, C2 and so on are the properties of the program, each with a run on
  a small database where it has a hypothesis. Some state what the code does although it does
  not mean to, such as a reception at another location that forgets what was on hand; the text
  before each of them says so.
\<close>

section \<open>Bounds and parameters\<close>

text \<open>
  The job takes at most 20 steps per order (\<open>MAX_AUTOMATIC_STEPS_PER_ORDER\<close>) and the analysis
  of a revision at most 100 (the bound of its loop): both are limits of the code, the recursion
  runs over them, and the analysis returns without an error when it reaches the limit. The
  search of the planner is a partial function without fuel, and \<open>RoutePlanner\<close> proves that it
  ends on every graph. No loop of the model is bounded by a number the code does not have.

  Numbers of JavaScript are exact rationals. What differs is the rounding of a double, which
  the amounts, counted in cents within the safe integers, do not meet; the columns
  \<open>numeric(12,2)\<close> and \<open>int\<close> round and refuse as PostgreSQL does where a payment, payable or
  template is stored. Lengths of \<open>varchar\<close> columns are not bounded. Parameters stand for code
  that is not in the repository or left to the implementation: \<open>lc\<close> for \<open>localeCompare\<close>, \<open>pd\<close>
  for \<open>new Date\<close> on a string (\<open>None\<close> for an invalid date), \<open>t_localDay\<close> for the day in the
  zone of the process, \<open>t_dropsNull\<close> for the version of TypeORM that leaves a null out of a
  \<open>where\<close> object. The zone of the business is UTC-5, without summer time. Identifiers of new
  rows come from a counter, the clock is a field of the state, and permissions and recipients
  of notifications are arguments.
\<close>

section \<open>Not modelled\<close>

text \<open>
  Concurrency: a method runs alone, so locks have no effect. Notifications are recorded as
  calls, without their text; events are recorded as values. The JSON of the history of a
  purchase, the number of attachments and the masked label of an account are left out. The
  payments that a blocked cancellation lists are left out of its error. The branch of
  \<open>transfer-between-warehouses.usecase.ts\<close> that would post at once is switched off in the code.
  The history and the notification of a recurring billing are outside its transaction in the
  code and so in the model.

  Whole modules are left out. Access control, users, sessions, clients, suppliers, catalogue
  and the like are CRUD over tables: a model would restate the SQL. Dashboards, reports,
  listings, exports and search presets only read. Spreadsheets, mail, PDF and file storage
  are calls of third-party packages. Editing and importing sale orders, receiving purchases,
  and posting production documents are forms over SQL around parts that are modelled (totals,
  workflow, movements of stock, payables). The editor of workflows
  (\<open>workflow/application/usecases/save-full-workflow.usecase.ts\<close> and its companions) is not
  modelled: the properties hold for every graph in the tables, whether or not the editor would
  accept it.
\<close>

section \<open>The workflow of an order\<close>

text \<open>
  C1. A step by hand that succeeds takes its order along one edge of the graph of its workflow:
  the order is in the state the edge leaves, it alone changes its position, the configuration of
  the workflows stays, and exactly one row of history is written, with the order, its workflow
  and the state it came from.
\<close>

theorem step_follows_an_edge:
  assumes "distinct (map so_id (w_orders s))"
    and "fst (advance_order_state pd input s) = Inr r"
  shows "walks_edge (ai_saleOrderId input) s (snd (advance_order_state pd input s))"
proof -
  obtain s' where "advance pd input s = Inr (r, s')" "snd (advance_order_state pd input s) = s'"
    using assms(2) by (auto simp: advance_order_state_def runInTransaction_def split: sum.splits)
  then show ?thesis using advance_walks [OF assms(1)] by simp
qed

theorem step_follows_an_edge_witness:
  "walks_edge ''o1'' plain_world (snd (advance_order_state (\<lambda>_. None) (example_input ''ab'') plain_world))"
proof -
  obtain r where "fst (advance_order_state (\<lambda>_. None) (example_input ''ab'') plain_world) = Inr r"
    using plain_step by (auto simp: advance_order_state_def runInTransaction_def)
  from step_follows_an_edge [OF _ this] show ?thesis by (simp add: fixture_defs)
qed

text \<open>
  C13. A route that reports no failure has arrived: the order stands in a state of the workflow
  that stands for the requested target, and that state is the one reported.
\<close>

theorem route_reaches_target:
  assumes "keys_ok s" "advance_to_target lc pd i target e s = (Inr r, s')" "rt_failure r = None"
  shows "\<exists>st \<in> set (c_states (w_catalog s)). ws_saleOrderStateId st = target \<and>
    order_state i s' = Some (Some (ws_id st)) \<and> rt_finalState r = Some (toStateReference st)"
  using advance_to_target_Inr [OF assms(2,3,1)] .

theorem route_reaches_target_witness:
  "order_state ''o1'' (snd (advance_to_target (\<lambda>_ _. 0) (\<lambda>_. None) ''o1'' ''sb'' ''u1'' plain_world)) =
   Some (Some ''b'')"
proof -
  obtain r s' where "advance_to_target (\<lambda>_ _. 0) (\<lambda>_. None) ''o1'' ''sb'' ''u1'' plain_world = (Inr r, s')"
    "rt_failure r = None" using plain_route by blast
  from route_reaches_target [OF _ this] this(1) show ?thesis
    by (auto simp: fixture_defs keys_ok_def)
qed

text \<open>
  C20. The automatic job, whatever it does for the orders it finds, moves every order along a
  path of the graph of its workflow, and the configuration of the workflows stays.
\<close>

theorem job_walks_the_graph:
  assumes "distinct (map so_id (w_orders s))"
  shows "w_catalog (snd (snd (automatic_job lc pd limit cursor s))) = w_catalog s \<and>
    list_all2 (position_path (w_catalog s)) (positions s)
      (positions (snd (snd (automatic_job lc pd limit cursor s))))"
  using following.job [OF TrueI, of s lc pd limit cursor] assms unfolding follows_def by blast

theorem job_walks_the_graph_witness:
  "list_all2 (position_path example_catalog) (positions example_world)
     (positions (snd (snd (automatic_job (\<lambda>_ _. 0) (\<lambda>_. None) 10 None example_world))))"
  using job_walks_the_graph [of example_world "\<lambda>_ _. 0" "\<lambda>_. None" 10 None]
  by (simp add: example_world_def)

text \<open>
  C29. The job takes at most twenty steps for an order it picks: the history grows by at most
  twenty rows for each identifier of its page, whatever the workflow (cycles included).
\<close>

theorem job_steps_bounded:
  assumes "distinct (map so_id (w_orders s))"
  shows "length (w_history (snd (run_orders lc pd ids r s))) \<le> length (w_history s) + 20 * length ids"
  using orders_steps [of ids s lc pd r] assms
  by (simp add: bounded_steps_def MAX_AUTOMATIC_STEPS_PER_ORDER_def)

theorem job_steps_bounded_witness:
  "length (w_history (snd (run_orders (\<lambda>_ _. 0) (\<lambda>_. None) [''o1'']
     \<lparr>jr_found = 1, jr_updated = 0, jr_failed = 0, jr_saleOrderIds = []\<rparr> example_world))) \<le> 20"
  using job_steps_bounded [of example_world "\<lambda>_ _. 0" "\<lambda>_. None" "[''o1'']"
    "\<lparr>jr_found = 1, jr_updated = 0, jr_failed = 0, jr_saleOrderIds = []\<rparr>"]
  by (simp add: example_world_def)

section \<open>The stock\<close>

text \<open>
  Every row of the inventory keeps \<open>0 \<le> reserved \<le> onHand\<close> and
  \<open>available = onHand - reserved\<close>, and there is one row per warehouse and stock item, through
  a step by hand, a route and the automatic job.
\<close>

theorem use_cases_keep_balances:
  assumes "inventory_ok s"
  shows "inventory_ok (snd (advance_order_state pd input s)) \<and>
    inventory_ok (snd (advance_to_target lc pd i target e s)) \<and>
    inventory_ok (snd (snd (automatic_job lc pd limit cursor s)))"
  using assms balances.order_step [OF TrueI, of s pd input]
    balances.order_route [OF TrueI, of s lc pd i target e]
    balances.job [OF TrueI, of s lc pd limit cursor] by blast+

theorem use_cases_keep_balances_witness:
  "inventory_ok (snd (advance_order_state (\<lambda>_. None) (example_input ''ab'') example_world))"
  using use_cases_keep_balances [of example_world "\<lambda>_. None" "example_input ''ab''"]
  by (simp add: inventory_ok_def balance_ok_def example_world_def)



section \<open>What a step leaves alone\<close>

text \<open>
  The ledger, the history of states and the items of inventory documents are only added to,
  no document disappears, and the configuration stays, through a step, a route and the job.
\<close>

theorem records_only_grow:
  "only_grows s (snd (advance_order_state pd input s)) \<and>
   only_grows s (snd (advance_to_target lc pd i target e s)) \<and>
   only_grows s (snd (snd (automatic_job lc pd limit cursor s)))"
  by (simp add: growing.order_step growing.order_route growing.job)

text \<open>
  A step and a route are about one order: every other order, and the history of every other
  order, is as before, and no order is created or deleted.
\<close>

theorem step_touches_one_order:
  "others_kept (ai_saleOrderId input) s (snd (advance_order_state pd input s)) \<and>
   others_kept i s (snd (advance_to_target lc pd i target e s))"
  by (simp add: others.order_step others.order_route)

text \<open>
  C19. Of any order a step, a route and the job write only the state, the warehouse and the marks;
  an assigned warehouse is never replaced, and neither the mark of the sent invoice nor that of
  the reverted stock is taken back.
\<close>

theorem orders_only_evolve:
  "orders_evolve s (snd (advance_order_state pd input s)) \<and>
   orders_evolve s (snd (advance_to_target lc pd i target e s)) \<and>
   orders_evolve s (snd (snd (automatic_job lc pd limit cursor s)))"
  by (simp add: evolving.order_step evolving.order_route evolving.job)

text \<open>
  The run of the actions of a transition leaves the workflow and the state of every order,
  the history and the log of actions alone: only the step itself moves the order.
\<close>

theorem actions_leave_workflow_alone:
  "case run order actions e cs s of Inl _ \<Rightarrow> True
   | Inr (result, s') \<Rightarrow> workflow_kept s s' \<and> so_id (ru_order result) = so_id order"
  using workflow.runs [OF TrueI, of order actions e cs] by (auto simp: ensures_def split: sum.splits)

end
